(* ===== verification/Sinnix_Prelude.thy ===== *)
theory Sinnix_Prelude
  imports Main "HOL-Library.AList" "HOL-Library.Sublist" "HOL-Library.Char_ord"
    "HOL-Library.List_Lexorder"
begin

text \<open>
  Shared vocabulary of the development: the exceptions the programs raise, results and
  state-passing computations over them, the string operations of the Python standard library
  the programs use, and dictionaries as association lists.

  A Python \<open>str\<close> is represented by its UTF-8 bytes (a \<open>char list\<close>); \<open>py_len\<close> counts code
  points, as \<open>len\<close> does. Byte order and code point order agree in UTF-8, so \<open>sorted\<close> on
  strings is the lexicographic order of the library. White space and digits are the ASCII ones.
\<close>

named_theorems res_simps \<open>unfolding of results and state-passing computations\<close>
named_theorems str_simps \<open>unfolding of string operations\<close>

section \<open>Exceptions and results\<close>

datatype exn =
    PueueError string
  | PueueTimeout string
  | PueueGroupError string
  | OSErr string
  | FileNotFound
  | JSONDecode
  | UnicodeErr
  | ValueErr string
  | KeyErr string
  | TypeErr
  | IndexErr
  | OverflowErr
  | AttributeErr
  | RecursionErr
  | ConfigErr string
  | QueueInputErr string
  | JobErr string
  | CompactionErr string
  | HistoryErr string string
  | HistoryRefusal string string
  | SubprocessErr string
  | CleanupErr string
  | WorktrunkErr string
  | GithubErr string
  | RuntimeErr string
  | TickDeadline

type_synonym 'a res = "exn + 'a"

definition bindE :: "'a res \<Rightarrow> ('a \<Rightarrow> 'b res) \<Rightarrow> 'b res" where
  "bindE m k = (case m of Inl e \<Rightarrow> Inl e | Inr x \<Rightarrow> k x)"

definition guardE :: "bool \<Rightarrow> exn \<Rightarrow> unit res" where
  "guardE b e = (if b then Inr () else Inl e)"

fun mapE :: "('a \<Rightarrow> 'b res) \<Rightarrow> 'a list \<Rightarrow> 'b list res" where
  "mapE f [] = Inr []"
| "mapE f (x # xs) =
     (case f x of Inl e \<Rightarrow> Inl e
      | Inr y \<Rightarrow> (case mapE f xs of Inl e \<Rightarrow> Inl e | Inr ys \<Rightarrow> Inr (y # ys)))"

lemma bindE_Inl [simp]: "bindE (Inl e) k = Inl e"
  by (simp add: bindE_def)

lemma bindE_Inr [simp]: "bindE (Inr x) k = k x"
  by (simp add: bindE_def)

lemma guardE_True [simp]: "guardE True e = Inr ()"
  by (simp add: guardE_def)

lemma guardE_False [simp]: "guardE False e = Inl e"
  by (simp add: guardE_def)

lemma bindE_eq_Inr [res_simps]: "bindE m k = Inr y \<longleftrightarrow> (\<exists>x. m = Inr x \<and> k x = Inr y)"
  by (cases m) auto

lemma guardE_eq_Inr [res_simps]: "guardE b e = Inr u \<longleftrightarrow> b"
  by (simp add: guardE_def)

lemma bindE_eq_Inl [res_simps]:
  "bindE m k = Inl e \<longleftrightarrow> m = Inl e \<or> (\<exists>x. m = Inr x \<and> k x = Inl e)"
  by (cases m) auto

lemma mapE_Inr_iff [res_simps]:
  "mapE f xs = Inr ys \<longleftrightarrow> list_all2 (\<lambda>x y. f x = Inr y) xs ys"
proof (induction xs arbitrary: ys)
  case (Cons x xs)
  have "mapE f (x # xs) = Inr ys \<longleftrightarrow> (\<exists>y zs. ys = y # zs \<and> f x = Inr y \<and> mapE f xs = Inr zs)"
    by (auto split: sum.splits)
  with Cons.IH show ?case by (auto simp: list_all2_Cons1)
qed auto

lemma mapE_Inr_length: "mapE f xs = Inr ys \<Longrightarrow> length ys = length xs"
  by (auto simp: mapE_Inr_iff dest: list_all2_lengthD)

lemma mapE_mem: "mapE f xs = Inr ys \<Longrightarrow> y \<in> set ys \<Longrightarrow> \<exists>x \<in> set xs. f x = Inr y"
  by (induction xs arbitrary: ys) (auto split: sum.splits)

lemma mapE_image: "mapE g xs = Inr ys \<Longrightarrow> x \<in> set xs \<Longrightarrow> \<exists>y \<in> set ys. g x = Inr y"
  by (induction xs arbitrary: ys) (auto split: sum.splits)

section \<open>State-passing computations that may raise\<close>

type_synonym ('w, 'a) io = "'w \<Rightarrow> 'a res \<times> 'w"

definition returnM :: "'a \<Rightarrow> ('w, 'a) io" where
  "returnM x w = (Inr x, w)"

definition raiseM :: "exn \<Rightarrow> ('w, 'a) io" where
  "raiseM e w = (Inl e, w)"

definition liftM :: "'a res \<Rightarrow> ('w, 'a) io" where
  "liftM r w = (r, w)"

definition bindM :: "('w, 'a) io \<Rightarrow> ('a \<Rightarrow> ('w, 'b) io) \<Rightarrow> ('w, 'b) io" where
  "bindM m k w = (case m w of (Inl e, w') \<Rightarrow> (Inl e, w') | (Inr x, w') \<Rightarrow> k x w')"

text \<open>\<open>catchM\<close> is \<open>try: m except: h\<close>; the handler decides by the exception, re-raising what
  the source does not catch.\<close>

definition catchM :: "('w, 'a) io \<Rightarrow> (exn \<Rightarrow> ('w, 'a) io) \<Rightarrow> ('w, 'a) io" where
  "catchM m h w = (case m w of (Inl e, w') \<Rightarrow> h e w' | (Inr x, w') \<Rightarrow> (Inr x, w'))"

fun forM :: "('a \<Rightarrow> 'b \<Rightarrow> ('w, 'b) io) \<Rightarrow> 'a list \<Rightarrow> 'b \<Rightarrow> ('w, 'b) io" where
  "forM f [] b = returnM b"
| "forM f (x # xs) b = bindM (f x b) (\<lambda>b'. forM f xs b')"

lemma returnM_apply [simp]: "returnM x w = (Inr x, w)"
  by (simp add: returnM_def)

lemma raiseM_apply [simp]: "raiseM e w = (Inl e, w)"
  by (simp add: raiseM_def)

lemma liftM_apply [simp]: "liftM r w = (r, w)"
  by (simp add: liftM_def)

lemma bindM_Inr: "m w = (Inr x, w') \<Longrightarrow> bindM m k w = k x w'"
  by (simp add: bindM_def)

lemma bindM_Inl: "m w = (Inl e, w') \<Longrightarrow> bindM m k w = (Inl e, w')"
  by (simp add: bindM_def)

lemma bindM_eq_Inr [res_simps]:
  "bindM m k w = (Inr y, w2) \<longleftrightarrow> (\<exists>x w1. m w = (Inr x, w1) \<and> k x w1 = (Inr y, w2))"
  by (auto simp: bindM_def split: prod.splits sum.splits)

section \<open>Strings\<close>

abbreviation code :: "char \<Rightarrow> nat" where
  "code c \<equiv> of_char c"

definition is_digit :: "char \<Rightarrow> bool" where
  "is_digit c \<longleftrightarrow> 48 \<le> code c \<and> code c \<le> 57"

definition is_lower :: "char \<Rightarrow> bool" where
  "is_lower c \<longleftrightarrow> 97 \<le> code c \<and> code c \<le> 122"

definition is_upper :: "char \<Rightarrow> bool" where
  "is_upper c \<longleftrightarrow> 65 \<le> code c \<and> code c \<le> 90"

definition is_alnum :: "char \<Rightarrow> bool" where
  "is_alnum c \<longleftrightarrow> is_lower c \<or> is_upper c \<or> is_digit c"

definition is_space :: "char \<Rightarrow> bool" where
  "is_space c \<longleftrightarrow> code c = 32 \<or> (9 \<le> code c \<and> code c \<le> 13) \<or> (28 \<le> code c \<and> code c \<le> 31)"

text \<open>The same on the bits of a character, least significant first, which evaluates without arithmetic.\<close>

lemma is_digit_code [code]:
  "is_digit c = (case c of Char a b c d e f g h \<Rightarrow> \<not> h \<and> \<not> g \<and> f \<and> e \<and> \<not> (d \<and> (c \<or> b)))"
proof (cases c)
  case (Char a b c d e f g h)
  then show ?thesis unfolding is_digit_def
    by (cases a; cases b; cases c; cases d; cases e; cases f; cases g; cases h) simp_all
qed

lemma is_lower_code [code]:
  "is_lower c = (case c of Char a b c d e f g h \<Rightarrow> \<not> h \<and> g \<and> f \<and> (a \<or> b \<or> c \<or> d \<or> e) \<and> \<not> (e \<and> d \<and> (c \<or> a \<and> b)))"
proof (cases c)
  case (Char a b c d e f g h)
  then show ?thesis unfolding is_lower_def
    by (cases a; cases b; cases c; cases d; cases e; cases f; cases g; cases h) simp_all
qed

lemma is_upper_code [code]:
  "is_upper c = (case c of Char a b c d e f g h \<Rightarrow> \<not> h \<and> g \<and> \<not> f \<and> (a \<or> b \<or> c \<or> d \<or> e) \<and> \<not> (e \<and> d \<and> (c \<or> a \<and> b)))"
proof (cases c)
  case (Char a b c d e f g h)
  then show ?thesis unfolding is_upper_def
    by (cases a; cases b; cases c; cases d; cases e; cases f; cases g; cases h) simp_all
qed

lemma is_space_code [code]:
  "is_space c = (case c of Char a b c d e f g h \<Rightarrow> \<not> h \<and> \<not> g \<and> (f \<and> \<not> e \<and> \<not> d \<and> \<not> c \<and> \<not> b \<and> \<not> a
     \<or> \<not> f \<and> d \<and> (\<not> e \<and> (c \<and> \<not> b \<or> \<not> c \<and> (a \<or> b)) \<or> e \<and> c)))"
proof (cases c)
  case (Char a b c d e f g h)
  then show ?thesis unfolding is_space_def
    by (cases a; cases b; cases c; cases d; cases e; cases f; cases g; cases h) simp_all
qed

definition to_lower :: "char \<Rightarrow> char" where
  "to_lower c = (if is_upper c then char_of (code c + 32) else c)"

definition to_upper :: "char \<Rightarrow> char" where
  "to_upper c = (if is_lower c then char_of (code c - 32) else c)"

definition py_len :: "string \<Rightarrow> nat" where
  "py_len s = length (filter (\<lambda>c. \<not> (128 \<le> code c \<and> code c < 192)) s)"

definition lstrip :: "string \<Rightarrow> string" where
  "lstrip s = dropWhile is_space s"

definition strip :: "string \<Rightarrow> string" where
  "strip s = rev (dropWhile is_space (rev (dropWhile is_space s)))"

text \<open>\<open>split_on c s\<close> is \<open>s.split(c)\<close> for a one-character separator.\<close>

fun split_on :: "char \<Rightarrow> string \<Rightarrow> string list" where
  "split_on c [] = [[]]"
| "split_on c (x # xs) =
     (if x = c then [] # split_on c xs
      else (case split_on c xs of [] \<Rightarrow> [[x]] | y # ys \<Rightarrow> (x # y) # ys))"

text \<open>\<open>split_ws s\<close> is \<open>s.split()\<close>.\<close>

fun split_ws_aux :: "string \<Rightarrow> string \<Rightarrow> string list" where
  "split_ws_aux acc [] = (if acc = [] then [] else [rev acc])"
| "split_ws_aux acc (x # xs) =
     (if is_space x then (if acc = [] then split_ws_aux [] xs else rev acc # split_ws_aux [] xs)
      else split_ws_aux (x # acc) xs)"

definition split_ws :: "string \<Rightarrow> string list" where
  "split_ws s = split_ws_aux [] s"

text \<open>\<open>splitlines\<close> on text whose line ends are newlines and carriage returns.\<close>

fun splitlines_aux :: "string \<Rightarrow> string \<Rightarrow> string list" where
  "splitlines_aux acc [] = (if acc = [] then [] else [rev acc])"
| "splitlines_aux acc (x # xs) =
     (if code x = 10 then rev acc # splitlines_aux [] xs
      else if code x = 13 then
        (case xs of
           [] \<Rightarrow> [rev acc]
         | y # ys \<Rightarrow> if code y = 10 then rev acc # splitlines_aux [] ys
                    else rev acc # splitlines_aux [] (y # ys))
      else splitlines_aux (x # acc) xs)"

declare splitlines_aux.simps(1) [code]

lemma splitlines_aux_code [code]:
  "splitlines_aux acc (x # xs) =
     (if x = CHR 0x0A then rev acc # splitlines_aux [] xs
      else if x = CHR 0x0D then
        (case xs of
           [] \<Rightarrow> [rev acc]
         | y # ys \<Rightarrow> if y = CHR 0x0A then rev acc # splitlines_aux [] ys
                    else rev acc # splitlines_aux [] (y # ys))
      else splitlines_aux (x # acc) xs)"
proof -
  have "code c = 10 \<longleftrightarrow> c = CHR 0x0A" "code c = 13 \<longleftrightarrow> c = CHR 0x0D" for c
    by (cases c; simp add: of_char_def; presburger?)+
  then show ?thesis by (simp split: list.split)
qed

definition splitlines :: "string \<Rightarrow> string list" where
  "splitlines s = splitlines_aux [] s"

fun str_join :: "string \<Rightarrow> string list \<Rightarrow> string" where
  "str_join sep [] = []"
| "str_join sep [x] = x"
| "str_join sep (x # y # ys) = x @ sep @ str_join sep (y # ys)"

text \<open>\<open>str_partition c s\<close> is \<open>s.partition(c)\<close>: before, whether the separator occurs, after.\<close>

fun str_partition :: "char \<Rightarrow> string \<Rightarrow> string \<times> bool \<times> string" where
  "str_partition c [] = ([], False, [])"
| "str_partition c (x # xs) =
     (if x = c then ([], True, xs)
      else (case str_partition c xs of (a, b, r) \<Rightarrow> (x # a, b, r)))"

definition str_lower :: "string \<Rightarrow> string" where
  "str_lower s = map to_lower s"

definition str_upper :: "string \<Rightarrow> string" where
  "str_upper s = map to_upper s"

text \<open>\<open>removesuffix\<close> and \<open>rsplit(c, 1)[-1]\<close>.\<close>

definition removesuffix :: "string \<Rightarrow> string \<Rightarrow> string" where
  "removesuffix suf s = (if suffix suf s \<and> suf \<noteq> [] then take (length s - length suf) s else s)"

definition rsplit_last :: "char \<Rightarrow> string \<Rightarrow> string" where
  "rsplit_last c s = rev (takeWhile (\<lambda>x. x \<noteq> c) (rev s))"

definition rstrip_char :: "char \<Rightarrow> string \<Rightarrow> string" where
  "rstrip_char c s = rev (dropWhile (\<lambda>x. x = c) (rev s))"

definition lstrip_char :: "char \<Rightarrow> string \<Rightarrow> string" where
  "lstrip_char c s = dropWhile (\<lambda>x. x = c) s"

text \<open>\<open>sub in s\<close>, for a non-empty or empty \<open>sub\<close>.\<close>

definition str_in :: "string \<Rightarrow> string \<Rightarrow> bool" where
  "str_in sub s \<longleftrightarrow> sublist sub s"

text \<open>\<open>sorted(set(xs))\<close>.\<close>

definition sorted_set :: "string list \<Rightarrow> string list" where
  "sorted_set xs = sort (remdups xs)"

lemma set_sorted_set [simp]: "set (sorted_set xs) = set xs"
  by (simp add: sorted_set_def)

lemma sorted_sorted_set [simp]: "sorted (sorted_set xs)"
  by (simp add: sorted_set_def)

lemma distinct_sorted_set [simp]: "distinct (sorted_set xs)"
  by (simp add: sorted_set_def)

lemma sorted_set_eq_Nil [simp]: "sorted_set xs = [] \<longleftrightarrow> xs = []"
  by (metis set_empty set_sorted_set)

lemma split_on_nonempty [simp]: "split_on c s \<noteq> []"
  by (induction c s rule: split_on.induct) (auto split: list.splits)

lemma str_join_split_on: "str_join [c] (split_on c s) = s"
proof (induction s)
  case (Cons x xs)
  obtain y ys where y: "split_on c xs = y # ys"
    using split_on_nonempty by (meson neq_Nil_conv)
  with Cons show ?case by (cases ys) auto
qed simp

lemma split_on_no_sep: "c \<notin> set s \<Longrightarrow> split_on c s = [s]"
  by (induction s) auto

lemma split_on_join:
  "xs \<noteq> [] \<Longrightarrow> \<forall>x \<in> set xs. c \<notin> set x \<Longrightarrow> split_on c (str_join [c] xs) = xs"
proof (induction "[c]" xs rule: str_join.induct)
  case (2 x)
  then show ?case by (simp add: split_on_no_sep)
next
  case (3 x y ys)
  have app: "c \<notin> set a \<Longrightarrow> split_on c (a @ c # b) = a # split_on c b" for a b
    by (induction a) auto
  from 3 show ?case by (simp add: app)
qed simp

section \<open>Decimal numbers\<close>

fun show_nat :: "nat \<Rightarrow> string" where
  "show_nat n = (if n < 10 then [char_of (48 + n)] else show_nat (n div 10) @ [char_of (48 + n mod 10)])"

declare show_nat.simps [simp del]

definition show_int :: "int \<Rightarrow> string" where
  "show_int i = (if i < 0 then CHR ''-'' # show_nat (nat (- i)) else show_nat (nat i))"

definition digit_val :: "char \<Rightarrow> nat" where
  "digit_val c = code c - 48"

definition read_digits :: "string \<Rightarrow> nat" where
  "read_digits s = foldl (\<lambda>n c. 10 * n + digit_val c) 0 s"

lemma code_char_digit [simp]: "n < 10 \<Longrightarrow> code (char_of (48 + n)) = 48 + n"
  by (simp add: of_char_of)

lemma show_nat_digits: "\<forall>c \<in> set (show_nat n). is_digit c"
proof (induction n rule: show_nat.induct)
  case (1 n)
  show ?case
  proof (cases "n < 10")
    case True
    then show ?thesis by (subst show_nat.simps) (simp add: is_digit_def)
  next
    case False
    with 1 have "\<forall>c \<in> set (show_nat (n div 10)). is_digit c" by simp
    with False show ?thesis by (subst show_nat.simps) (auto simp: is_digit_def)
  qed
qed

lemma show_nat_nonempty [simp]: "show_nat n \<noteq> []"
  by (subst show_nat.simps) simp

lemma read_digits_snoc: "read_digits (s @ [c]) = 10 * read_digits s + digit_val c"
  by (simp add: read_digits_def)

lemma read_show_nat [simp]: "read_digits (show_nat n) = n"
proof (induction n rule: show_nat.induct)
  case (1 n)
  show ?case
  proof (cases "n < 10")
    case True
    then show ?thesis by (subst show_nat.simps) (simp add: read_digits_def digit_val_def)
  next
    case False
    with 1 have "read_digits (show_nat (n div 10)) = n div 10" by simp
    with False show ?thesis
      by (subst show_nat.simps) (simp add: read_digits_snoc digit_val_def)
  qed
qed

lemma show_nat_inject: "show_nat m = show_nat n \<longleftrightarrow> m = n"
  by (metis read_show_nat)

text \<open>\<open>int(s)\<close>: white space around, one sign, digits with single underscores between them.\<close>

fun us_digits :: "string \<Rightarrow> string option" where
  "us_digits [] = None"
| "us_digits [c] = (if is_digit c then Some [c] else None)"
| "us_digits (c # d # r) =
     (if \<not> is_digit c then None
      else if d = CHR ''_'' then map_option ((#) c) (us_digits r)
      else map_option ((#) c) (us_digits (d # r)))"

definition py_int :: "string \<Rightarrow> int option" where
  "py_int s =
     (case strip s of
        [] \<Rightarrow> None
      | c # r \<Rightarrow>
          if c = CHR ''-'' then map_option (\<lambda>d. - int (read_digits d)) (us_digits r)
          else if c = CHR ''+'' then map_option (\<lambda>d. int (read_digits d)) (us_digits r)
          else map_option (\<lambda>d. int (read_digits d)) (us_digits (c # r)))"

lemma us_digits_digits: "s \<noteq> [] \<Longrightarrow> \<forall>c \<in> set s. is_digit c \<Longrightarrow> us_digits s = Some s"
  by (induction s rule: us_digits.induct) (auto simp: is_digit_def)

lemma is_digit_not_space: "is_digit c \<Longrightarrow> \<not> is_space c"
  by (auto simp: is_digit_def is_space_def)

lemma dropWhile_hd_id: "\<not> P (hd s) \<Longrightarrow> dropWhile P s = s"
  by (cases s) auto

lemma strip_id: "\<not> is_space (hd s) \<Longrightarrow> \<not> is_space (last s) \<Longrightarrow> strip s = s"
  by (simp add: strip_def dropWhile_hd_id hd_rev)

lemma show_nat_hd_last: "is_digit (hd (show_nat n))" "is_digit (last (show_nat n))"
  using show_nat_digits [of n] by (auto intro: hd_in_set last_in_set)

lemma py_int_show_int: "py_int (show_int i) = Some i"
proof (cases "i < 0")
  case True
  have "strip (show_int i) = show_int i"
    using True show_nat_hd_last [of "nat (- i)"]
    by (intro strip_id) (auto simp: show_int_def is_digit_not_space is_space_def [of "CHR ''-''"])
  with True show ?thesis
    by (simp add: py_int_def show_int_def us_digits_digits show_nat_digits)
next
  case False
  let ?s = "show_nat (nat i)"
  have st: "strip ?s = ?s"
    by (rule strip_id) (use show_nat_hd_last [of "nat i"] in \<open>auto simp: is_digit_not_space\<close>)
  obtain c r where cr: "?s = c # r" using show_nat_nonempty [of "nat i"] by (meson neq_Nil_conv)
  then have "is_digit c" using show_nat_hd_last(1) [of "nat i"] by simp
  then have "c \<noteq> CHR ''-''" "c \<noteq> CHR ''+''" by (auto simp: is_digit_def)
  moreover have "us_digits (c # r) = Some (c # r)"
    using show_nat_digits [of "nat i"] cr by (intro us_digits_digits) auto
  moreover have "read_digits (c # r) = nat i"
    using read_show_nat [of "nat i"] cr by simp
  ultimately show ?thesis
    using False st cr by (simp add: py_int_def show_int_def)
qed

section \<open>Dictionaries\<close>

text \<open>A Python \<open>dict\<close> with string keys, in insertion order: storing an existing key keeps its
  place (\<open>AList.update\<close>), a new key goes last.\<close>

type_synonym 'v dict = "(string \<times> 'v) list"

abbreviation dget :: "('k \<times> 'v) list \<Rightarrow> 'k \<Rightarrow> 'v option" where
  "dget d k \<equiv> map_of d k"

abbreviation dset :: "'k \<Rightarrow> 'v \<Rightarrow> ('k \<times> 'v) list \<Rightarrow> ('k \<times> 'v) list" where
  "dset k v d \<equiv> AList.update k v d"

abbreviation dpop :: "'k \<Rightarrow> ('k \<times> 'v) list \<Rightarrow> ('k \<times> 'v) list" where
  "dpop k d \<equiv> AList.delete k d"

definition dkeys :: "('k \<times> 'v) list \<Rightarrow> 'k list" where
  "dkeys d = map fst d"

definition dhas :: "('k \<times> 'v) list \<Rightarrow> 'k \<Rightarrow> bool" where
  "dhas d k \<longleftrightarrow> k \<in> set (map fst d)"

text \<open>\<open>{**d, **e}\<close>.\<close>

definition dmerge :: "('k \<times> 'v) list \<Rightarrow> ('k \<times> 'v) list \<Rightarrow> ('k \<times> 'v) list" where
  "dmerge d e = foldl (\<lambda>a (k, v). dset k v a) d e"

definition dict_of :: "('k \<times> 'v) list \<Rightarrow> ('k \<times> 'v) list" where
  "dict_of kvs = dmerge [] kvs"

definition dict_ok :: "('k \<times> 'v) list \<Rightarrow> bool" where
  "dict_ok d \<longleftrightarrow> distinct (map fst d)"

lemma dict_ok_dset: "dict_ok d \<Longrightarrow> dict_ok (dset k v d)"
  by (simp add: dict_ok_def distinct_update)

lemma dict_ok_dpop: "dict_ok d \<Longrightarrow> dict_ok (dpop k d)"
  by (simp add: dict_ok_def distinct_delete)

lemma dict_ok_dmerge: "dict_ok d \<Longrightarrow> dict_ok (dmerge d e)"
  unfolding dmerge_def
  by (induction e arbitrary: d) (auto simp: dict_ok_dset)

lemma dict_ok_dict_of: "dict_ok (dict_of kvs)"
  unfolding dict_of_def by (rule dict_ok_dmerge) (simp add: dict_ok_def)

lemma dget_dset: "dget (dset k v d) k' = (if k' = k then Some v else dget d k')"
  by (simp add: update_conv')

lemma dget_dpop: "dget (dpop k d) k' = (if k' = k then None else dget d k')"
  by (simp add: delete_conv')

lemma dhas_iff: "dhas d k \<longleftrightarrow> dget d k \<noteq> None"
  by (simp add: dhas_def map_of_eq_None_iff)

lemma dget_dmerge:
  "dget (dmerge d e) k = (case dget (rev e) k of Some v \<Rightarrow> Some v | None \<Rightarrow> dget d k)"
proof (induction e arbitrary: d)
  case (Cons p e)
  obtain a b where "p = (a, b)" by force
  with Cons [of "dset a b d"] show ?case
    by (auto simp: dmerge_def dget_dset map_add_def split: option.splits)
qed (simp add: dmerge_def)

lemma dget_rev: "distinct (map fst e) \<Longrightarrow> dget (rev e) k = dget e k"
  by (metis distinct_rev map_of_eq_Some_iff not_Some_eq rev_map set_rev)

lemma dhas_dmerge: "dhas (dmerge d e) k \<longleftrightarrow> dhas d k \<or> dhas e k"
proof -
  have "dget (rev e) k = None \<longleftrightarrow> dget e k = None"
    by (simp add: map_of_eq_None_iff)
  then show ?thesis by (auto simp: dhas_iff dget_dmerge split: option.splits)
qed

lemma dget_dmerge_distinct:
  "distinct (map fst e) \<Longrightarrow>
     dget (dmerge d e) k = (case dget e k of Some v \<Rightarrow> Some v | None \<Rightarrow> dget d k)"
  by (simp add: dget_dmerge dget_rev)

lemma dget_dict_of: "dget (dict_of kvs) k = dget (rev kvs) k"
  by (auto simp: dict_of_def dget_dmerge split: option.splits)

lemma set_dict_of: "dget (dict_of kvs) k = Some v \<Longrightarrow> (k, v) \<in> set kvs"
  by (metis dget_dict_of map_of_SomeD set_rev)

lemma show_int_inject [simp]: "show_int i = show_int j \<longleftrightarrow> i = j"
  by (metis py_int_show_int option.inject)

end
