(* ===== verification/Py_Json.thy ===== *)
theory Py_Json
  imports Sinnix_Prelude
begin

text \<open>
  The JSON values the programs exchange, as Python holds them, with the dynamic operations the
  code applies to them (\<open>isinstance\<close>, truth, \<open>==\<close>, \<open>str\<close>, \<open>dict.get\<close>), and
  \<open>json.loads\<close> and \<open>json.dumps(sort_keys=True, separators=(",", ":"))\<close>.

  A float is a finite decimal \<open>FDec m k\<close> (the value \<open>m / 10 ^ k\<close>), an infinity or not a number.
  Every literal the programs read is a decimal of at most 15 significant digits, which Python
  reads and prints back unchanged, so comparisons and printing agree with the decimal.
\<close>

section \<open>Floats\<close>

datatype pyfloat = FDec int nat | FInf bool | FNan

fun strip_zeros :: "int \<Rightarrow> nat \<Rightarrow> int \<times> nat" where
  "strip_zeros m 0 = (m, 0)"
| "strip_zeros m (Suc k) = (if m mod 10 = 0 then strip_zeros (m div 10) k else (m, Suc k))"

definition mk_dec :: "int \<Rightarrow> nat \<Rightarrow> pyfloat" where
  "mk_dec m k = (case strip_zeros m k of (m', k') \<Rightarrow> FDec m' k')"

fun dec_ok :: "pyfloat \<Rightarrow> bool" where
  "dec_ok (FDec m k) \<longleftrightarrow> k = 0 \<or> m mod 10 \<noteq> 0"
| "dec_ok _ \<longleftrightarrow> True"

fun is_finite :: "pyfloat \<Rightarrow> bool" where
  "is_finite (FDec m k) \<longleftrightarrow> True"
| "is_finite _ \<longleftrightarrow> False"

text \<open>Ordering of floats: every comparison with not-a-number is false.\<close>

fun float_le :: "pyfloat \<Rightarrow> pyfloat \<Rightarrow> bool" where
  "float_le FNan y = False"
| "float_le x FNan = False"
| "float_le (FInf neg) y = (neg \<or> y = FInf False)"
| "float_le x (FInf neg) = (\<not> neg)"
| "float_le (FDec m k) (FDec m' k') = (m * 10 ^ k' \<le> m' * 10 ^ k)"

fun float_lt :: "pyfloat \<Rightarrow> pyfloat \<Rightarrow> bool" where
  "float_lt FNan y = False"
| "float_lt x FNan = False"
| "float_lt (FInf neg) y = (neg \<and> y \<noteq> FInf True)"
| "float_lt x (FInf neg) = (\<not> neg)"
| "float_lt (FDec m k) (FDec m' k') = (m * 10 ^ k' < m' * 10 ^ k)"

definition float_eq :: "pyfloat \<Rightarrow> pyfloat \<Rightarrow> bool" where
  "float_eq x y \<longleftrightarrow> float_le x y \<and> float_le y x"

abbreviation float_of_int :: "int \<Rightarrow> pyfloat" where
  "float_of_int i \<equiv> FDec i 0"

lemma float_le_refl_finite: "is_finite x \<Longrightarrow> float_le x x"
  by (cases x) auto

lemma float_le_lt: "is_finite x \<Longrightarrow> is_finite y \<Longrightarrow> float_le x y \<longleftrightarrow> \<not> float_lt y x"
  by (cases x; cases y) auto

lemma float_lt_le_trans:
  "is_finite x \<Longrightarrow> is_finite y \<Longrightarrow> is_finite z \<Longrightarrow> float_lt x y \<Longrightarrow> float_le y z \<Longrightarrow> float_lt x z"
proof -
  assume "is_finite x" "is_finite y" "is_finite z" and lt: "float_lt x y" and le: "float_le y z"
  then obtain a i b j c k where xyz: "x = FDec a i" "y = FDec b j" "z = FDec c k"
    by (metis is_finite.elims(2))
  from lt le xyz have 1: "a * 10 ^ j < b * 10 ^ i" and 2: "b * 10 ^ k \<le> c * 10 ^ j" by auto
  have "a * 10 ^ k * 10 ^ j = (a * 10 ^ j) * 10 ^ k" by simp
  also have "\<dots> < (b * 10 ^ i) * 10 ^ k" using 1 by (simp add: mult_strict_right_mono)
  also have "\<dots> = (b * 10 ^ k) * 10 ^ i" by simp
  also have "\<dots> \<le> (c * 10 ^ j) * 10 ^ i" using 2 by (simp add: mult_right_mono)
  also have "\<dots> = c * 10 ^ i * 10 ^ j" by simp
  finally have "a * 10 ^ k < c * 10 ^ i" by (simp add: mult_less_cancel_right)
  with xyz show ?thesis by simp
qed

lemma float_lt_imp_le: "float_lt x y \<Longrightarrow> float_le x y"
  by (cases x; cases y) auto

lemma float_le_lt_trans:
  "is_finite x \<Longrightarrow> is_finite y \<Longrightarrow> is_finite z \<Longrightarrow> float_le x y \<Longrightarrow> float_lt y z \<Longrightarrow> float_lt x z"
  by (metis float_le_lt float_lt_le_trans)

section \<open>Values\<close>

datatype pyval =
    PNone
  | PBool bool
  | PInt int
  | PFloat pyfloat
  | PStr string
  | PList "pyval list"
  | PDict "(string \<times> pyval) list"

type_synonym pydict = "(string \<times> pyval) list"

fun is_str :: "pyval \<Rightarrow> bool" where
  "is_str (PStr s) = True"
| "is_str _ = False"

text \<open>\<open>isinstance(v, int)\<close> holds of booleans too; \<open>type(v) is int\<close> does not.\<close>

fun is_int :: "pyval \<Rightarrow> bool" where
  "is_int (PInt i) = True"
| "is_int (PBool b) = True"
| "is_int _ = False"

fun is_bool :: "pyval \<Rightarrow> bool" where
  "is_bool (PBool b) = True"
| "is_bool _ = False"

fun is_exact_int :: "pyval \<Rightarrow> bool" where
  "is_exact_int (PInt i) = True"
| "is_exact_int _ = False"

fun is_float :: "pyval \<Rightarrow> bool" where
  "is_float (PFloat f) = True"
| "is_float _ = False"

fun is_list :: "pyval \<Rightarrow> bool" where
  "is_list (PList xs) = True"
| "is_list _ = False"

fun is_dict :: "pyval \<Rightarrow> bool" where
  "is_dict (PDict d) = True"
| "is_dict _ = False"

fun int_of :: "pyval \<Rightarrow> int" where
  "int_of (PInt i) = i"
| "int_of (PBool b) = (if b then 1 else 0)"
| "int_of _ = 0"

fun str_of :: "pyval \<Rightarrow> string" where
  "str_of (PStr s) = s"
| "str_of _ = []"

fun items_of :: "pyval \<Rightarrow> pydict" where
  "items_of (PDict d) = d"
| "items_of _ = []"

fun elems_of :: "pyval \<Rightarrow> pyval list" where
  "elems_of (PList xs) = xs"
| "elems_of _ = []"

text \<open>Truth: the empty values, zero and \<open>None\<close> are false.\<close>

fun truthy :: "pyval \<Rightarrow> bool" where
  "truthy PNone = False"
| "truthy (PBool b) = b"
| "truthy (PInt i) = (i \<noteq> 0)"
| "truthy (PFloat f) = (case f of FDec m k \<Rightarrow> m \<noteq> 0 | _ \<Rightarrow> True)"
| "truthy (PStr s) = (s \<noteq> [])"
| "truthy (PList xs) = (xs \<noteq> [])"
| "truthy (PDict d) = (d \<noteq> [])"

text \<open>\<open>d.get(k)\<close> and \<open>d.get(k, default)\<close>.\<close>

definition pget :: "pydict \<Rightarrow> string \<Rightarrow> pyval" where
  "pget d k = (case dget d k of None \<Rightarrow> PNone | Some v \<Rightarrow> v)"

definition pget_or :: "pydict \<Rightarrow> string \<Rightarrow> pyval \<Rightarrow> pyval" where
  "pget_or d k v0 = (case dget d k of None \<Rightarrow> v0 | Some v \<Rightarrow> v)"

text \<open>\<open>v == w\<close>: numbers compare across their types, dictionaries without order.\<close>

fun num_of :: "pyval \<Rightarrow> pyfloat option" where
  "num_of (PInt i) = Some (FDec i 0)"
| "num_of (PBool b) = Some (FDec (if b then 1 else 0) 0)"
| "num_of (PFloat f) = Some f"
| "num_of _ = None"

function (sequential) py_eq :: "pyval \<Rightarrow> pyval \<Rightarrow> bool" where
  "py_eq (PList xs) (PList ys) = (length xs = length ys \<and> (\<forall>(x, y) \<in> set (zip xs ys). py_eq x y))"
| "py_eq (PDict d) (PDict e) =
     (length d = length e \<and>
      (\<forall>(k, v) \<in> set d. case dget e k of None \<Rightarrow> False | Some w \<Rightarrow> py_eq v w))"
| "py_eq PNone w = (w = PNone)"
| "py_eq (PStr s) w = (w = PStr s)"
| "py_eq v w =
     (case (num_of v, num_of w) of (Some a, Some b) \<Rightarrow> float_eq a b | _ \<Rightarrow> False)"
  by pat_completeness auto
termination
  by (relation "measure (\<lambda>(v, w). size v)")
    (auto simp: less_Suc_eq_le dest!: set_zip_leftD
      intro!: size_list_estimation' [where f = size] size_list_estimation' [where f = "size_prod (\<lambda>x. 0) size"])

text \<open>\<open>v == i\<close> for an integer literal.\<close>

definition eq_int :: "pyval \<Rightarrow> int \<Rightarrow> bool" where
  "eq_int v i = (case num_of v of Some f \<Rightarrow> float_eq f (FDec i 0) | None \<Rightarrow> False)"

definition eq_str :: "pyval \<Rightarrow> string \<Rightarrow> bool" where
  "eq_str v s = (v = PStr s)"

lemma eq_int_PInt [simp]: "eq_int (PInt i) j \<longleftrightarrow> i = j"
  by (auto simp: eq_int_def float_eq_def)

lemma eq_int_PNone [simp]: "\<not> eq_int PNone j"
  by (simp add: eq_int_def)

lemma eq_int_PStr [simp]: "\<not> eq_int (PStr s) j"
  by (simp add: eq_int_def)

lemma pget_None [simp]: "dget d k = None \<Longrightarrow> pget d k = PNone"
  by (simp add: pget_def)

lemma pget_Some [simp]: "dget d k = Some v \<Longrightarrow> pget d k = v"
  by (simp add: pget_def)

lemma pget_dset: "pget (dset k v d) k' = (if k' = k then v else pget d k')"
  by (simp add: pget_def dget_dset)

lemma is_str_iff: "is_str v \<longleftrightarrow> (\<exists>s. v = PStr s)"
  by (cases v) auto

lemma is_list_iff: "is_list v \<longleftrightarrow> (\<exists>xs. v = PList xs)"
  by (cases v) auto

lemma is_dict_iff: "is_dict v \<longleftrightarrow> (\<exists>d. v = PDict d)"
  by (cases v) auto

lemma is_exact_int_iff: "is_exact_int v \<longleftrightarrow> (\<exists>i. v = PInt i)"
  by (cases v) auto

lemma is_int_iff: "is_int v \<and> \<not> is_bool v \<longleftrightarrow> (\<exists>i. v = PInt i)"
  by (cases v) auto

section \<open>Reading\<close>

definition dquote :: char where "dquote = char_of (34 :: nat)"
definition bslash :: char where "bslash = char_of (92 :: nat)"
definition newline :: char where "newline = char_of (10 :: nat)"

lemma dquote_code [code]: "dquote = CHR 0x22" by code_simp
lemma bslash_code [code]: "bslash = CHR 0x5C" by code_simp
lemma newline_code [code]: "newline = CHR 0x0A" by code_simp

fun is_ws :: "char \<Rightarrow> bool" where
  "is_ws c = (code c = 32 \<or> code c = 9 \<or> code c = 10 \<or> code c = 13)"

lemma is_ws_code [code]:
  "is_ws c = (case c of Char a b c d e f g h \<Rightarrow> \<not> h \<and> \<not> g \<and> (f \<and> \<not> e \<and> \<not> d \<and> \<not> c \<and> \<not> b \<and> \<not> a
     \<or> \<not> f \<and> \<not> e \<and> d \<and> (a \<and> \<not> b \<or> \<not> a \<and> b \<and> \<not> c)))"
proof (cases c)
  case (Char a b c d e f g h)
  then show ?thesis unfolding is_ws.simps
    by (cases a; cases b; cases c; cases d; cases e; cases f; cases g; cases h) simp_all
qed

definition skip_ws :: "string \<Rightarrow> string" where
  "skip_ws s = dropWhile is_ws s"

definition utf8 :: "nat \<Rightarrow> string" where
  "utf8 n = map char_of
     (if n < 128 then [n]
      else if n < 2048 then [192 + n div 64, 128 + n mod 64]
      else if n < 65536 then [224 + n div 4096, 128 + (n div 64) mod 64, 128 + n mod 64]
      else [240 + n div 262144, 128 + (n div 4096) mod 64, 128 + (n div 64) mod 64, 128 + n mod 64])"

definition hex_val :: "char \<Rightarrow> nat option" where
  "hex_val c =
     (if is_digit c then Some (code c - 48)
      else if 97 \<le> code c \<and> code c \<le> 102 then Some (code c - 87)
      else if 65 \<le> code c \<and> code c \<le> 70 then Some (code c - 55)
      else None)"

fun hex4 :: "string \<Rightarrow> nat option" where
  "hex4 [a, b, c, d] =
     (case (hex_val a, hex_val b, hex_val c, hex_val d) of
        (Some w, Some x, Some y, Some z) \<Rightarrow> Some (4096 * w + 256 * x + 16 * y + z)
      | _ \<Rightarrow> None)"
| "hex4 _ = None"

text \<open>The body of an escape sequence: the characters it stands for and how many it took.
  A high surrogate followed by an escaped low one is one code point.\<close>

definition json_escape :: "string \<Rightarrow> (string \<times> nat) option" where
  "json_escape s =
     (case s of
        [] \<Rightarrow> None
      | c # r \<Rightarrow>
          if c = dquote \<or> c = bslash \<or> c = CHR ''/'' then Some ([c], 1)
          else if c = CHR ''b'' then Some ([char_of (8 :: nat)], 1)
          else if c = CHR ''f'' then Some ([char_of (12 :: nat)], 1)
          else if c = CHR ''n'' then Some ([newline], 1)
          else if c = CHR ''r'' then Some ([char_of (13 :: nat)], 1)
          else if c = CHR ''t'' then Some ([char_of (9 :: nat)], 1)
          else if c = CHR ''u'' then
            (case hex4 (take 4 r) of
               None \<Rightarrow> None
             | Some n \<Rightarrow>
                 (case (if 55296 \<le> n \<and> n < 56320 \<and> take 2 (drop 4 r) = [bslash, CHR ''u'']
                        then hex4 (take 4 (drop 6 r)) else None) of
                    Some m \<Rightarrow>
                      if 56320 \<le> m \<and> m < 57344
                      then Some (utf8 (65536 + (n - 55296) * 1024 + (m - 56320)), 11)
                      else Some (utf8 n, 5)
                  | None \<Rightarrow> Some (utf8 n, 5)))
          else None)"

text \<open>A string after its opening quote; control characters are refused (strict mode).\<close>

function json_str :: "string \<Rightarrow> (string \<times> string) option" where
  "json_str [] = None"
| "json_str (c # r) =
     (if c = dquote then Some ([], r)
      else if c = bslash then
        (case json_escape r of
           None \<Rightarrow> None
         | Some (e, n) \<Rightarrow>
             (case json_str (drop n r) of None \<Rightarrow> None | Some (s, t) \<Rightarrow> Some (e @ s, t)))
      else if code c < 32 then None
      else (case json_str r of None \<Rightarrow> None | Some (s, t) \<Rightarrow> Some (c # s, t)))"
  by pat_completeness auto
termination
  by (relation "measure length") auto

lemma code_lt_32: "code (Char a b c d e f g h) < 32 \<longleftrightarrow> \<not> f \<and> \<not> g \<and> \<not> h"
  by (cases a; cases b; cases c; cases d; cases e; cases f; cases g; cases h) simp_all

declare json_str.simps(1) [code]

lemma json_str_code [code]:
  "json_str (c # r) =
     (if c = dquote then Some ([], r)
      else if c = bslash then
        (case json_escape r of
           None \<Rightarrow> None
         | Some (e, n) \<Rightarrow>
             (case json_str (drop n r) of None \<Rightarrow> None | Some (s, t) \<Rightarrow> Some (e @ s, t)))
      else if (case c of Char a b c d e f g h \<Rightarrow> \<not> f \<and> \<not> g \<and> \<not> h) then None
      else (case json_str r of None \<Rightarrow> None | Some (s, t) \<Rightarrow> Some (c # s, t)))"
  by (cases c) (simp only: json_str.simps code_lt_32 char.case)

definition json_digits :: "string \<Rightarrow> string \<times> string" where
  "json_digits s = (takeWhile is_digit s, dropWhile is_digit s)"

text \<open>Sign, integer part, fraction and exponent, as the number regular expression of the
  library reads them; a missing fraction and exponent make an integer.\<close>

definition json_exp :: "string \<Rightarrow> (int \<times> string) option" where
  "json_exp s =
     (case s of
        [] \<Rightarrow> None
      | c # r \<Rightarrow>
          if c \<noteq> CHR ''e'' \<and> c \<noteq> CHR ''E'' then None
          else
            (let (neg, r1) = (case r of
                  CHR ''-'' # r1 \<Rightarrow> (True, r1) | CHR ''+'' # r1 \<Rightarrow> (False, r1) | _ \<Rightarrow> (False, r));
                 (ds, r2) = json_digits r1
             in if ds = [] then None
                else Some ((if neg then - int (read_digits ds) else int (read_digits ds)), r2)))"

definition float_limit :: int where
  "float_limit = 2 ^ 1024 - 2 ^ 970"

definition mk_float :: "int \<Rightarrow> int \<Rightarrow> pyfloat" where
  "mk_float m e =
     (let m' = (if 0 \<le> e then m * 10 ^ nat e else m); k = (if 0 \<le> e then 0 else nat (- e))
      in if float_limit * 10 ^ k \<le> \<bar>m'\<bar> then FInf (m' < 0) else mk_dec m' k)"

definition json_number :: "string \<Rightarrow> (pyval \<times> string) option" where
  "json_number s =
     (let (neg, r) = (case s of CHR ''-'' # r \<Rightarrow> (True, r) | _ \<Rightarrow> (False, s));
          (ds, r1) = (case r of CHR ''0'' # r1 \<Rightarrow> (''0'', r1) | _ \<Rightarrow> json_digits r);
          sg = (\<lambda>n :: nat. if neg then - int n else int n)
      in if ds = [] then None
         else
           (let (fs, r2) = (case r1 of CHR ''.'' # q \<Rightarrow>
                  (case json_digits q of ([], _) \<Rightarrow> ([], r1) | (f # fs, q') \<Rightarrow> (f # fs, q'))
                | _ \<Rightarrow> ([], r1));
                (ex, r3) = (case json_exp r2 of None \<Rightarrow> (None, r2) | Some (e, q) \<Rightarrow> (Some e, q))
            in if fs = [] \<and> ex = None then Some (PInt (sg (read_digits ds)), r1)
               else Some (PFloat (mk_float (sg (read_digits (ds @ fs)))
                      ((case ex of None \<Rightarrow> 0 | Some e \<Rightarrow> e) - int (length fs))), r3)))"

definition strip_word :: "string \<Rightarrow> string \<Rightarrow> string option" where
  "strip_word w s = (if prefix w s then Some (drop (length w) s) else None)"

definition json_atom :: "string \<Rightarrow> (pyval \<times> string) option" where
  "json_atom s =
     (case strip_word ''null'' s of Some r \<Rightarrow> Some (PNone, r) | None \<Rightarrow>
      (case strip_word ''true'' s of Some r \<Rightarrow> Some (PBool True, r) | None \<Rightarrow>
      (case strip_word ''false'' s of Some r \<Rightarrow> Some (PBool False, r) | None \<Rightarrow>
      (case json_number s of Some p \<Rightarrow> Some p | None \<Rightarrow>
      (case strip_word ''NaN'' s of Some r \<Rightarrow> Some (PFloat FNan, r) | None \<Rightarrow>
      (case strip_word ''Infinity'' s of Some r \<Rightarrow> Some (PFloat (FInf False), r) | None \<Rightarrow>
      (case strip_word ''-Infinity'' s of Some r \<Rightarrow> Some (PFloat (FInf True), r) | None \<Rightarrow>
       None)))))))"

lemma length_skip_ws: "length (skip_ws s) \<le> length s"
  by (simp add: skip_ws_def length_dropWhile_le)

lemma length_skip_ws_Cons:
  "skip_ws s = d # q \<Longrightarrow> Suc (length q) \<le> length s \<and> length (skip_ws q) \<le> length q"
  using length_skip_ws [of s] length_skip_ws [of q] by simp

text \<open>Values, the elements of a non-empty array and the members of a non-empty object. The
  length tests are always true (\<open>json_val_length\<close>); they make the recursion visibly finite.\<close>

function (sequential) json_val :: "string \<Rightarrow> (pyval \<times> string) option"
  and json_elems :: "string \<Rightarrow> (pyval list \<times> string) option"
  and json_members :: "string \<Rightarrow> ((string \<times> pyval) list \<times> string) option"
where
  "json_val [] = None"
| "json_val (c # r) =
     (if c = dquote then (case json_str r of None \<Rightarrow> None | Some (s, t) \<Rightarrow> Some (PStr s, t))
      else if c = CHR ''{'' then
        (case skip_ws r of
           [] \<Rightarrow> None
         | d # q \<Rightarrow> if d = CHR ''}'' then Some (PDict [], q)
                   else (case json_members (skip_ws r) of
                           None \<Rightarrow> None | Some (ms, t) \<Rightarrow> Some (PDict (dict_of ms), t)))
      else if c = CHR ''['' then
        (case skip_ws r of
           [] \<Rightarrow> None
         | d # q \<Rightarrow> if d = CHR '']'' then Some (PList [], q)
                   else (case json_elems (skip_ws r) of
                           None \<Rightarrow> None | Some (vs, t) \<Rightarrow> Some (PList vs, t)))
      else json_atom (c # r))"
| "json_elems s =
     (case json_val s of
        None \<Rightarrow> None
      | Some (v, r) \<Rightarrow>
          if \<not> length r < length s then None
          else (case skip_ws r of
             [] \<Rightarrow> None
           | d # q \<Rightarrow>
               if d = CHR '']'' then Some ([v], q)
               else if d = CHR '','' then
                 (case json_elems (skip_ws q) of
                    None \<Rightarrow> None | Some (vs, t) \<Rightarrow> Some (v # vs, t))
               else None))"
| "json_members s =
     (case s of
        [] \<Rightarrow> None
      | c # r \<Rightarrow>
          if c \<noteq> dquote then None
          else (case json_str r of
             None \<Rightarrow> None
           | Some (k, r1) \<Rightarrow>
               if \<not> length r1 < length s then None
               else (case skip_ws r1 of
                  [] \<Rightarrow> None
                | d # r2 \<Rightarrow>
                    if d \<noteq> CHR '':'' then None
                    else (case json_val (skip_ws r2) of
                       None \<Rightarrow> None
                     | Some (v, r3) \<Rightarrow>
                         if \<not> length r3 < length s then None
                         else (case skip_ws r3 of
                            [] \<Rightarrow> None
                          | e # r4 \<Rightarrow>
                              if e = CHR ''}'' then Some ([(k, v)], r4)
                              else if e = CHR '','' then
                                (case json_members (skip_ws r4) of
                                   None \<Rightarrow> None | Some (ms, t) \<Rightarrow> Some ((k, v) # ms, t))
                              else None)))))"
  by pat_completeness auto
termination
proof (relation "measure (case_sum (\<lambda>s. 2 * length s)
    (case_sum (\<lambda>s. 2 * length s + 1) (\<lambda>s. 2 * length s + 1)))", goal_cases)
  case 1
  show ?case by simp
qed (auto dest!: length_skip_ws_Cons)

definition json_loads :: "string \<Rightarrow> pyval option" where
  "json_loads s =
     (case json_val (skip_ws s) of
        None \<Rightarrow> None
      | Some (v, r) \<Rightarrow> if skip_ws r = [] then Some v else None)"

section \<open>Printing\<close>

definition hex_digit :: "nat \<Rightarrow> char" where
  "hex_digit n = (if n < 10 then char_of (48 + n) else char_of (87 + n))"

definition u_escape :: "nat \<Rightarrow> string" where
  "u_escape n = [bslash, CHR ''u'', hex_digit (n div 4096 mod 16), hex_digit (n div 256 mod 16),
     hex_digit (n div 16 mod 16), hex_digit (n mod 16)]"

text \<open>The code points of UTF-8 text; a byte that starts no sequence stands for itself.\<close>

fun utf8_points :: "string \<Rightarrow> nat list" where
  "utf8_points [] = []"
| "utf8_points (a # r) =
     (if code a < 192 then code a # utf8_points r
      else (case r of
         [] \<Rightarrow> [code a]
       | b # r1 \<Rightarrow>
           if code a < 224 then ((code a - 192) * 64 + (code b - 128)) # utf8_points r1
           else (case r1 of
              [] \<Rightarrow> [code a, code b]
            | c # r2 \<Rightarrow>
                if code a < 240
                then ((code a - 224) * 4096 + (code b - 128) * 64 + (code c - 128)) # utf8_points r2
                else (case r2 of
                   [] \<Rightarrow> [code a, code b, code c]
                 | d # r3 \<Rightarrow>
                     ((code a - 240) * 262144 + (code b - 128) * 4096 + (code c - 128) * 64
                       + (code d - 128)) # utf8_points r3))))"

definition json_char :: "nat \<Rightarrow> string" where
  "json_char n =
     (if n = 34 then [bslash, dquote]
      else if n = 92 then [bslash, bslash]
      else if n = 10 then [bslash, CHR ''n'']
      else if n = 13 then [bslash, CHR ''r'']
      else if n = 9 then [bslash, CHR ''t'']
      else if n = 8 then [bslash, CHR ''b'']
      else if n = 12 then [bslash, CHR ''f'']
      else if 32 \<le> n \<and> n < 127 then [char_of n]
      else if n < 65536 then u_escape n
      else u_escape (55296 + (n - 65536) div 1024) @ u_escape (56320 + (n - 65536) mod 1024))"

definition json_quote :: "string \<Rightarrow> string" where
  "json_quote s = dquote # concat (map json_char (utf8_points s)) @ [dquote]"

text \<open>Characters that are printed as they are need no code point.\<close>

definition plain_char :: "char \<Rightarrow> bool" where
  "plain_char c \<longleftrightarrow> 32 \<le> code c \<and> code c < 127 \<and> code c \<noteq> 34 \<and> code c \<noteq> 92"

lemma plain_char_code [code]:
  "plain_char c = (case c of Char a b c d e f g h \<Rightarrow> \<not> h \<and> (g \<or> f) \<and> \<not> (a \<and> b \<and> c \<and> d \<and> e \<and> f \<and> g)
     \<and> \<not> (\<not> g \<and> \<not> e \<and> \<not> d \<and> \<not> c \<and> b \<and> \<not> a) \<and> \<not> (\<not> f \<and> e \<and> d \<and> c \<and> \<not> b \<and> \<not> a))"
proof (cases c)
  case (Char a b c d e f g h)
  then show ?thesis unfolding plain_char_def
    by (cases a; cases b; cases c; cases d; cases e; cases f; cases g; cases h) simp_all
qed

fun quote_body :: "string \<Rightarrow> string" where
  "quote_body [] = []"
| "quote_body (a # r) =
     (if plain_char a then a # quote_body r else concat (map json_char (utf8_points (a # r))))"

lemma quote_body: "quote_body s = concat (map json_char (utf8_points s))"
proof (induction s)
  case (Cons a r)
  have "utf8_points (a # r) = code a # utf8_points r \<and> json_char (code a) = [a]" if "plain_char a"
    using that by (simp add: plain_char_def json_char_def)
  with Cons show ?case by (cases "plain_char a") (simp_all del: utf8_points.simps)
qed simp

lemma json_quote_code [code]: "json_quote s = dquote # quote_body s @ [dquote]"
  by (simp add: json_quote_def quote_body)

text \<open>\<open>repr\<close> of a float: fixed notation when the decimal exponent is from -4 to 15.\<close>

definition strip_trailing :: "string \<Rightarrow> string" where
  "strip_trailing s = rev (dropWhile (\<lambda>c. c = CHR ''0'') (rev s))"

definition repr_nat_dec :: "nat \<Rightarrow> nat \<Rightarrow> string" where
  "repr_nat_dec m k =
     (let ds = show_nat m; n = length ds; e = int n - int k - 1
      in if m = 0 then ''0.0''
         else if -4 \<le> e \<and> e < 16 then
           (if k = 0 then ds @ ''.0''
            else if k < n then take (n - k) ds @ ''.'' @ drop (n - k) ds
            else ''0.'' @ replicate (k - n) CHR ''0'' @ ds)
         else
           (let sig = strip_trailing ds; mant = (if length sig = 1 then sig
                  else take 1 sig @ ''.'' @ drop 1 sig);
                ea = show_nat (nat \<bar>e\<bar>)
            in mant @ ''e'' @ (if e < 0 then ''-'' else ''+'')
               @ (if length ea = 1 then ''0'' @ ea else ea)))"

fun float_repr :: "pyfloat \<Rightarrow> string" where
  "float_repr (FDec m k) = (if m < 0 then ''-'' else []) @ repr_nat_dec (nat \<bar>m\<bar>) k"
| "float_repr (FInf neg) = (if neg then ''-inf'' else ''inf'')"
| "float_repr FNan = ''nan''"

fun json_float :: "pyfloat \<Rightarrow> string" where
  "json_float (FInf neg) = (if neg then ''-Infinity'' else ''Infinity'')"
| "json_float FNan = ''NaN''"
| "json_float f = float_repr f"

text \<open>\<open>json.dumps\<close> with its key order and separators: \<open>json_dumps\<close> is the compact sorted form,
  \<open>json_dumps_sorted\<close> the sorted form with the default separators.\<close>

fun json_print :: "bool \<Rightarrow> string \<Rightarrow> string \<Rightarrow> pyval \<Rightarrow> string" where
  "json_print srt isep ksep PNone = ''null''"
| "json_print srt isep ksep (PBool b) = (if b then ''true'' else ''false'')"
| "json_print srt isep ksep (PInt i) = show_int i"
| "json_print srt isep ksep (PFloat f) = json_float f"
| "json_print srt isep ksep (PStr s) = json_quote s"
| "json_print srt isep ksep (PList vs) =
     ''['' @ str_join isep (map (json_print srt isep ksep) vs) @ '']''"
| "json_print srt isep ksep (PDict d) =
     (let ps = map (\<lambda>(k, v). (k, json_quote k @ ksep @ json_print srt isep ksep v)) d;
          qs = (if srt then sort_key fst ps else ps)
      in ''{'' @ str_join isep (map snd qs) @ ''}'')"

definition json_dumps :: "pyval \<Rightarrow> string" where
  "json_dumps v = json_print True '','' '':'' v"

definition json_dumps_sorted :: "pyval \<Rightarrow> string" where
  "json_dumps_sorted v = json_print True '', '' '': '' v"

definition json_dumps_plain :: "pyval \<Rightarrow> string" where
  "json_dumps_plain v = json_print False '', '' '': '' v"

section \<open>\<open>float(s)\<close>, \<open>str(v)\<close> and \<open>repr(v)\<close>\<close>

definition float_body :: "string \<Rightarrow> pyfloat option" where
  "float_body s =
     (let w = str_lower s
      in if w = ''inf'' \<or> w = ''infinity'' then Some (FInf False)
         else if w = ''nan'' then Some FNan
         else
           (let (ip, dot, r0) = str_partition CHR ''.'' (takeWhile (\<lambda>c. c \<noteq> CHR ''e'') w);
                ex = dropWhile (\<lambda>c. c \<noteq> CHR ''e'') w;
                ids = (if ip = [] then Some [] else us_digits ip);
                fds = (if r0 = [] then Some [] else us_digits r0)
            in case (ids, fds) of
                 (Some i, Some f) \<Rightarrow>
                   if i = [] \<and> f = [] then None
                   else if ex = [] then Some (mk_float (int (read_digits (i @ f))) (- int (length f)))
                   else (case py_int (tl ex) of
                       Some e \<Rightarrow> if is_space (hd (tl ex @ ''0'')) \<or> is_space (last ex) then None
                         else Some (mk_float (int (read_digits (i @ f))) (e - int (length f)))
                     | None \<Rightarrow> None)
               | _ \<Rightarrow> None))"

fun float_neg :: "pyfloat \<Rightarrow> pyfloat" where
  "float_neg (FDec m k) = FDec (- m) k"
| "float_neg (FInf neg) = FInf (\<not> neg)"
| "float_neg FNan = FNan"

definition py_float :: "string \<Rightarrow> pyfloat option" where
  "py_float s =
     (case strip s of
        [] \<Rightarrow> None
      | c # r \<Rightarrow>
          if c = CHR ''-'' then map_option float_neg (float_body r)
          else if c = CHR ''+'' then float_body r
          else float_body (c # r))"

definition squote :: char where "squote = char_of (39 :: nat)"

definition repr_char :: "char \<Rightarrow> char \<Rightarrow> string" where
  "repr_char q c =
     (if c = q \<or> c = bslash then [bslash, c]
      else if code c = 10 then [bslash, CHR ''n'']
      else if code c = 13 then [bslash, CHR ''r'']
      else if code c = 9 then [bslash, CHR ''t'']
      else if code c < 32 \<or> code c = 127
        then [bslash, CHR ''x'', hex_digit (code c div 16), hex_digit (code c mod 16)]
      else [c])"

definition str_repr :: "string \<Rightarrow> string" where
  "str_repr s =
     (let q = (if squote \<in> set s \<and> dquote \<notin> set s then dquote else squote)
      in [q] @ concat (map (repr_char q) s) @ [q])"

fun py_repr :: "pyval \<Rightarrow> string" where
  "py_repr PNone = ''None''"
| "py_repr (PBool b) = (if b then ''True'' else ''False'')"
| "py_repr (PInt i) = show_int i"
| "py_repr (PFloat f) = float_repr f"
| "py_repr (PStr s) = str_repr s"
| "py_repr (PList vs) = ''['' @ str_join '', '' (map py_repr vs) @ '']''"
| "py_repr (PDict d) = ''{'' @ str_join '', '' (map (\<lambda>(k, v). str_repr k @ '': '' @ py_repr v) d) @ ''}''"

definition py_str :: "pyval \<Rightarrow> string" where
  "py_str v = (case v of PStr s \<Rightarrow> s | _ \<Rightarrow> py_repr v)"

lemma py_str_PStr [simp]: "py_str (PStr s) = s"
  by (simp add: py_str_def)

text \<open>\<open>str(v or "")\<close>, a frequent phrase of the readers.\<close>

definition str_or_empty :: "pyval \<Rightarrow> string" where
  "str_or_empty v = (if truthy v then py_str v else [])"

lemma str_or_empty_PStr [simp]: "str_or_empty (PStr s) = s"
  by (simp add: str_or_empty_def)

end
