(* ===== verification/Py_World.thy ===== *)
theory Py_World
  imports Py_Json
begin

text \<open>
  The operating-system surface of the programs: \<open>pathlib\<close> paths (a root and its components),
  a file system of regular files, directories, symbolic links and other nodes, with the reads
  and publications the code performs, and the exception classes their handlers name.
\<close>

section \<open>Exception classes\<close>

fun is_oserror :: "exn \<Rightarrow> bool" where
  "is_oserror (OSErr m) = True"
| "is_oserror FileNotFound = True"
| "is_oserror _ = False"

fun is_valueerror :: "exn \<Rightarrow> bool" where
  "is_valueerror (ValueErr m) = True"
| "is_valueerror JSONDecode = True"
| "is_valueerror UnicodeErr = True"
| "is_valueerror (ConfigErr m) = True"
| "is_valueerror (QueueInputErr m) = True"
| "is_valueerror _ = False"

fun is_pueueerror :: "exn \<Rightarrow> bool" where
  "is_pueueerror (PueueError m) = True"
| "is_pueueerror (PueueTimeout m) = True"
| "is_pueueerror (PueueGroupError g) = True"
| "is_pueueerror _ = False"

fun is_historyerror :: "exn \<Rightarrow> bool" where
  "is_historyerror (HistoryErr c d) = True"
| "is_historyerror (HistoryRefusal c d) = True"
| "is_historyerror _ = False"

text \<open>\<open>str(error)\<close>, where a handler records it.\<close>

fun exn_str :: "exn \<Rightarrow> string" where
  "exn_str (PueueError m) = m"
| "exn_str (PueueTimeout m) = m"
| "exn_str (PueueGroupError g) =
     ''pueue has no group '' @ str_repr g @ ''; create it with `pueue group add '' @ g
       @ ''` and set its parallelism''"
| "exn_str (OSErr m) = m"
| "exn_str (ValueErr m) = m"
| "exn_str (KeyErr k) = str_repr k"
| "exn_str (ConfigErr m) = m"
| "exn_str (QueueInputErr m) = m"
| "exn_str (JobErr m) = m"
| "exn_str (CompactionErr m) = m"
| "exn_str (HistoryErr c d) = c @ '': '' @ d"
| "exn_str (HistoryRefusal c d) = c @ '': '' @ d"
| "exn_str (SubprocessErr m) = m"
| "exn_str (CleanupErr m) = m"
| "exn_str (WorktrunkErr m) = m"
| "exn_str (GithubErr m) = m"
| "exn_str (RuntimeErr m) = m"
| "exn_str TickDeadline = ''pressure tick deadline exceeded''"
| "exn_str FileNotFound = ''[Errno 2] No such file or directory''"
| "exn_str _ = []"

section \<open>Paths\<close>

type_synonym ppath = "string \<times> string list"

definition mkpath :: "string \<Rightarrow> ppath" where
  "mkpath s =
     ((if prefix ''//'' s \<and> \<not> prefix ''///'' s then ''//'' else if prefix ''/'' s then ''/'' else []),
      filter (\<lambda>c. c \<noteq> [] \<and> c \<noteq> ''.'') (split_on CHR ''/'' s))"

definition path_str :: "ppath \<Rightarrow> string" where
  "path_str p = (case p of (r, cs) \<Rightarrow>
     if r = [] \<and> cs = [] then ''.'' else r @ str_join ''/'' cs)"

definition path_absolute :: "ppath \<Rightarrow> bool" where
  "path_absolute p \<longleftrightarrow> fst p \<noteq> []"

definition path_parts :: "ppath \<Rightarrow> string list" where
  "path_parts p = (case p of (r, cs) \<Rightarrow> if r = [] then cs else r # cs)"

definition path_name :: "ppath \<Rightarrow> string" where
  "path_name p = (if snd p = [] then [] else last (snd p))"

definition path_parent :: "ppath \<Rightarrow> ppath" where
  "path_parent p = (fst p, butlast (snd p))"

text \<open>\<open>p / q\<close>: an absolute right operand replaces the left one.\<close>

definition path_join :: "ppath \<Rightarrow> string \<Rightarrow> ppath" where
  "path_join p s = (let q = mkpath s in if fst q \<noteq> [] then q else (fst p, snd p @ snd q))"

definition last_dot :: "string \<Rightarrow> nat option" where
  "last_dot n =
     (let t = takeWhile (\<lambda>c. c \<noteq> CHR ''.'') (rev n)
      in if length t = length n then None else Some (length n - length t - 1))"

text \<open>A suffix starts at the last dot that is neither the first nor the last character.\<close>

definition name_suffix :: "string \<Rightarrow> string" where
  "name_suffix n = (case last_dot n of
     None \<Rightarrow> [] | Some i \<Rightarrow> if 0 < i \<and> i < length n - 1 then drop i n else [])"

definition name_stem :: "string \<Rightarrow> string" where
  "name_stem n = take (length n - length (name_suffix n)) n"

definition path_suffix :: "ppath \<Rightarrow> string" where
  "path_suffix p = name_suffix (path_name p)"

definition path_stem :: "ppath \<Rightarrow> string" where
  "path_stem p = name_stem (path_name p)"

definition with_name :: "string \<Rightarrow> ppath \<Rightarrow> ppath" where
  "with_name n p = (fst p, butlast (snd p) @ [n])"

definition with_suffix :: "string \<Rightarrow> ppath \<Rightarrow> ppath" where
  "with_suffix sfx p = with_name (path_stem p @ sfx) p"

definition is_relative_to :: "ppath \<Rightarrow> ppath \<Rightarrow> bool" where
  "is_relative_to p q \<longleftrightarrow> fst p = fst q \<and> prefix (snd q) (snd p)"

lemma is_relative_to_refl [simp]: "is_relative_to p p"
  by (simp add: is_relative_to_def)

lemma is_relative_to_trans:
  "is_relative_to p q \<Longrightarrow> is_relative_to q r \<Longrightarrow> is_relative_to p r"
  by (auto simp: is_relative_to_def intro: prefix_order.trans)

lemma path_parent_with_name [simp]: "path_parent (with_name n p) = path_parent p"
  by (simp add: path_parent_def with_name_def)

lemma path_name_with_name [simp]: "path_name (with_name n p) = n"
  by (simp add: path_name_def with_name_def)

lemma mkpath_components:
  "c \<in> set (snd (mkpath s)) \<Longrightarrow> c \<noteq> [] \<and> c \<noteq> ''.'' \<and> CHR ''/'' \<notin> set c"
proof -
  assume c: "c \<in> set (snd (mkpath s))"
  have "x \<in> set (split_on d t) \<Longrightarrow> d \<notin> set x" for x d t
    by (induction t arbitrary: x) (auto split: list.splits if_splits)
  with c show ?thesis by (auto simp: mkpath_def)
qed

text \<open>A name made of one component: the guard \<open>Path(n).name != n\<close> of the readers.\<close>

lemma mkpath_single:
  assumes "CHR ''/'' \<notin> set n" "n \<noteq> []" "n \<noteq> ''.''"
  shows "mkpath n = ([], [n])"
proof -
  have "hd n \<noteq> CHR ''/''" using assms by (cases n) auto
  then have "\<not> prefix ''/'' n" "\<not> prefix ''//'' n" by (cases n; auto)+
  with assms show ?thesis by (simp add: mkpath_def split_on_no_sep)
qed

section \<open>File system\<close>

datatype fnode = RegFile string nat | Dir nat | Symlink ppath | Special

text \<open>\<open>noread\<close> lists the nodes whose opening is denied, \<open>nowrite\<close> the directories in which
  creating, replacing or removing an entry is denied.\<close>

record fs =
  nodes :: "(ppath \<times> fnode) list"
  noread :: "ppath list"
  nowrite :: "ppath list"

definition node_at :: "fs \<Rightarrow> ppath \<Rightarrow> fnode option" where
  "node_at f p = (if snd p = [] then Some (Dir 493) else dget (nodes f) p)"

text \<open>Resolution of symbolic links, at most 40 of them as in the kernel; \<open>None\<close> is a loop.\<close>

function resolve_parts :: "nat \<Rightarrow> fs \<Rightarrow> string list \<Rightarrow> string list \<Rightarrow> string list option" where
  "resolve_parts n f done [] = Some (rev done)"
| "resolve_parts n f done (c # cs) =
     (if c = ''..'' then resolve_parts n f (drop 1 done) cs
      else (case node_at f (''/'', rev (c # done)) of
          Some (Symlink (r, ps)) \<Rightarrow>
            (case n of
               0 \<Rightarrow> None
             | Suc m \<Rightarrow> resolve_parts m f (if r = [] then done else []) (ps @ cs))
        | _ \<Rightarrow> resolve_parts n f (c # done) cs))"
  by pat_completeness auto
termination
  by (relation "measures [\<lambda>(n, f, d, cs). n, \<lambda>(n, f, d, cs). length cs]") auto

definition realpath :: "fs \<Rightarrow> ppath \<Rightarrow> ppath res" where
  "realpath f p = (case resolve_parts 40 f [] (snd p) of
     None \<Rightarrow> Inl (OSErr ''Too many levels of symbolic links'') | Some cs \<Rightarrow> Inr (''/'', cs))"

definition read_node :: "fs \<Rightarrow> ppath \<Rightarrow> string res" where
  "read_node f p =
     (if p \<in> set (noread f) then Inl (OSErr ''Permission denied'')
      else (case node_at f p of
          None \<Rightarrow> Inl FileNotFound
        | Some (RegFile b m) \<Rightarrow> Inr b
        | Some (Dir m) \<Rightarrow> Inl (OSErr ''Is a directory'')
        | Some (Symlink q) \<Rightarrow> Inl (OSErr ''Too many levels of symbolic links'')
        | Some Special \<Rightarrow> Inl (OSErr ''Not a regular file'')))"

text \<open>\<open>open(p)\<close> follows links; with \<open>O_NOFOLLOW\<close> a link in the last place is refused.\<close>

definition fs_read :: "fs \<Rightarrow> ppath \<Rightarrow> string res" where
  "fs_read f p = bindE (realpath f p) (read_node f)"

definition fs_read_nofollow :: "fs \<Rightarrow> ppath \<Rightarrow> string res" where
  "fs_read_nofollow f p =
     bindE (realpath f (path_parent p)) (\<lambda>d. read_node f (fst d, snd d @ [path_name p]))"

definition fs_exists :: "fs \<Rightarrow> ppath \<Rightarrow> bool" where
  "fs_exists f p = (case realpath f p of Inl e \<Rightarrow> False | Inr q \<Rightarrow> node_at f q \<noteq> None)"

definition fs_is_file :: "fs \<Rightarrow> ppath \<Rightarrow> bool" where
  "fs_is_file f p = (case realpath f p of Inl e \<Rightarrow> False
     | Inr q \<Rightarrow> (case node_at f q of Some (RegFile b m) \<Rightarrow> True | _ \<Rightarrow> False))"

definition fs_is_dir :: "fs \<Rightarrow> ppath \<Rightarrow> bool" where
  "fs_is_dir f p = (case realpath f p of Inl e \<Rightarrow> False
     | Inr q \<Rightarrow> (case node_at f q of Some (Dir m) \<Rightarrow> True | _ \<Rightarrow> False))"

definition fs_list :: "fs \<Rightarrow> ppath \<Rightarrow> string list" where
  "fs_list f d = (case realpath f d of Inl e \<Rightarrow> []
     | Inr q \<Rightarrow> sorted_set (map (\<lambda>(p, n). last (snd p))
         (filter (\<lambda>(p, n). snd p \<noteq> [] \<and> path_parent p = q) (nodes f))))"

definition fs_put :: "ppath \<Rightarrow> fnode \<Rightarrow> fs \<Rightarrow> fs" where
  "fs_put p n f = f\<lparr>nodes := dset p n (nodes f)\<rparr>"

definition fs_remove :: "ppath \<Rightarrow> fs \<Rightarrow> fs" where
  "fs_remove p f = f\<lparr>nodes := dpop p (nodes f)\<rparr>"

text \<open>\<open>mkdir(mode, parents=True, exist_ok=True)\<close>, from the root down; missing parents take the
  default mode (0755).\<close>

fun mkdirs :: "nat \<Rightarrow> string list \<Rightarrow> string list \<Rightarrow> fs \<Rightarrow> fs res" where
  "mkdirs m done [] f = Inr f"
| "mkdirs m done (c # cs) f =
     (let p = (''/'', done @ [c])
      in case node_at f p of
           None \<Rightarrow>
             if (''/'', done) \<in> set (nowrite f) then Inl (OSErr ''Permission denied'')
             else mkdirs m (done @ [c]) cs (fs_put p (Dir (if cs = [] then m else 493)) f)
         | Some (Dir m') \<Rightarrow> mkdirs m (done @ [c]) cs f
         | Some (Symlink q) \<Rightarrow>
             if fs_is_dir f p then mkdirs m (done @ [c]) cs f else Inl (OSErr ''File exists'')
         | _ \<Rightarrow> Inl (OSErr ''File exists''))"

definition mkdir_p :: "nat \<Rightarrow> ppath \<Rightarrow> fs \<Rightarrow> fs res" where
  "mkdir_p m p f = mkdirs m [] (snd p) f"

text \<open>\<open>atomic_publish\<close>: the parent must be a directory one may write in; the new file takes the
  name in one step, whatever held it, unless that is a directory. A refused publication changes
  nothing.\<close>

definition fs_publish :: "ppath \<Rightarrow> string \<Rightarrow> nat \<Rightarrow> fs \<Rightarrow> fs res" where
  "fs_publish p b m f =
     bindE (realpath f (path_parent p)) (\<lambda>d.
       (case node_at f d of
          None \<Rightarrow> Inl FileNotFound
        | Some (Dir m') \<Rightarrow>
            if d \<in> set (nowrite f) then Inl (OSErr ''Permission denied'')
            else (let q = (fst d, snd d @ [path_name p])
                  in case node_at f q of
                       Some (Dir m'') \<Rightarrow> Inl (OSErr ''Is a directory'')
                     | _ \<Rightarrow> Inr (fs_put q (RegFile b m) f))
        | _ \<Rightarrow> Inl (OSErr ''Not a directory'')))"

text \<open>\<open>chmod\<close> of an existing file or directory.\<close>

definition fs_chmod :: "nat \<Rightarrow> ppath \<Rightarrow> fs \<Rightarrow> fs res" where
  "fs_chmod m p f =
     bindE (realpath f p) (\<lambda>q. case dget (nodes f) q of
         None \<Rightarrow> if snd q = [] then Inl (OSErr ''Operation not permitted'') else Inl FileNotFound
       | Some (RegFile b m') \<Rightarrow> Inr (fs_put q (RegFile b m) f)
       | Some (Dir m') \<Rightarrow> Inr (fs_put q (Dir m) f)
       | Some n \<Rightarrow> Inr f)"

definition fs_unlink :: "ppath \<Rightarrow> fs \<Rightarrow> fs res" where
  "fs_unlink p f =
     bindE (realpath f (path_parent p)) (\<lambda>d.
       (let q = (fst d, snd d @ [path_name p])
        in case node_at f q of
             None \<Rightarrow> Inl FileNotFound
           | Some (Dir m) \<Rightarrow> Inl (OSErr ''Is a directory'')
           | _ \<Rightarrow> if d \<in> set (nowrite f) then Inl (OSErr ''Permission denied'')
                  else Inr (fs_remove q f)))"

text \<open>A file-system change as a computation on the state: a refused change leaves it as it was.\<close>

definition fsM :: "(fs \<Rightarrow> fs res) \<Rightarrow> (fs, unit) io" where
  "fsM c f = (case c f of Inl e \<Rightarrow> (Inl e, f) | Inr f' \<Rightarrow> (Inr (), f'))"

definition getM :: "('w, 'w) io" where
  "getM w = (Inr w, w)"

lemma getM_apply [simp]: "getM w = (Inr w, w)"
  by (simp add: getM_def)

section \<open>UTF-8\<close>

fun cont :: "char \<Rightarrow> bool" where
  "cont c = (128 \<le> code c \<and> code c < 192)"

text \<open>Well-formed UTF-8: shortest forms, no surrogates, at most U+10FFFF.\<close>

fun utf8_ok :: "string \<Rightarrow> bool" where
  "utf8_ok [] = True"
| "utf8_ok (a # r) =
     (if code a < 128 then utf8_ok r
      else if code a < 194 then False
      else (case r of
         [] \<Rightarrow> False
       | b # r1 \<Rightarrow>
           if code a < 224 then cont b \<and> utf8_ok r1
           else (case r1 of
              [] \<Rightarrow> False
            | c # r2 \<Rightarrow>
                if code a < 240 then cont b \<and> cont c \<and>
                  (code a = 224 \<longrightarrow> 160 \<le> code b) \<and> (code a = 237 \<longrightarrow> code b < 160) \<and> utf8_ok r2
                else (case r2 of
                   [] \<Rightarrow> False
                 | d # r3 \<Rightarrow>
                     code a < 245 \<and> cont b \<and> cont c \<and> cont d \<and>
                     (code a = 240 \<longrightarrow> 144 \<le> code b) \<and> (code a = 244 \<longrightarrow> code b < 144) \<and>
                     utf8_ok r3))))"

lemma code_lt_128: "code (Char a b c d e f g h) < 128 \<longleftrightarrow> \<not> h"
  by (cases a; cases b; cases c; cases d; cases e; cases f; cases g; cases h) simp_all

declare utf8_ok.simps(1) [code]

lemma utf8_ok_code [code]:
  "utf8_ok (a # r) =
     (if (case a of Char a b c d e f g h \<Rightarrow> \<not> h) then utf8_ok r
      else if code a < 194 then False
      else (case r of
         [] \<Rightarrow> False
       | b # r1 \<Rightarrow>
           if code a < 224 then cont b \<and> utf8_ok r1
           else (case r1 of
              [] \<Rightarrow> False
            | c # r2 \<Rightarrow>
                if code a < 240 then cont b \<and> cont c \<and>
                  (code a = 224 \<longrightarrow> 160 \<le> code b) \<and> (code a = 237 \<longrightarrow> code b < 160) \<and> utf8_ok r2
                else (case r2 of
                   [] \<Rightarrow> False
                 | d # r3 \<Rightarrow>
                     code a < 245 \<and> cont b \<and> cont c \<and> cont d \<and>
                     (code a = 240 \<longrightarrow> 144 \<le> code b) \<and> (code a = 244 \<longrightarrow> code b < 144) \<and>
                     utf8_ok r3))))"
  by (cases a) (simp only: utf8_ok.simps code_lt_128 char.case)

text \<open>\<open>json.loads\<close> of a file's bytes, and of text that is already decoded.\<close>

definition loads_bytes :: "string \<Rightarrow> pyval res" where
  "loads_bytes b = (if \<not> utf8_ok b then Inl UnicodeErr
     else (case json_loads b of None \<Rightarrow> Inl JSONDecode | Some v \<Rightarrow> Inr v))"

definition loads_text :: "string \<Rightarrow> pyval res" where
  "loads_text s = (case json_loads s of None \<Rightarrow> Inl JSONDecode | Some v \<Rightarrow> Inr v)"

text \<open>\<open>path.read_text()\<close>.\<close>

definition fs_read_text :: "fs \<Rightarrow> ppath \<Rightarrow> string res" where
  "fs_read_text f p = bindE (fs_read f p) (\<lambda>b. if utf8_ok b then Inr b else Inl UnicodeErr)"

section \<open>Conversions of dynamic values\<close>

text \<open>\<open>int(v)\<close>: floats truncate towards zero.\<close>

fun py_int_of :: "pyval \<Rightarrow> int res" where
  "py_int_of (PInt i) = Inr i"
| "py_int_of (PBool b) = Inr (if b then 1 else 0)"
| "py_int_of (PFloat (FDec m k)) = Inr (sgn m * (\<bar>m\<bar> div 10 ^ k))"
| "py_int_of (PFloat (FInf neg)) = Inl OverflowErr"
| "py_int_of (PFloat FNan) = Inl (ValueErr ''cannot convert float NaN to integer'')"
| "py_int_of (PStr s) = (case py_int s of
     None \<Rightarrow> Inl (ValueErr (''invalid literal for int() with base 10: '' @ str_repr s))
   | Some i \<Rightarrow> Inr i)"
| "py_int_of _ = Inl TypeErr"

text \<open>Iteration: a string by code points, a dictionary by keys.\<close>

fun py_iter :: "pyval \<Rightarrow> pyval list res" where
  "py_iter (PList vs) = Inr vs"
| "py_iter (PDict d) = Inr (map (\<lambda>(k, v). PStr k) d)"
| "py_iter (PStr s) = Inr (map (\<lambda>n. PStr (utf8 n)) (utf8_points s))"
| "py_iter _ = Inl TypeErr"

section \<open>Laws\<close>

lemma node_at_fs_put:
  "snd p \<noteq> [] \<Longrightarrow> node_at (fs_put p n f) q = (if q = p then Some n else node_at f q)"
  by (auto simp: node_at_def fs_put_def dget_dset)

lemma noread_fs_put [simp]: "noread (fs_put p n f) = noread f"
  by (simp add: fs_put_def)

lemma nowrite_fs_put [simp]: "nowrite (fs_put p n f) = nowrite f"
  by (simp add: fs_put_def)

lemma fs_publish_Inr:
  assumes "fs_publish p b m f = Inr f'"
  obtains d where "realpath f (path_parent p) = Inr d"
    and "f' = fs_put (fst d, snd d @ [path_name p]) (RegFile b m) f"
    and "\<nexists>k. node_at f (fst d, snd d @ [path_name p]) = Some (Dir k)"
proof -
  from assms obtain d where d: "realpath f (path_parent p) = Inr d"
    by (auto simp: fs_publish_def bindE_eq_Inr)
  with assms show thesis
    by (cases "node_at f d"; cases "node_at f (fst d, snd d @ [path_name p])")
      (auto simp: fs_publish_def Let_def intro!: that [OF d] split: fnode.split_asm if_split_asm)
qed

end
