(* ===== verification/Agentctl_Pueue.thy ===== *)
theory Agentctl_Pueue
  imports Py_World
begin

text \<open>
  \<open>agentctl/pueue.py\<close>: the adapter to the queue daemon. The \<open>pueue\<close> program is not part of the
  repository; it is the parameter \<open>d\<close> of every operation, the answer to a call as a function of
  all calls made so far, so that nothing is assumed of its behaviour. The state keeps the calls
  issued, each with the timeout it ran under, and the deadline of the enclosing
  \<open>call_deadline\<close> block.
\<close>

section \<open>Calls\<close>

type_synonym call = "pyfloat \<times> string list"

datatype proc_result =
    NotInstalled
  | TimedOut
  | Garbled
  | Exited int string string

type_synonym daemon = "call list \<Rightarrow> proc_result"

record pq =
  calls :: "call list"
  deadline :: "pyfloat option"

definition CALL_TIMEOUT_SECONDS :: pyfloat where
  "CALL_TIMEOUT_SECONDS = FDec 300 0"

definition effective_timeout :: "pyfloat option \<Rightarrow> pyfloat \<Rightarrow> pyfloat" where
  "effective_timeout b t = (case b of None \<Rightarrow> t | Some d \<Rightarrow> if float_lt d t then d else t)"

definition pueue_run :: "daemon \<Rightarrow> string list \<Rightarrow> pyfloat \<Rightarrow> ('z pq_scheme, string) io" where
  "pueue_run d args timeout w =
     (let t = effective_timeout (deadline w) timeout;
          cs = calls w @ [(t, args)];
          w' = w\<lparr>calls := cs\<rparr>
      in case d cs of
           NotInstalled \<Rightarrow> (Inl (PueueError ''pueue is not installed''), w')
         | TimedOut \<Rightarrow> (Inl (PueueTimeout (''pueue '' @ hd args @ '' timed out'')), w')
         | Garbled \<Rightarrow> (Inl UnicodeErr, w')
         | Exited rc out err \<Rightarrow>
             if rc \<noteq> 0 then
               (let detail = (if strip err \<noteq> [] then strip err else strip out)
                in (Inl (PueueError (if detail \<noteq> [] then detail
                      else ''pueue '' @ hd args @ '' failed'')), w'))
             else (Inr out, w'))"

definition run_default :: "daemon \<Rightarrow> string list \<Rightarrow> ('z pq_scheme, string) io" where
  "run_default d args = pueue_run d args CALL_TIMEOUT_SECONDS"

text \<open>\<open>with call_deadline(s): m\<close>, the previous bound restored on every way out.\<close>

definition call_deadline :: "pyfloat \<Rightarrow> ('z pq_scheme, 'a) io \<Rightarrow> ('z pq_scheme, 'a) io" where
  "call_deadline s m w =
     (case m (w\<lparr>deadline := Some s\<rparr>) of (r, w') \<Rightarrow> (r, w'\<lparr>deadline := deadline w\<rparr>))"

text \<open>Output may precede the document: decoding starts at the first bracket and is not retried.\<close>

fun pueue_decode :: "string \<Rightarrow> string \<Rightarrow> pyval res" where
  "pueue_decode what [] = Inl (PueueError (''pueue '' @ what @ '' did not print a JSON document''))"
| "pueue_decode what (c # r) =
     (if c = CHR ''{'' \<or> c = CHR ''['' then
        (case json_loads (c # r) of
           Some v \<Rightarrow> Inr v
         | None \<Rightarrow> Inl (PueueError (''pueue '' @ what @ '' did not print a JSON document'')))
      else pueue_decode what r)"

section \<open>Tasks\<close>

record task =
  tk_id :: int
  tk_label :: string
  tk_group :: string
  tk_status :: string
  tk_result :: "string option"
  tk_exit :: "int option"
  tk_path :: string
  tk_deps :: "int list"
  tk_command :: string
  tk_enqueued :: "string option"
  tk_started :: "string option"
  tk_ended :: "string option"

definition terminal :: "task \<Rightarrow> bool" where
  "terminal t \<longleftrightarrow> tk_status t = ''Done''"

definition succeeded :: "task \<Rightarrow> bool" where
  "succeeded t \<longleftrightarrow> tk_result t = Some ''Success''"

definition stamp :: "pyval \<Rightarrow> string option" where
  "stamp v = (case v of PStr s \<Rightarrow> if s \<noteq> [] then Some s else None | _ \<Rightarrow> None)"

text \<open>An externally tagged enum, \<open>"Name"\<close> or \<open>{"Name": {...}}\<close>.\<close>

fun variant :: "pyval \<Rightarrow> (string \<times> pydict) res" where
  "variant (PStr s) = Inr (s, [])"
| "variant (PDict [(name, detail)]) = Inr (name, items_of detail)"
| "variant v = Inl (PueueError (''pueue published an unreadable enum: '' @ py_repr v))"

fun result_of :: "pyval \<Rightarrow> (string option \<times> int option) res" where
  "result_of PNone = Inr (None, None)"
| "result_of (PStr s) = Inr (Some s, if s = ''Success'' then Some 0 else None)"
| "result_of (PDict [(name, payload)]) =
     Inr (Some name, if is_int payload then Some (int_of payload) else None)"
| "result_of v = Inl (PueueError (''pueue published an unreadable result: '' @ py_repr v))"

definition task_id_of :: "pydict \<Rightarrow> int res" where
  "task_id_of entry =
     (case dget entry ''id'' of
        None \<Rightarrow> Inl (PueueError ''pueue task has no integer id'')
      | Some v \<Rightarrow>
          (case py_int_of v of
             Inr i \<Rightarrow> Inr i
           | Inl e \<Rightarrow> if e = TypeErr \<or> is_valueerror e
                     then Inl (PueueError ''pueue task has no integer id'') else Inl e))"

definition int_tuple :: "pyval \<Rightarrow> int list res" where
  "int_tuple v = (if truthy v then bindE (py_iter v) (mapE py_int_of) else Inr [])"

definition from_entry :: "pyval \<Rightarrow> task res" where
  "from_entry v =
     (case v of
        PDict entry \<Rightarrow>
          bindE (variant (pget entry ''status'')) (\<lambda>(status, detail).
          bindE (result_of (pget detail ''result'')) (\<lambda>(result, exit).
          bindE (task_id_of entry) (\<lambda>i.
          bindE (int_tuple (pget entry ''dependencies'')) (\<lambda>deps.
            Inr \<lparr>tk_id = i,
                 tk_label = str_or_empty (pget entry ''label''),
                 tk_group = str_or_empty (pget entry ''group''),
                 tk_status = status,
                 tk_result = result,
                 tk_exit = exit,
                 tk_path = str_or_empty (pget entry ''path''),
                 tk_deps = deps,
                 tk_command = str_or_empty (pget entry ''command''),
                 tk_enqueued = stamp (pget detail ''enqueued_at''),
                 tk_started = stamp (pget detail ''start''),
                 tk_ended = stamp (pget detail ''end'')\<rparr>))))
      | _ \<Rightarrow> Inl AttributeErr)"

type_synonym tasks = "(int \<times> task) list"

definition index_tasks :: "task list \<Rightarrow> tasks" where
  "index_tasks ts = dict_of (map (\<lambda>t. (tk_id t, t)) ts)"

record qstatus =
  qs_tasks :: tasks
  qs_groups :: "(string \<times> pydict) list"

section \<open>Reads\<close>

definition entries_of :: "pyval \<Rightarrow> string \<Rightarrow> exn \<Rightarrow> pydict res" where
  "entries_of doc key e =
     (case doc of PDict d \<Rightarrow> (case pget d key of PDict es \<Rightarrow> Inr es | _ \<Rightarrow> Inl e) | _ \<Rightarrow> Inl e)"

definition no_tasks :: exn where
  "no_tasks = PueueError ''pueue status published no tasks''"

definition status_of :: "pyval \<Rightarrow> qstatus res" where
  "status_of doc =
     (if \<not> is_dict doc then Inl (PueueError ''pueue status did not print an object'')
      else
        bindE (entries_of doc ''tasks'' no_tasks) (\<lambda>entries.
        bindE (entries_of doc ''groups'' (PueueError ''pueue status published no groups'')) (\<lambda>raw.
        bindE (mapE (\<lambda>(k, v). from_entry v) entries) (\<lambda>parsed.
          Inr \<lparr>qs_tasks = index_tasks parsed,
               qs_groups = map (\<lambda>(k, v). (k, items_of v)) (filter (\<lambda>(k, v). is_dict v) raw)\<rparr>))))"

definition status_query :: "daemon \<Rightarrow> string list \<Rightarrow> ('z pq_scheme, qstatus) io" where
  "status_query d query =
     bindM (run_default d ([''status'', ''--json''] @ query)) (\<lambda>out.
       liftM (bindE (pueue_decode ''status'' out) status_of))"

definition full_status :: "daemon \<Rightarrow> ('z pq_scheme, qstatus) io" where
  "full_status d = status_query d []"

definition live :: "daemon \<Rightarrow> ('z pq_scheme, qstatus) io" where
  "live d = status_query d [''status!=success'', ''status!=failed'']"

text \<open>One selected record of a log document, \<open>None\<close> when the id is absent.\<close>

definition log_entry :: "pydict \<Rightarrow> int \<Rightarrow> task option res" where
  "log_entry doc i =
     (case dget doc (show_int i) of
        None \<Rightarrow> Inr None
      | Some row \<Rightarrow>
          (case (case row of PDict r \<Rightarrow> pget r ''task'' | _ \<Rightarrow> PNone) of
             PDict entry \<Rightarrow>
               bindE (from_entry (PDict entry)) (\<lambda>t.
                 if tk_id t \<noteq> i
                 then Inl (PueueError ''pueue log task identity does not match the requested id'')
                 else Inr (Some t))
           | _ \<Rightarrow> Inl (PueueError ''pueue log published no task record'')))"

definition log_ids :: "pydict \<Rightarrow> int list res" where
  "log_ids doc =
     (let bad = PueueError ''pueue log published an invalid task id''
      in bindE (mapE (\<lambda>k. case py_int k of None \<Rightarrow> Inl bad | Some i \<Rightarrow> Inr i) (dkeys doc)) (\<lambda>ids.
           let is = sort ids
           in if \<exists>i \<in> set is. i < 0 \<or> \<not> dhas doc (show_int i) then Inl bad else Inr is))"

definition log_tasks :: "pyval \<Rightarrow> int list option \<Rightarrow> tasks res" where
  "log_tasks v identifiers =
     (case v of
        PDict doc \<Rightarrow>
          bindE (case identifiers of None \<Rightarrow> log_ids doc | Some is \<Rightarrow> Inr is) (\<lambda>is.
          bindE (mapE (log_entry doc) is) (\<lambda>found.
            Inr (dict_of (map (\<lambda>t. (tk_id t, t)) (List.map_filter (\<lambda>x. x) found)))))
      | _ \<Rightarrow> Inl (PueueError ''pueue log did not print an object''))"

definition tasks_all :: "daemon \<Rightarrow> ('z pq_scheme, tasks) io" where
  "tasks_all d =
     bindM (run_default d [''log'', ''--all'', ''--json'', ''--lines'', ''0'']) (\<lambda>out.
       liftM (bindE (pueue_decode ''log'' out) (\<lambda>v. log_tasks v None)))"

definition selected_tasks :: "daemon \<Rightarrow> string list \<Rightarrow> ('z pq_scheme, tasks) io" where
  "selected_tasks d args =
     bindM (run_default d args) (\<lambda>out.
       liftM (bindE (pueue_decode ''status'' out) (\<lambda>doc.
         bindE (entries_of doc ''tasks'' no_tasks) (\<lambda>entries.
         bindE (mapE (\<lambda>(k, v). from_entry v) entries) (\<lambda>parsed. Inr (index_tasks parsed))))))"

definition running_tasks :: "daemon \<Rightarrow> string \<Rightarrow> ('z pq_scheme, tasks) io" where
  "running_tasks d grp =
     selected_tasks d [''status'', ''--json'', ''--group'', grp, ''status=running'']"

definition tasks_by_command :: "daemon \<Rightarrow> string \<Rightarrow> ('z pq_scheme, tasks) io" where
  "tasks_by_command d fragment =
     selected_tasks d [''status'', ''--json'', ''command%='' @ fragment]"

text \<open>The ids come as Python values; booleans and negative numbers are refused.\<close>

definition tasks_by_ids :: "daemon \<Rightarrow> pyval list \<Rightarrow> ('z pq_scheme, tasks) io" where
  "tasks_by_ids d requested =
     (if \<exists>v \<in> set requested. \<not> is_int v \<or> is_bool v \<or> int_of v < 0
      then raiseM (PueueError ''task ids must be nonnegative integers'')
      else
        (let is = sort (remdups (map int_of requested))
         in if is = [] then returnM []
            else bindM (run_default d ([''log'', ''--json'', ''--lines'', ''0''] @ map show_int is)) (\<lambda>out.
              liftM (bindE (pueue_decode ''log'' out) (\<lambda>v. log_tasks v (Some is))))))"

definition task_by_id :: "daemon \<Rightarrow> int \<Rightarrow> ('z pq_scheme, task option) io" where
  "task_by_id d i = bindM (tasks_by_ids d [PInt i]) (\<lambda>ts. returnM (dget ts i))"

definition group_document :: "daemon \<Rightarrow> ('z pq_scheme, pydict) io" where
  "group_document d =
     bindM (run_default d [''group'', ''--json'']) (\<lambda>out.
       liftM (bindE (pueue_decode ''group'' out) (\<lambda>v. case v of
         PDict doc \<Rightarrow> Inr doc
       | _ \<Rightarrow> Inl (PueueError ''pueue group did not print an object''))))"

definition groups :: "daemon \<Rightarrow> ('z pq_scheme, (string \<times> int) list) io" where
  "groups d =
     bindM (group_document d) (\<lambda>doc.
       liftM (mapE (\<lambda>(k, v). bindE (py_int_of (pget_or (items_of v) ''parallel_tasks'' (PInt 0)))
           (\<lambda>n. Inr (k, n))) (filter (\<lambda>(k, v). is_dict v) doc)))"

definition groups_status :: "daemon \<Rightarrow> ('z pq_scheme, (string \<times> string) list) io" where
  "groups_status d =
     bindM (group_document d) (\<lambda>doc.
       returnM (map (\<lambda>(k, v). (k, str_or_empty (pget (items_of v) ''status'')))
         (filter (\<lambda>(k, v). is_dict v) doc)))"

definition pueue_log :: "daemon \<Rightarrow> int \<Rightarrow> ('z pq_scheme, string) io" where
  "pueue_log d i =
     bindM (run_default d [''log'', show_int i, ''--json'', ''--full'']) (\<lambda>out.
       liftM (bindE (pueue_decode ''log'' out) (\<lambda>v. case v of
           PDict doc \<Rightarrow>
             (case pget doc (show_int i) of
                PDict entry \<Rightarrow> Inr (str_or_empty (pget entry ''output''))
              | _ \<Rightarrow> Inl (PueueError (''pueue log published no entry for task '' @ show_int i)))
         | _ \<Rightarrow> Inl (PueueError ''pueue log did not print an object''))))"

section \<open>Mutations\<close>

definition add_tail :: "string list \<Rightarrow> int list \<Rightarrow> bool \<Rightarrow> int \<Rightarrow> string list" where
  "add_tail command after stashed priority =
     concat (map (\<lambda>i. [''--after'', show_int i]) after)
     @ (if stashed then [''--stashed''] else [])
     @ (if priority \<noteq> 0 then [''--priority='' @ show_int priority] else [])
     @ [''--''] @ command"

definition add_arguments :: "string \<Rightarrow> string \<Rightarrow> string list \<Rightarrow> string \<Rightarrow> int list \<Rightarrow> bool \<Rightarrow> int \<Rightarrow> string list" where
  "add_arguments grp label command wd after stashed priority =
     [''add'', ''--escape'', ''--group'', grp, ''--label'', label,
      ''--working-directory'', wd, ''--print-task-id'']
     @ add_tail command after stashed priority"

definition printed_id :: "string \<Rightarrow> int res" where
  "printed_id printed =
     (let bad = PueueError (''pueue add did not print a task id: '' @ str_repr printed);
          ls = splitlines printed
      in if ls = [] then Inl bad
         else (case py_int (last ls) of None \<Rightarrow> Inl bad | Some i \<Rightarrow> Inr i))"

definition add_task ::
  "daemon \<Rightarrow> string \<Rightarrow> string \<Rightarrow> string list \<Rightarrow> string \<Rightarrow> int list \<Rightarrow> bool \<Rightarrow> int \<Rightarrow> ('z pq_scheme, int) io" where
  "add_task d grp label command wd after stashed priority =
     (if command = [] then raiseM (PueueError ''pueue add requires a command'')
      else
        bindM (catchM
            (bindM (run_default d (add_arguments grp label command wd after stashed priority))
              (\<lambda>out. returnM (strip out)))
            (\<lambda>e. if is_pueueerror e
              then bindM (groups d) (\<lambda>gs. if \<not> dhas gs grp then raiseM (PueueGroupError grp) else raiseM e)
              else raiseM e))
          (\<lambda>printed. liftM (printed_id printed)))"

definition call_unit :: "daemon \<Rightarrow> string list \<Rightarrow> ('z pq_scheme, unit) io" where
  "call_unit d args = bindM (run_default d args) (\<lambda>out. returnM ())"

definition enqueue_task :: "daemon \<Rightarrow> int \<Rightarrow> ('z pq_scheme, unit) io" where
  "enqueue_task d i = call_unit d [''enqueue'', show_int i]"

definition group_add :: "daemon \<Rightarrow> string \<Rightarrow> int \<Rightarrow> ('z pq_scheme, unit) io" where
  "group_add d name width =
     bindM (groups d) (\<lambda>gs.
       if dhas gs name then returnM ()
       else call_unit d [''group'', ''add'', ''--parallel'', show_int width, name])"

definition set_parallel :: "daemon \<Rightarrow> string \<Rightarrow> int \<Rightarrow> ('z pq_scheme, unit) io" where
  "set_parallel d grp width = call_unit d [''parallel'', ''--group'', grp, show_int width]"

definition wait_task :: "daemon \<Rightarrow> int \<Rightarrow> pyfloat \<Rightarrow> ('z pq_scheme, task) io" where
  "wait_task d i timeout =
     bindM (pueue_run d [''wait'', ''--quiet'', show_int i] timeout) (\<lambda>out.
     bindM (task_by_id d i) (\<lambda>final.
       case final of
         None \<Rightarrow> raiseM (PueueError (''pueue forgot task '' @ show_int i @ '' while waiting for it''))
       | Some t \<Rightarrow> returnM t))"

definition kill_task :: "daemon \<Rightarrow> int \<Rightarrow> ('z pq_scheme, unit) io" where
  "kill_task d i = call_unit d [''kill'', show_int i]"

definition restart_task :: "daemon \<Rightarrow> int \<Rightarrow> bool \<Rightarrow> ('z pq_scheme, unit) io" where
  "restart_task d i stashed =
     call_unit d ([''restart'', ''--in-place''] @ (if stashed then [''--stashed''] else []) @ [show_int i])"

definition remove_tasks :: "daemon \<Rightarrow> int list \<Rightarrow> ('z pq_scheme, unit) io" where
  "remove_tasks d is = (if is = [] then returnM () else call_unit d (''remove'' # map show_int is))"

definition pause_group :: "daemon \<Rightarrow> string \<Rightarrow> ('z pq_scheme, unit) io" where
  "pause_group d grp = call_unit d [''pause'', ''--wait'', ''--group'', grp]"

definition resume_group :: "daemon \<Rightarrow> string \<Rightarrow> ('z pq_scheme, unit) io" where
  "resume_group d grp = call_unit d [''start'', ''--group'', grp]"

section \<open>The calls an operation makes\<close>

text \<open>\<open>within b t\<close>: the timeout \<open>t\<close> respects the bound \<open>b\<close>.\<close>

fun within :: "pyfloat option \<Rightarrow> pyfloat \<Rightarrow> bool" where
  "within None t = True"
| "within (Some d) t = (\<not> float_lt d t)"

text \<open>The calls that only read the queue.\<close>

definition is_read :: "string list \<Rightarrow> bool" where
  "is_read a \<longleftrightarrow> hd a = ''status'' \<or> hd a = ''log'' \<or> a = [''group'', ''--json''] \<or> hd a = ''wait''"

text \<open>
  The contract every operation keeps: it only appends calls, every one satisfies \<open>P\<close> and runs
  within the deadline in force, and the deadline is left as it was. \<open>pueue_reader\<close> is the
  operation that changes nothing in the queue.
\<close>

locale pueue_op =
  fixes P :: "string list \<Rightarrow> bool" and m :: "('z pq_scheme, 'a) io"
  assumes op_calls: "\<exists>new. calls (snd (m w)) = calls w @ new
      \<and> (\<forall>c \<in> set new. P (snd c) \<and> within (deadline w) (fst c))"
    and op_deadline: "deadline (snd (m w)) = deadline w"
begin

lemma op_prefix: "prefix (calls w) (calls (snd (m w)))"
  using op_calls [of w] by auto

lemma op_new_calls:
  assumes "c \<in> set (drop (length (calls w)) (calls (snd (m w))))"
  shows "P (snd c)" and "within (deadline w) (fst c)"
  using op_calls [of w] assms by auto

end

locale pueue_reader = pueue_op is_read m for m :: "('z pq_scheme, 'a) io"
begin

lemma reader_issues_no_mutation:
  "c \<in> set (drop (length (calls w)) (calls (snd (m w)))) \<Longrightarrow> is_read (snd c)"
  by (rule op_new_calls(1))

end

lemma within_effective [simp]: "within b (effective_timeout b t)"
proof (cases b)
  case (Some d)
  have "\<not> float_lt d d" by (cases d) auto
  with Some show ?thesis by (simp add: effective_timeout_def)
qed simp

lemma pueue_op_run: "P args \<Longrightarrow> pueue_op P (pueue_run d args t)"
  by unfold_locales (auto simp: pueue_run_def Let_def split: proc_result.splits)

lemma pueue_op_return: "pueue_op P (returnM x)"
  by unfold_locales auto

lemma pueue_op_raise: "pueue_op P (raiseM e)"
  by unfold_locales auto

lemma pueue_op_lift: "pueue_op P (liftM r)"
  by unfold_locales auto

lemma pueue_op_seq:
  assumes m: "pueue_op P m"
    and w': "snd (m w) = w'"
    and n: "pueue_op P n"
  shows "(\<exists>new. calls (snd (n w')) = calls w @ new
      \<and> (\<forall>c \<in> set new. P (snd c) \<and> within (deadline w) (fst c))) \<and> deadline (snd (n w')) = deadline w"
proof -
  obtain as where as: "calls w' = calls w @ as"
      "\<forall>c \<in> set as. P (snd c) \<and> within (deadline w) (fst c)"
    using pueue_op.op_calls [OF m, of w] w' by auto
  have d: "deadline w' = deadline w"
    using pueue_op.op_deadline [OF m, of w] w' by simp
  obtain bs where bs: "calls (snd (n w')) = calls w' @ bs"
      "\<forall>c \<in> set bs. P (snd c) \<and> within (deadline w') (fst c)"
    using pueue_op.op_calls [OF n, of w'] by auto
  have "calls (snd (n w')) = calls w @ (as @ bs)"
    "\<forall>c \<in> set (as @ bs). P (snd c) \<and> within (deadline w) (fst c)"
    using as bs d by auto
  with pueue_op.op_deadline [OF n, of w'] d show ?thesis by auto
qed

lemma pueue_op_bind:
  assumes "pueue_op P m" and "\<And>x. pueue_op P (k x)"
  shows "pueue_op P (bindM m k)"
proof
  fix w
  obtain r w' where mw: "m w = (r, w')" by force
  have "bindM m k w = (case r of Inl e \<Rightarrow> raiseM e | Inr x \<Rightarrow> k x) w'"
    using mw by (auto simp: bindM_def split: sum.splits)
  moreover have "pueue_op P (case r of Inl e \<Rightarrow> raiseM e | Inr x \<Rightarrow> k x)"
    using assms(2) pueue_op_raise by (cases r) auto
  ultimately show "\<exists>new. calls (snd (bindM m k w)) = calls w @ new
      \<and> (\<forall>c \<in> set new. P (snd c) \<and> within (deadline w) (fst c))"
    and "deadline (snd (bindM m k w)) = deadline w"
    using pueue_op_seq [OF assms(1), of w w'] mw by auto
qed

lemma pueue_op_catch:
  assumes "pueue_op P m" and "\<And>e. pueue_op P (h e)"
  shows "pueue_op P (catchM m h)"
proof
  fix w
  obtain r w' where mw: "m w = (r, w')" by force
  have "catchM m h w = (case r of Inl e \<Rightarrow> h e | Inr x \<Rightarrow> returnM x) w'"
    using mw by (auto simp: catchM_def split: sum.splits)
  moreover have "pueue_op P (case r of Inl e \<Rightarrow> h e | Inr x \<Rightarrow> returnM x)"
    using assms(2) pueue_op_return by (cases r) auto
  ultimately show "\<exists>new. calls (snd (catchM m h w)) = calls w @ new
      \<and> (\<forall>c \<in> set new. P (snd c) \<and> within (deadline w) (fst c))"
    and "deadline (snd (catchM m h w)) = deadline w"
    using pueue_op_seq [OF assms(1), of w w'] mw by auto
qed

lemma pueue_op_if: "pueue_op P m \<Longrightarrow> pueue_op P n \<Longrightarrow> pueue_op P (if b then m else n)"
  by simp

lemma pueue_op_option:
  "pueue_op P m \<Longrightarrow> (\<And>x. pueue_op P (k x)) \<Longrightarrow> pueue_op P (case z of None \<Rightarrow> m | Some x \<Rightarrow> k x)"
  by (cases z) auto

lemma pueue_op_forM: "(\<And>x b. pueue_op P (f x b)) \<Longrightarrow> pueue_op P (forM f xs b)"
  by (induction xs arbitrary: b) (auto intro: pueue_op_return pueue_op_bind)

lemma pueue_op_weaken: "pueue_op P m \<Longrightarrow> (\<And>a. P a \<Longrightarrow> Q a) \<Longrightarrow> pueue_op Q m"
  unfolding pueue_op_def by blast

lemmas pueue_op_intros =
  pueue_op_return pueue_op_raise pueue_op_lift pueue_op_bind pueue_op_catch pueue_op_if
  pueue_op_option pueue_op_forM

lemma pueue_op_default: "P args \<Longrightarrow> pueue_op P (run_default d args)"
  unfolding run_default_def by (rule pueue_op_run)

lemma pueue_op_unit: "P args \<Longrightarrow> pueue_op P (call_unit d args)"
  unfolding call_unit_def by (intro pueue_op_intros pueue_op_default)

lemma reader_intro: "pueue_op is_read m \<Longrightarrow> pueue_reader m"
  by (simp add: pueue_reader_def)

interpretation status_query: pueue_reader "status_query d query" for d query
  unfolding status_query_def
  by (intro reader_intro pueue_op_intros pueue_op_default) (simp add: is_read_def)

interpretation tasks_all: pueue_reader "tasks_all d" for d
  unfolding tasks_all_def
  by (intro reader_intro pueue_op_intros pueue_op_default) (simp add: is_read_def)

lemma selected_tasks_reader: "is_read args \<Longrightarrow> pueue_reader (selected_tasks d args)"
  unfolding selected_tasks_def by (intro reader_intro pueue_op_intros pueue_op_default)

interpretation running_tasks: pueue_reader "running_tasks d g" for d g
  unfolding running_tasks_def by (rule selected_tasks_reader) (simp add: is_read_def)

interpretation tasks_by_command: pueue_reader "tasks_by_command d f" for d f
  unfolding tasks_by_command_def by (rule selected_tasks_reader) (simp add: is_read_def)

interpretation tasks_by_ids: pueue_reader "tasks_by_ids d vs" for d vs
  unfolding tasks_by_ids_def Let_def
  by (intro reader_intro pueue_op_intros pueue_op_default) (simp add: is_read_def)

interpretation task_by_id: pueue_reader "task_by_id d i" for d i
  unfolding task_by_id_def
  by (intro reader_intro pueue_op_intros tasks_by_ids.pueue_op_axioms)

lemma group_document_op: "pueue_op is_read (group_document d)"
  unfolding group_document_def by (intro pueue_op_intros pueue_op_default) (simp add: is_read_def)

interpretation groups: pueue_reader "groups d" for d
  unfolding groups_def by (intro reader_intro pueue_op_intros group_document_op)

interpretation groups_status: pueue_reader "groups_status d" for d
  unfolding groups_status_def by (intro reader_intro pueue_op_intros group_document_op)

interpretation pueue_log: pueue_reader "pueue_log d i" for d i
  unfolding pueue_log_def
  by (intro reader_intro pueue_op_intros pueue_op_default) (simp add: is_read_def)

interpretation wait_task: pueue_reader "wait_task d i t" for d i t
  unfolding wait_task_def
  by (intro reader_intro pueue_op_intros pueue_op_run task_by_id.pueue_op_axioms)
    (simp add: is_read_def)

text \<open>An addition asks for the groups at most; otherwise it makes the one call it is.\<close>

interpretation add_task: pueue_op
    "\<lambda>a. is_read a \<or> a = add_arguments g l c wd after st pr" "add_task d g l c wd after st pr"
  for d g l c wd after st pr
  unfolding add_task_def
  by (intro pueue_op_intros pueue_op_default pueue_op_weaken [OF groups.pueue_op_axioms]) auto

interpretation group_add: pueue_op
    "\<lambda>a. is_read a \<or> a = [''group'', ''add'', ''--parallel'', show_int n, g]" "group_add d g n"
  for d g n
  unfolding group_add_def
  by (intro pueue_op_intros pueue_op_unit pueue_op_weaken [OF groups.pueue_op_axioms]) auto

text \<open>Every call inside a deadline block respects its bound, whatever the block does.\<close>

lemma call_deadline_calls:
  assumes "pueue_op P m"
    and "c \<in> set (drop (length (calls w)) (calls (snd (call_deadline s m w))))"
  shows "P (snd c) \<and> \<not> float_lt s (fst c)"
  using pueue_op.op_new_calls [OF assms(1), of c "w\<lparr>deadline := Some s\<rparr>"] assms(2)
  by (auto simp: call_deadline_def split: prod.splits)

section \<open>Identity of what is read\<close>

lemma index_tasks_identity:
  "dget (index_tasks ts) i = Some t \<Longrightarrow> tk_id t = i \<and> t \<in> set ts"
  unfolding index_tasks_def by (drule set_dict_of) auto

lemma log_entry_identity: "log_entry doc i = Inr (Some t) \<Longrightarrow> tk_id t = i"
  by (auto simp: log_entry_def bindE_eq_Inr split: option.splits pyval.splits if_splits)

lemma log_tasks_identity:
  assumes "log_tasks v ids = Inr ts" and "dget ts i = Some t"
  shows "tk_id t = i" and "\<And>is. ids = Some is \<Longrightarrow> i \<in> set is"
proof -
  obtain doc js found where js: "(case ids of None \<Rightarrow> log_ids doc | Some is \<Rightarrow> Inr is) = Inr js"
    and found: "mapE (log_entry doc) js = Inr found"
    and ts: "ts = dict_of (map (\<lambda>t. (tk_id t, t)) (List.map_filter (\<lambda>x. x) found))"
    using assms(1) by (auto simp: log_tasks_def bindE_eq_Inr split: pyval.splits)
  from assms(2) have "(i, t) \<in> set (map (\<lambda>t. (tk_id t, t)) (List.map_filter (\<lambda>x. x) found))"
    unfolding ts by (rule set_dict_of)
  then have it: "tk_id t = i" "Some t \<in> set found"
    by (auto simp: List.map_filter_def)
  then show "tk_id t = i" by simp
  from found have all2: "list_all2 (\<lambda>j x. log_entry doc j = Inr x) js found"
    by (simp add: mapE_Inr_iff)
  from it(2) obtain n where n: "n < length found" "found ! n = Some t" by (auto simp: in_set_conv_nth)
  with all2 have "n < length js" "log_entry doc (js ! n) = Inr (Some t)"
    by (auto simp: list_all2_conv_all_nth)
  then have "js ! n = i" "js ! n \<in> set js" using it(1) log_entry_identity by auto
  with js show "\<And>is. ids = Some is \<Longrightarrow> i \<in> set is" by auto
qed

text \<open>
  Reading tasks by id returns only tasks that were asked for, each under its own id, and
  refuses negative ids: whatever the daemon prints, a record under another number is an error
  and never an answer.
\<close>

theorem tasks_by_ids_identity:
  assumes "tasks_by_ids d vs w = (Inr ts, w')" and "dget ts i = Some t"
  shows "tk_id t = i \<and> 0 \<le> i \<and> PInt i \<in> set vs"
proof -
  let ?is = "sort (remdups (map int_of vs))"
  from assms(1) have ok: "\<forall>v \<in> set vs. is_int v \<and> \<not> is_bool v \<and> 0 \<le> int_of v"
    by (auto simp: tasks_by_ids_def split: if_splits)
  from assms have "?is \<noteq> []" by (auto simp: tasks_by_ids_def Let_def split: if_splits)
  have nb: "(\<exists>v \<in> set vs. \<not> is_int v \<or> is_bool v \<or> int_of v < 0) = False" using ok by force
  from assms(1) \<open>?is \<noteq> []\<close> obtain v where "log_tasks v (Some ?is) = Inr ts"
    unfolding tasks_by_ids_def nb if_False Let_def
    by (auto simp only: if_False bindM_eq_Inr bindE_eq_Inr liftM_apply prod.inject)
  with assms(2) have "tk_id t = i" "i \<in> set ?is"
    using log_tasks_identity by blast+
  then obtain u where u: "u \<in> set vs" "int_of u = i" by auto
  with ok have "is_int u \<and> \<not> is_bool u" "0 \<le> i" by auto
  then have "u = PInt i" using u(2) by (cases u) auto
  with u \<open>tk_id t = i\<close> \<open>0 \<le> i\<close> show ?thesis by simp
qed

definition sample_log_daemon :: daemon where
  "sample_log_daemon cs =
     Exited 0 ''{\"7\": {\"task\": {\"id\": 7, \"status\": \"Queued\", \"label\": \"p:check\"}}}'' []"

theorem tasks_by_ids_identity_witness:
  "tasks_by_ids sample_log_daemon [PInt 7] \<lparr>calls = [], deadline = None\<rparr>
     = (Inr [(7, \<lparr>tk_id = 7, tk_label = ''p:check'', tk_group = [], tk_status = ''Queued'',
          tk_result = None, tk_exit = None, tk_path = [], tk_deps = [], tk_command = [],
          tk_enqueued = None, tk_started = None, tk_ended = None\<rparr>)],
        \<lparr>calls = [(FDec 300 0, [''log'', ''--json'', ''--lines'', ''0'', ''7''])], deadline = None\<rparr>)
   \<and> PInt 7 \<in> set [PInt 7]"
proof -
  let ?t = "\<lparr>tk_id = 7, tk_label = ''p:check'', tk_group = [], tk_status = ''Queued'',
          tk_result = None, tk_exit = None, tk_path = [], tk_deps = [], tk_command = [],
          tk_enqueued = None, tk_started = None, tk_ended = None\<rparr>"
  have run: "tasks_by_ids sample_log_daemon [PInt 7] \<lparr>calls = [], deadline = None\<rparr>
     = (Inr [(7, ?t)],
        \<lparr>calls = [(FDec 300 0, [''log'', ''--json'', ''--lines'', ''0'', ''7''])], deadline = None\<rparr>)"
    by code_simp
  with tasks_by_ids_identity [OF run, of 7 ?t] show ?thesis by simp
qed

section \<open>Additions\<close>

lemma add_tail_Cons: "add_tail c (a # as) s p = ''--after'' # show_int a # add_tail c as s p"
  by (simp add: add_tail_def)

lemma add_tail_Nil_after: "add_tail c [] s p \<noteq> ''--after'' # x"
  by (simp add: add_tail_def)

lemma add_tail_Nil_inject:
  "add_tail c [] s p = add_tail c' [] s' p' \<Longrightarrow> s = s' \<and> p = p' \<and> c = c'"
  by (auto simp: add_tail_def split: if_splits)

lemma add_tail_inject:
  "add_tail c as s p = add_tail c' as' s' p' \<Longrightarrow> as = as' \<and> s = s' \<and> p = p' \<and> c = c'"
proof (induction as arbitrary: as')
  case Nil
  then show ?case
    by (cases as') (auto simp: add_tail_Cons add_tail_Nil_after dest: add_tail_Nil_inject)
next
  case (Cons a as)
  then show ?case
    by (cases as') (auto simp: add_tail_Cons add_tail_Nil_after add_tail_Nil_after [symmetric])
qed

text \<open>
  Two different requests are never the same command line: the group, label, directory,
  dependencies, hold, priority and command of a queued job can all be read back from the
  arguments \<open>pueue add\<close> received, so no part of a command is taken for an option.
\<close>

theorem add_arguments_inject:
  "add_arguments g l c wd as s p = add_arguments g' l' c' wd' as' s' p'
     \<longleftrightarrow> g = g' \<and> l = l' \<and> c = c' \<and> wd = wd' \<and> as = as' \<and> s = s' \<and> p = p'"
  using add_tail_inject [of c as s p c' as' s' p'] by (auto simp: add_arguments_def)

lemma run_default_error: "run_default d a w = (Inl e, w') \<Longrightarrow> e \<noteq> PueueGroupError g"
  by (auto simp: run_default_def pueue_run_def Let_def split: proc_result.splits if_splits)

lemma pueue_decode_error: "pueue_decode what s = Inl e \<Longrightarrow> e \<noteq> PueueGroupError g"
  by (induction what s rule: pueue_decode.induct) (auto split: if_splits option.splits)

lemma py_int_of_error: "py_int_of v = Inl e \<Longrightarrow> e \<noteq> PueueGroupError g"
  by (cases v rule: py_int_of.cases) (auto split: option.splits)

lemma mapE_Inl: "mapE f xs = Inl e \<Longrightarrow> \<exists>x \<in> set xs. f x = Inl e"
  by (induction xs) (auto split: sum.splits)

lemma bindM_eq_Inl:
  "bindM m k w = (Inl e, w2) \<longleftrightarrow>
     m w = (Inl e, w2) \<or> (\<exists>x w1. m w = (Inr x, w1) \<and> k x w1 = (Inl e, w2))"
  by (auto simp: bindM_def split: prod.splits sum.splits)

lemma group_document_error: "group_document d w = (Inl e, w') \<Longrightarrow> e \<noteq> PueueGroupError g"
  apply (auto simp: group_document_def bindM_eq_Inl bindE_eq_Inl
      dest: run_default_error pueue_decode_error)
  subgoal for x v by (cases v) auto
  done

lemma groups_error: "groups d w = (Inl e, w') \<Longrightarrow> e \<noteq> PueueGroupError g"
  by (auto simp: groups_def bindM_eq_Inl bindE_eq_Inl
      dest!: mapE_Inl dest: group_document_error py_int_of_error)

lemma printed_id_error: "printed_id s = Inl e \<Longrightarrow> e \<noteq> PueueGroupError g"
  by (auto simp: printed_id_def Let_def split: if_splits option.splits)

text \<open>
  An addition reports a missing group only when the queue itself, asked after the failure,
  does not list that group; any other failure of the call is reported as it came.
\<close>

theorem add_task_missing_group:
  assumes "add_task d g l c wd as s p w = (Inl (PueueGroupError g'), w')"
  shows "g' = g \<and> (\<exists>e w1 gs. run_default d (add_arguments g l c wd as s p) w = (Inl e, w1)
     \<and> is_pueueerror e \<and> groups d w1 = (Inr gs, w') \<and> \<not> dhas gs g)"
proof -
  let ?call = "bindM (run_default d (add_arguments g l c wd as s p)) (\<lambda>out. returnM (strip out))"
  let ?h = "\<lambda>e. if is_pueueerror e
      then bindM (groups d) (\<lambda>gs. if \<not> dhas gs g then raiseM (PueueGroupError g) else raiseM e)
      else raiseM e"
  have "c \<noteq> []" using assms by (auto simp: add_task_def)
  with assms have eq: "bindM (catchM ?call ?h) (\<lambda>out. liftM (printed_id out)) w
      = (Inl (PueueGroupError g'), w')"
    by (simp add: add_task_def)
  obtain r w1 where run: "run_default d (add_arguments g l c wd as s p) w = (r, w1)" by force
  show ?thesis
  proof (cases r)
    case (Inr out)
    with run eq printed_id_error [of "strip out"] show ?thesis
      by (auto simp: bindM_def catchM_def)
  next
    case (Inl e)
    with run have ne: "e \<noteq> PueueGroupError x" for x
      using run_default_error [of d _ w e w1] by auto
    from Inl run eq have h: "?h e w1 = (Inl (PueueGroupError g'), w')"
      by (auto simp: bindM_def catchM_def split: prod.splits sum.splits)
    then have pe: "is_pueueerror e" using ne by (auto split: if_splits)
    obtain q w2 where gs: "groups d w1 = (q, w2)" by force
    with h pe ne groups_error [of d w1 _ w2] show ?thesis
      using Inl run by (cases q) (auto simp: bindM_def split: if_splits)
  qed
qed

definition sample_empty_daemon :: daemon where
  "sample_empty_daemon cs =
     (if hd (snd (last cs)) = ''group'' then Exited 0 ''{}'' [] else Exited 1 [] ''no group'')"

theorem add_task_missing_group_witness:
  "\<exists>w1. run_default sample_empty_daemon (add_arguments ''g'' ''p:x'' [''x''] ''/'' [] False 0)
         \<lparr>calls = [], deadline = None\<rparr> = (Inl (PueueError ''no group''), w1)
     \<and> (\<exists>w'. groups sample_empty_daemon w1 = (Inr [], w'))"
proof -
  let ?w = "\<lparr>calls = [], deadline = None\<rparr>"
  have "fst (add_task sample_empty_daemon ''g'' ''p:x'' [''x''] ''/'' [] False 0 ?w) = Inl (PueueGroupError ''g'')"
    by code_simp
  then obtain w' where "add_task sample_empty_daemon ''g'' ''p:x'' [''x''] ''/'' [] False 0 ?w
      = (Inl (PueueGroupError ''g''), w')" by (metis prod.collapse)
  from add_task_missing_group [OF this] obtain e w1 gs where
      run: "run_default sample_empty_daemon (add_arguments ''g'' ''p:x'' [''x''] ''/'' [] False 0) ?w = (Inl e, w1)"
    and gs: "groups sample_empty_daemon w1 = (Inr gs, w')" by auto
  have "fst (run_default sample_empty_daemon (add_arguments ''g'' ''p:x'' [''x''] ''/'' [] False 0) ?w)
      = Inl (PueueError ''no group'')" by code_simp
  with run have e: "e = PueueError ''no group''" by simp
  have w1: "w1 = snd (run_default sample_empty_daemon (add_arguments ''g'' ''p:x'' [''x''] ''/'' [] False 0) ?w)"
    using run by simp
  have "fst (groups sample_empty_daemon w1) = Inr []" unfolding w1 by code_simp
  with gs run e show ?thesis by auto
qed

end
