(* ===== verification/Sinnix_Secrets.thy ===== *)
theory Sinnix_Secrets
  imports Py_World
begin

text \<open>
  \<open>sinnix_lib/secrets.py\<close>: which environment names hold secrets, and masking their values in
  bytes without moving any offset.
\<close>

section \<open>Names\<close>

definition SECRET_WORDS :: "string list" where
  "SECRET_WORDS =
     [''KEY'', ''KEYS'', ''TOKEN'', ''SECRET'', ''PASSWORD'', ''PASSWD'', ''PASSPHRASE'', ''PASS'',
      ''PSK'', ''SEED'', ''APIKEY'', ''AUTH'', ''CREDENTIAL'', ''PRIVATE'', ''COOKIE'', ''CERT'',
      ''CERTIFICATE'', ''BEARER'', ''JWT'', ''DB'', ''DATABASE'']"

definition MIN_MASKED_LENGTH :: nat where
  "MIN_MASKED_LENGTH = 8"

text \<open>\<open>GIT_CONFIG_KEY_[0-9]+\Z\<close>.\<close>

definition git_config_key :: "string \<Rightarrow> bool" where
  "git_config_key n \<longleftrightarrow> prefix ''GIT_CONFIG_KEY_'' n \<and> length n > 15 \<and> list_all is_digit (drop 15 n)"

text \<open>A secret word stands between underscores or at the ends of the name; the end of the name
  may be followed by one newline, as \<open>$\<close> allows.\<close>

definition env_name_is_secret :: "string \<Rightarrow> bool" where
  "env_name_is_secret name \<longleftrightarrow>
     name \<noteq> [] \<and> \<not> git_config_key name \<and>
     (let ts = split_on CHR ''_'' (str_upper name)
      in (\<exists>t \<in> set ts. t \<in> set SECRET_WORDS)
         \<or> last ts \<in> set (map (\<lambda>w. w @ [newline]) SECRET_WORDS))"

section \<open>Values\<close>

text \<open>The order among values of one length is the set's own in the source; here it is the
  string order.\<close>

definition secret_values :: "string dict \<Rightarrow> string list" where
  "secret_values env =
     rev (sort_key length (rev (sorted_set (map snd (filter
       (\<lambda>(name, v). env_name_is_secret name \<and> MIN_MASKED_LENGTH \<le> length v \<and> \<not> prefix ''/'' v) env)))))"

definition mask_text :: "nat \<Rightarrow> string" where
  "mask_text n =
     (if n < 10 then replicate n CHR ''*''
      else ''[REDACTED'' @ replicate (n - 10) CHR ''*'' @ '']'')"

text \<open>\<open>data.replace(v, m)\<close> for a non-empty \<open>v\<close>: from the left, without overlaps.\<close>

function bytes_replace :: "string \<Rightarrow> string \<Rightarrow> string \<Rightarrow> string" where
  "bytes_replace v m [] = []"
| "bytes_replace v m (c # r) =
     (if v \<noteq> [] \<and> prefix v (c # r) then m @ bytes_replace v m (drop (length v) (c # r))
      else c # bytes_replace v m r)"
  by pat_completeness auto
termination
  by (relation "measure (\<lambda>(v, m, s). length s)") (auto simp: neq_Nil_conv)

definition mask_one :: "string \<Rightarrow> string \<Rightarrow> string" where
  "mask_one v data = (if v \<noteq> [] \<and> str_in v data then bytes_replace v (mask_text (length v)) data else data)"

definition mask_secret_values :: "string \<Rightarrow> string list \<Rightarrow> string" where
  "mask_secret_values data vs = foldl (\<lambda>d v. mask_one v d) data vs"

text \<open>\<open>read start length\<close> returns file bytes; all quantities are at least zero.\<close>

definition masked_window :: "(nat \<Rightarrow> nat \<Rightarrow> string) \<Rightarrow> nat \<Rightarrow> nat \<Rightarrow> string list \<Rightarrow> string" where
  "masked_window read offset limit vs =
     (if vs = [] then read offset limit
      else
        (let margin = Max (set (map length vs)) - 1;
             start = offset - margin;
             window = read start ((offset - start) + limit + margin);
             masked = mask_secret_values window vs;
             head = offset - start
         in take (min limit (length window - head)) (drop head masked)))"

definition file_read :: "string \<Rightarrow> nat \<Rightarrow> nat \<Rightarrow> string" where
  "file_read b start n = take n (drop start b)"

section \<open>Masking keeps every length\<close>

lemma length_mask_text [simp]: "length (mask_text n) = n"
  by (auto simp: mask_text_def)

lemma length_bytes_replace: "length m = length v \<Longrightarrow> length (bytes_replace v m s) = length s"
proof (induction v m s rule: bytes_replace.induct)
  case (2 v m c r)
  show ?case
  proof (cases "v \<noteq> [] \<and> prefix v (c # r)")
    case True
    then have "length v \<le> Suc (length r)" using prefix_length_le [of v "c # r"] by simp
    with 2 True show ?thesis by simp
  next
    case False
    with 2 show ?thesis by auto
  qed
qed simp

lemma length_mask_one [simp]: "length (mask_one v d) = length d"
  by (simp add: mask_one_def length_bytes_replace)

lemma length_mask_secret_values [simp]: "length (mask_secret_values d vs) = length d"
  unfolding mask_secret_values_def by (induction vs arbitrary: d) auto

section \<open>What masking replaces\<close>

text \<open>Replacement cuts the data into the pieces between occurrences, none of which holds the
  value, and joins them with the stand-in.\<close>

lemma bytes_replace_pieces:
  assumes v: "v \<noteq> []"
  shows "\<exists>ps. ps \<noteq> [] \<and> s = str_join v ps \<and> (\<forall>m. bytes_replace v m s = str_join m ps)
    \<and> (\<forall>p \<in> set ps. \<not> str_in v p)"
proof (induction s rule: length_induct)
  case (1 s)
  show ?case
  proof (cases s)
    case Nil
    with v show ?thesis by (intro exI [of _ "[[]]"]) (simp add: str_in_def)
  next
    case (Cons c r)
    show ?thesis
    proof (cases "prefix v s")
      case True
      then obtain z where z: "s = v @ z" by (auto simp: prefix_def)
      with v have "length z < length s" by simp
      with 1 obtain ps where ps: "ps \<noteq> []" "z = str_join v ps"
          "\<forall>m. bytes_replace v m z = str_join m ps" "\<forall>p \<in> set ps. \<not> str_in v p"
        by blast
      have "bytes_replace v m s = m @ bytes_replace v m z" for m
        using v True Cons z by (metis append_eq_conv_conj bytes_replace.simps(2))
      moreover have "str_join w ([] # ps) = w @ str_join w ps" for w
        using ps(1) by (cases ps) auto
      ultimately show ?thesis using ps v z
        by (intro exI [of _ "[] # ps"]) (auto simp: str_in_def)
    next
      case False
      with 1 Cons obtain ps where ps: "ps \<noteq> []" "r = str_join v ps"
          "\<forall>m. bytes_replace v m r = str_join m ps" "\<forall>p \<in> set ps. \<not> str_in v p"
        by (metis length_Cons lessI)
      then obtain p qs where p: "ps = p # qs" by (cases ps) auto
      have join: "str_join w ((c # p) # qs) = c # str_join w ps" for w
        using p by (cases qs) auto
      have "\<exists>t. str_join v ((c # p) # qs) = (c # p) @ t" by (cases qs) auto
      with join ps(2) Cons have "prefix (c # p) s" by (auto simp: prefix_def)
      with False have "\<not> prefix v (c # p)" by (meson prefix_order.trans)
      with ps(4) p have "\<not> str_in v (c # p)" by (simp add: str_in_def sublist_Cons_right)
      with join ps p Cons False v show ?thesis
        by (intro exI [of _ "(c # p) # qs"]) auto
    qed
  qed
qed

text \<open>
  Masking one secret: the data is cut at occurrences of the value, the pieces between them
  do not contain it, and every occurrence is replaced by a stand-in of exactly its length, so
  that no byte offset moves.
\<close>

theorem mask_one_pieces:
  assumes "v \<noteq> []"
  shows "\<exists>ps. ps \<noteq> [] \<and> d = str_join v ps \<and> mask_one v d = str_join (mask_text (length v)) ps
    \<and> (\<forall>p \<in> set ps. \<not> str_in v p) \<and> length (mask_one v d) = length d"
proof (cases "str_in v d")
  case True
  obtain ps where ps: "ps \<noteq> []" "d = str_join v ps" "\<forall>p \<in> set ps. \<not> str_in v p"
    and all: "\<forall>m. bytes_replace v m d = str_join m ps"
    using bytes_replace_pieces [OF assms, of d] by blast
  from all True assms have "mask_one v d = str_join (mask_text (length v)) ps"
    by (simp add: mask_one_def)
  with ps length_mask_one [of v d] show ?thesis by (intro exI [of _ ps]) (simp del: length_mask_one)
next
  case False
  with assms show ?thesis by (intro exI [of _ "[d]"]) (simp add: mask_one_def)
qed

theorem mask_one_pieces_witness:
  "\<exists>ps. ps \<noteq> [] \<and> ''a hunter22 b'' = str_join ''hunter22'' ps
     \<and> mask_one ''hunter22'' ''a hunter22 b'' = str_join (mask_text (length ''hunter22'')) ps
     \<and> (\<forall>p \<in> set ps. \<not> str_in ''hunter22'' p)
     \<and> length (mask_one ''hunter22'' ''a hunter22 b'') = length ''a hunter22 b''"
  by (rule mask_one_pieces) simp

section \<open>Windows\<close>



text \<open>
  A page is never longer than asked and never longer than what is left of the file.
\<close>

lemma masked_window_length:
  "length (masked_window (file_read b) offset limit vs) = min limit (length b - offset)"
proof (cases "vs = []")
  case True
  then show ?thesis by (simp add: masked_window_def file_read_def min.commute)
next
  case False
  have window: "min (min (B - (F - M)) (F - (F - M) + L + M) - (F - (F - M)))
      (min L (min (B - (F - M)) (F - (F - M) + L + M) - (F - (F - M)))) = min L (B - F)"
    for B F L M :: nat
    by (cases "M \<le> F") (auto simp: min_def)
  from False show ?thesis
    unfolding masked_window_def Let_def file_read_def
    by (simp only: if_False length_take length_drop length_mask_secret_values window)
qed

end
