(* ===== verification/Agentctl_LaunchInput.thy ===== *)
theory Agentctl_LaunchInput
  imports Sinnix_Secrets
begin

text \<open>
  \<open>agentctl/launch_input.py\<close> and \<open>agentctl/limits.py\<close>: the private document a queued task is
  named by. \<open>write_input\<close> publishes it without the secret values of its environment, which go to
  a file in the runtime directory; \<open>read_input\<close> refuses every document that is not the contract.
  The process environment is a dictionary, the user id a number.
\<close>

section \<open>Limits\<close>

definition DEFAULT_TIMEOUT_SECONDS :: int where
  "DEFAULT_TIMEOUT_SECONDS = 3600"

definition MAX_AGENT_TIMEOUT_SECONDS :: int where
  "MAX_AGENT_TIMEOUT_SECONDS = 7 * 24 * 3600"

definition MAX_DECLARED_OPERATION_TIMEOUT_SECONDS :: int where
  "MAX_DECLARED_OPERATION_TIMEOUT_SECONDS = 28800"

definition RESULT_KINDS :: "string list" where
  "RESULT_KINDS = [''exit'', ''json'', ''pytest'', ''last-message'']"

definition maximum_timeout_seconds :: "string \<Rightarrow> int" where
  "maximum_timeout_seconds kind =
     (if kind = ''declared-operation'' then MAX_DECLARED_OPERATION_TIMEOUT_SECONDS
      else MAX_AGENT_TIMEOUT_SECONDS)"

definition valid_timeout_seconds :: "pyval \<Rightarrow> string \<Rightarrow> bool" where
  "valid_timeout_seconds v kind \<longleftrightarrow>
     is_int v \<and> \<not> is_bool v \<and>
     (if kind = ''declared-operation'' then 0 else 1) \<le> int_of v \<and>
     int_of v \<le> maximum_timeout_seconds kind"

section \<open>Names and unit settings\<close>

definition pool_name_ok :: "string \<Rightarrow> bool" where
  "pool_name_ok s \<longleftrightarrow>
     (case s of [] \<Rightarrow> False
      | c # r \<Rightarrow> is_lower c \<and> length r \<le> 63 \<and>
          list_all (\<lambda>d. is_lower d \<or> is_digit d \<or> d = CHR ''_'' \<or> d = CHR ''-'') r)"

definition UNIT_PROPERTIES :: "string list" where
  "UNIT_PROPERTIES =
     [''MemoryMax'', ''MemoryHigh'', ''MemorySwapMax'', ''MemoryZSwapMax'', ''TasksMax'',
      ''CPUWeight'', ''IOWeight'']"

definition UNIT_PATH_PROPERTIES :: "string list" where
  "UNIT_PATH_PROPERTIES = [''InaccessiblePaths'', ''ReadOnlyPaths'', ''ReadWritePaths'']"

definition UNIT_BANDWIDTH_PROPERTIES :: "string list" where
  "UNIT_BANDWIDTH_PROPERTIES = [''IOReadBandwidthMax'', ''IOWriteBandwidthMax'']"

definition is_unit_letter :: "char \<Rightarrow> bool" where
  "is_unit_letter c \<longleftrightarrow> c \<in> set ''KMGTPE''"

text \<open>\<open>[0-9]+[KMGTPE]?\<close>, and the same with a first digit from 1 to 9.\<close>

definition size_ok :: "string \<Rightarrow> bool" where
  "size_ok s \<longleftrightarrow>
     (let r = dropWhile is_digit s
      in r \<noteq> s \<and> (r = [] \<or> (length r = 1 \<and> is_unit_letter (hd r))))"

definition positive_size_ok :: "string \<Rightarrow> bool" where
  "positive_size_ok s \<longleftrightarrow> size_ok s \<and> hd s \<noteq> CHR ''0''"

definition unit_value_ok :: "string \<Rightarrow> bool" where
  "unit_value_ok s \<longleftrightarrow> s = ''infinity'' \<or> size_ok s"

text \<open>\<open>/[^\x00-\x20:]+\<close>.\<close>

definition plain_path_ok :: "string \<Rightarrow> bool" where
  "plain_path_ok s \<longleftrightarrow>
     (case s of [] \<Rightarrow> False
      | c # r \<Rightarrow> c = CHR ''/'' \<and> r \<noteq> [] \<and> list_all (\<lambda>d. 32 < code d \<and> d \<noteq> CHR '':'') r)"

definition unit_path_ok :: "string \<Rightarrow> bool" where
  "unit_path_ok s \<longleftrightarrow> plain_path_ok (case s of CHR ''-'' # r \<Rightarrow> r | _ \<Rightarrow> s)"

definition unit_bandwidth_ok :: "string \<Rightarrow> bool" where
  "unit_bandwidth_ok s \<longleftrightarrow>
     (case str_partition CHR '' '' s of (p, sep, r) \<Rightarrow> sep \<and> plain_path_ok p \<and> positive_size_ok r)"

definition supported_unit_property :: "pyval \<Rightarrow> bool" where
  "supported_unit_property v =
     (case v of
        PStr s \<Rightarrow>
          (case str_partition CHR ''='' s of (name, sep, sz) \<Rightarrow>
             if \<not> sep then False
             else if name \<in> set UNIT_PROPERTIES then unit_value_ok sz
             else if name \<in> set UNIT_PATH_PROPERTIES then unit_path_ok sz
             else if name \<in> set UNIT_BANDWIDTH_PROPERTIES then unit_bandwidth_ok sz
             else False)
      | _ \<Rightarrow> False)"

section \<open>Locations\<close>

type_synonym environ = "string dict"

definition env_or :: "environ \<Rightarrow> string \<Rightarrow> string \<Rightarrow> string" where
  "env_or env k dflt = (case dget env k of None \<Rightarrow> dflt | Some v \<Rightarrow> if v = [] then dflt else v)"

definition scratch_root :: "environ \<Rightarrow> string \<Rightarrow> ppath option" where
  "scratch_root env kind =
     (if kind = ''tmpfs'' then Some (mkpath (env_or env ''AGENTCTL_TMPFS_SCRATCH_ROOT'' ''/dev/shm/agentctl''))
      else if kind = ''nvme''
        then Some (mkpath (env_or env ''AGENTCTL_NVME_SCRATCH_ROOT'' ''/realm/tmp/work/agentctl''))
      else None)"

definition scratch_path :: "environ \<Rightarrow> string \<Rightarrow> string \<Rightarrow> ppath option" where
  "scratch_path env kind job_id = map_option (\<lambda>root. path_join root job_id) (scratch_root env kind)"

record ctx =
  c_env :: environ
  c_uid :: nat

definition secret_environment_dir :: "ctx \<Rightarrow> fs \<Rightarrow> ppath" where
  "secret_environment_dir c f =
     (let configured = env_or (c_env c) ''AGENTCTL_SECRET_ENV_DIR'' [];
          runtime = env_or (c_env c) ''XDG_RUNTIME_DIR'' []
      in if configured \<noteq> [] then mkpath configured
         else if runtime \<noteq> [] \<and> fs_is_dir f (mkpath runtime)
           then path_join (path_join (mkpath runtime) ''agentctl'') ''secret-env''
         else path_join (mkpath (''/dev/shm/agentctl-'' @ show_nat (c_uid c))) ''secret-env'')"

definition secret_environment_path :: "ctx \<Rightarrow> fs \<Rightarrow> ppath \<Rightarrow> pydict \<Rightarrow> ppath" where
  "secret_environment_path c f path value =
     (case pget value ''secret_environment_path'' of
        PStr s \<Rightarrow> if s \<noteq> [] then mkpath s
                  else path_join (secret_environment_dir c f) (path_stem path @ ''.json'')
      | _ \<Rightarrow> path_join (secret_environment_dir c f) (path_stem path @ ''.json''))"

text \<open>The values a launch input names and the names no longer held. A name that is not a string
  is never found.\<close>

definition secret_environment ::
  "ctx \<Rightarrow> fs \<Rightarrow> ppath \<Rightarrow> pydict \<Rightarrow> (string dict \<times> pyval list) res" where
  "secret_environment c f path value =
     (let names = pget value ''secret_environment''
      in if \<not> truthy names then Inr ([], [])
         else
           bindE (case bindE (fs_read_text f (secret_environment_path c f path value)) loads_text of
               Inr v \<Rightarrow> Inr v
             | Inl e \<Rightarrow> if is_oserror e \<or> e = JSONDecode then Inr (PDict []) else Inl e) (\<lambda>stored.
           bindE (py_iter names) (\<lambda>ns.
             (let held = items_of stored;
                  values = dict_of (List.map_filter (\<lambda>n. case n of
                      PStr k \<Rightarrow> (case pget held k of PStr v \<Rightarrow> Some (k, v) | _ \<Rightarrow> None)
                    | _ \<Rightarrow> None) ns)
              in Inr (values, filter (\<lambda>n. case n of PStr k \<Rightarrow> \<not> dhas values k | _ \<Rightarrow> True) ns)))))"

section \<open>Writing\<close>

definition secret_items :: "pydict \<Rightarrow> pydict" where
  "secret_items env = filter (\<lambda>(k, v). env_name_is_secret k \<and> truthy v) env"

definition str_elems :: "pyval list \<Rightarrow> string list res" where
  "str_elems vs = mapE (\<lambda>v. case v of PStr s \<Rightarrow> Inr s | _ \<Rightarrow> Inl TypeErr) vs"

text \<open>The document without its secrets, naming them and the place of their values.\<close>

definition stripped_document :: "pydict \<Rightarrow> pydict \<Rightarrow> pydict \<Rightarrow> string list \<Rightarrow> ppath \<Rightarrow> pydict" where
  "stripped_document document env secrets names sidecar =
     dmerge document
       [(''environment'', PDict (filter (\<lambda>(k, v). \<not> dhas secrets k) env)),
        (''secret_environment'', PList (map PStr (sorted_set (names @ dkeys secrets)))),
        (''secret_environment_path'', PStr (path_str sidecar))]"

definition split_secrets :: "ctx \<Rightarrow> ppath \<Rightarrow> pydict \<Rightarrow> (fs, pydict) io" where
  "split_secrets c path document =
     (case pget document ''environment'' of
        PDict env \<Rightarrow>
          (let own = secret_items env
           in if own = [] then returnM document
              else
                bindM getM (\<lambda>f0.
                (let sidecar = secret_environment_path c f0 path document
                 in bindM (fsM (mkdir_p 448 (path_parent sidecar))) (\<lambda>_.
                    bindM (fsM (fs_chmod 448 (path_parent sidecar))) (\<lambda>_.
                    bindM getM (\<lambda>f1.
                    bindM (liftM (case bindE (fs_read_text f1 sidecar) loads_text of
                          Inr v \<Rightarrow> Inr v
                        | Inl e \<Rightarrow> if is_oserror e \<or> e = JSONDecode then Inr (PDict []) else Inl e)) (\<lambda>held.
                    (let secrets = (if is_dict held then dmerge (items_of held) own else own)
                     in bindM (fsM (fs_publish sidecar (json_dumps_sorted (PDict secrets)) 384)) (\<lambda>_.
                        bindM (liftM (bindE (case dget document ''secret_environment'' of
                              None \<Rightarrow> Inr [] | Some v \<Rightarrow> py_iter v) str_elems)) (\<lambda>names.
                          returnM (stripped_document document env secrets names sidecar)))))))))))
      | _ \<Rightarrow> returnM document)"

definition write_input :: "ctx \<Rightarrow> ppath \<Rightarrow> pydict \<Rightarrow> (fs, unit) io" where
  "write_input c path document =
     bindM (fsM (mkdir_p 448 (path_parent path))) (\<lambda>_.
     bindM (fsM (fs_chmod 448 (path_parent path))) (\<lambda>_.
     bindM (split_secrets c path document) (\<lambda>doc.
       fsM (fs_publish path (json_dumps (PDict doc)) 384))))"

section \<open>Reading\<close>

definition REQUIRED_FIELDS :: "string list" where
  "REQUIRED_FIELDS =
     [''job_id'', ''project_id'', ''operation'', ''argv'', ''environment'', ''working_directory'',
      ''timeout_seconds'', ''result_kind'', ''log_path'']"

definition refuse :: "bool \<Rightarrow> string \<Rightarrow> unit res" where
  "refuse bad m = guardE (\<not> bad) (QueueInputErr m)"

definition timeout_bad :: "pydict \<Rightarrow> bool" where
  "timeout_bad value \<longleftrightarrow>
     (let t = pget value ''timeout_seconds''
      in \<not> is_int t \<or> is_bool t \<or> int_of t < 0
         \<or> (int_of t = 0 \<and> pget value ''kind'' \<noteq> PStr ''declared-operation''))"

definition percentage_bad :: "pyval \<Rightarrow> bool" where
  "percentage_bad v \<longleftrightarrow>
     is_bool v \<or>
     (case num_of v of
        None \<Rightarrow> True
      | Some x \<Rightarrow> \<not> (float_le (FDec 0 0) x \<and> float_le x (FDec 100 0)))"

definition secret_path_bad :: "ppath \<Rightarrow> pyval \<Rightarrow> bool" where
  "secret_path_bad path v \<longleftrightarrow> v \<noteq> PNone \<and>
     (case v of PStr s \<Rightarrow> \<not> path_absolute (mkpath s)
          \<or> path_name (mkpath s) \<noteq> path_stem path @ ''.json''
      | _ \<Rightarrow> True)"

definition check_scratch :: "environ \<Rightarrow> pyval \<Rightarrow> unit res" where
  "check_scratch env scratch =
     (case scratch of
        PNone \<Rightarrow> Inr ()
      | PDict d \<Rightarrow>
          (case (case pget d ''kind'' of PStr k \<Rightarrow> scratch_root env k | _ \<Rightarrow> None) of
             None \<Rightarrow> Inl (QueueInputErr
               (''launch input scratch kind must be one of '' @ py_repr (PList [PStr ''nvme'', PStr ''tmpfs''])))
           | Some root \<Rightarrow>
               refuse (case pget d ''path'' of
                   PStr s \<Rightarrow> \<not> path_absolute (mkpath s) \<or> path_parent (mkpath s) \<noteq> root
                 | _ \<Rightarrow> True)
                 (''launch input scratch path must be under '' @ path_str root))
      | _ \<Rightarrow> Inl (QueueInputErr ''launch input scratch must be an object''))"

definition check_result_kind :: "pyval \<Rightarrow> unit res" where
  "check_result_kind v =
     (case v of
        PList vs \<Rightarrow> Inl TypeErr
      | PDict d \<Rightarrow> Inl TypeErr
      | _ \<Rightarrow> refuse (\<not> (is_str v \<and> str_of v \<in> set RESULT_KINDS)) (''unknown result kind: '' @ py_repr v))"

definition check_input :: "environ \<Rightarrow> ppath \<Rightarrow> pydict \<Rightarrow> unit res" where
  "check_input env path value =
     (let missing = filter (\<lambda>k. \<not> dhas value k) REQUIRED_FIELDS;
          argv = pget value ''argv'';
          environment = pget value ''environment'';
          names = pget_or value ''secret_environment'' (PList []);
          pool = pget value ''pool'';
          properties = pget value ''unit_properties'';
          limit = pget value ''max_io_pressure''
      in bindE (refuse (missing \<noteq> []) (''launch input omits '' @ str_join '', '' (sort missing))) (\<lambda>_.
         bindE (refuse (\<not> is_list argv \<or> elems_of argv = [] \<or> \<not> list_all is_str (elems_of argv))
           ''launch input argv must be a non-empty list of strings'') (\<lambda>_.
         bindE (refuse (\<not> is_dict environment \<or> \<not> list_all (\<lambda>(k, v). is_str v) (items_of environment))
           ''launch input environment must be a string map'') (\<lambda>_.
         bindE (refuse (\<not> is_list names \<or> \<not> list_all is_str (elems_of names))
           ''launch input secret_environment must be a list of names'') (\<lambda>_.
         bindE (refuse (secret_path_bad path (pget value ''secret_environment_path''))
           ''launch input secret_environment_path must name this input's values'') (\<lambda>_.
         bindE (check_result_kind (pget value ''result_kind'')) (\<lambda>_.
         bindE (refuse (timeout_bad value)
           ''launch input timeout_seconds must be positive, or zero for a declared operation'') (\<lambda>_.
         bindE (refuse (pool \<noteq> PNone \<and> \<not> (is_str pool \<and> pool_name_ok (str_of pool)))
           ''launch input pool must be a lowercase pueue group name'') (\<lambda>_.
         bindE (refuse (properties \<noteq> PNone \<and>
             \<not> (is_list properties \<and> list_all supported_unit_property (elems_of properties)))
           (''launch input unit_properties must be '' @ str_join ''/''
              (sorted_set (UNIT_PROPERTIES @ UNIT_PATH_PROPERTIES @ UNIT_BANDWIDTH_PROPERTIES))
              @ '' settings'')) (\<lambda>_.
         bindE (refuse (limit \<noteq> PNone \<and> percentage_bad limit)
           ''launch input max_io_pressure must be a percentage'') (\<lambda>_.
         check_scratch env (pget value ''scratch''))))))))))))"

definition read_input :: "environ \<Rightarrow> fs \<Rightarrow> ppath \<Rightarrow> pydict res" where
  "read_input env f path =
     bindE (case fs_read_text f path of
         Inr raw \<Rightarrow> Inr raw
       | Inl e \<Rightarrow> if is_oserror e then Inl (QueueInputErr (''launch input is unreadable: '' @ exn_str e))
                 else Inl e) (\<lambda>raw.
     (case json_loads raw of
        None \<Rightarrow> Inl (QueueInputErr ''launch input is not JSON'')
      | Some (PDict value) \<Rightarrow> bindE (check_input env path value) (\<lambda>_. Inr value)
      | Some v \<Rightarrow> Inl (QueueInputErr ''launch input is not an object'')))"

section \<open>What a unit setting may carry\<close>

lemma str_partition_split:
  "str_partition c s = (a, True, r) \<Longrightarrow> s = a @ [c] @ r \<and> c \<notin> set a"
  by (induction s arbitrary: a) (auto split: if_splits prod.splits)

lemma size_ok_chars: "size_ok s \<Longrightarrow> \<forall>c \<in> set s. is_digit c \<or> is_unit_letter c"
proof -
  assume ok: "size_ok s"
  have "\<forall>c \<in> set (takeWhile is_digit s). is_digit c" by (auto dest: set_takeWhileD)
  moreover have "\<forall>c \<in> set (dropWhile is_digit s). is_unit_letter c"
  proof -
    define r where "r = dropWhile is_digit s"
    have "r = [] \<or> (length r = 1 \<and> is_unit_letter (hd r))"
      using ok unfolding size_ok_def Let_def r_def by blast
    then have "\<forall>c \<in> set r. is_unit_letter c" by (cases r) auto
    then show ?thesis by (simp add: r_def)
  qed
  ultimately have "\<forall>c \<in> set (takeWhile is_digit s @ dropWhile is_digit s). is_digit c \<or> is_unit_letter c"
    unfolding set_append by blast
  then show ?thesis by simp
qed

lemma printable_digit: "is_digit c \<or> is_unit_letter c \<Longrightarrow> 32 < code c"
  by (auto simp: is_digit_def is_unit_letter_def)

lemma plain_path_chars: "plain_path_ok s \<Longrightarrow> \<forall>c \<in> set s. 32 < code c"
  by (auto simp: plain_path_ok_def list_all_iff split: list.splits)

lemma unit_path_chars: "unit_path_ok s \<Longrightarrow> \<forall>c \<in> set s. 32 < code c"
proof (cases "\<exists>r. s = CHR ''-'' # r")
  case True
  moreover assume "unit_path_ok s"
  ultimately obtain r where "s = CHR ''-'' # r" "plain_path_ok r"
    by (auto simp: unit_path_ok_def)
  then show ?thesis using plain_path_chars [of r] by simp
next
  case False
  moreover assume "unit_path_ok s"
  ultimately have "plain_path_ok s"
    by (cases s) (auto simp: unit_path_ok_def split: list.splits char.splits bool.splits)
  then show ?thesis by (rule plain_path_chars)
qed

lemma unit_bandwidth_chars: "unit_bandwidth_ok s \<Longrightarrow> \<forall>c \<in> set s. 32 \<le> code c"
  by (auto simp: unit_bandwidth_ok_def positive_size_ok_def
      dest!: str_partition_split plain_path_chars size_ok_chars printable_digit
      split: prod.splits) (meson less_imp_le printable_digit)+

lemma unit_value_chars: "unit_value_ok s \<Longrightarrow> \<forall>c \<in> set s. 32 < code c"
  by (auto simp: unit_value_ok_def dest!: size_ok_chars intro: printable_digit)

text \<open>
  A launch input cannot reach past the resource and path bounds of its own unit: an accepted
  unit setting is \<open>name=value\<close> with a name of the three allow-lists, and its value holds no
  control character, so it can neither name another setting nor start a second one.
\<close>

theorem supported_unit_property_sound:
  assumes "supported_unit_property v"
  shows "\<exists>name val. v = PStr (name @ ''='' @ val)
     \<and> name \<in> set (UNIT_PROPERTIES @ UNIT_PATH_PROPERTIES @ UNIT_BANDWIDTH_PROPERTIES)
     \<and> (\<forall>c \<in> set val. 32 \<le> code c)"
proof -
  from assms obtain s where v: "v = PStr s"
    by (auto simp: supported_unit_property_def split: pyval.splits)
  obtain name sep val where part: "str_partition CHR ''='' s = (name, sep, val)"
    by (metis prod_cases3)
  from assms v part have sep: "sep"
    and known: "(name \<in> set UNIT_PROPERTIES \<and> unit_value_ok val)
       \<or> (name \<in> set UNIT_PATH_PROPERTIES \<and> unit_path_ok val)
       \<or> (name \<in> set UNIT_BANDWIDTH_PROPERTIES \<and> unit_bandwidth_ok val)"
    by (auto simp: supported_unit_property_def split: if_splits)
  from sep part have "s = name @ ''='' @ val" using str_partition_split by fastforce
  moreover from known have "\<forall>c \<in> set val. 32 \<le> code c"
    using unit_value_chars unit_path_chars unit_bandwidth_chars by (meson less_imp_le)
  ultimately show ?thesis using v known by auto
qed

theorem supported_unit_property_sound_witness:
  "\<exists>name val. PStr ''IOReadBandwidthMax=/dev/sda 20M'' = PStr (name @ ''='' @ val)
     \<and> name \<in> set (UNIT_PROPERTIES @ UNIT_PATH_PROPERTIES @ UNIT_BANDWIDTH_PROPERTIES)
     \<and> (\<forall>c \<in> set val. 32 \<le> code c)"
proof (rule supported_unit_property_sound)
  show "supported_unit_property (PStr ''IOReadBandwidthMax=/dev/sda 20M'')" by code_simp
qed

section \<open>What a published input holds\<close>

lemma fsM_Inr: "fsM c f = (Inr u, f') \<longleftrightarrow> c f = Inr f'"
  by (auto simp: fsM_def split: sum.splits)

lemma pget_dmerge_keys:
  assumes "distinct (map fst e)"
  shows "pget (dmerge d e) k = (case dget e k of Some v \<Rightarrow> v | None \<Rightarrow> pget d k)"
  using assms by (auto simp: pget_def dget_dmerge_distinct split: option.splits)

text \<open>What \<open>write_input\<close> does to the environment it is given: the pair of the entries the input
  keeps and the names it records.\<close>

lemma split_secrets_environment:
  assumes run: "split_secrets c path doc f = (Inr d, f')"
    and env: "pget doc ''environment'' = PDict env"
  shows "\<exists>env'. pget d ''environment'' = PDict env' \<and> set env' \<subseteq> set env
     \<and> (\<forall>p \<in> set env'. \<not> (env_name_is_secret (fst p) \<and> truthy (snd p)))
     \<and> (\<forall>p \<in> set env. p \<in> set env' \<or> PStr (fst p) \<in> set (elems_of (pget d ''secret_environment'')))"
proof (cases "secret_items env = []")
  case True
  then have "\<forall>p \<in> set env. \<not> (env_name_is_secret (fst p) \<and> truthy (snd p))"
    by (auto simp: secret_items_def filter_empty_conv)
  moreover from run env True have "d = doc" by (simp add: split_secrets_def)
  ultimately show ?thesis using env by auto
next
  case False
  from run env False obtain secrets names sidecar where
    d: "d = stripped_document doc env secrets names sidecar"
    and src: "secrets = secret_items env \<or> (\<exists>held. secrets = dmerge held (secret_items env))"
    by (auto simp: split_secrets_def Let_def bindM_eq_Inr split: if_splits) (metis surj_pair)+
  from src have own: "\<forall>k. dhas (secret_items env) k \<longrightarrow> dhas secrets k"
    by (auto simp: dhas_dmerge)
  let ?env' = "filter (\<lambda>(k, v). \<not> dhas secrets k) env"
  from d have e: "pget d ''environment'' = PDict ?env'"
    and n: "pget d ''secret_environment'' = PList (map PStr (sorted_set (names @ dkeys secrets)))"
    by (simp_all add: stripped_document_def pget_dmerge_keys)
  have "\<not> (env_name_is_secret (fst p) \<and> truthy (snd p))" if "p \<in> set ?env'" for p
  proof
    assume "env_name_is_secret (fst p) \<and> truthy (snd p)"
    with that have "p \<in> set (secret_items env)" by (auto simp: secret_items_def)
    then have "dhas (secret_items env) (fst p)" by (auto simp: dhas_def)
    with own that show False by auto
  qed
  moreover have "p \<in> set ?env' \<or> PStr (fst p) \<in> set (elems_of (pget d ''secret_environment''))"
    if "p \<in> set env" for p
    using that by (auto simp: n dhas_def dkeys_def split: prod.splits)
  ultimately show ?thesis using e by (intro exI [of _ ?env']) auto
qed

text \<open>
  (C2) Secrets never reach the persistent launch input: what a successful \<open>write_input\<close>
  publishes under \<open>path\<close>, with mode 0600, has an environment drawn from the given one in which no
  secret-named variable has a value, and every entry it left out is recorded by name.
\<close>

theorem write_input_hides_secrets:
  assumes "write_input c path doc f = (Inr (), f')"
    and "pget doc ''environment'' = PDict env"
  shows "\<exists>f2 d env'. fs_publish path (json_dumps (PDict d)) 384 f2 = Inr f'
     \<and> pget d ''environment'' = PDict env' \<and> set env' \<subseteq> set env
     \<and> (\<forall>p \<in> set env'. \<not> (env_name_is_secret (fst p) \<and> truthy (snd p)))
     \<and> (\<forall>p \<in> set env. p \<in> set env' \<or> PStr (fst p) \<in> set (elems_of (pget d ''secret_environment'')))"
proof -
  from assms(1) obtain f1 f2 d where "split_secrets c path doc f1 = (Inr d, f2)"
    and "fs_publish path (json_dumps (PDict d)) 384 f2 = Inr f'"
    by (auto simp: write_input_def bindM_eq_Inr fsM_Inr)
  with split_secrets_environment [OF _ assms(2)] show ?thesis by blast
qed

definition sample_fs :: fs where
  "sample_fs = \<lparr>nodes = [((''/'', [''s'']), Dir 448)], noread = [], nowrite = []\<rparr>"

definition sample_ctx :: ctx where
  "sample_ctx = \<lparr>c_env = [(''AGENTCTL_SECRET_ENV_DIR'', ''/r'')], c_uid = 1000\<rparr>"

definition sample_document :: pydict where
  "sample_document = [(''job_id'', PStr ''j''),
     (''environment'', PDict [(''GH_TOKEN'', PStr ''t0''), (''PATH'', PStr ''/bin'')])]"

theorem write_input_hides_secrets_witness:
  "\<exists>f' f2 d env'. write_input sample_ctx (mkpath ''/s/j.json'') sample_document sample_fs = (Inr (), f')
     \<and> fs_publish (mkpath ''/s/j.json'') (json_dumps (PDict d)) 384 f2 = Inr f'
     \<and> pget d ''environment'' = PDict env'
     \<and> (''GH_TOKEN'', PStr ''t0'') \<notin> set env'
     \<and> PStr ''GH_TOKEN'' \<in> set (elems_of (pget d ''secret_environment''))"
proof -
  let ?w = "write_input sample_ctx (mkpath ''/s/j.json'') sample_document sample_fs"
  let ?env = "[(''GH_TOKEN'', PStr ''t0''), (''PATH'', PStr ''/bin'')]"
  have "fst ?w = Inr ()" by code_simp
  then have run: "?w = (Inr (), snd ?w)" by (cases ?w) simp
  have env: "pget sample_document ''environment'' = PDict ?env" by code_simp
  have secret: "env_name_is_secret ''GH_TOKEN'' \<and> truthy (PStr ''t0'')" by code_simp
  from write_input_hides_secrets [OF run env] obtain f2 d env' where
    pub: "fs_publish (mkpath ''/s/j.json'') (json_dumps (PDict d)) 384 f2 = Inr (snd ?w)"
    and e: "pget d ''environment'' = PDict env'"
    and hid: "\<forall>p \<in> set env'. \<not> (env_name_is_secret (fst p) \<and> truthy (snd p))"
    and all: "\<forall>p \<in> set ?env. p \<in> set env'
        \<or> PStr (fst p) \<in> set (elems_of (pget d ''secret_environment''))"
    by blast
  from hid secret have no: "(''GH_TOKEN'', PStr ''t0'') \<notin> set env'" by force
  with all have "PStr ''GH_TOKEN'' \<in> set (elems_of (pget d ''secret_environment''))" by force
  with run pub e no show ?thesis by blast
qed

section \<open>What a runner accepts\<close>

lemma refuse_Inr [simp]: "refuse bad m = Inr u \<longleftrightarrow> \<not> bad"
  by (simp add: refuse_def guardE_eq_Inr)

lemma check_input_Inr:
  assumes "check_input env path v = Inr ()"
  shows "\<forall>k \<in> set REQUIRED_FIELDS. dhas v k"
    and "\<exists>a as. pget v ''argv'' = PList (a # as) \<and> list_all is_str (a # as)"
    and "\<exists>e. pget v ''environment'' = PDict e \<and> list_all (\<lambda>(k, x). is_str x) e"
    and "\<not> timeout_bad v"
    and "check_result_kind (pget v ''result_kind'') = Inr ()"
    and "pget v ''unit_properties'' = PNone
      \<or> list_all supported_unit_property (elems_of (pget v ''unit_properties''))"
    and "\<not> secret_path_bad path (pget v ''secret_environment_path'')"
    and "check_scratch env (pget v ''scratch'') = Inr ()"
proof -
  note ok = assms [unfolded check_input_def Let_def bindE_eq_Inr refuse_Inr]
  from ok show "\<forall>k \<in> set REQUIRED_FIELDS. dhas v k" by (simp only: filter_empty_conv) blast
  from ok have "is_list (pget v ''argv'')" "elems_of (pget v ''argv'') \<noteq> []"
    "list_all is_str (elems_of (pget v ''argv''))" by blast+
  then show "\<exists>a as. pget v ''argv'' = PList (a # as) \<and> list_all is_str (a # as)"
    by (auto simp: is_list_iff neq_Nil_conv)
  from ok have "is_dict (pget v ''environment'')"
    "list_all (\<lambda>(k, x). is_str x) (items_of (pget v ''environment''))" by blast+
  then show "\<exists>e. pget v ''environment'' = PDict e \<and> list_all (\<lambda>(k, x). is_str x) e"
    by (auto simp: is_dict_iff)
  from ok show "\<not> timeout_bad v" "check_result_kind (pget v ''result_kind'') = Inr ()"
    "\<not> secret_path_bad path (pget v ''secret_environment_path'')"
    "check_scratch env (pget v ''scratch'') = Inr ()"
    "pget v ''unit_properties'' = PNone
      \<or> list_all supported_unit_property (elems_of (pget v ''unit_properties''))"
    by auto
qed

text \<open>
  The runner only ever acts on a document that keeps the contract: it read that document from
  the input's own file, every required field is there, there is a command made of strings and a
  string environment, the time limit is a whole number of seconds that is zero only for a declared
  operation, and scratch lies directly in the directory of its tier.
\<close>

theorem read_input_contract:
  assumes "read_input env f path = Inr v"
  shows "(\<exists>raw. fs_read_text f path = Inr raw \<and> json_loads raw = Some (PDict v))
    \<and> (\<forall>k \<in> set REQUIRED_FIELDS. dhas v k)
    \<and> (\<exists>a as. pget v ''argv'' = PList (a # as) \<and> list_all is_str (a # as))
    \<and> (\<exists>e. pget v ''environment'' = PDict e \<and> list_all (\<lambda>(k, x). is_str x) e)
    \<and> (\<exists>t. pget v ''timeout_seconds'' = PInt t \<and> 0 \<le> t
         \<and> (t \<noteq> 0 \<or> pget v ''kind'' = PStr ''declared-operation''))
    \<and> (pget v ''scratch'' = PNone \<or> (\<exists>d k p root. pget v ''scratch'' = PDict d
         \<and> pget d ''kind'' = PStr k \<and> pget d ''path'' = PStr p \<and> scratch_root env k = Some root
         \<and> path_absolute (mkpath p) \<and> path_parent (mkpath p) = root))"
proof -
  from assms obtain raw where raw: "fs_read_text f path = Inr raw" "json_loads raw = Some (PDict v)"
    and ok: "check_input env path v = Inr ()"
    by (auto simp: read_input_def bindE_eq_Inr split: sum.splits if_splits option.splits pyval.splits)
  note facts = check_input_Inr [OF ok]
  from facts(4) have "\<exists>t. pget v ''timeout_seconds'' = PInt t \<and> 0 \<le> t
      \<and> (t \<noteq> 0 \<or> pget v ''kind'' = PStr ''declared-operation'')"
    by (cases "pget v ''timeout_seconds''") (auto simp: timeout_bad_def Let_def)
  moreover from facts(8) have "pget v ''scratch'' = PNone \<or> (\<exists>d k p root. pget v ''scratch'' = PDict d
      \<and> pget d ''kind'' = PStr k \<and> pget d ''path'' = PStr p \<and> scratch_root env k = Some root
      \<and> path_absolute (mkpath p) \<and> path_parent (mkpath p) = root)"
    by (auto simp: check_scratch_def split: pyval.splits option.splits)
  ultimately show ?thesis using raw facts(1,2,3) by blast
qed

definition sample_input :: string where
  "sample_input =
     ''{\"argv\":[\"x\"],\"environment\":{},\"job_id\":\"j\",\"log_path\":\"/j.log\",\"operation\":\"c\",'' @
     ''\"project_id\":\"p\",\"result_kind\":\"exit\",\"timeout_seconds\":60,\"working_directory\":\"/\",'' @
     ''\"scratch\":{\"kind\":\"tmpfs\",\"path\":\"/dev/shm/agentctl/j\"}}''"

definition sample_input_fs :: fs where
  "sample_input_fs = \<lparr>nodes = [((''/'', [''j.json'']), RegFile sample_input 384)],
     noread = [], nowrite = []\<rparr>"

theorem read_input_contract_witness:
  "\<exists>v. read_input [] sample_input_fs (mkpath ''/j.json'') = Inr v
     \<and> (\<forall>k \<in> set REQUIRED_FIELDS. dhas v k)
     \<and> (\<exists>t. pget v ''timeout_seconds'' = PInt t \<and> 0 \<le> t)"
proof -
  let ?r = "read_input [] sample_input_fs (mkpath ''/j.json'')"
  have "\<not> isl ?r" by code_simp
  then obtain v where run: "?r = Inr v" by (cases ?r) auto
  with read_input_contract [OF run] show ?thesis by blast
qed

end
