(* ===== verification/Agentctl_Config.thy ===== *)
theory Agentctl_Config
  imports Agentctl_Pueue Agentctl_LaunchInput
begin

text \<open>
  \<open>agentctl/config.py\<close> and \<open>agentctl/pools.py\<close>: the declared groups of the queue and their
  cross-pool exclusion, the configuration file with the defaults it overrides, and the application
  of a declaration to the running daemon. \<open>agentctl/projects.py\<close> is not modelled: a project
  descriptor is only located, not parsed.
\<close>

section \<open>Declarations\<close>

record adaptive_pool =
  floor_width :: int
  job_memory_bytes :: int
  slice_name :: string

record pool_policy =
  width :: int
  adaptive :: "adaptive_pool option"
  exclusive_with :: "string list"

type_synonym pools = "pool_policy dict"

definition parallel_of :: "string \<Rightarrow> pyval \<Rightarrow> int res" where
  "parallel_of name v =
     (if \<not> is_int v \<or> is_bool v \<or> int_of v < 1
      then Inl (ConfigErr (''pools.'' @ name @ '' must run at least one task at a time''))
      else Inr (int_of v))"

text \<open>\<open>[a-zA-Z0-9_-]+\.slice\<close>.\<close>

definition slice_ok :: "string \<Rightarrow> bool" where
  "slice_ok s \<longleftrightarrow> suffix ''.slice'' s \<and> length s > 6 \<and>
     list_all (\<lambda>c. is_alnum c \<or> c = CHR ''_'' \<or> c = CHR ''-'') (take (length s - 6) s)"

definition same_keys :: "pydict \<Rightarrow> string list \<Rightarrow> bool" where
  "same_keys d ks \<longleftrightarrow> set (dkeys d) = set ks"

definition adaptive_of :: "string \<Rightarrow> pydict \<Rightarrow> adaptive_pool option res" where
  "adaptive_of name decl =
     (case pget decl ''adaptive'' of
        PNone \<Rightarrow> Inr None
      | PDict a \<Rightarrow>
          if \<not> same_keys a [''floor'', ''job_memory_bytes'', ''slice'']
          then Inl (ConfigErr (''pools.'' @ name @ ''.adaptive requires floor, job_memory_bytes and slice''))
          else
            bindE (parallel_of name (pget a ''floor'')) (\<lambda>floor.
            bindE (parallel_of name (pget a ''job_memory_bytes'')) (\<lambda>budget.
            bindE (parallel_of name (pget decl ''parallel'')) (\<lambda>top.
              if floor > top \<or> \<not> is_str (pget a ''slice'') \<or> \<not> slice_ok (str_of (pget a ''slice''))
              then Inl (ConfigErr (''pools.'' @ name @ ''.adaptive has an invalid floor or slice''))
              else Inr (Some \<lparr>floor_width = floor, job_memory_bytes = budget,
                              slice_name = str_of (pget a ''slice'')\<rparr>))))
      | _ \<Rightarrow> Inl (ConfigErr (''pools.'' @ name @ ''.adaptive requires floor, job_memory_bytes and slice'')))"

definition is_pool_name :: "pyval \<Rightarrow> bool" where
  "is_pool_name v \<longleftrightarrow> is_str v \<and> pool_name_ok (str_of v)"

definition policy_of_decl :: "string \<Rightarrow> pydict \<Rightarrow> pool_policy res" where
  "policy_of_decl name decl =
     (let unknown = filter (\<lambda>k. k \<notin> set [''parallel'', ''adaptive'', ''exclusive_with'']) (dkeys decl);
          excluded = pget_or decl ''exclusive_with'' (PList [])
      in bindE (guardE (unknown = []) (ConfigErr (''pools.'' @ name @ '' declares unknown field(s): ''
             @ str_join '', '' (sorted_set unknown)))) (\<lambda>_.
         bindE (guardE (is_list excluded \<and> list_all is_pool_name (elems_of excluded))
             (ConfigErr (''pools.'' @ name @ ''.exclusive_with must name valid pools''))) (\<lambda>_.
         bindE (adaptive_of name decl) (\<lambda>a.
         bindE (parallel_of name (pget decl ''parallel'')) (\<lambda>n.
           Inr \<lparr>width = n, adaptive = a, exclusive_with = map str_of (elems_of excluded)\<rparr>)))))"

definition policy_of :: "string \<Rightarrow> pyval \<Rightarrow> pool_policy res" where
  "policy_of name v =
     (if \<not> pool_name_ok name
      then Inl (ConfigErr (''pools has an invalid pueue group name: '' @ str_repr name))
      else
        (case v of
           PDict decl \<Rightarrow> policy_of_decl name decl
         | _ \<Rightarrow> Inl (ConfigErr (''pools.'' @ name @ '' must be an object with `parallel`''))))"

definition undeclared_partners :: "pools \<Rightarrow> pool_policy \<Rightarrow> string list" where
  "undeclared_partners ps p = sorted_set (filter (\<lambda>g. \<not> dhas ps g) (exclusive_with p))"

fun check_partners :: "pools \<Rightarrow> pools \<Rightarrow> unit res" where
  "check_partners all [] = Inr ()"
| "check_partners all ((name, p) # ps) =
     (if undeclared_partners all p \<noteq> []
      then Inl (ConfigErr (''pools.'' @ name @ ''.exclusive_with names undeclared pool(s): ''
             @ str_join '', '' (undeclared_partners all p)))
      else check_partners all ps)"

definition pools_of :: "pyval \<Rightarrow> pools res" where
  "pools_of v =
     (case v of
        PNone \<Rightarrow> Inr []
      | PDict d \<Rightarrow>
          bindE (mapE (\<lambda>(name, decl). bindE (policy_of name decl) (\<lambda>p. Inr (name, p))) d) (\<lambda>parsed.
          bindE (check_partners parsed parsed) (\<lambda>_. Inr parsed))
      | _ \<Rightarrow> Inl (ConfigErr ''pools must map a pueue group name to its parallelism''))"

section \<open>The configuration file\<close>

record config =
  project_roots :: "ppath list"
  event_spool :: ppath
  state_dir :: ppath
  agentctl_executable :: string
  private_catalog :: "ppath option"
  cf_pools :: pools
  config_path :: "ppath option"
  inherited_environment :: "string dict"

definition inputs_dir :: "config \<Rightarrow> ppath" where
  "inputs_dir c = path_join (state_dir c) ''inputs''"

definition jobs_dir :: "config \<Rightarrow> ppath" where
  "jobs_dir c = path_join (state_dir c) ''jobs''"

definition default_state_dir :: "environ \<Rightarrow> ppath \<Rightarrow> ppath" where
  "default_state_dir env home =
     (let base = env_or env ''XDG_STATE_HOME'' []
      in path_join (if base \<noteq> [] then mkpath base
                    else path_join (path_join home ''.local'') ''state'') ''agentctl'')"

definition default_config :: "environ \<Rightarrow> ppath \<Rightarrow> ppath option \<Rightarrow> config" where
  "default_config env home dir =
     \<lparr>project_roots = [], event_spool = mkpath ''/realm/state/agentctl/events.jsonl'',
      state_dir = (case dir of Some p \<Rightarrow> p | None \<Rightarrow> default_state_dir env home),
      agentctl_executable = ''/run/current-system/sw/bin/agentctl'', private_catalog = None,
      cf_pools = [], config_path = None, inherited_environment = []\<rparr>"

definition absolute_str :: "pyval \<Rightarrow> bool" where
  "absolute_str v \<longleftrightarrow> is_str v \<and> prefix ''/'' (str_of v)"

definition paths_of :: "pyval \<Rightarrow> string \<Rightarrow> ppath list res" where
  "paths_of v field =
     (if \<not> is_list v \<or> \<not> list_all absolute_str (elems_of v)
      then Inl (ConfigErr (field @ '' must be a list of absolute paths''))
      else Inr (map (\<lambda>x. mkpath (str_of x)) (elems_of v)))"

definition path_of :: "pyval \<Rightarrow> string \<Rightarrow> ppath \<Rightarrow> ppath res" where
  "path_of v field fallback =
     (if v = PNone then Inr fallback
      else if \<not> absolute_str v then Inl (ConfigErr (field @ '' must be an absolute path''))
      else Inr (mkpath (str_of v)))"

text \<open>One entry of the private project catalog: its root, when it is enabled.\<close>

definition private_row :: "string \<times> pyval \<Rightarrow> ppath list res" where
  "private_row kv =
     (case kv of (project_id, row) \<Rightarrow>
        if project_id = [] \<or> \<not> is_dict row
        then Inl (ConfigErr ''private project catalog entries must map project IDs to objects'')
        else
          (case pget_or (items_of row) ''agentctl'' (PBool False) of
             PBool False \<Rightarrow> Inr []
           | PBool True \<Rightarrow>
               if \<not> absolute_str (pget (items_of row) ''path'')
               then Inl (ConfigErr (''private project '' @ project_id @ '' path must be absolute''))
               else Inr [mkpath (str_of (pget (items_of row) ''path''))]
           | _ \<Rightarrow> Inl (ConfigErr (''private project '' @ project_id @ '' agentctl must be boolean''))))"

definition private_roots :: "fs \<Rightarrow> ppath option \<Rightarrow> ppath list res" where
  "private_roots f catalog =
     (case catalog of
        None \<Rightarrow> Inr []
      | Some p \<Rightarrow>
          if \<not> fs_is_file f p then Inr []
          else
            bindE (case bindE (fs_read_text f p) loads_text of
                Inr v \<Rightarrow> Inr v
              | Inl e \<Rightarrow> if is_oserror e \<or> e = JSONDecode
                  then Inl (ConfigErr (''could not read private project catalog '' @ path_str p @ '': '' @ exn_str e))
                  else Inl e) (\<lambda>raw.
            if \<not> is_dict raw \<or> \<not> list_all (\<lambda>k. k = ''projects'' \<or> k = ''links'') (dkeys (items_of raw))
            then Inl (ConfigErr ''private project catalog may contain projects and links objects'')
            else
              (case pget_or (items_of raw) ''projects'' (PDict []) of
                 PDict rows \<Rightarrow> bindE (mapE private_row rows) (\<lambda>rs. Inr (concat rs))
               | _ \<Rightarrow> Inl (ConfigErr ''private project catalog projects must be an object''))))"

definition check_environment :: "pyval \<Rightarrow> string dict res" where
  "check_environment v =
     (if \<not> is_dict v \<or> \<not> list_all (\<lambda>(k, x). k \<noteq> [] \<and> is_str x) (items_of v)
      then Inl (ConfigErr ''inherited_environment must map variable names to strings'')
      else Inr (map (\<lambda>(k, x). (k, str_of x)) (items_of v)))"

definition optional_path :: "pyval \<Rightarrow> string \<Rightarrow> ppath option res" where
  "optional_path v field =
     (if v \<noteq> PNone \<and> \<not> absolute_str v then Inl (ConfigErr (field @ '' must be an absolute path''))
      else Inr (if truthy v then Some (mkpath (str_of v)) else None))"

definition config_of :: "environ \<Rightarrow> ppath \<Rightarrow> fs \<Rightarrow> ppath \<Rightarrow> pydict \<Rightarrow> config res" where
  "config_of env home f location raw =
     bindE (optional_path (pget raw ''state_dir'') ''state_dir'') (\<lambda>dir.
     bindE (optional_path (pget raw ''private_project_catalog'') ''private_project_catalog'') (\<lambda>catalog.
     bindE (paths_of (pget_or raw ''project_roots'' (PList [])) ''project_roots'') (\<lambda>public.
     bindE (private_roots f catalog) (\<lambda>private.
       let base = default_config env home dir; roots = public @ private
       in bindE (guardE (distinct roots) (ConfigErr ''public and private project roots must be unique'')) (\<lambda>_.
          bindE (check_environment (pget_or raw ''inherited_environment'' (PDict []))) (\<lambda>inherited.
          bindE (path_of (pget raw ''event_spool'') ''event_spool'' (event_spool base)) (\<lambda>spool.
          bindE (pools_of (pget raw ''pools'')) (\<lambda>ps.
            Inr (base\<lparr>config_path := Some location, project_roots := roots, event_spool := spool,
              agentctl_executable := (if truthy (pget raw ''agentctl'') then py_str (pget raw ''agentctl'')
                 else agentctl_executable base),
              private_catalog := catalog, cf_pools := ps, inherited_environment := inherited\<rparr>)))))))))"

definition load_config :: "environ \<Rightarrow> ppath \<Rightarrow> fs \<Rightarrow> ppath option \<Rightarrow> config res" where
  "load_config env home f path =
     (let location = (case path of Some p \<Rightarrow> p
            | None \<Rightarrow> mkpath (env_or env ''AGENTCTL_CONFIG'' ''/etc/sinnix/agentctl.json''))
      in case bindE (fs_read_text f location) loads_text of
           Inl e \<Rightarrow>
             if e = FileNotFound then Inr ((default_config env home None)\<lparr>config_path := Some location\<rparr>)
             else if is_oserror e \<or> e = JSONDecode
               then Inl (ConfigErr (''could not read '' @ path_str location @ '': '' @ exn_str e))
             else Inl e
         | Inr raw \<Rightarrow>
             if \<not> is_dict raw then Inl (ConfigErr (path_str location @ '' must contain an object''))
             else config_of env home f location (items_of raw))"

section \<open>Finding a project\<close>

definition has_descriptor :: "fs \<Rightarrow> ppath \<Rightarrow> bool" where
  "has_descriptor f p = fs_is_file f (path_join (path_join p ''.agentctl'') ''project.toml'')"

definition expanduser :: "ppath \<Rightarrow> ppath \<Rightarrow> ppath" where
  "expanduser home p =
     (if fst p = [] \<and> snd p \<noteq> [] \<and> hd (snd p) = ''~'' then (fst home, snd home @ tl (snd p)) else p)"

definition path_parents :: "ppath \<Rightarrow> ppath list" where
  "path_parents p = map (\<lambda>n. (fst p, take n (snd p))) (rev [0..<length (snd p)])"

text \<open>Candidates in the order the source tries them; the current directory is already resolved.\<close>

definition root_candidates :: "ppath \<Rightarrow> fs \<Rightarrow> string option \<Rightarrow> ppath \<Rightarrow> ppath list" where
  "root_candidates home f selector current =
     (case selector of
        Some (c # s) \<Rightarrow>
          (let selected = expanduser home (mkpath (c # s))
           in (if fs_is_dir f selected
               then (case realpath f selected of Inr q \<Rightarrow> [q] | Inl e \<Rightarrow> []) else [])
              @ filter (fs_is_dir f)
                  (concat (map (\<lambda>parent. [path_join (path_join parent (c # s)) ''repo'', path_join parent (c # s)])
                     [mkpath ''/realm/project'', mkpath ''/realm/worktree''])))
      | _ \<Rightarrow> current # path_parents current)"

definition resolve_project_root :: "ppath \<Rightarrow> fs \<Rightarrow> string option \<Rightarrow> ppath \<Rightarrow> ppath res" where
  "resolve_project_root home f selector current =
     (case find (has_descriptor f) (root_candidates home f selector current) of
        Some p \<Rightarrow> Inr p
      | None \<Rightarrow> Inl (ConfigErr (''could not resolve an AgentCTL project for ''
          @ (case selector of Some (c # s) \<Rightarrow> c # s | _ \<Rightarrow> path_str current))))"

section \<open>Partners\<close>

definition exclusive_partners :: "pools \<Rightarrow> string \<Rightarrow> string list" where
  "exclusive_partners ps pool =
     filter (\<lambda>g. g \<noteq> pool) (sorted_set
       ((case dget ps pool of Some p \<Rightarrow> exclusive_with p | None \<Rightarrow> [])
        @ map fst (filter (\<lambda>(name, other). pool \<in> set (exclusive_with other)) ps)))"

definition blocking_tasks :: "pools \<Rightarrow> string \<Rightarrow> tasks \<Rightarrow> int option \<Rightarrow> int list \<Rightarrow> int list" where
  "blocking_tasks ps pool ts task_id held =
     sort (map tk_id (filter (\<lambda>other.
         tk_group other \<in> set (exclusive_partners ps pool) \<and> \<not> terminal other
         \<and> \<not> (tk_id other \<in> set held \<and> (case task_id of None \<Rightarrow> False | Some i \<Rightarrow> tk_id other > i)))
       (map snd ts)))"

section \<open>Applying a declaration\<close>

record applied =
  ap_created :: "(string \<times> int) list"
  ap_resized :: "(string \<times> int \<times> int) list"
  ap_unchanged :: "string list"

definition target_slots :: "(string \<times> int) list \<Rightarrow> string \<Rightarrow> pool_policy \<Rightarrow> int" where
  "target_slots present g p =
     (case adaptive p of
        None \<Rightarrow> width p
      | Some a \<Rightarrow> max (floor_width a)
          (min (case dget present g of Some n \<Rightarrow> n | None \<Rightarrow> floor_width a) (width p)))"

definition apply_group ::
  "daemon \<Rightarrow> pools \<Rightarrow> (string \<times> int) list \<Rightarrow> string \<Rightarrow> applied \<Rightarrow> ('z pq_scheme, applied) io" where
  "apply_group d declared present g acc =
     (case dget declared g of
        None \<Rightarrow> raiseM (KeyErr g)
      | Some p \<Rightarrow>
          (let slots = target_slots present g p
           in case dget present g of
                None \<Rightarrow> bindM (group_add d g slots) (\<lambda>_.
                  returnM (acc\<lparr>ap_created := ap_created acc @ [(g, slots)]\<rparr>))
              | Some n \<Rightarrow>
                  if n \<noteq> slots
                  then bindM (set_parallel d g slots) (\<lambda>_.
                    returnM (acc\<lparr>ap_resized := ap_resized acc @ [(g, n, slots)]\<rparr>))
                  else returnM (acc\<lparr>ap_unchanged := ap_unchanged acc @ [g]\<rparr>)))"

record apply_report =
  ar_applied :: applied
  ar_undeclared :: "string list"
  ar_exclusive :: "(string \<times> string list) list"

text \<open>\<open>pools.apply\<close> after the groups of the daemon have been read; the wait for a daemon that is
  not up yet is not modelled.\<close>

definition apply_pools :: "daemon \<Rightarrow> pools \<Rightarrow> ('z pq_scheme, apply_report) io" where
  "apply_pools d declared =
     bindM (groups d) (\<lambda>present.
     bindM (forM (apply_group d declared present) (sorted_set (map fst declared))
         \<lparr>ap_created = [], ap_resized = [], ap_unchanged = []\<rparr>) (\<lambda>acc.
       returnM \<lparr>ar_applied = acc,
                ar_undeclared = sorted_set (filter (\<lambda>g. \<not> dhas declared g) (dkeys present)),
                ar_exclusive = filter (\<lambda>(g, ps). ps \<noteq> [])
                  (map (\<lambda>g. (g, exclusive_partners declared g)) (sorted_set (map fst declared)))\<rparr>))"

section \<open>Declared pools are well formed\<close>

definition policy_ok :: "pool_policy \<Rightarrow> bool" where
  "policy_ok p \<longleftrightarrow> 1 \<le> width p \<and>
     (case adaptive p of None \<Rightarrow> True
      | Some a \<Rightarrow> 1 \<le> floor_width a \<and> floor_width a \<le> width p \<and> 1 \<le> job_memory_bytes a
          \<and> slice_ok (slice_name a))"

lemma parallel_of_Inr: "parallel_of name v = Inr n \<longleftrightarrow> v = PInt n \<and> 1 \<le> n"
  by (cases v) (auto simp: parallel_of_def)

lemma adaptive_of_Inr:
  assumes "adaptive_of name decl = Inr (Some a)"
  shows "\<exists>top. pget decl ''parallel'' = PInt top \<and> 1 \<le> floor_width a \<and> floor_width a \<le> top
     \<and> 1 \<le> job_memory_bytes a \<and> slice_ok (slice_name a)"
  using assms
  by (auto simp: adaptive_of_def bindE_eq_Inr parallel_of_Inr split: pyval.splits if_splits)

lemma policy_of_Inr:
  assumes "policy_of name v = Inr p"
  shows "pool_name_ok name \<and> policy_ok p"
proof -
  from assms have name: "pool_name_ok name" by (simp add: policy_of_def split: if_split_asm)
  with assms obtain decl where v: "v = PDict decl" by (cases v) (simp_all add: policy_of_def)
  from assms name v have "policy_of_decl name decl = Inr p" by (simp add: policy_of_def)
  then obtain a n where "adaptive_of name decl = Inr a"
    and "pget decl ''parallel'' = PInt n" "1 \<le> n" and "width p = n" "adaptive p = a"
    unfolding policy_of_decl_def Let_def bindE_eq_Inr parallel_of_Inr by fastforce
  with name adaptive_of_Inr [of name decl] show ?thesis
    by (cases a) (auto simp: policy_ok_def)
qed

lemma check_partners_Inr:
  "check_partners all ps = Inr () \<longleftrightarrow> (\<forall>x \<in> set ps. \<forall>g \<in> set (exclusive_with (snd x)). dhas all g)"
proof (induction all ps rule: check_partners.induct)
  case (2 all name p ps)
  have "undeclared_partners all p = [] \<longleftrightarrow> (\<forall>g \<in> set (exclusive_with p). dhas all g)"
    by (simp add: undeclared_partners_def filter_empty_conv)
  with 2 show ?case by auto
qed simp

lemma pools_of_Inr:
  assumes "pools_of v = Inr ps" and "(name, p) \<in> set ps"
  shows "pool_name_ok name \<and> policy_ok p" and "\<forall>g \<in> set (exclusive_with p). dhas ps g"
proof -
  let ?row = "\<lambda>x. case x of (name, decl) \<Rightarrow> bindE (policy_of name decl) (\<lambda>p. Inr (name, p))"
  from assms(1) have "ps = [] \<or> (\<exists>d. mapE ?row d = Inr ps \<and> check_partners ps ps = Inr ())"
    by (cases v) (auto simp: pools_of_def bindE_eq_Inr)
  with assms(2) obtain d where d: "mapE ?row d = Inr ps" and partners: "check_partners ps ps = Inr ()"
    by auto
  from mapE_mem [OF d assms(2)] obtain x where "?row x = Inr (name, p)" by blast
  then show "pool_name_ok name \<and> policy_ok p"
    using policy_of_Inr by (cases x) (auto simp: bindE_eq_Inr)
  from partners assms(2) show "\<forall>g \<in> set (exclusive_with p). dhas ps g"
    by (fastforce simp: check_partners_Inr)
qed

text \<open>
  Every configuration that is accepted declares pools the queue can run: each has a valid
  group name and at least one slot, an adaptive pool has a floor between one and its ceiling, a
  positive memory budget and a slice name, and every exclusion partner is itself declared.
\<close>

theorem pools_of_well_formed:
  assumes "pools_of v = Inr ps" and "(name, p) \<in> set ps"
  shows "pool_name_ok name \<and> policy_ok p \<and> (\<forall>g \<in> set (exclusive_with p). dhas ps g)"
  using pools_of_Inr [OF assms] by blast

section \<open>Exclusion between pools\<close>

lemma exclusive_partners_iff:
  assumes "dict_ok ps"
  shows "g \<in> set (exclusive_partners ps pool) \<longleftrightarrow> g \<noteq> pool \<and>
     ((\<exists>p. (pool, p) \<in> set ps \<and> g \<in> set (exclusive_with p))
      \<or> (\<exists>p. (g, p) \<in> set ps \<and> pool \<in> set (exclusive_with p)))"
proof -
  have own: "g \<in> set (case dget ps pool of Some p \<Rightarrow> exclusive_with p | None \<Rightarrow> [])
      \<longleftrightarrow> (\<exists>p. (pool, p) \<in> set ps \<and> g \<in> set (exclusive_with p))"
    using assms by (auto simp: dict_ok_def split: option.splits dest: map_of_SomeD)
  have "g \<in> set (map fst (filter (\<lambda>(name, other). pool \<in> set (exclusive_with other)) ps))
      \<longleftrightarrow> (\<exists>p. (g, p) \<in> set ps \<and> pool \<in> set (exclusive_with p))"
    by force
  with own show ?thesis by (simp only: exclusive_partners_def set_filter set_sorted_set set_append) blast
qed

text \<open>
  Exclusion is symmetric although it is declared on one side only, and no pool excludes
  itself.
\<close>

theorem exclusive_partners_symmetric:
  assumes "dict_ok ps"
  shows "p \<notin> set (exclusive_partners ps p)
     \<and> (q \<in> set (exclusive_partners ps p) \<longleftrightarrow> p \<in> set (exclusive_partners ps q))"
  using assms by (auto simp: exclusive_partners_iff)

definition sample_pools :: pools where
  "sample_pools =
     [(''build'', \<lparr>width = 2, adaptive = None, exclusive_with = [''bench'']\<rparr>),
      (''bench'', \<lparr>width = 1, adaptive = None, exclusive_with = []\<rparr>)]"

theorem exclusive_partners_symmetric_witness:
  "''build'' \<in> set (exclusive_partners sample_pools ''bench'')"
proof -
  have "dict_ok sample_pools" by code_simp
  moreover have "''bench'' \<in> set (exclusive_partners sample_pools ''build'')" by code_simp
  ultimately show ?thesis
    using exclusive_partners_symmetric [of sample_pools "''build''" "''bench''"] by simp
qed

lemma blocking_tasks_iff:
  "i \<in> set (blocking_tasks ps pool ts task_id held) \<longleftrightarrow>
     (\<exists>t \<in> snd ` set ts. tk_id t = i \<and> tk_group t \<in> set (exclusive_partners ps pool) \<and> \<not> terminal t
        \<and> \<not> (i \<in> set held \<and> (case task_id of None \<Rightarrow> False | Some j \<Rightarrow> i > j)))"
  by (auto simp: blocking_tasks_def)

text \<open>
  (C5) Admission between exclusive pools neither runs two partners at once nor deadlocks: of two
  held tasks of partner pools the earlier one blocks the later one and is not blocked by it, and a
  task whose unfinished partners are all held and later is blocked by nothing.
\<close>

theorem blocking_tasks_order:
  assumes "dict_ok ps" and "q \<in> set (exclusive_partners ps p)"
    and "t \<in> snd ` set ts" and "tk_group t = p" and "\<not> terminal t" and "tk_id t \<in> set held"
    and "u \<in> snd ` set ts" and "tk_group u = q" and "\<not> terminal u" and "tk_id u \<in> set held"
    and "tk_id t < tk_id u"
  shows "tk_id t \<in> set (blocking_tasks ps q ts (Some (tk_id u)) held)
     \<and> tk_id u \<notin> set (blocking_tasks ps p ts (Some (tk_id t)) held)
     \<and> ((\<forall>x \<in> snd ` set ts. tk_group x \<in> set (exclusive_partners ps p) \<and> \<not> terminal x
           \<longrightarrow> tk_id x \<in> set held \<and> tk_id t < tk_id x)
        \<longrightarrow> blocking_tasks ps p ts (Some (tk_id t)) held = [])"
proof (intro conjI impI)
  from assms have "p \<in> set (exclusive_partners ps q)" by (auto simp: exclusive_partners_iff)
  with assms show "tk_id t \<in> set (blocking_tasks ps q ts (Some (tk_id u)) held)"
    by (auto simp: blocking_tasks_iff)
  from assms show "tk_id u \<notin> set (blocking_tasks ps p ts (Some (tk_id t)) held)"
    by (auto simp: blocking_tasks_iff)
next
  assume "\<forall>x \<in> snd ` set ts. tk_group x \<in> set (exclusive_partners ps p) \<and> \<not> terminal x
           \<longrightarrow> tk_id x \<in> set held \<and> tk_id t < tk_id x"
  then have "i \<notin> set (blocking_tasks ps p ts (Some (tk_id t)) held)" for i
    unfolding blocking_tasks_iff by auto
  then show "blocking_tasks ps p ts (Some (tk_id t)) held = []" by (metis list.set_intros(1) neq_Nil_conv)
qed

text \<open>A task as the queue publishes it, for the examples.\<close>

definition sample_task :: "int \<Rightarrow> string \<Rightarrow> task" where
  "sample_task i g = \<lparr>tk_id = i, tk_label = [], tk_group = g, tk_status = ''Stashed'',
     tk_result = None, tk_exit = None, tk_path = [], tk_deps = [], tk_command = [],
     tk_enqueued = None, tk_started = None, tk_ended = None\<rparr>"

theorem blocking_tasks_order_witness:
  "3 \<in> set (blocking_tasks sample_pools ''bench''
     [(3, sample_task 3 ''build''), (4, sample_task 4 ''bench'')] (Some 4) [3, 4])"
proof -
  let ?ts = "[(3, sample_task 3 ''build''), (4, sample_task 4 ''bench'')]"
  have "dict_ok sample_pools" and "''bench'' \<in> set (exclusive_partners sample_pools ''build'')"
    by code_simp+
  moreover have "\<not> terminal (sample_task 3 ''build'')" and "\<not> terminal (sample_task 4 ''bench'')"
    by code_simp+
  ultimately show ?thesis
    using blocking_tasks_order [of sample_pools "''bench''" "''build''" "sample_task 3 ''build''"
        ?ts "[3, 4]" "sample_task 4 ''bench''"]
    by (simp add: sample_task_def)
qed

definition sample_declaration :: pyval where
  "sample_declaration = PDict
     [(''build'', PDict [(''parallel'', PInt 4), (''exclusive_with'', PList [PStr ''bench'']),
        (''adaptive'', PDict [(''floor'', PInt 1), (''job_memory_bytes'', PInt 1000),
           (''slice'', PStr ''build.slice'')])]),
      (''bench'', PDict [(''parallel'', PInt 1)])]"

definition sample_declared :: pools where
  "sample_declared =
     [(''build'', \<lparr>width = 4, adaptive = Some \<lparr>floor_width = 1, job_memory_bytes = 1000,
         slice_name = ''build.slice''\<rparr>, exclusive_with = [''bench'']\<rparr>),
      (''bench'', \<lparr>width = 1, adaptive = None, exclusive_with = []\<rparr>)]"

lemma sample_declared: "pools_of sample_declaration = Inr sample_declared"
  by code_simp

theorem pools_of_well_formed_witness:
  "pools_of sample_declaration = Inr sample_declared
     \<and> policy_ok \<lparr>width = 1, adaptive = None, exclusive_with = []\<rparr>"
  using pools_of_well_formed [OF sample_declared,
      of "''bench''" "\<lparr>width = 1, adaptive = None, exclusive_with = []\<rparr>"] sample_declared
  by (simp add: sample_declared_def)

section \<open>What applying a declaration does to the queue\<close>

text \<open>The widths a declaration allows for its own group.\<close>

definition slots_allowed :: "pool_policy \<Rightarrow> int \<Rightarrow> bool" where
  "slots_allowed p n \<longleftrightarrow>
     (case adaptive p of None \<Rightarrow> n = width p | Some a \<Rightarrow> floor_width a \<le> n \<and> n \<le> width p)"

definition apply_call :: "pools \<Rightarrow> string list \<Rightarrow> bool" where
  "apply_call declared args \<longleftrightarrow> is_read args \<or>
     (\<exists>g p n. dget declared g = Some p \<and> slots_allowed p n \<and>
        (args = [''group'', ''add'', ''--parallel'', show_int n, g]
         \<or> args = [''parallel'', ''--group'', g, show_int n]))"

lemma target_slots_allowed:
  "policy_ok p \<Longrightarrow> slots_allowed p (target_slots present g p)"
  by (auto simp: policy_ok_def slots_allowed_def target_slots_def split: option.splits)

lemma apply_group_op:
  assumes "\<forall>p \<in> snd ` set declared. policy_ok p"
  shows "pueue_op (apply_call declared) (apply_group d declared present g acc)"
proof (cases "dget declared g")
  case None
  then show ?thesis by (simp add: apply_group_def pueue_op_raise)
next
  case (Some p)
  with assms have "policy_ok p" by (force dest: map_of_SomeD)
  then have ok: "slots_allowed p (target_slots present g p)" by (rule target_slots_allowed)
  have "pueue_op (apply_call declared) (group_add d g (target_slots present g p))"
    by (rule pueue_op_weaken [OF group_add.pueue_op_axioms]) (use Some ok in \<open>auto simp: apply_call_def\<close>)
  moreover have "pueue_op (apply_call declared) (set_parallel d g (target_slots present g p))"
    unfolding set_parallel_def
    by (rule pueue_op_unit) (use Some ok in \<open>auto simp: apply_call_def\<close>)
  ultimately show ?thesis
    unfolding apply_group_def Some Let_def option.case
    by (intro pueue_op_intros)
qed

lemma apply_pools_op:
  assumes "\<forall>p \<in> snd ` set declared. policy_ok p"
  shows "pueue_op (apply_call declared) (apply_pools d declared)"
  unfolding apply_pools_def
  by (intro pueue_op_intros apply_group_op assms pueue_op_weaken [OF groups.pueue_op_axioms])
    (simp add: apply_call_def)

text \<open>
  Applying an accepted declaration touches nothing but the declared groups, whatever the
  daemon answers: every call that is not a read creates or resizes a declared group, to its
  declared width or, for an adaptive pool, to a width between its floor and its ceiling, and the
  deadline of the caller binds every call.
\<close>

theorem apply_pools_calls:
  assumes "pools_of v = Inr declared"
    and "c \<in> set (drop (length (calls w)) (calls (snd (apply_pools d declared w))))"
  shows "apply_call declared (snd c) \<and> within (deadline w) (fst c)"
proof -
  have "policy_ok p" if "p \<in> snd ` set declared" for p
    using that assms(1) pools_of_Inr by fastforce
  then have "pueue_op (apply_call declared) (apply_pools d declared)"
    by (intro apply_pools_op) auto
  with assms(2) show ?thesis using pueue_op.op_new_calls by blast
qed

definition sample_group_daemon :: daemon where
  "sample_group_daemon cs = Exited 0 ''{\"build\": {\"parallel_tasks\": 9}, \"bench\": {\"parallel_tasks\": 1}}'' []"

theorem apply_pools_calls_witness:
  "apply_call sample_declared [''parallel'', ''--group'', ''build'', ''4'']"
proof -
  let ?w = "\<lparr>calls = [], deadline = Some (FDec 8 0)\<rparr>"
  have "(FDec 8 0, [''parallel'', ''--group'', ''build'', ''4''])
      \<in> set (drop (length (calls ?w)) (calls (snd (apply_pools sample_group_daemon sample_declared ?w))))"
    by code_simp
  from apply_pools_calls [OF sample_declared this] show ?thesis by simp
qed

section \<open>What a loaded configuration promises\<close>

text \<open>
  A configuration file that loads names its own location, has project roots that are pairwise
  distinct (public and private together), and pools that come from an accepted declaration; a
  missing file gives the defaults, never an error.
\<close>

theorem load_config_sound:
  assumes "load_config env home f path = Inr c"
  shows "config_path c \<noteq> None \<and> distinct (project_roots c)
     \<and> (\<exists>v. pools_of v = Inr (cf_pools c))"
proof -
  have base: "pools_of PNone = Inr []" by (simp add: pools_of_def)
  define location where "location = (case path of Some p \<Rightarrow> p
      | None \<Rightarrow> mkpath (env_or env ''AGENTCTL_CONFIG'' ''/etc/sinnix/agentctl.json''))"
  show ?thesis
  proof (cases "bindE (fs_read_text f location) loads_text")
    case (Inl e)
    with assms have "c = (default_config env home None)\<lparr>config_path := Some location\<rparr>"
      by (auto simp: load_config_def location_def Let_def split: if_split_asm)
    with base show ?thesis by (auto simp: default_config_def)
  next
    case (Inr raw)
    with assms have "config_of env home f location (items_of raw) = Inr c"
      by (auto simp: load_config_def location_def Let_def split: if_split_asm)
    then show ?thesis
      by (auto simp: config_of_def Let_def bindE_eq_Inr guardE_eq_Inr)
  qed
qed

definition sample_config_fs :: fs where
  "sample_config_fs = \<lparr>nodes = [((''/'', [''c.json'']),
     RegFile ''{\"project_roots\": [\"/a\", \"/b\"], \"state_dir\": \"/s\"}'' 420)],
     noread = [], nowrite = []\<rparr>"

theorem load_config_sound_witness:
  "\<exists>c. load_config [] (mkpath ''/h'') sample_config_fs (Some (mkpath ''/c.json'')) = Inr c
     \<and> project_roots c = [mkpath ''/a'', mkpath ''/b''] \<and> distinct (project_roots c)"
proof -
  let ?r = "load_config [] (mkpath ''/h'') sample_config_fs (Some (mkpath ''/c.json''))"
  have ev: "map_sum (\<lambda>e. ()) project_roots ?r = Inr [mkpath ''/a'', mkpath ''/b'']" by code_simp
  then obtain c where run: "?r = Inr c" by (cases ?r) auto
  with ev load_config_sound [OF run] show ?thesis by auto
qed

end
