(* ===== verification/Sinnix_Ledger.thy ===== *)
theory Sinnix_Ledger
  imports Py_World
begin

text \<open>
  \<open>sinnix_lib/atomic_json.py\<close>, \<open>sinnix_lib/ledger.py\<close> and the exclusion of
  \<open>sinnix_lib/lock.py\<close>: JSON state files and append-only logs of JSON lines. A log's bytes are
  the content of one file; locks only create their file here, since a step of the model is one
  critical section. An append interrupted by a crash leaves a prefix of its bytes.
\<close>

section \<open>State files\<close>

definition read_json :: "fs \<Rightarrow> ppath \<Rightarrow> pyval \<Rightarrow> pyval res" where
  "read_json f p dflt =
     (case bindE (fs_read f p) loads_bytes of
        Inr v \<Rightarrow> Inr v
      | Inl e \<Rightarrow> if e = FileNotFound \<or> e = JSONDecode \<or> e = UnicodeErr then Inr dflt else Inl e)"

definition write_json_atomic :: "ppath \<Rightarrow> pyval \<Rightarrow> nat \<Rightarrow> (fs, unit) io" where
  "write_json_atomic p data mode =
     bindM (fsM (mkdir_p 493 (path_parent p))) (\<lambda>_.
       fsM (fs_publish p (json_dumps data @ [newline]) mode))"

text \<open>Opening for appending creates the file; a directory and a denied node are refused.\<close>

definition open_append :: "nat \<Rightarrow> ppath \<Rightarrow> fs \<Rightarrow> (ppath \<times> string) res" where
  "open_append mode p f =
     bindE (realpath f p) (\<lambda>q.
       (case node_at f q of
          Some (RegFile b m) \<Rightarrow> if q \<in> set (noread f) then Inl (OSErr ''Permission denied'') else Inr (q, b)
        | Some (Dir m) \<Rightarrow> Inl (OSErr ''Is a directory'')
        | Some n \<Rightarrow> Inl (OSErr ''Not a regular file'')
        | None \<Rightarrow>
            (case node_at f (path_parent q) of
               Some (Dir m) \<Rightarrow> if path_parent q \<in> set (nowrite f) then Inl (OSErr ''Permission denied'')
                 else Inr (q, [])
             | Some n \<Rightarrow> Inl (OSErr ''Not a directory'')
             | None \<Rightarrow> Inl FileNotFound)))"

definition file_mode :: "fs \<Rightarrow> ppath \<Rightarrow> nat \<Rightarrow> nat" where
  "file_mode f q mode = (case node_at f q of Some (RegFile b m) \<Rightarrow> m | _ \<Rightarrow> mode)"

definition flock :: "ppath \<Rightarrow> (fs, 'a) io \<Rightarrow> (fs, 'a) io" where
  "flock p body =
     bindM (fsM (mkdir_p 493 (path_parent p))) (\<lambda>_.
     bindM (fsM (\<lambda>f. bindE (open_append 420 p f) (\<lambda>(q, b).
         Inr (fs_put q (RegFile b (file_mode f q 420)) f)))) (\<lambda>_.
       body))"

definition lock_path :: "ppath \<Rightarrow> ppath" where
  "lock_path p = with_name (path_name p @ ''.lock'') p"

text \<open>\<open>with modify_json(p) as doc: body\<close>; the block is a computation from the document to the
  document it leaves behind.\<close>

definition modify_json :: "ppath \<Rightarrow> pyval \<Rightarrow> nat \<Rightarrow> (pyval \<Rightarrow> (fs, pyval) io) \<Rightarrow> (fs, unit) io" where
  "modify_json p dflt mode body =
     flock (lock_path p)
       (bindM getM (\<lambda>f.
        bindM (liftM (read_json f p dflt)) (\<lambda>doc.
        bindM (body doc) (\<lambda>doc'. write_json_atomic p doc' mode))))"

section \<open>Logs\<close>

text \<open>\<open>chunk.rfind(newline)\<close>.\<close>

definition rfind_newline :: "string \<Rightarrow> nat option" where
  "rfind_newline s =
     (let t = takeWhile (\<lambda>c. c \<noteq> newline) (rev s)
      in if length t = length s then None else Some (length s - length t - 1))"

text \<open>The size a log with a torn last line is cut to: the search goes backwards from \<open>cursor\<close> in
  chunks of \<open>k\<close> bytes.\<close>

function (sequential) find_cut :: "nat \<Rightarrow> string \<Rightarrow> nat \<Rightarrow> nat" where
  "find_cut k b 0 = 0"
| "find_cut k b cursor =
     (let start = cursor - Suc k
      in case rfind_newline (drop start (take cursor b)) of
           Some i \<Rightarrow> start + i + 1
         | None \<Rightarrow> find_cut k b start)"
  by pat_completeness auto
termination by (relation "measure (\<lambda>(k, b, c). c)") auto

definition CHUNK :: nat where "CHUNK = 65535"

definition drop_torn :: "string \<Rightarrow> string" where
  "drop_torn b = (if b \<noteq> [] \<and> last b \<noteq> newline then take (find_cut CHUNK b (length b)) b else b)"

definition record_line :: "pydict \<Rightarrow> string" where
  "record_line r = json_dumps (PDict r) @ [newline]"

definition append_bytes :: "ppath \<Rightarrow> string \<Rightarrow> nat \<Rightarrow> (fs, unit) io" where
  "append_bytes p payload mode =
     fsM (\<lambda>f. bindE (open_append mode p f) (\<lambda>(q, b).
       Inr (fs_put q (RegFile (drop_torn b @ payload) (file_mode f q mode)) f)))"

definition append_jsonl_records :: "ppath \<Rightarrow> pydict list \<Rightarrow> nat \<Rightarrow> (fs, unit) io" where
  "append_jsonl_records p records mode =
     bindM (fsM (mkdir_p 493 (path_parent p))) (\<lambda>_.
       (let payload = concat (map record_line records)
        in if payload = [] then returnM ()
           else flock (lock_path p) (append_bytes p payload mode)))"

definition append_jsonl :: "ppath \<Rightarrow> pydict \<Rightarrow> nat \<Rightarrow> (fs, unit) io" where
  "append_jsonl p record mode = append_jsonl_records p [record] mode"

text \<open>\<open>iter_jsonl\<close>: the records of the lines that parse.\<close>

definition line_records :: "string \<Rightarrow> pyval list" where
  "line_records b =
     List.map_filter (\<lambda>l. if strip l = [] then None else json_loads (strip l)) (splitlines b)"

text \<open>A log that is not UTF-8 fails where it stops being so; the records before are not counted.\<close>

definition iter_jsonl :: "fs \<Rightarrow> ppath \<Rightarrow> pyval list res" where
  "iter_jsonl f p =
     (case fs_read f p of
        Inl e \<Rightarrow> Inr []
      | Inr b \<Rightarrow> if utf8_ok b then Inr (line_records b) else Inl UnicodeErr)"

definition write_jsonl_atomic :: "ppath \<Rightarrow> pydict list \<Rightarrow> nat \<Rightarrow> (fs, unit) io" where
  "write_jsonl_atomic p records mode =
     bindM (fsM (mkdir_p 493 (path_parent p))) (\<lambda>_.
       fsM (fs_publish p (concat (map record_line records)) mode))"

text \<open>The receipt of an operation; \<open>now\<close> is the time in seconds, \<open>ts\<close> its UTC form.\<close>

definition receipt ::
  "string dict \<Rightarrow> int \<Rightarrow> string \<Rightarrow> string \<Rightarrow> string \<Rightarrow> string option \<Rightarrow> pydict \<Rightarrow> pydict" where
  "receipt env now ts kind state run_id extra =
     (let given = (case run_id of None \<Rightarrow> [] | Some r \<Rightarrow> r);
          invocation = (case dget env ''INVOCATION_ID'' of None \<Rightarrow> [] | Some r \<Rightarrow> r)
      in dmerge
           [(''run_id'', PStr (if given \<noteq> [] then given else if invocation \<noteq> [] then invocation
              else kind @ ''-'' @ show_int now)),
            (''operation_kind'', PStr kind), (''state'', PStr state), (''ts'', PStr ts)] extra)"

section \<open>Lines of bytes\<close>

text \<open>\<open>readline\<close> on bytes: up to and with the next newline, or the rest.\<close>

definition first_line :: "string \<Rightarrow> string" where
  "first_line s = (let t = takeWhile (\<lambda>c. c \<noteq> newline) s in if length t = length s then t else t @ [newline])"

lemma first_line_nonempty [simp]: "first_line s = [] \<longleftrightarrow> s = []"
  by (cases s) (auto simp: first_line_def Let_def)

lemma first_line_absent: "newline \<notin> set s \<Longrightarrow> first_line s = s"
proof -
  assume "newline \<notin> set s"
  then have "takeWhile (\<lambda>c. c \<noteq> newline) s = s"
    by (intro takeWhile_eq_all_conv [THEN iffD2]) auto
  then show ?thesis by (simp only: first_line_def Let_def simp_thms if_True)
qed

lemma first_line_present: "newline \<notin> set t \<Longrightarrow> first_line (t @ newline # r) = t @ [newline]"
proof -
  assume "newline \<notin> set t"
  then have "takeWhile (\<lambda>c. c \<noteq> newline) (t @ newline # r) = t"
    by (subst takeWhile_append2) auto
  then show ?thesis by (simp add: first_line_def Let_def)
qed

lemma line_cases:
  obtains (absent) "newline \<notin> set s"
    | (present) t r where "s = t @ newline # r" and "newline \<notin> set t"
  by (meson split_list_first)

text \<open>The lines of a binary file, each with its newline.\<close>

function byte_lines :: "string \<Rightarrow> string list" where
  "byte_lines s = (if s = [] then [] else first_line s # byte_lines (drop (length (first_line s)) s))"
  by pat_completeness auto
termination by (relation "measure length") (auto intro!: diff_less)

declare byte_lines.simps [simp del]

lemma byte_lines_Nil [simp]: "byte_lines [] = []"
  by (simp add: byte_lines.simps)

lemma byte_lines_present: "newline \<notin> set t \<Longrightarrow> byte_lines (t @ newline # r) = (t @ [newline]) # byte_lines r"
  by (subst byte_lines.simps) (simp add: first_line_present)

lemma byte_lines_absent: "newline \<notin> set s \<Longrightarrow> s \<noteq> [] \<Longrightarrow> byte_lines s = [s]"
  by (subst byte_lines.simps) (simp add: first_line_absent)

lemma concat_byte_lines [simp]: "concat (byte_lines s) = s"
proof (induction "length s" arbitrary: s rule: less_induct)
  case less
  show ?case
  proof (cases s rule: line_cases)
    case absent
    then show ?thesis by (cases "s = []") (simp_all add: byte_lines_absent)
  next
    case (present t r)
    with less show ?thesis by (simp add: byte_lines_present)
  qed
qed

text \<open>A complete line: one newline, at its end.\<close>

definition whole_line :: "string \<Rightarrow> bool" where
  "whole_line l \<longleftrightarrow> (\<exists>t. l = t @ [newline] \<and> newline \<notin> set t)"

lemma byte_lines_concat: "\<forall>l \<in> set ls. whole_line l \<Longrightarrow> byte_lines (concat ls) = ls"
  by (induction ls) (auto simp: whole_line_def byte_lines_present)

lemma byte_lines_whole: "s = [] \<or> last s = newline \<Longrightarrow> \<forall>l \<in> set (byte_lines s). whole_line l"
proof (induction "length s" arbitrary: s rule: less_induct)
  case less
  show ?case
  proof (cases s rule: line_cases)
    case absent
    with less.prems have "s = []" by (metis last_in_set)
    then show ?thesis by simp
  next
    case (present t r)
    then have "length r < length s" "r = [] \<or> last r = newline"
      using less.prems by (auto split: if_splits)
    from less.hyps [OF this] present show ?thesis
      by (auto simp: byte_lines_present whole_line_def)
  qed
qed

section \<open>The last newline\<close>

definition complete :: "string \<Rightarrow> string" where
  "complete b = rev (dropWhile (\<lambda>c. c \<noteq> newline) (rev b))"

lemma complete_Nil [simp]: "complete [] = []"
  by (simp add: complete_def)

lemma complete_ends [simp]: "complete (b @ [newline]) = b @ [newline]"
  by (simp add: complete_def)

lemma complete_no_newline: "newline \<notin> set t \<Longrightarrow> complete (b @ t) = complete b"
proof -
  assume "newline \<notin> set t"
  then have "dropWhile (\<lambda>c. c \<noteq> newline) (rev t @ rev b) = dropWhile (\<lambda>c. c \<noteq> newline) (rev b)"
    by (intro dropWhile_append2) auto
  then show ?thesis by (simp add: complete_def)
qed

lemma complete_newline: "newline \<notin> set t \<Longrightarrow> complete (b @ newline # t) = b @ [newline]"
  using complete_no_newline [of t "b @ [newline]"] by simp

lemma complete_append: "b = [] \<or> last b = newline \<Longrightarrow> complete (b @ t) = b @ complete t"
proof (cases "newline \<in> set t")
  case True
  then obtain x y where t: "t = x @ newline # y" "newline \<notin> set y" by (meson split_list_last)
  then have "b @ t = (b @ x) @ newline # y" by simp
  with t complete_newline show ?thesis by (metis append_assoc)
next
  case False
  moreover assume "b = [] \<or> last b = newline"
  then have "complete b = b" by (cases b rule: rev_cases) auto
  ultimately show ?thesis
    using complete_no_newline [of t b] complete_no_newline [of t "[]"] by simp
qed

lemma rfind_newline_None: "rfind_newline s = None \<longleftrightarrow> newline \<notin> set s"
proof
  assume "rfind_newline s = None"
  then have "length (takeWhile (\<lambda>c. c \<noteq> newline) (rev s)) = length (rev s)"
    by (simp add: rfind_newline_def Let_def split: if_splits)
  then have "takeWhile (\<lambda>c. c \<noteq> newline) (rev s) = rev s"
    by (metis take_all_iff takeWhile_eq_take order_refl)
  then show "newline \<notin> set s" using takeWhile_eq_all_conv [of "\<lambda>c. c \<noteq> newline" "rev s"] by auto
next
  assume "newline \<notin> set s"
  then have "takeWhile (\<lambda>c. c \<noteq> newline) (rev s) = rev s"
    by (intro takeWhile_eq_all_conv [THEN iffD2]) auto
  then have "length (takeWhile (\<lambda>c. c \<noteq> newline) (rev s)) = length s" by (simp only: length_rev)
  then show "rfind_newline s = None" by (simp add: rfind_newline_def Let_def)
qed

lemma rfind_newline_last: "newline \<notin> set y \<Longrightarrow> rfind_newline (x @ newline # y) = Some (length x)"
proof -
  assume "newline \<notin> set y"
  then have "takeWhile (\<lambda>c. c \<noteq> newline) (rev y @ newline # rev x) = rev y"
    by (subst takeWhile_append2) auto
  then show ?thesis by (simp add: rfind_newline_def Let_def)
qed

lemma find_cut_complete: "cursor \<le> length b \<Longrightarrow> find_cut k b cursor = length (complete (take cursor b))"
proof (induction k b cursor rule: find_cut.induct)
  case (2 k b n)
  define start where "start = Suc n - Suc k"
  let ?s = "drop start (take (Suc n) b)"
  have le: "start \<le> Suc n" by (simp add: start_def)
  then have split: "take (Suc n) b = take start b @ ?s"
    by (metis append_take_drop_id min.absorb1 take_take)
  show ?case
  proof (cases "newline \<in> set ?s")
    case True
    then obtain x y where s: "?s = x @ newline # y" "newline \<notin> set y" by (meson split_list_last)
    with split have "take (Suc n) b = (take start b @ x) @ newline # y" by simp
    with s(2) have "length (complete (take (Suc n) b)) = length (take start b) + length x + 1"
      using complete_newline by (metis length_append length_append_singleton add.commute plus_1_eq_Suc)
    moreover have "length (take start b) = start" using 2(2) le by simp
    ultimately show ?thesis
      using rfind_newline_last [OF s(2), of x] s(1) by (simp add: start_def Let_def)
  next
    case False
    then have none: "rfind_newline ?s = None" by (simp add: rfind_newline_None)
    have "find_cut k b start = length (complete (take start b))"
      using 2(1) [OF _ none [unfolded start_def]] 2(2) by (simp add: start_def)
    with none split False complete_no_newline show ?thesis
      by (metis find_cut.simps(2) option.simps(4) start_def)
  qed
qed simp

lemma take_complete: "take (length (complete b)) b = complete b"
proof -
  have "suffix (dropWhile (\<lambda>c. c \<noteq> newline) (rev b)) (rev b)" by (rule suffix_dropWhile)
  then have "prefix (complete b) b" by (metis complete_def rev_rev_ident suffix_to_prefix)
  then show ?thesis by (metis append_eq_conv_conj prefix_def)
qed

lemma drop_torn_eq: "drop_torn b = complete b"
proof -
  have "complete b = b" if "b = [] \<or> last b = newline"
    using that by (cases b rule: rev_cases) auto
  with take_complete show ?thesis by (auto simp: drop_torn_def find_cut_complete)
qed

text \<open>
  Recovery of a log is right however large the torn line is: searching backwards in chunks
  of any size cuts the file exactly after its last newline, so that a log whose last line is
  complete is kept as it is and a torn last line is dropped whole.
\<close>

theorem drop_torn_complete:
  "drop_torn b = complete b \<and> find_cut k b (length b) = length (complete b)"
  by (simp add: drop_torn_eq find_cut_complete)

section \<open>One record is one line\<close>

lemma str_join_set: "set (str_join sep xs) \<subseteq> set sep \<union> (\<Union>x \<in> set xs. set x)"
  by (induction sep xs rule: str_join.induct) auto

lemma eq_newline: "c = newline \<longleftrightarrow> code c = (10 :: nat)" "newline = c \<longleftrightarrow> code c = (10 :: nat)"
proof -
  have "code newline = (10 :: nat)" by (simp add: newline_def of_char_of)
  then show "c = newline \<longleftrightarrow> code c = (10 :: nat)" by (metis of_char_eq_iff)
  then show "newline = c \<longleftrightarrow> code c = (10 :: nat)" by auto
qed

lemma show_nat_no_newline: "newline \<notin> set (show_nat n)"
proof
  assume "newline \<in> set (show_nat n)"
  with show_nat_digits have "is_digit newline" by blast
  then show False by (simp add: is_digit_def newline_def of_char_of)
qed

lemma hex_digit_no_newline: "n < 16 \<Longrightarrow> hex_digit n \<noteq> newline"
  by (auto simp: hex_digit_def eq_newline of_char_of)

lemma u_escape_no_newline: "newline \<notin> set (u_escape n)"
proof -
  have "hex_digit (m mod 16) \<noteq> newline" for m by (rule hex_digit_no_newline) simp
  then have "code (hex_digit (m mod 16)) \<noteq> (10 :: nat)" for m by (simp add: eq_newline)
  then show ?thesis by (simp add: u_escape_def bslash_def eq_newline of_char_of)
qed

lemma json_char_no_newline: "newline \<notin> set (json_char n)"
  using u_escape_no_newline
  by (auto simp: json_char_def bslash_def dquote_def eq_newline of_char_of split: if_splits)

lemma json_quote_no_newline: "newline \<notin> set (json_quote s)"
  using json_char_no_newline by (auto simp: json_quote_def dquote_def eq_newline of_char_of)

lemma show_int_no_newline: "newline \<notin> set (show_int i)"
  using show_nat_no_newline by (auto simp: show_int_def eq_newline)

lemma strip_trailing_set: "set (strip_trailing s) \<subseteq> set s"
  by (auto simp: strip_trailing_def dest: set_dropWhileD)

lemma repr_nat_dec_no_newline: "newline \<notin> set (repr_nat_dec m k)"
proof -
  have n: "newline \<notin> set (show_nat j)" for j by (rule show_nat_no_newline)
  then have t: "newline \<notin> set (take i (show_nat j))" "newline \<notin> set (drop i (show_nat j))" for i j
    by (meson in_set_takeD, meson in_set_dropD)
  have st: "newline \<notin> set (strip_trailing (show_nat j))" for j
    using strip_trailing_set n by blast
  then have st': "newline \<notin> set (take i (strip_trailing (show_nat j)))"
    "newline \<notin> set (drop i (strip_trailing (show_nat j)))" for i j
    by (meson in_set_takeD, meson in_set_dropD)
  have lit: "newline \<notin> set ''.0e+-''" by (simp add: eq_newline)
  then have lits: "newline \<noteq> CHR ''.''" "newline \<noteq> CHR ''0''" "newline \<noteq> CHR ''e''" "newline \<noteq> CHR ''+''"
    "newline \<noteq> CHR ''-''" by simp_all
  from n t st st' lits show ?thesis
    unfolding repr_nat_dec_def Let_def by (auto simp del: drop_append take_append)
qed

lemma json_float_no_newline: "newline \<notin> set (json_float f)"
  using repr_nat_dec_no_newline by (cases f) (auto simp: eq_newline)

lemma json_print_no_newline:
  "newline \<notin> set isep \<Longrightarrow> newline \<notin> set ksep \<Longrightarrow> newline \<notin> set (json_print srt isep ksep v)"
proof (induction srt isep ksep v rule: json_print.induct)
  case (6 srt isep ksep vs)
  then show ?case
    using str_join_set [of isep "map (json_print srt isep ksep) vs"] by (auto simp: eq_newline)
next
  case (7 srt isep ksep d)
  let ?ps = "map (\<lambda>(k, v). (k, json_quote k @ ksep @ json_print srt isep ksep v)) d"
  have "newline \<notin> set (snd q)" if "q \<in> set ?ps" for q
    using that 7 json_quote_no_newline by fastforce
  then have "newline \<notin> set (snd q)" if "q \<in> set (if srt then sort_key fst ?ps else ?ps)" for q
    using that by (cases srt) auto
  then have "newline \<notin> set (str_join isep (map snd (if srt then sort_key fst ?ps else ?ps)))"
    using str_join_set [of isep "map snd (if srt then sort_key fst ?ps else ?ps)"] 7 by fastforce
  then show ?case by (simp add: Let_def eq_newline)
qed (use json_quote_no_newline show_int_no_newline json_float_no_newline in \<open>auto simp: eq_newline\<close>)

lemma json_dumps_no_newline: "newline \<notin> set (json_dumps v)"
  unfolding json_dumps_def by (rule json_print_no_newline) (simp_all add: eq_newline)

lemma prefix_records:
  assumes "prefix t (concat (map record_line rs))"
  shows "\<exists>n \<le> length rs. complete t = concat (map record_line (take n rs))"
  using assms
proof (induction rs arbitrary: t)
  case (Cons r rs)
  show ?case
  proof (cases "prefix t (json_dumps (PDict r))")
    case True
    then have "newline \<notin> set t" using json_dumps_no_newline by (meson set_mono_prefix subsetD)
    then have "complete t = []" using complete_no_newline [of t "[]"] by simp
    then show ?thesis by (intro exI [of _ 0]) simp
  next
    case False
    from Cons(2) have "prefix t (json_dumps (PDict r) @ newline # concat (map record_line rs))"
      by (simp add: record_line_def [of r])
    with False obtain u where t: "t = json_dumps (PDict r) @ u"
      and "prefix u (newline # concat (map record_line rs))"
      by (auto simp: prefix_append)
    moreover have "u \<noteq> []" using False t by auto
    ultimately obtain u' where u: "u = newline # u'" "prefix u' (concat (map record_line rs))"
      by (auto simp: prefix_Cons)
    from Cons.IH [OF u(2)] obtain n where
      n: "n \<le> length rs" "complete u' = concat (map record_line (take n rs))" by blast
    have "t = record_line r @ u'" by (simp add: t u record_line_def)
    then have "complete t = record_line r @ complete u'"
      using complete_append [of "record_line r" u'] by (simp add: record_line_def)
    with n show ?thesis by (intro exI [of _ "Suc n"]) simp
  qed
qed simp

lemma record_line_whole: "whole_line (record_line r)"
  using json_dumps_no_newline by (auto simp: whole_line_def record_line_def)

text \<open>
  (C3) A crash loses at most the record being written: when an append of records \<open>rs\<close> to a log of
  complete lines is cut off after any number of bytes, the next append keeps the old lines and
  some whole records of the first, then writes its own, so the log is again complete lines.
\<close>

theorem append_after_crash:
  assumes "b = [] \<or> last b = newline" and "prefix t (concat (map record_line rs))"
  shows "\<exists>n \<le> length rs.
     drop_torn (b @ t) @ concat (map record_line new) = b @ concat (map record_line (take n rs @ new))"
  using complete_append [OF assms(1)] prefix_records [OF assms(2)] by (auto simp: drop_torn_eq)

theorem append_after_crash_witness:
  "\<exists>n \<le> 1. drop_torn ([newline] @ ''{'') @ concat (map record_line [[]])
     = [newline] @ concat (map record_line (take n [[]] @ [[]]))"
proof -
  have "prefix ''{'' (concat (map record_line [[]]))" by code_simp
  then show ?thesis using append_after_crash [of "[newline]" "''{''" "[[]]" "[[]]"] by simp
qed

end
