(* ===== verification/Agentctl_Pressure.thy ===== *)
theory Agentctl_Pressure
  imports Agentctl_Config Sinnix_Ledger
begin

text \<open>
  \<open>agentctl/pressure.py\<close>: one pass of the pressure timer. The pauses the program owns are a
  projection of its event log, advanced from a byte cursor kept in a checkpoint; a pass replays the
  new events, resizes adaptive pools, and closes or reopens at most one group.

  The state is the queue state of the adapter extended with the file system, which holds the log,
  the checkpoint and the kernel's accounting files, and the number of times the clock was read. A
  \<open>host\<close> gives what is not in the repository: the clock, the identity of an opened file, and
  \<open>systemctl\<close>. The alarm of the pass is modelled where the source makes it matter, between the
  records of a replay: \<open>alarm = Some n\<close> fires before the (n+1)-th record.
\<close>

definition TICK_CALL_TIMEOUT_SECONDS :: pyfloat where
  "TICK_CALL_TIMEOUT_SECONDS = FDec 8 0"

definition MEMORY_FULL_FREEZE :: pyfloat where "MEMORY_FULL_FREEZE = FDec 25 0"

definition RESUME_BELOW :: pyfloat where "RESUME_BELOW = FDec 10 0"

definition CLOSE_ORDER :: "(string \<times> string list) list" where
  "CLOSE_ORDER = [(''memory'', [''pytest-heavy'', ''pytest'', ''normal'', ''bulk'', ''pytest-quick''])]"

definition MANAGED_GROUPS :: "string list" where
  "MANAGED_GROUPS = [''agent'', ''pytest-heavy'', ''pytest'', ''pytest-quick'', ''normal'', ''bulk'']"

definition OWNER :: string where "OWNER = ''agentctl''"

definition CHECKPOINT_SCHEMA :: int where "CHECKPOINT_SCHEMA = 1"

definition EVENT_KIND :: string where "EVENT_KIND = ''pressure''"

section \<open>The projection of the log\<close>

record spool_state =
  sp_pauses :: "(string \<times> pydict) list"
  sp_cursor :: "pydict option"

definition closed_record :: "pydict \<Rightarrow> pydict" where
  "closed_record event =
     [(''owner'', pget event ''owner''),
      (''signals'', PList (case pget event ''signal'' of
          PStr s \<Rightarrow> map PStr (split_on CHR ''+'' s) | _ \<Rightarrow> []))]"

text \<open>A list or an object is not hashable, so it cannot be looked for in a set.\<close>

definition hashable :: "pyval \<Rightarrow> bool" where
  "hashable v = (case v of PList xs \<Rightarrow> False | PDict d \<Rightarrow> False | _ \<Rightarrow> True)"

definition OPEN_ACTIONS :: "pyval set" where
  "OPEN_ACTIONS = {PStr ''opened'', PStr ''released'', PStr ''ownership-lost''}"

definition spool_apply :: "pydict \<Rightarrow> spool_state \<Rightarrow> spool_state res" where
  "spool_apply event st =
     (if pget event ''kind'' \<noteq> PStr EVENT_KIND then Inr st
      else
        (case pget event ''group'' of
           PStr g \<Rightarrow>
             (let action = pget event ''action''
              in if action = PStr ''closed''
                 then Inr (st\<lparr>sp_pauses := dset g (closed_record event) (sp_pauses st)\<rparr>)
                 else if \<not> hashable action then Inl TypeErr
                 else if action \<in> OPEN_ACTIONS then Inr (st\<lparr>sp_pauses := dpop g (sp_pauses st)\<rparr>)
                 else Inr st)
         | _ \<Rightarrow> Inr st))"

definition ours :: "spool_state \<Rightarrow> string list" where
  "ours st = map fst (filter (\<lambda>(g, r). pget r ''owner'' = PStr OWNER) (sp_pauses st))"

section \<open>Checkpoints\<close>

definition checkpoint_path :: "ppath option \<Rightarrow> ppath option \<Rightarrow> ppath option" where
  "checkpoint_path spool checkpoint =
     (case checkpoint of
        Some c \<Rightarrow> Some c
      | None \<Rightarrow> map_option (\<lambda>p. with_name (path_name p @ ''.pressure-state.json'') p) spool)"

definition empty_state :: spool_state where
  "empty_state = \<lparr>sp_pauses = [], sp_cursor = None\<rparr>"

definition checkpoint_state :: "pyval \<Rightarrow> spool_state" where
  "checkpoint_state raw =
     (case raw of
        PDict d \<Rightarrow>
          if \<not> py_eq (pget d ''schema_version'') (PInt CHECKPOINT_SCHEMA) then empty_state
          else
            \<lparr>sp_pauses = (case pget d ''pauses'' of
                 PDict ps \<Rightarrow> map (\<lambda>(g, r). (g, items_of r)) (filter (\<lambda>(g, r). is_dict r) ps)
               | _ \<Rightarrow> []),
             sp_cursor = (case pget d ''cursor'' of
                 PDict c \<Rightarrow> if list_all (\<lambda>k. is_int (pget c k)) [''device'', ''inode'', ''offset'']
                   then Some c else None
               | _ \<Rightarrow> None)\<rparr>
      | _ \<Rightarrow> empty_state)"

definition load_checkpoint :: "fs \<Rightarrow> ppath option \<Rightarrow> spool_state res" where
  "load_checkpoint f path =
     (case path of
        None \<Rightarrow> Inr empty_state
      | Some p \<Rightarrow> bindE (read_json f p PNone) (\<lambda>raw. Inr (checkpoint_state raw)))"

definition checkpoint_payload :: "spool_state \<Rightarrow> pyval" where
  "checkpoint_payload st = PDict
     [(''schema_version'', PInt CHECKPOINT_SCHEMA),
      (''cursor'', case sp_cursor st of None \<Rightarrow> PNone | Some c \<Rightarrow> PDict c),
      (''pauses'', PDict (map (\<lambda>(g, r). (g, PDict r)) (sp_pauses st)))]"

definition save_checkpoint :: "ppath option \<Rightarrow> spool_state \<Rightarrow> (fs, unit) io" where
  "save_checkpoint path st =
     (case path of
        None \<Rightarrow> returnM ()
      | Some p \<Rightarrow> catchM (write_json_atomic p (checkpoint_payload st) 420)
          (\<lambda>e. if is_oserror e then returnM () else raiseM e))"

section \<open>Replay\<close>

definition make_cursor :: "int \<times> int \<Rightarrow> nat \<Rightarrow> pydict" where
  "make_cursor ident offset =
     [(''device'', PInt (fst ident)), (''inode'', PInt (snd ident)), (''offset'', PInt (int offset))]"

text \<open>Where a replay starts: the cursor's offset when it belongs to the file that was opened and
  lies in it, otherwise the beginning.\<close>

definition start_offset :: "int \<times> int \<Rightarrow> nat \<Rightarrow> pydict option \<Rightarrow> nat" where
  "start_offset ident len cursor =
     (case cursor of
        None \<Rightarrow> 0
      | Some c \<Rightarrow>
          if eq_int (pget c ''device'') (fst ident) \<and> eq_int (pget c ''inode'') (snd ident)
             \<and> 0 \<le> int_of (pget c ''offset'') \<and> int_of (pget c ''offset'') \<le> int len
          then nat (int_of (pget c ''offset'')) else 0)"

text \<open>One complete line: what does not parse, or is not an object, only moves the cursor.\<close>

definition replay_line :: "int \<times> int \<Rightarrow> nat \<Rightarrow> string \<Rightarrow> spool_state \<Rightarrow> spool_state res" where
  "replay_line ident offset line st =
     (let next = st\<lparr>sp_cursor := Some (make_cursor ident (offset + length line))\<rparr>
      in case loads_bytes line of Inr (PDict event) \<Rightarrow> spool_apply event next | _ \<Rightarrow> Inr next)"

text \<open>The replay of a log's bytes from an offset, over the step of one line.\<close>

function replay ::
  "(nat \<Rightarrow> string \<Rightarrow> 's \<Rightarrow> 's res) \<Rightarrow> nat option \<Rightarrow> nat \<Rightarrow> string \<Rightarrow> 's \<Rightarrow> unit res \<times> 's" where
  "replay step alarm offset s st =
     (if s = [] \<or> last (first_line s) \<noteq> newline then (Inr (), st)
      else if alarm = Some 0 then (Inl TickDeadline, st)
      else
        (let line = first_line s
         in case step offset line st of
              Inl e \<Rightarrow> (Inl e, st)
            | Inr st' \<Rightarrow> replay step (map_option (\<lambda>n. n - 1) alarm) (offset + length line)
                (drop (length line) s) st'))"
  by pat_completeness auto
termination
  by (relation "measure (\<lambda>(p, a, n, s, st). length s)") (auto intro!: diff_less)

declare replay.simps [simp del]

section \<open>The world of a pass\<close>

record host =
  h_clock :: "nat \<Rightarrow> string"
  h_ident :: "ppath \<Rightarrow> int \<times> int"
  h_systemctl :: "string list \<Rightarrow> proc_result"

record pworld = pq +
  pw_fs :: fs
  pw_clock :: nat

definition onfs :: "(fs, 'a) io \<Rightarrow> (pworld, 'a) io" where
  "onfs m w = (case m (pw_fs w) of (r, f') \<Rightarrow> (r, w\<lparr>pw_fs := f'\<rparr>))"

definition now_stamp :: "host \<Rightarrow> (pworld, string) io" where
  "now_stamp h w = (Inr (h_clock h (pw_clock w)), w\<lparr>pw_clock := pw_clock w + 1\<rparr>)"

definition event_state :: "host \<Rightarrow> nat option \<Rightarrow> ppath option \<Rightarrow> ppath option \<Rightarrow> (fs, spool_state) io" where
  "event_state h alarm spool checkpoint =
     bindM getM (\<lambda>f.
     bindM (liftM (load_checkpoint f (checkpoint_path spool checkpoint))) (\<lambda>previous.
       (case spool of
          None \<Rightarrow> returnM previous
        | Some p \<Rightarrow>
            (case fs_read f p of
               Inl e \<Rightarrow> if is_oserror e then returnM previous else raiseM e
             | Inr b \<Rightarrow>
                 (let ident = h_ident h p;
                      offset = start_offset ident (length b) (sp_cursor previous);
                      opened = previous\<lparr>sp_cursor := Some (make_cursor ident offset)\<rparr>
                  in case replay (replay_line ident) alarm offset (drop offset b) opened of
                       (Inl e, st) \<Rightarrow>
                         if e = TickDeadline
                         then bindM (save_checkpoint (checkpoint_path spool checkpoint) st) (\<lambda>_. raiseM e)
                         else if is_oserror e then returnM previous
                         else raiseM e
                     | (Inr _, st) \<Rightarrow>
                         bindM (save_checkpoint (checkpoint_path spool checkpoint) st) (\<lambda>_. returnM st))))))"

section \<open>Reading pressure\<close>

type_synonym pressure = "(string \<times> pyfloat option) list"

definition no_pressure :: pressure where
  "no_pressure = [(''memory_full_avg10'', None), (''memory_full_avg60'', None),
     (''io_full_avg10'', None), (''io_full_avg60'', None)]"

definition read_metric :: "string \<Rightarrow> string \<Rightarrow> pressure \<Rightarrow> pressure" where
  "read_metric resource metric values =
     (case str_partition CHR ''='' metric of (key, sep, raw) \<Rightarrow>
        if key \<noteq> ''avg10'' \<and> key \<noteq> ''avg60'' then values
        else
          (case py_float raw of
             None \<Rightarrow> values
           | Some x \<Rightarrow>
               if is_finite x \<and> float_le (FDec 0 0) x
               then dset (resource @ ''_full_'' @ key) (Some x) values else values))"

definition read_line :: "string \<Rightarrow> string \<Rightarrow> pressure \<Rightarrow> pressure" where
  "read_line resource line values =
     (case split_ws line of
        [] \<Rightarrow> values
      | w # ws \<Rightarrow> if w \<noteq> ''full'' then values else foldl (\<lambda>v m. read_metric resource m v) values ws)"

fun read_resources :: "fs \<Rightarrow> ppath \<Rightarrow> string list \<Rightarrow> pressure \<Rightarrow> pressure res" where
  "read_resources f root [] values = Inr values"
| "read_resources f root (r # rs) values =
     (case fs_read_text f (path_join root r) of
        Inl e \<Rightarrow> if is_oserror e then read_resources f root rs values else Inl e
      | Inr content \<Rightarrow>
          read_resources f root rs (foldl (\<lambda>v l. read_line r l v) values (splitlines content)))"

definition read_pressure :: "fs \<Rightarrow> ppath \<Rightarrow> pressure res" where
  "read_pressure f root = read_resources f root [''memory'', ''io''] no_pressure"

definition pvalue :: "pressure \<Rightarrow> string \<Rightarrow> pyfloat option" where
  "pvalue p key =
     (case dget p key of Some (Some x) \<Rightarrow> if is_finite x then Some x else None | _ \<Rightarrow> None)"

definition over_threshold :: "pressure \<Rightarrow> string list" where
  "over_threshold p =
     (case pvalue p ''memory_full_avg60'' of
        Some x \<Rightarrow> if float_le MEMORY_FULL_FREEZE x then [''memory''] else []
      | None \<Rightarrow> [])"

definition recovery_pressure :: "pressure \<Rightarrow> string \<Rightarrow> pyfloat option" where
  "recovery_pressure p sigl =
     (case pvalue p (sigl @ ''_full_avg10'') of
        Some x \<Rightarrow> Some x | None \<Rightarrow> pvalue p (sigl @ ''_full_avg60''))"

definition pressure_complete :: "pressure \<Rightarrow> bool" where
  "pressure_complete p \<longleftrightarrow>
     list_all (\<lambda>(sigl, gs). pvalue p (sigl @ ''_full_avg60'') \<noteq> None) CLOSE_ORDER"

definition can_reopen :: "pressure \<Rightarrow> bool" where
  "can_reopen p \<longleftrightarrow> pressure_complete p \<and>
     list_all (\<lambda>(sigl, gs). case recovery_pressure p sigl of
        Some x \<Rightarrow> float_lt x RESUME_BELOW | None \<Rightarrow> False) CLOSE_ORDER"

definition pressure_items :: "pressure \<Rightarrow> pydict" where
  "pressure_items p = map (\<lambda>(k, v). (k, case v of None \<Rightarrow> PNone | Some x \<Rightarrow> PFloat x)) p"

section \<open>Events\<close>

definition append_event :: "host \<Rightarrow> ppath option \<Rightarrow> pydict \<Rightarrow> bool \<Rightarrow> (pworld, pydict) io" where
  "append_event h spool event required =
     bindM (now_stamp h) (\<lambda>now.
       (let record = dmerge
              [(''schema_version'', PInt 1), (''emitted_at'', PStr now), (''kind'', PStr EVENT_KIND),
               (''owner'', PStr OWNER)] event
        in case spool of
             Some p \<Rightarrow>
               bindM (catchM (onfs (append_jsonl p record 420))
                   (\<lambda>e. if is_oserror e \<and> \<not> required then returnM () else raiseM e)) (\<lambda>_.
                 returnM record)
           | None \<Rightarrow>
               if required then raiseM (ValueErr ''adaptive width changes require an event spool'')
               else returnM record))"

definition paused_by_us :: "host \<Rightarrow> ppath option \<Rightarrow> ppath option \<Rightarrow> (fs, string list) io" where
  "paused_by_us h spool checkpoint =
     bindM (event_state h None spool checkpoint) (\<lambda>st. returnM (ours st))"

section \<open>Memory headroom of a slice\<close>

definition int_text :: "string \<Rightarrow> int res" where
  "int_text s =
     (case py_int (strip s) of
        None \<Rightarrow> Inl (ValueErr (''invalid literal for int() with base 10: '' @ str_repr (strip s)))
      | Some i \<Rightarrow> Inr i)"

definition read_bound :: "fs \<Rightarrow> ppath \<Rightarrow> int \<Rightarrow> int list \<Rightarrow> string \<Rightarrow> int list res" where
  "read_bound f current used bounds limit_file =
     bindE (fs_read_text f (path_join current limit_file)) (\<lambda>s.
       if strip s = ''max'' then Inr bounds
       else bindE (int_text s) (\<lambda>bound.
              if bound < 0 then Inl (ValueErr ''negative memory bound'')
              else Inr (bounds @ [bound - used])))"

text \<open>From the slice up to the root of the hierarchy; the components are given innermost first.\<close>

fun walk_bounds :: "fs \<Rightarrow> ppath \<Rightarrow> string list \<Rightarrow> int list \<Rightarrow> int list res" where
  "walk_bounds f root [] bounds = Inr bounds"
| "walk_bounds f root (c # cs) bounds =
     (let current = (fst root, snd root @ rev (c # cs))
      in bindE (bindE (fs_read_text f (path_join current ''memory.current'')) int_text) (\<lambda>used.
           if used < 0 then Inl (ValueErr ''negative memory.current'')
           else
             bindE (read_bound f current used bounds ''memory.high'') (\<lambda>b1.
             bindE (read_bound f current used b1 ''memory.max'') (\<lambda>b2.
               walk_bounds f root cs b2))))"

definition checked_output :: "proc_result \<Rightarrow> string res" where
  "checked_output r =
     (case r of
        NotInstalled \<Rightarrow> Inl FileNotFound
      | TimedOut \<Rightarrow> Inl (SubprocessErr ''Command timed out after 5 seconds'')
      | Garbled \<Rightarrow> Inl UnicodeErr
      | Exited rc out err \<Rightarrow>
          if rc \<noteq> 0 then Inl (SubprocessErr (''Command returned non-zero exit status '' @ show_int rc))
          else Inr out)"

definition CGROUP_ROOT :: ppath where
  "CGROUP_ROOT = (''/'', [''sys'', ''fs'', ''cgroup''])"

definition slice_headroom :: "host \<Rightarrow> fs \<Rightarrow> string \<Rightarrow> int res" where
  "slice_headroom h f unit =
     bindE (checked_output (h_systemctl h
         [''systemctl'', ''--user'', ''show'', unit, ''--property=ControlGroup'', ''--value''])) (\<lambda>out.
       (let relative = strip out
        in if \<not> prefix ''/'' relative \<or> relative = ''/'' \<or> ''..'' \<in> set (path_parts (mkpath relative))
           then Inl (ValueErr ''slice has no active cgroup'')
           else
             bindE (walk_bounds f CGROUP_ROOT (rev (snd (mkpath (lstrip_char CHR ''/'' relative)))) [])
               (\<lambda>bounds. if bounds = [] then Inl (ValueErr ''slice has no finite memory bound'')
                 else Inr (Min (set bounds)))))"

section \<open>Adaptive widths\<close>

definition next_width :: "int \<Rightarrow> adaptive_pool \<Rightarrow> pyfloat \<Rightarrow> pyfloat \<Rightarrow> int \<Rightarrow> int \<Rightarrow> int" where
  "next_width ceiling a p10 p60 headroom before =
     (let worst = (if float_lt p10 p60 then p60 else p10);
          after = (if float_le RESUME_BELOW worst \<or> headroom \<le> job_memory_bytes a
                   then max (floor_width a) (before - 1) else min ceiling (before + 1))
      in max (floor_width a) (min ceiling after))"

definition resize_group ::
  "daemon \<Rightarrow> host \<Rightarrow> (string \<times> string) list \<Rightarrow> pressure \<Rightarrow> ppath option \<Rightarrow> (string \<times> int) list
     \<Rightarrow> string \<times> pool_policy \<Rightarrow> pyval list \<Rightarrow> (pworld, pyval list) io" where
  "resize_group d h gs pressure spool widths gp obs =
     (let (g, policy) = gp; status = (\<lambda>s. (''status'', PStr s))
      in case (dget gs g = Some ''Running'', dget widths g, adaptive policy) of
           (True, Some before, Some a) \<Rightarrow>
             bindM getM (\<lambda>w.
               (case slice_headroom h (pw_fs w) (slice_name a) of
                  Inl e \<Rightarrow>
                    (case e of
                       SubprocessErr m \<Rightarrow> returnM (obs @ [PDict [(''group'', PStr g),
                         status ''unavailable'', (''error'', PStr (exn_str e))]])
                     | _ \<Rightarrow>
                       if is_oserror e \<or> is_valueerror e
                       then returnM (obs @ [PDict [(''group'', PStr g),
                         status ''unavailable'', (''error'', PStr (exn_str e))]])
                       else raiseM e)
                | Inr headroom \<Rightarrow>
                    (case (pvalue pressure ''memory_full_avg10'', pvalue pressure ''memory_full_avg60'') of
                       (Some p10, Some p60) \<Rightarrow>
                         (let after = next_width (width policy) a p10 p60 headroom before;
                              observation = [(''group'', PStr g), (''from'', PInt before), (''to'', PInt after),
                                (''headroom_bytes'', PInt headroom),
                                (''job_memory_bytes'', PInt (job_memory_bytes a))];
                              report = (\<lambda>extra. obs @ [PDict (observation @ extra)])
                          in if after = before then returnM (report [status ''unchanged''])
                             else
                               bindM (catchM (bindM (set_parallel d g after) (\<lambda>_. returnM None))
                                   (\<lambda>e. if is_pueueerror e then returnM (Some e) else raiseM e)) (\<lambda>failed.
                               (case failed of
                                  Some e \<Rightarrow> returnM (report [status ''failed'', (''error'', PStr (exn_str e))])
                                | None \<Rightarrow>
                                    catchM (bindM (append_event h spool
                                        (dmerge ((''action'', PStr ''resized'') # observation)
                                           (pressure_items pressure)) True) (\<lambda>_.
                                        returnM (report [status ''resized''])))
                                      (\<lambda>e. if is_oserror e \<or> is_valueerror e
                                        then returnM (report [status ''recording-failed'',
                                          (''error'', PStr (exn_str e))])
                                        else raiseM e))))
                     | _ \<Rightarrow> returnM (obs @ [PDict [(''group'', PStr g), status ''unknown-pressure'']]))))
         | _ \<Rightarrow> returnM (obs @ [PDict [(''group'', PStr g), status ''not-running'']]))"

definition adaptive_widths ::
  "daemon \<Rightarrow> host \<Rightarrow> pools \<Rightarrow> (string \<times> string) list \<Rightarrow> pressure \<Rightarrow> ppath option
     \<Rightarrow> (pworld, pyval list) io" where
  "adaptive_widths d h ps gs pressure spool =
     (let policies = filter (\<lambda>(g, p). adaptive p \<noteq> None) ps;
          unavailable = (\<lambda>m. PDict [(''status'', PStr ''unavailable''), (''error'', PStr m)])
      in if policies = [] then returnM []
         else if spool = None then returnM [unavailable ''adaptive admission requires an event spool'']
         else
           bindM (catchM (bindM (groups d) (\<lambda>ws. returnM (Inr ws)))
               (\<lambda>e. if is_pueueerror e then returnM (Inl e) else raiseM e)) (\<lambda>r.
             (case r of
                Inl e \<Rightarrow> returnM [unavailable (exn_str e)]
              | Inr widths \<Rightarrow>
                  forM (resize_group d h gs pressure spool widths) (sort_key fst policies) [])))"

section \<open>One pass\<close>

definition apply_own :: "pydict \<Rightarrow> spool_state \<Rightarrow> (pworld, spool_state) io" where
  "apply_own event st = liftM (spool_apply event st)"

definition release_group ::
  "host \<Rightarrow> ppath option \<Rightarrow> (string \<times> string) list \<Rightarrow> string \<Rightarrow> spool_state \<Rightarrow> (pworld, spool_state) io" where
  "release_group h spool gs g st =
     (if dget gs g = Some ''Running''
      then bindM (append_event h spool [(''action'', PStr ''released''), (''group'', PStr g)] False)
             (\<lambda>event. apply_own event st)
      else returnM st)"

definition failed_report :: "string \<Rightarrow> exn \<Rightarrow> pressure \<Rightarrow> pydict" where
  "failed_report g e pressure =
     [(''action'', PStr ''failed''), (''group'', PStr g), (''error'', PStr (exn_str e)),
      (''pressure'', PDict (pressure_items pressure))]"

text \<open>Change one group, record the change, and report it; \<open>move\<close> is the pause or the resumption.\<close>

definition move_group ::
  "host \<Rightarrow> ppath option \<Rightarrow> ppath option \<Rightarrow> pressure \<Rightarrow> pyval \<Rightarrow> string \<Rightarrow> string \<Rightarrow> (pworld, unit) io
     \<Rightarrow> spool_state \<Rightarrow> (pworld, pydict) io" where
  "move_group h spool cp pressure sigl action g move st =
     bindM (catchM (bindM move (\<lambda>_. returnM None))
         (\<lambda>e. if is_pueueerror e then returnM (Some e) else raiseM e)) (\<lambda>failed.
       (case failed of
          Some e \<Rightarrow> returnM (failed_report g e pressure)
        | None \<Rightarrow>
            bindM (append_event h spool
                (dmerge [(''action'', PStr action), (''group'', PStr g), (''signal'', sigl)]
                   (pressure_items pressure)) False) (\<lambda>event.
            bindM (apply_own event st) (\<lambda>st'.
            bindM (onfs (save_checkpoint cp st')) (\<lambda>_. returnM event)))))"

definition close_order :: "string list \<Rightarrow> string list" where
  "close_order signals =
     map fst (dict_of (concat (map (\<lambda>s. case dget CLOSE_ORDER s of
        None \<Rightarrow> [] | Some gs \<Rightarrow> map (\<lambda>g. (g, ())) gs) signals)))"

definition decide ::
  "daemon \<Rightarrow> host \<Rightarrow> ppath option \<Rightarrow> ppath option \<Rightarrow> (string \<times> string) list \<Rightarrow> pressure
     \<Rightarrow> pyval list \<Rightarrow> spool_state \<Rightarrow> (pworld, pydict) io" where
  "decide d h spool cp gs pressure resized st =
     (let signals = over_threshold pressure;
          sigl = (if signals = [] then PNone else PStr (str_join ''+'' signals));
          paused = filter (\<lambda>g. dget gs g = Some ''Paused'') MANAGED_GROUPS;
          obsolete = filter (\<lambda>g. g \<in> set (ours st) \<and> can_reopen pressure) paused;
          running = filter (\<lambda>g. dget gs g = Some ''Running'') (close_order signals)
      in if obsolete \<noteq> []
         then move_group h spool cp pressure sigl ''opened'' (hd obsolete) (resume_group d (hd obsolete)) st
         else if signals \<noteq> [] \<and> running \<noteq> []
         then move_group h spool cp pressure sigl ''closed'' (hd running) (pause_group d (hd running)) st
         else
           returnM (dmerge
             [(''action'', PStr (if pressure_complete pressure
                 then (if paused \<noteq> [] \<or> signals \<noteq> [] then ''hold'' else ''clear'')
                 else ''unknown-pressure'')),
              (''adaptive'', PList resized),
              (''frozen'', PList (map PStr paused)),
              (''unverified_pauses'', PList (map PStr (filter
                 (\<lambda>g. dhas (sp_pauses st) g \<and> g \<notin> set (ours st)) paused))),
              (''signal'', sigl)] (pressure_items pressure)))"

definition tick_body ::
  "daemon \<Rightarrow> host \<Rightarrow> nat option \<Rightarrow> ppath option \<Rightarrow> ppath \<Rightarrow> ppath option \<Rightarrow> pools \<Rightarrow> (pworld, pydict) io" where
  "tick_body d h alarm spool pressure_root checkpoint ps =
     bindM getM (\<lambda>w.
     bindM (liftM (read_pressure (pw_fs w) pressure_root)) (\<lambda>pressure.
     bindM (onfs (event_state h alarm spool checkpoint)) (\<lambda>st0.
     bindM (catchM (bindM (groups_status d) (\<lambda>gs. returnM (Inr gs)))
         (\<lambda>e. if is_pueueerror e then returnM (Inl e) else raiseM e)) (\<lambda>r.
       (case r of
          Inl e \<Rightarrow> returnM [(''action'', PStr ''unavailable''), (''error'', PStr (exn_str e)),
            (''pressure'', PDict (pressure_items pressure))]
        | Inr gs \<Rightarrow>
            bindM (forM (release_group h spool gs) (sorted_set (ours st0)) st0) (\<lambda>st.
            bindM (onfs (save_checkpoint (checkpoint_path spool checkpoint) st)) (\<lambda>_.
            bindM (adaptive_widths d h ps gs pressure spool) (\<lambda>resized.
              decide d h spool (checkpoint_path spool checkpoint) gs pressure resized st))))))))"

text \<open>\<open>release_holds\<close> is the caller's, here a computation that gives the released and the waiting
  tasks.\<close>

definition tick ::
  "daemon \<Rightarrow> host \<Rightarrow> nat option \<Rightarrow> ppath option \<Rightarrow> ppath \<Rightarrow> ppath option \<Rightarrow> pools
     \<Rightarrow> (pworld, pyval \<times> pyval) io option \<Rightarrow> (pworld, pydict) io" where
  "tick d h alarm spool pressure_root checkpoint ps release_holds =
     catchM (call_deadline TICK_CALL_TIMEOUT_SECONDS
         (bindM (tick_body d h alarm spool pressure_root checkpoint ps) (\<lambda>decision.
           (case release_holds of
              None \<Rightarrow> returnM decision
            | Some release \<Rightarrow>
                bindM (if pget decision ''action'' = PStr ''hold'' \<or> pget decision ''action'' = PStr ''clear''
                       then release else returnM (PList [], PList [])) (\<lambda>(released, waiting).
                  returnM (dmerge decision
                    [(''holds_released'', released), (''holds_waiting'', waiting)]))))))
       (\<lambda>e. if e = TickDeadline
         then returnM [(''action'', PStr ''unavailable''), (''error'', PStr (exn_str e))]
         else raiseM e)"

section \<open>Replaying a log\<close>

lemma replay_absent: "newline \<notin> set s \<Longrightarrow> replay step alarm off s st = (Inr (), st)"
proof (cases s rule: rev_cases)
  case (snoc xs x)
  moreover assume "newline \<notin> set s"
  ultimately show ?thesis using first_line_absent [of s] by (subst replay.simps) auto
qed (simp add: replay.simps)

lemma replay_present:
  "newline \<notin> set t \<Longrightarrow> replay step alarm off (t @ newline # r) st =
     (if alarm = Some 0 then (Inl TickDeadline, st)
      else (case step off (t @ [newline]) st of
          Inl e \<Rightarrow> (Inl e, st)
        | Inr st' \<Rightarrow> replay step (map_option (\<lambda>n. n - 1) alarm) (off + length (t @ [newline])) r st'))"
  by (subst replay.simps) (simp add: first_line_present Let_def split: sum.splits)

text \<open>
  A projection advanced line by line whose state knows how far it has read: an interrupted replay
  can be taken up where its state says it stopped, and a log can be read in instalments.
\<close>

locale projection =
  fixes step :: "nat \<Rightarrow> string \<Rightarrow> 's \<Rightarrow> 's res" and position :: "'s \<Rightarrow> nat"
  assumes step_position: "step off line st = Inr st' \<Longrightarrow> position st' = off + length line"
    and step_no_alarm: "step off line st \<noteq> Inl TickDeadline"
begin

lemma replay_resume:
  assumes "replay step alarm off s st = (Inl TickDeadline, st')" and "position st = off"
  shows "replay step None off s st = replay step None (position st') (drop (position st' - off) s) st'
     \<and> off \<le> position st'"
  using assms
proof (induction "length s" arbitrary: alarm off s st rule: less_induct)
  case less
  show ?case
  proof (cases s rule: line_cases)
    case absent
    with less.prems show ?thesis by (simp add: replay_absent)
  next
    case (present t r)
    let ?line = "t @ [newline]"
    show ?thesis
    proof (cases "alarm = Some 0")
      case True
      with less.prems present have "st' = st" by (simp add: replay_present)
      with less.prems show ?thesis by simp
    next
      case False
      with less.prems(1) present step_no_alarm [of off ?line st] obtain st1 where
        st1: "step off ?line st = Inr st1"
        and rest: "replay step (map_option (\<lambda>n. n - 1) alarm) (off + length ?line) r st1
          = (Inl TickDeadline, st')"
        by (auto simp: replay_present split: sum.splits)
      have pos: "position st1 = off + length ?line" using st1 by (rule step_position)
      have "length r < length s" using present by simp
      from less.hyps [OF this rest pos] have
        IH: "replay step None (off + length ?line) r st1
            = replay step None (position st') (drop (position st' - (off + length ?line)) r) st'"
        and le: "off + length ?line \<le> position st'" by auto
      from le have "drop (position st' - off) s = drop (position st' - (off + length ?line)) r"
        using present(1) by (simp add: drop_Cons' split: nat_diff_split) 
      with IH st1 le present show ?thesis by (simp add: replay_present)
    qed
  qed
qed

lemma replay_append:
  assumes "a = [] \<or> last a = newline"
  shows "replay step None off (a @ b) st =
     (case replay step None off a st of
        (Inl e, st1) \<Rightarrow> (Inl e, st1)
      | (Inr _, st1) \<Rightarrow> replay step None (off + length a) b st1)"
  using assms
proof (induction "length a" arbitrary: off a st rule: less_induct)
  case less
  show ?case
  proof (cases a rule: line_cases)
    case absent
    with less.prems have "a = []" by (metis last_in_set)
    then show ?thesis by (simp add: replay_absent)
  next
    case (present t r)
    then have "length r < length a" and "r = [] \<or> last r = newline"
      using less.prems by (auto split: if_splits)
    from less.hyps [OF this] present show ?thesis
      by (auto simp: replay_present ac_simps split: sum.splits prod.splits)
  qed
qed

lemma replay_position:
  assumes "replay step None off a st = (Inr (), st1)" and "position st = off"
    and "a = [] \<or> last a = newline"
  shows "position st1 = off + length a"
  using assms
proof (induction "length a" arbitrary: off a st rule: less_induct)
  case less
  show ?case
  proof (cases a rule: line_cases)
    case absent
    with less.prems have "a = []" by (metis last_in_set)
    with less.prems show ?thesis by (simp add: replay_absent)
  next
    case (present t r)
    then have r: "length r < length a" "r = [] \<or> last r = newline"
      using less.prems by (auto split: if_splits)
    from less.prems(1) present obtain st2 where "step off (t @ [newline]) st = Inr st2"
      and "replay step None (off + length (t @ [newline])) r st2 = (Inr (), st1)"
      by (auto simp: replay_present split: sum.splits)
    with less.hyps [OF r(1) this(2) step_position r(2)] present show ?thesis by simp
  qed
qed

lemma replay_keeps:
  assumes "\<And>off line st st'. step off line st = Inr st' \<Longrightarrow> I st'" and "I st"
  shows "I (snd (replay step alarm off s st))"
  using assms(2)
proof (induction "length s" arbitrary: alarm off s st rule: less_induct)
  case less
  show ?case
  proof (cases s rule: line_cases)
    case absent
    with less.prems show ?thesis by (simp add: replay_absent)
  next
    case (present t r)
    with less assms(1) show ?thesis
      by (auto simp: replay_present split: sum.splits)
  qed
qed

end

section \<open>The log of the pressure timer\<close>

definition cursor_offset :: "spool_state \<Rightarrow> nat" where
  "cursor_offset st = (case sp_cursor st of None \<Rightarrow> 0 | Some c \<Rightarrow> nat (int_of (pget c ''offset'')))"

lemma cursor_offset_make [simp]: "sp_cursor st = Some (make_cursor i n) \<Longrightarrow> cursor_offset st = n"
  by (simp add: cursor_offset_def make_cursor_def pget_def)

lemma spool_apply_cursor: "spool_apply e st = Inr st' \<Longrightarrow> sp_cursor st' = sp_cursor st"
  by (auto simp: spool_apply_def Let_def split: if_splits pyval.splits)

lemma spool_apply_error: "spool_apply e st = Inl x \<Longrightarrow> x = TypeErr"
  by (auto simp: spool_apply_def Let_def split: if_splits pyval.splits)

lemma replay_line_cursor:
  "replay_line ident off line st = Inr st' \<Longrightarrow> sp_cursor st' = Some (make_cursor ident (off + length line))"
  by (auto simp: replay_line_def Let_def split: sum.splits pyval.splits dest!: spool_apply_cursor)

interpretation spool: projection "replay_line ident" cursor_offset for ident
proof
  show "replay_line ident off line st = Inr st' \<Longrightarrow> cursor_offset st' = off + length line"
    for off line st st'
    by (drule replay_line_cursor) simp
  show "replay_line ident off line st \<noteq> Inl TickDeadline" for off line st
    by (auto simp: replay_line_def Let_def split: sum.splits pyval.splits dest: spool_apply_error)
qed

text \<open>
  A replay that runs out of time loses nothing and repeats nothing: taken up again from the
  state it left behind, wherever the alarm struck, it ends exactly as an uninterrupted replay.
\<close>

theorem replay_interrupted_resumes:
  assumes "replay (replay_line ident) alarm (cursor_offset st) (drop (cursor_offset st) log) st
     = (Inl TickDeadline, st')"
  shows "replay (replay_line ident) None (cursor_offset st') (drop (cursor_offset st') log) st'
     = replay (replay_line ident) None (cursor_offset st) (drop (cursor_offset st) log) st"
  using spool.replay_resume [OF assms refl] by (simp add: drop_drop)

definition sample_log :: string where
  "sample_log = ''{\"kind\":\"pressure\",\"action\":\"closed\",\"group\":\"bulk\",\"owner\":\"agentctl\"}'' @ [newline]
     @ ''{\"kind\":\"pressure\",\"action\":\"opened\",\"group\":\"bulk\"}'' @ [newline]"

theorem replay_interrupted_resumes_witness:
  "\<exists>st'. replay (replay_line (1, 2)) (Some 1) 0 sample_log empty_state = (Inl TickDeadline, st')
     \<and> ours st' = [''bulk'']
     \<and> replay (replay_line (1, 2)) None (cursor_offset st') (drop (cursor_offset st') sample_log) st'
       = replay (replay_line (1, 2)) None 0 sample_log empty_state"
proof -
  let ?r = "replay (replay_line (1, 2)) (Some 1) 0 sample_log empty_state"
  have ev: "fst ?r = Inl TickDeadline \<and> ours (snd ?r) = [''bulk'']" by code_simp
  have zero: "cursor_offset empty_state = 0" by (simp add: cursor_offset_def empty_state_def)
  from ev have "replay (replay_line (1, 2)) (Some 1) (cursor_offset empty_state)
      (drop (cursor_offset empty_state) sample_log) empty_state = (Inl TickDeadline, snd ?r)"
    by (cases ?r) (simp add: zero)
  from replay_interrupted_resumes [OF this] ev show ?thesis
    by (intro exI [of _ "snd ?r"]) (cases ?r, simp add: zero)
qed

text \<open>
  (C20) Advancing by new bytes only is the same as reading the log again: after a pass over the
  complete lines \<open>a\<close>, the next pass over the grown log starts exactly behind them, and ends in the
  state a single replay of the whole log gives.
\<close>

theorem replay_incremental:
  assumes "sp_cursor st = Some (make_cursor ident 0)" and "a = [] \<or> last a = newline"
    and "replay (replay_line ident) None 0 a st = (Inr (), st1)"
  shows "start_offset ident (length (a @ b)) (sp_cursor st1) = length a
     \<and> replay (replay_line ident) None (length a) (drop (length a) (a @ b)) st1
       = replay (replay_line ident) None 0 (a @ b) st"
proof -
  have pos: "cursor_offset st1 = length a"
    using spool.replay_position [OF assms(3) _ assms(2)] assms(1) by simp
  have "\<exists>n. sp_cursor (snd (replay (replay_line ident) None 0 a st)) = Some (make_cursor ident n)"
    by (rule spool.replay_keeps) (use replay_line_cursor assms(1) in blast)+
  with assms(3) obtain n where n: "sp_cursor st1 = Some (make_cursor ident n)" by auto
  with pos have "sp_cursor st1 = Some (make_cursor ident (length a))" by simp
  then have "start_offset ident (length (a @ b)) (sp_cursor st1) = length a"
    by (simp add: start_offset_def make_cursor_def pget_def)
  with spool.replay_append [OF assms(2), of ident 0 b st] assms(3) show ?thesis by simp
qed

definition sample_opened :: spool_state where
  "sample_opened = \<lparr>sp_pauses = [], sp_cursor = Some (make_cursor (1, 2) 0)\<rparr>"

theorem replay_incremental_witness:
  "\<exists>st1. replay (replay_line (1, 2)) None 0 sample_log sample_opened = (Inr (), st1)
     \<and> start_offset (1, 2) (length (sample_log @ sample_log)) (sp_cursor st1) = length sample_log"
proof -
  let ?r = "replay (replay_line (1, 2)) None 0 sample_log sample_opened"
  have "fst ?r = Inr ()" by code_simp
  then have run: "?r = (Inr (), snd ?r)" by (cases ?r) simp
  have "sp_cursor sample_opened = Some (make_cursor (1, 2) 0)" by (simp add: sample_opened_def)
  moreover have "sample_log = [] \<or> last sample_log = newline" by (simp add: sample_log_def)
  ultimately show ?thesis using replay_incremental [OF _ _ run, of sample_log] run by blast
qed

section \<open>Whose pause it is\<close>

fun apply_all :: "pydict list \<Rightarrow> spool_state \<Rightarrow> spool_state res" where
  "apply_all [] st = Inr st"
| "apply_all (e # es) st = bindE (spool_apply e st) (apply_all es)"

text \<open>The events that move group \<open>g\<close>.\<close>

definition moves :: "string \<Rightarrow> pydict \<Rightarrow> bool" where
  "moves g e \<longleftrightarrow> pget e ''kind'' = PStr EVENT_KIND \<and> pget e ''group'' = PStr g
     \<and> (pget e ''action'' = PStr ''closed'' \<or> pget e ''action'' \<in> OPEN_ACTIONS)"

lemma closed_not_open: "PStr ''closed'' \<notin> OPEN_ACTIONS"
  by (simp add: OPEN_ACTIONS_def)

lemma spool_apply_pauses:
  "spool_apply e st = Inr st' \<Longrightarrow>
     dget (sp_pauses st') g =
       (if moves g e then (if pget e ''action'' = PStr ''closed'' then Some (closed_record e) else None)
        else dget (sp_pauses st) g)"
  using closed_not_open
  by (cases "pget e ''group''")
    (auto simp: spool_apply_def moves_def Let_def dget_dset dget_dpop split: if_splits)

lemma spool_apply_dict_ok: "spool_apply e st = Inr st' \<Longrightarrow> dict_ok (sp_pauses st) \<Longrightarrow> dict_ok (sp_pauses st')"
  by (auto simp: spool_apply_def Let_def dict_ok_dset dict_ok_dpop split: if_splits pyval.splits)

lemma apply_all_append: "apply_all (es @ fs) st = bindE (apply_all es st) (apply_all fs)"
  by (induction es arbitrary: st) (auto simp: bindE_def split: sum.splits)

lemma apply_all_pauses:
  "apply_all es empty_state = Inr st \<Longrightarrow> dict_ok (sp_pauses st) \<and>
     dget (sp_pauses st) g =
       (case find (moves g) (rev es) of None \<Rightarrow> None
        | Some e \<Rightarrow> if pget e ''action'' = PStr ''closed'' then Some (closed_record e) else None)"
proof (induction es arbitrary: st rule: rev_induct)
  case Nil
  then show ?case by (auto simp: empty_state_def dict_ok_def)
next
  case (snoc e es)
  then obtain st1 where st1: "apply_all es empty_state = Inr st1" "spool_apply e st1 = Inr st"
    by (auto simp: apply_all_append bindE_eq_Inr)
  from snoc.IH [OF st1(1)] spool_apply_pauses [OF st1(2), of g] spool_apply_dict_ok [OF st1(2)]
  show ?case by auto
qed

lemma ours_iff: "dict_ok (sp_pauses st) \<Longrightarrow>
    g \<in> set (ours st) \<longleftrightarrow> (\<exists>r. dget (sp_pauses st) g = Some r \<and> pget r ''owner'' = PStr OWNER)"
  by (force simp: ours_def dict_ok_def)

lemma closed_record_owner: "pget (closed_record e) ''owner'' = pget e ''owner''"
  by (simp add: closed_record_def pget_def)

text \<open>
  (C4) The projection answers the question it is kept for: after any history, a group counts as
  paused by this program exactly when the last event that moved it closed it and was written by
  this program; a pause by anyone else, a reopening, or a lost ownership takes the group away.
\<close>

theorem ours_is_last_event:
  assumes "apply_all es empty_state = Inr st"
  shows "g \<in> set (ours st) \<longleftrightarrow>
     (\<exists>e. find (moves g) (rev es) = Some e \<and> pget e ''action'' = PStr ''closed''
        \<and> pget e ''owner'' = PStr OWNER)"
  using apply_all_pauses [OF assms, of g] ours_iff [of st g] closed_record_owner
  by (auto split: option.splits if_splits)

definition sample_event :: "string \<Rightarrow> string \<Rightarrow> pydict" where
  "sample_event action owner = [(''kind'', PStr ''pressure''), (''group'', PStr ''bulk''),
     (''action'', PStr action), (''owner'', PStr owner)]"

theorem ours_is_last_event_witness:
  "\<exists>st. apply_all [sample_event ''opened'' ''x'', sample_event ''closed'' ''agentctl''] empty_state = Inr st
     \<and> ''bulk'' \<in> set (ours st)"
proof -
  let ?es = "[sample_event ''opened'' ''x'', sample_event ''closed'' ''agentctl'']"
  have "\<not> isl (apply_all ?es empty_state)" by code_simp
  then obtain st where st: "apply_all ?es empty_state = Inr st"
    by (cases "apply_all ?es empty_state") auto
  have "find (moves ''bulk'') (rev ?es) = Some (sample_event ''closed'' ''agentctl'')" by code_simp
  moreover have "pget (sample_event ''closed'' ''agentctl'') ''action'' = PStr ''closed''
      \<and> pget (sample_event ''closed'' ''agentctl'') ''owner'' = PStr OWNER" by code_simp
  ultimately show ?thesis using ours_is_last_event [OF st, of "''bulk''"] st by blast
qed

section \<open>The calls of a pass\<close>

lemma onfs_op: "pueue_op P (onfs m)"
  by unfold_locales (auto simp: onfs_def split: prod.splits)

lemma now_stamp_op: "pueue_op P (now_stamp h)"
  by unfold_locales (auto simp: now_stamp_def)

lemma getM_op: "pueue_op P getM"
  by unfold_locales auto

lemma pueue_op_Let: "pueue_op P (f x) \<Longrightarrow> pueue_op P (let y = x in f y)"
  by simp

lemma pueue_op_sum:
  "(\<And>e. pueue_op P (m e)) \<Longrightarrow> (\<And>x. pueue_op P (k x)) \<Longrightarrow>
     pueue_op P (case z of Inl e \<Rightarrow> m e | Inr x \<Rightarrow> k x)"
  by (cases z) auto

lemmas pass_intros = pueue_op_intros onfs_op now_stamp_op getM_op pueue_op_sum

lemma append_event_op: "pueue_op P (append_event h spool event required)"
  unfolding append_event_def Let_def by (intro pass_intros)

lemma save_op: "pueue_op P (onfs (save_checkpoint cp st))"
  by (rule onfs_op)

lemma release_group_op: "pueue_op P (release_group h spool gs g st)"
  unfolding release_group_def apply_own_def by (intro pass_intros append_event_op)

text \<open>The resizing an adaptive pool allows.\<close>

definition resize_call :: "pools \<Rightarrow> string list \<Rightarrow> bool" where
  "resize_call ps args \<longleftrightarrow>
     (\<exists>g p a n. (g, p) \<in> set ps \<and> adaptive p = Some a \<and> floor_width a \<le> n \<and>
        (floor_width a \<le> width p \<longrightarrow> n \<le> width p) \<and> args = [''parallel'', ''--group'', g, show_int n])"

lemma next_width_bounds:
  "floor_width a \<le> next_width ceiling a p10 p60 h b
     \<and> (floor_width a \<le> ceiling \<longrightarrow> next_width ceiling a p10 p60 h b \<le> ceiling)"
  by (auto simp: next_width_def Let_def)

lemma resize_group_op:
  assumes "gp \<in> set ps"
  shows "pueue_op (resize_call ps) (resize_group d h gs pressure spool widths gp obs)"
proof -
  obtain g p where gp: "gp = (g, p)" by force
  have call: "pueue_op (resize_call ps) (set_parallel d g (next_width (width p) a p10 p60 hr b))"
    if "adaptive p = Some a" for a p10 p60 hr b
    unfolding set_parallel_def
    by (rule pueue_op_unit)
      (use assms that next_width_bounds in \<open>auto simp: resize_call_def gp intro!: exI [of _ g] exI [of _ p]\<close>)
  show ?thesis
    unfolding resize_group_def gp Let_def prod.case
    by (auto split: option.splits bool.splits exn.splits sum.splits
        intro!: pass_intros call append_event_op)
qed

definition pre_call :: "pools \<Rightarrow> string list \<Rightarrow> bool" where
  "pre_call ps args \<longleftrightarrow> is_read args \<or> resize_call ps args"

lemma resize_filter: "resize_call (filter P ps) args \<Longrightarrow> resize_call ps args"
  by (auto simp: resize_call_def)

lemma forM_op_on:
  "(\<And>x b. x \<in> set xs \<Longrightarrow> pueue_op P (f x b)) \<Longrightarrow> pueue_op P (forM f xs b)"
  by (induction xs arbitrary: b) (auto intro: pueue_op_return pueue_op_bind)

lemma adaptive_widths_op: "pueue_op (pre_call ps) (adaptive_widths d h ps gs pressure spool)"
proof -
  let ?pol = "filter (\<lambda>(g, p). adaptive p \<noteq> None) ps"
  have "pueue_op (pre_call ps) (resize_group d h gs pressure spool ws gp obs)" if "gp \<in> set ?pol" for ws gp obs
    by (rule pueue_op_weaken [OF resize_group_op [of gp ps]]) (use that in \<open>auto simp: pre_call_def\<close>)
  then have each: "pueue_op (pre_call ps) (forM (resize_group d h gs pressure spool ws) (sort_key fst ?pol) [])" for ws
    by (intro forM_op_on) simp
  have "pueue_op (pre_call ps) (groups d)"
    by (rule pueue_op_weaken [OF groups.pueue_op_axioms]) (simp add: pre_call_def)
  then show ?thesis
    unfolding adaptive_widths_def Let_def by (intro each pass_intros)
qed

text \<open>A change of one group makes the call of the change and no other.\<close>

lemma no_calls: "pueue_op (\<lambda>_. False) m \<Longrightarrow> calls (snd (m w)) = calls w"
  using pueue_op.op_calls [of "\<lambda>_. False" m w] by (metis append_Nil2 ex_in_conv set_empty)

lemma call_unit_calls:
  "calls (snd (call_unit d args w)) = calls w @ [(effective_timeout (deadline w) CALL_TIMEOUT_SECONDS, args)]"
  by (auto simp: call_unit_def run_default_def pueue_run_def bindM_def Let_def split: proc_result.splits)

lemma bindM_quiet:
  assumes "\<And>x. pueue_op (\<lambda>_. False) (k x)"
  shows "calls (snd (bindM m k w)) = calls (snd (m w))"
  using assms no_calls by (auto simp: bindM_def split: prod.splits sum.splits)

lemma catchM_quiet:
  assumes "\<And>e. pueue_op (\<lambda>_. False) (h e)"
  shows "calls (snd (catchM m h w)) = calls (snd (m w))"
  using assms no_calls by (auto simp: catchM_def split: prod.splits sum.splits)

lemma move_group_calls:
  "calls (snd (move_group h spool cp p sigl action g (call_unit d args) st w)) =
     calls w @ [(effective_timeout (deadline w) CALL_TIMEOUT_SECONDS, args)]"
proof -
  have "calls (snd (move_group h spool cp p sigl action g (call_unit d args) st w)) =
      calls (snd (call_unit d args w))"
    unfolding move_group_def apply_own_def
    by (subst bindM_quiet, intro pass_intros append_event_op)
      (subst catchM_quiet, intro pass_intros, subst bindM_quiet, intro pass_intros, rule refl)
  then show ?thesis by (simp add: call_unit_calls)
qed

text \<open>Why a pass closes or reopens a group: \<open>group_call\<close> is the call of a justified change.\<close>

definition group_call :: "pressure \<Rightarrow> spool_state \<Rightarrow> (string \<times> string) list \<Rightarrow> string list \<Rightarrow> bool" where
  "group_call p st gs args \<longleftrightarrow>
     (\<exists>g \<in> set MANAGED_GROUPS. args = [''start'', ''--group'', g]
        \<and> g \<in> set (ours st) \<and> dget gs g = Some ''Paused'' \<and> can_reopen p)
     \<or> (\<exists>g \<in> set (close_order (over_threshold p)). args = [''pause'', ''--wait'', ''--group'', g]
        \<and> dget gs g = Some ''Running'' \<and> over_threshold p \<noteq> [])"

lemma decide_calls:
  "\<exists>dec. calls (snd (decide d h spool cp gs p resized st w)) = calls w @ dec
     \<and> length dec \<le> 1 \<and> (\<forall>c \<in> set dec. group_call p st gs (snd c))"
proof -
  let ?paused = "filter (\<lambda>g. dget gs g = Some ''Paused'') MANAGED_GROUPS"
  let ?obsolete = "filter (\<lambda>g. g \<in> set (ours st) \<and> can_reopen p) ?paused"
  let ?running = "filter (\<lambda>g. dget gs g = Some ''Running'') (close_order (over_threshold p))"
  consider (reopen) "?obsolete \<noteq> []" | (close) "?obsolete = []" "over_threshold p \<noteq> [] \<and> ?running \<noteq> []"
    | (none) "?obsolete = []" "\<not> (over_threshold p \<noteq> [] \<and> ?running \<noteq> [])" by blast
  then show ?thesis
  proof cases
    case reopen
    then have "hd ?obsolete \<in> set ?obsolete" by (rule hd_in_set)
    then have "group_call p st gs [''start'', ''--group'', hd ?obsolete]"
      by (auto simp: group_call_def)
    with reopen show ?thesis
      unfolding decide_def Let_def resume_group_def
      by (intro exI [of _ "[(effective_timeout (deadline w) CALL_TIMEOUT_SECONDS,
            [''start'', ''--group'', hd ?obsolete])]"]) (simp only: if_True not_False_eq_True move_group_calls, simp)
  next
    case close
    then have "hd ?running \<in> set ?running" by (intro hd_in_set) simp
    then have "group_call p st gs [''pause'', ''--wait'', ''--group'', hd ?running]"
      using close by (auto simp: group_call_def)
    with close show ?thesis
      unfolding decide_def Let_def pause_group_def
      by (intro exI [of _ "[(effective_timeout (deadline w) CALL_TIMEOUT_SECONDS,
            [''pause'', ''--wait'', ''--group'', hd ?running])]"])
        (simp only: if_True if_False simp_thms not_False_eq_True move_group_calls, simp)
  next
    case none
    then show ?thesis
      unfolding decide_def Let_def by (intro exI [of _ "[]"]) (simp only: if_False simp_thms, simp)
  qed
qed

section \<open>What a pass may do to the queue\<close>

text \<open>The new calls of a computation: a first part of calls satisfying \<open>P\<close>, then a last part
  of which \<open>Q\<close> holds.\<close>

definition calls_split :: "(string list \<Rightarrow> bool) \<Rightarrow> (call list \<Rightarrow> bool) \<Rightarrow> 'z pq_scheme \<Rightarrow> 'z pq_scheme \<Rightarrow> bool" where
  "calls_split P Q w w' \<longleftrightarrow>
     (\<exists>pre dec. calls w' = calls w @ pre @ dec \<and> (\<forall>c \<in> set pre. P (snd c)) \<and> Q dec)"

lemma calls_split_bind:
  assumes "pueue_op P m" and "Q []"
    and "\<And>x w1. m w = (Inr x, w1) \<Longrightarrow> calls_split P Q w1 (snd (k x w1))"
  shows "calls_split P Q w (snd (bindM m k w))"
proof -
  obtain r w1 where mw: "m w = (r, w1)" by force
  obtain new where new: "calls w1 = calls w @ new" "\<forall>c \<in> set new. P (snd c)"
    using pueue_op.op_calls [OF assms(1), of w] mw by auto
  show ?thesis
  proof (cases r)
    case (Inl e)
    with mw new assms(2) show ?thesis by (auto simp: bindM_def calls_split_def)
  next
    case (Inr x)
    with assms(3) mw obtain pre dec where "calls (snd (k x w1)) = calls w1 @ pre @ dec"
      "\<forall>c \<in> set pre. P (snd c)" "Q dec" unfolding calls_split_def by blast
    with new mw Inr show ?thesis
      unfolding calls_split_def by (intro exI [of _ "new @ pre"] exI [of _ dec]) (auto simp: bindM_def)
  qed
qed

lemma append_event_record:
  "append_event h spool event req w = (Inr r, w') \<Longrightarrow> distinct (map fst event) \<Longrightarrow>
     dget event k = Some v \<Longrightarrow> pget r k = v"
  by (auto simp: append_event_def Let_def bindM_eq_Inr pget_def dget_dmerge_distinct
      split: option.splits if_splits)

lemma append_event_kind:
  "append_event h spool event req w = (Inr r, w') \<Longrightarrow> distinct (map fst event) \<Longrightarrow>
     dget event ''kind'' = None \<Longrightarrow> pget r ''kind'' = PStr EVENT_KIND"
  by (auto simp: append_event_def Let_def bindM_eq_Inr pget_def dget_dmerge_distinct
      split: option.splits if_splits)

lemma ours_dpop: "set (ours (st\<lparr>sp_pauses := dpop g (sp_pauses st)\<rparr>)) \<subseteq> set (ours st)"
  by (auto simp: ours_def AList.delete_eq)

lemma release_group_ours:
  assumes "release_group h spool gs g st w = (Inr st', w')"
  shows "set (ours st') \<subseteq> set (ours st)"
proof (cases "dget gs g = Some ''Running''")
  case True
  let ?event = "[(''action'', PStr ''released''), (''group'', PStr g)]"
  from True assms obtain r w1 where ev: "append_event h spool ?event False w = (Inr r, w1)"
    and ap: "spool_apply r st = Inr st'"
    by (auto simp: release_group_def bindM_eq_Inr apply_own_def)
  have "pget r ''action'' = PStr ''released''" "pget r ''group'' = PStr g" "pget r ''kind'' = PStr EVENT_KIND"
    using append_event_record [OF ev] append_event_kind [OF ev] by auto
  with ap have "st' = st\<lparr>sp_pauses := dpop g (sp_pauses st)\<rparr>"
    by (auto simp: spool_apply_def hashable_def OPEN_ACTIONS_def Let_def)
  then show ?thesis using ours_dpop by simp
next
  case False
  with assms show ?thesis by (simp add: release_group_def)
qed

lemma release_all_ours:
  "forM (release_group h spool gs) xs st w = (Inr st', w') \<Longrightarrow> set (ours st') \<subseteq> set (ours st)"
proof (induction xs arbitrary: st w)
  case (Cons x xs)
  then obtain st1 w1 where "release_group h spool gs x st w = (Inr st1, w1)"
    and "forM (release_group h spool gs) xs st1 w1 = (Inr st', w')"
    by (auto simp: bindM_eq_Inr)
  with Cons.IH release_group_ours show ?case by (meson order_trans)
qed simp

text \<open>At most one group is moved, for a reason found in the state \<open>f\<close> the pass started from.\<close>

definition admission_ok ::
  "host \<Rightarrow> nat option \<Rightarrow> ppath option \<Rightarrow> ppath option \<Rightarrow> ppath \<Rightarrow> fs \<Rightarrow> call list \<Rightarrow> bool" where
  "admission_ok h alarm spool checkpoint root f dec \<longleftrightarrow>
     length dec \<le> 1 \<and> (\<forall>c \<in> set dec. \<exists>p st0 f' gs st.
        read_pressure f root = Inr p \<and> event_state h alarm spool checkpoint f = (Inr st0, f')
        \<and> set (ours st) \<subseteq> set (ours st0) \<and> group_call p st gs (snd c))"


section \<open>Adaptive widths\<close>

lemma pvalue_finite: "pvalue p k = Some x \<Longrightarrow> is_finite x"
  by (auto simp: pvalue_def split: option.splits if_splits)

text \<open>The justification of a resize of group \<open>g\<close> to \<open>n\<close>.\<close>

definition resize_reason ::
  "host \<Rightarrow> fs \<Rightarrow> (string \<times> string) list \<Rightarrow> pressure \<Rightarrow> (string \<times> int) list \<Rightarrow> string \<times> pool_policy
     \<Rightarrow> string list \<Rightarrow> bool" where
  "resize_reason h f gs pressure widths gp args \<longleftrightarrow>
     (\<exists>a before n hr p10 p60.
        adaptive (snd gp) = Some a \<and> dget gs (fst gp) = Some ''Running'' \<and> dget widths (fst gp) = Some before
        \<and> slice_headroom h f (slice_name a) = Inr hr
        \<and> pvalue pressure ''memory_full_avg10'' = Some p10 \<and> pvalue pressure ''memory_full_avg60'' = Some p60
        \<and> args = [''parallel'', ''--group'', fst gp, show_int n] \<and> n \<noteq> before
        \<and> (floor_width a \<le> before \<and> before \<le> width (snd gp) \<longrightarrow> \<bar>n - before\<bar> = 1)
        \<and> (before < n \<and> floor_width a \<le> before \<longrightarrow>
             float_lt p10 RESUME_BELOW \<and> float_lt p60 RESUME_BELOW \<and> job_memory_bytes a < hr))"

lemma max_below:
  assumes "is_finite p10" and "is_finite p60"
    and "\<not> float_le RESUME_BELOW (if float_lt p10 p60 then p60 else p10)"
  shows "float_lt p10 RESUME_BELOW \<and> float_lt p60 RESUME_BELOW"
proof -
  have fin: "is_finite RESUME_BELOW" by (simp add: RESUME_BELOW_def)
  show ?thesis
  proof (cases "float_lt p10 p60")
    case True
    with assms fin have "float_lt p60 RESUME_BELOW" by (simp add: float_le_lt)
    moreover from True this have "float_lt p10 RESUME_BELOW"
      using assms fin float_lt_le_trans [of p10 p60 RESUME_BELOW] float_lt_imp_le by blast
    ultimately show ?thesis by simp
  next
    case False
    then have "float_le p60 p10" using assms by (simp add: float_le_lt)
    moreover from False assms fin have "float_lt p10 RESUME_BELOW" by (simp add: float_le_lt)
    ultimately show ?thesis using assms fin float_le_lt_trans by blast
  qed
qed

lemma next_width_cases:
  assumes "next_width ceiling a p10 p60 hr before \<noteq> before"
  shows "(floor_width a \<le> before \<and> before \<le> ceiling \<longrightarrow>
      \<bar>next_width ceiling a p10 p60 hr before - before\<bar> = 1)
    \<and> (before < next_width ceiling a p10 p60 hr before \<and> floor_width a \<le> before \<longrightarrow>
        \<not> float_le RESUME_BELOW (if float_lt p10 p60 then p60 else p10) \<and> job_memory_bytes a < hr)"
proof -
  let ?slow = "float_le RESUME_BELOW (if float_lt p10 p60 then p60 else p10) \<or> hr \<le> job_memory_bytes a"
  have width: "next_width ceiling a p10 p60 hr before = max (floor_width a) (min ceiling
      (if ?slow then max (floor_width a) (before - 1) else min ceiling (before + 1)))"
    by (simp only: next_width_def Let_def)
  show ?thesis
  proof (cases ?slow)
    case True
    with assms width have "next_width ceiling a p10 p60 hr before = max (floor_width a) (min ceiling (max (floor_width a) (before - 1)))"
      by (simp only: if_True)
    with assms show ?thesis by linarith
  next
    case False
    with assms width have "next_width ceiling a p10 p60 hr before = max (floor_width a) (min ceiling (min ceiling (before + 1)))"
      by (simp only: if_False)
    with assms False show ?thesis by linarith
  qed
qed

lemma resize_reasonI:
  assumes "dget gs g = Some ''Running''" and "dget widths g = Some before" and "adaptive p = Some a"
    and "slice_headroom h f (slice_name a) = Inr hr"
    and p10: "pvalue pressure ''memory_full_avg10'' = Some p10" and p60: "pvalue pressure ''memory_full_avg60'' = Some p60"
    and "n = next_width (width p) a p10 p60 hr before" and "n \<noteq> before"
  shows "resize_reason h f gs pressure widths (g, p) [''parallel'', ''--group'', g, show_int n]"
proof -
  note step = next_width_cases [OF assms(8) [unfolded assms(7)], folded assms(7)]
  have "float_lt p10 RESUME_BELOW \<and> float_lt p60 RESUME_BELOW \<and> job_memory_bytes a < hr"
    if "before < n \<and> floor_width a \<le> before"
    using step that max_below [OF pvalue_finite [OF p10] pvalue_finite [OF p60]] by blast
  with step show ?thesis
    unfolding resize_reason_def fst_conv snd_conv
    using assms(1-6,8) by (intro exI conjI) (assumption | rule refl | blast)+
qed

lemma resize_group_calls:
  assumes "gp = (g, p)"
  shows "\<exists>new. calls (snd (resize_group d h gs pressure spool widths gp obs w)) = calls w @ new
     \<and> (\<forall>c \<in> set new. resize_reason h (pw_fs w) gs pressure widths gp (snd c))"
    (is "\<exists>new. calls (snd ?run) = calls w @ new \<and> (\<forall>c \<in> set new. ?ok c)")
proof (cases "dget gs g = Some ''Running'' \<and> dget widths g \<noteq> None \<and> adaptive p \<noteq> None")
  case False
  then have "calls (snd ?run) = calls w"
    by (auto simp: resize_group_def assms Let_def split: option.splits bool.splits)
  then show ?thesis by simp
next
  case True
  then obtain before a where run: "dget gs g = Some ''Running''" and b: "dget widths g = Some before"
    and a: "adaptive p = Some a" by auto
  show ?thesis
  proof (cases "slice_headroom h (pw_fs w) (slice_name a)")
    case (Inl e)
    then have "calls (snd ?run) = calls w"
      using run b a by (auto simp: resize_group_def assms Let_def bindM_def split: exn.splits)
    then show ?thesis by simp
  next
    case (Inr hr)
    show ?thesis
    proof (cases "pvalue pressure ''memory_full_avg10'' = None \<or> pvalue pressure ''memory_full_avg60'' = None")
      case True
      then have "calls (snd ?run) = calls w"
        using run b a Inr by (auto simp: resize_group_def assms Let_def bindM_def split: option.splits)
      then show ?thesis by simp
    next
      case False
      then obtain p10 p60 where psi: "pvalue pressure ''memory_full_avg10'' = Some p10"
        "pvalue pressure ''memory_full_avg60'' = Some p60" by auto
      let ?n = "next_width (width p) a p10 p60 hr before"
      show ?thesis
      proof (cases "?n = before")
        case True
        then have "calls (snd ?run) = calls w"
          using run b a Inr psi by (simp add: resize_group_def assms Let_def bindM_def)
        then show ?thesis by simp
      next
        case False
        have "resize_reason h (pw_fs w) gs pressure widths gp [''parallel'', ''--group'', g, show_int ?n]"
          unfolding assms using run b a Inr psi False by (intro resize_reasonI) simp_all
        moreover have "calls (snd ?run) = calls w @
            [(effective_timeout (deadline w) CALL_TIMEOUT_SECONDS, [''parallel'', ''--group'', g, show_int ?n])]"
        proof -
          have "calls (snd ?run) = calls (snd (set_parallel d g ?n w))"
            using run b a Inr psi False
            unfolding resize_group_def assms Let_def prod.case
            by (simp add: bindM_def [of getM])
              (subst bindM_quiet, intro pass_intros append_event_op,
                subst catchM_quiet, intro pass_intros, subst bindM_quiet, intro pass_intros, rule refl)
          then show ?thesis by (simp add: set_parallel_def call_unit_calls)
        qed
        ultimately show ?thesis by simp
      qed
    qed
  qed
qed


section \<open>The headroom is the tightest bound\<close>

text \<open>\<open>x\<close> is what a finite limit of directory \<open>dir\<close> leaves.\<close>

definition finite_bound :: "fs \<Rightarrow> ppath \<Rightarrow> int \<Rightarrow> bool" where
  "finite_bound f dir x \<longleftrightarrow>
     (\<exists>t used file s bound. fs_read_text f (path_join dir ''memory.current'') = Inr t \<and> int_text t = Inr used
        \<and> 0 \<le> used \<and> file \<in> set [''memory.high'', ''memory.max''] \<and> fs_read_text f (path_join dir file) = Inr s
        \<and> strip s \<noteq> ''max'' \<and> int_text s = Inr bound \<and> 0 \<le> bound \<and> x = bound - used)"

lemma read_bound_set:
  assumes "read_bound f dir used bs file = Inr out"
  shows "x \<in> set out \<longleftrightarrow> x \<in> set bs \<or> (\<exists>s bound. fs_read_text f (path_join dir file) = Inr s
     \<and> strip s \<noteq> ''max'' \<and> int_text s = Inr bound \<and> 0 \<le> bound \<and> x = bound - used)"
  using assms by (auto simp: read_bound_def bindE_eq_Inr split: if_split_asm)

lemma walk_bounds_set:
  "walk_bounds f root cs bs = Inr out \<Longrightarrow>
     x \<in> set out \<longleftrightarrow> x \<in> set bs \<or>
       (\<exists>i < length cs. finite_bound f (fst root, snd root @ rev (drop i cs)) x)"
proof (induction cs arbitrary: bs)
  case (Cons c cs)
  let ?dir = "(fst root, snd root @ rev (c # cs))"
  from Cons.prems obtain t used b1 b2 where
    t: "fs_read_text f (path_join ?dir ''memory.current'') = Inr t" "int_text t = Inr used" "0 \<le> used"
    and b1: "read_bound f ?dir used bs ''memory.high'' = Inr b1"
    and b2: "read_bound f ?dir used b1 ''memory.max'' = Inr b2"
    and rest: "walk_bounds f root cs b2 = Inr out"
    by (auto simp: bindE_eq_Inr Let_def split: if_split_asm)
  have fin: "finite_bound f ?dir x \<longleftrightarrow>
      (\<exists>file \<in> set [''memory.high'', ''memory.max'']. \<exists>s bound. fs_read_text f (path_join ?dir file) = Inr s
        \<and> strip s \<noteq> ''max'' \<and> int_text s = Inr bound \<and> 0 \<le> bound \<and> x = bound - used)"
    unfolding finite_bound_def using t by auto
  have "x \<in> set b2 \<longleftrightarrow> x \<in> set bs \<or> finite_bound f ?dir x"
    using read_bound_set [OF b2, of x] read_bound_set [OF b1, of x] unfolding fin by auto
  then have "x \<in> set out \<longleftrightarrow> x \<in> set bs \<or> finite_bound f ?dir x
      \<or> (\<exists>i < length cs. finite_bound f (fst root, snd root @ rev (drop i cs)) x)"
    using Cons.IH [OF rest] by blast
  also have "\<dots> \<longleftrightarrow> x \<in> set bs \<or>
      (\<exists>i < length (c # cs). finite_bound f (fst root, snd root @ rev (drop i (c # cs))) x)"
    by (auto simp: less_Suc_eq_0_disj)
  finally show ?case .
qed simp

text \<open>
  The headroom of a slice is the tightest of all its bounds: it is what some finite limit of
  the slice or of one of its ancestors leaves, and no limit of any of them leaves less.
\<close>

theorem slice_headroom_tightest:
  assumes "slice_headroom h f unit = Inr n"
  shows "\<exists>cs. (\<exists>k. 0 < k \<and> k \<le> length cs \<and> finite_bound f (''/'', [''sys'', ''fs'', ''cgroup''] @ take k cs) n)
     \<and> (\<forall>k x. 0 < k \<longrightarrow> k \<le> length cs \<longrightarrow>
          finite_bound f (''/'', [''sys'', ''fs'', ''cgroup''] @ take k cs) x \<longrightarrow> n \<le> x)"
proof -
  from assms obtain cs bounds where walk: "walk_bounds f CGROUP_ROOT (rev cs) [] = Inr bounds"
    and ne: "bounds \<noteq> []" and n: "n = Min (set bounds)"
    by (auto simp: slice_headroom_def Let_def bindE_eq_Inr split: if_split_asm)
  have level: "rev (drop i (rev cs)) = take (length cs - i) cs" for i
    by (simp add: rev_drop)
  have mem: "x \<in> set bounds \<longleftrightarrow>
      (\<exists>i < length cs. finite_bound f (''/'', [''sys'', ''fs'', ''cgroup''] @ take (length cs - i) cs) x)" for x
    using walk_bounds_set [OF walk, of x] by (simp add: level CGROUP_ROOT_def)
  have "n \<in> set bounds" using n ne by simp
  then obtain i where "i < length cs"
    and "finite_bound f (''/'', [''sys'', ''fs'', ''cgroup''] @ take (length cs - i) cs) n"
    using mem by blast
  then have ex: "\<exists>k. 0 < k \<and> k \<le> length cs
      \<and> finite_bound f (''/'', [''sys'', ''fs'', ''cgroup''] @ take k cs) n"
    by (intro exI [of _ "length cs - i"]) simp
  have "n \<le> x" if "0 < k" "k \<le> length cs"
    and "finite_bound f (''/'', [''sys'', ''fs'', ''cgroup''] @ take k cs) x" for k x
  proof -
    have "x \<in> set bounds"
      unfolding mem using that by (intro exI [of _ "length cs - k"]) simp
    then show ?thesis by (simp add: n)
  qed
  with ex show ?thesis by blast
qed

definition sample_cgroup_fs :: fs where
  "sample_cgroup_fs = \<lparr>nodes =
     [((''/'', [''sys'', ''fs'', ''cgroup'', ''b.slice'', ''memory.current'']), RegFile ''30'' 420),
      ((''/'', [''sys'', ''fs'', ''cgroup'', ''b.slice'', ''memory.high'']), RegFile ''100'' 420),
      ((''/'', [''sys'', ''fs'', ''cgroup'', ''b.slice'', ''memory.max'']), RegFile ''max'' 420)],
     noread = [], nowrite = []\<rparr>"

definition sample_host :: host where
  "sample_host = \<lparr>h_clock = (\<lambda>n. ''2026-01-01T00:00:00Z''), h_ident = (\<lambda>p. (1, 2)),
     h_systemctl = (\<lambda>args. Exited 0 ''/b.slice'' [])\<rparr>"

theorem slice_headroom_tightest_witness:
  "slice_headroom sample_host sample_cgroup_fs ''b.slice'' = Inr 70
     \<and> (\<exists>cs k. 0 < k \<and> k \<le> length cs
          \<and> finite_bound sample_cgroup_fs (''/'', [''sys'', ''fs'', ''cgroup''] @ take k cs) 70)"
proof -
  have run: "slice_headroom sample_host sample_cgroup_fs ''b.slice'' = Inr 70" by code_simp
  with slice_headroom_tightest [OF run] show ?thesis by blast
qed

section \<open>The deadline of a pass\<close>

definition tick_call :: "pools \<Rightarrow> string list \<Rightarrow> bool" where
  "tick_call ps args \<longleftrightarrow> pre_call ps args \<or> (\<exists>g. args = [''start'', ''--group'', g])
     \<or> (\<exists>g. args = [''pause'', ''--wait'', ''--group'', g])"

lemma move_group_op:
  "P args \<Longrightarrow> pueue_op P (move_group h spool cp p sigl action g (call_unit d args) st)"
  unfolding move_group_def apply_own_def
  by (intro pass_intros append_event_op pueue_op_unit)

lemma tick_body_op: "pueue_op (tick_call ps) (tick_body d h alarm spool root checkpoint ps)"
proof -
  have read: "is_read args \<Longrightarrow> tick_call ps args" for args
    by (simp add: tick_call_def pre_call_def)
  have "pueue_op (tick_call ps) (decide d h spool cp gs p r st)" for cp gs p r st
    unfolding decide_def Let_def resume_group_def pause_group_def
    by (intro pass_intros move_group_op) (auto simp: tick_call_def)
  moreover have "pueue_op (tick_call ps) (adaptive_widths d h ps gs p spool)" for gs p
    by (rule pueue_op_weaken [OF adaptive_widths_op]) (simp add: tick_call_def)
  moreover have "pueue_op (tick_call ps) (groups_status d)"
    by (rule pueue_op_weaken [OF groups_status.pueue_op_axioms]) (rule read)
  ultimately show ?thesis
    unfolding tick_body_def by (intro pass_intros release_group_op)
qed


definition sample_world :: pworld where
  "sample_world = \<lparr>calls = [], deadline = None,
     pw_fs = \<lparr>nodes = [], noread = [], nowrite = []\<rparr>, pw_clock = 0\<rparr>"

definition empty_daemon :: daemon where
  "empty_daemon cs = Exited 0 ''{}'' []"


section \<open>A width that moves\<close>

definition sample_policy :: pool_policy where
  "sample_policy = \<lparr>width = 4,
     adaptive = Some \<lparr>floor_width = 1, job_memory_bytes = 50, slice_name = ''b.slice''\<rparr>, exclusive_with = []\<rparr>"

definition sample_calm :: pressure where
  "sample_calm = [(''memory_full_avg10'', Some (FDec 0 0)), (''memory_full_avg60'', Some (FDec 0 0))]"

definition failing_daemon :: daemon where
  "failing_daemon cs = Exited 1 [] ''refused''"


end
