(* ===== verification/Agentctl_Artifacts.thy ===== *)
theory Agentctl_Artifacts
  imports Agentctl_LaunchInput Sinnix_Ledger
begin

text \<open>
  \<open>agentctl/artifacts.py\<close>: the directories of a job's invocations, numbered under a lock and
  never reused, the compatibility names that point at the latest one, and the cancellation
  request kept beside them. Relative paths start at the root directory; the time of the
  allocation is the argument \<open>now\<close>.
\<close>

definition CANONICAL_NAMES :: "string dict" where
  "CANONICAL_NAMES =
     [(''log'', ''output.log''), (''result'', ''output.result''), (''outcome'', ''output.outcome'')]"

text \<open>\<open>Path(v)\<close> of a dynamic value, and \<open>with_name\<close> and \<open>with_suffix\<close>, which refuse a path
  without a name.\<close>

definition path_arg :: "pyval \<Rightarrow> ppath res" where
  "path_arg v = (case v of PStr s \<Rightarrow> Inr (mkpath s) | _ \<Rightarrow> Inl TypeErr)"

definition named :: "ppath \<Rightarrow> unit res" where
  "named p = guardE (path_name p \<noteq> []) (ValueErr ''path has an empty name'')"

definition root_for :: "ppath \<Rightarrow> ppath res" where
  "root_for log = bindE (named log) (\<lambda>_. Inr (with_suffix ''.attempts'' log))"

definition cancellation_path :: "ppath \<Rightarrow> int \<Rightarrow> ppath res" where
  "cancellation_path log attempt =
     bindE (root_for log) (\<lambda>root. Inr (path_join root (show_int attempt @ ''.cancel-request.json'')))"

definition cancellation :: "fs \<Rightarrow> ppath \<Rightarrow> int \<Rightarrow> pydict option res" where
  "cancellation f log attempt =
     bindE (cancellation_path log attempt) (\<lambda>p.
     (case fs_read f p of
        Inl e \<Rightarrow> if e = FileNotFound then Inr None else Inl e
      | Inr raw \<Rightarrow>
          bindE (guardE (length raw \<le> 65536)
            (ValueErr ''cancellation request exceeds its record limit'')) (\<lambda>_.
          bindE (loads_bytes raw) (\<lambda>v.
          bindE (guardE (is_dict v \<and> eq_int (pget (items_of v) ''attempt'') attempt)
            (ValueErr ''cancellation request does not name this attempt'')) (\<lambda>_.
            Inr (Some (items_of v)))))))"

text \<open>The stem shared by the compatibility names: \<open>x.log\<close> gives \<open>x\<close>.\<close>

definition log_stem :: "ppath \<Rightarrow> string" where
  "log_stem log = removesuffix ''.log'' (path_name log)"

definition paths_for :: "pydict \<Rightarrow> (string \<times> ppath) list res" where
  "paths_for launch =
     bindE (case dget launch ''log_path'' of None \<Rightarrow> Inl (KeyErr ''log_path'') | Some v \<Rightarrow> path_arg v) (\<lambda>log.
     bindE (named log) (\<lambda>_.
     bindE (if truthy (pget launch ''result_path'')
            then bindE (path_arg (pget launch ''result_path'')) (\<lambda>p. Inr [(''result'', p)])
            else Inr []) (\<lambda>res.
       Inr ([(''log'', log), (''outcome'', with_name (log_stem log @ ''.outcome'') log)] @ res))))"

definition log_of :: "(string \<times> ppath) list \<Rightarrow> ppath" where
  "log_of paths = the (dget paths ''log'')"

section \<open>Invocations\<close>

record attempt_rec =
  at_number :: nat
  at_artifacts :: "string dict"

definition is_number :: "string \<Rightarrow> bool" where
  "is_number n \<longleftrightarrow> n \<noteq> [] \<and> list_all is_digit n"

definition attempt_names :: "fs \<Rightarrow> ppath \<Rightarrow> string list" where
  "attempt_names f root =
     (if (\<exists>q \<in> set (noread f). realpath f root = Inr q) then []
      else filter (\<lambda>n. is_number n \<and> fs_is_dir f (path_join root n)) (fs_list f root))"

definition attempt_of :: "ppath \<Rightarrow> (string \<times> ppath) list \<Rightarrow> string \<Rightarrow> attempt_rec" where
  "attempt_of root paths n =
     \<lparr>at_number = read_digits n,
      at_artifacts = map (\<lambda>(key, p).
        (key, path_str (path_join (path_join root n) (the (dget CANONICAL_NAMES key))))) paths\<rparr>"

definition attempts :: "fs \<Rightarrow> pydict \<Rightarrow> attempt_rec list res" where
  "attempts f launch =
     bindE (paths_for launch) (\<lambda>paths.
     bindE (root_for (log_of paths)) (\<lambda>root.
       Inr (map (attempt_of root paths) (sort_key read_digits (attempt_names f root)))))"

text \<open>\<open>max(..., default=0) + 1\<close>.\<close>

definition next_number :: "attempt_rec list \<Rightarrow> nat" where
  "next_number existing = Max (insert 0 (set (map at_number existing))) + 1"

section \<open>Allocation\<close>

definition unlink_missing_ok :: "ppath \<Rightarrow> fs \<Rightarrow> fs res" where
  "unlink_missing_ok p f =
     (case fs_unlink p f of Inl e \<Rightarrow> if e = FileNotFound then Inr f else Inl e | Inr f' \<Rightarrow> Inr f')"

text \<open>A new entry: its directory must exist and be writable, and the name be free.\<close>

definition fs_new :: "ppath \<Rightarrow> fnode \<Rightarrow> fs \<Rightarrow> fs res" where
  "fs_new p n f =
     bindE (realpath f (path_parent p)) (\<lambda>d.
       (case node_at f d of
          None \<Rightarrow> Inl FileNotFound
        | Some (Dir m) \<Rightarrow>
            (let q = (fst d, snd d @ [path_name p])
             in if node_at f q \<noteq> None then Inl (OSErr ''File exists'')
                else if d \<in> set (nowrite f) then Inl (OSErr ''Permission denied'')
                else Inr (fs_put q n f))
        | _ \<Rightarrow> Inl (OSErr ''Not a directory'')))"

text \<open>\<open>os.replace\<close> of an entry that is not a directory by its sibling.\<close>

definition fs_replace :: "ppath \<Rightarrow> ppath \<Rightarrow> fs \<Rightarrow> fs res" where
  "fs_replace src dst f =
     bindE (realpath f (path_parent src)) (\<lambda>d.
       (let p = (fst d, snd d @ [path_name src]); q = (fst d, snd d @ [path_name dst])
        in case node_at f p of
             None \<Rightarrow> Inl FileNotFound
           | Some n \<Rightarrow>
               if d \<in> set (nowrite f) then Inl (OSErr ''Permission denied'')
               else (case node_at f q of
                   Some (Dir m) \<Rightarrow> Inl (OSErr ''Is a directory'')
                 | _ \<Rightarrow> Inr (fs_put q n (fs_remove p f)))))"

definition marker_path :: "ppath \<Rightarrow> ppath" where
  "marker_path log = with_name (log_stem log @ ''.cancel'') log"

text \<open>The attempt a cancellation marker names; an unreadable marker names none.\<close>

definition requested_attempt :: "fs \<Rightarrow> ppath \<Rightarrow> pyval res" where
  "requested_attempt f marker =
     (case bindE (fs_read_text f marker) loads_text of
        Inr (PDict d) \<Rightarrow> Inr (pget d ''attempt'')
      | Inr v \<Rightarrow> Inr PNone
      | Inl e \<Rightarrow> if is_oserror e \<or> e = UnicodeErr \<or> e = JSONDecode then Inr PNone else Inl e)"

definition settle_marker :: "ppath \<Rightarrow> nat \<Rightarrow> (fs, unit) io" where
  "settle_marker marker number =
     bindM getM (\<lambda>f.
     bindM (liftM (requested_attempt f marker)) (\<lambda>requested.
       if eq_int requested (int number) then returnM () else fsM (unlink_missing_ok marker)))"

definition attempt_record :: "nat \<Rightarrow> string \<Rightarrow> string \<Rightarrow> pydict" where
  "attempt_record number now launch_input =
     [(''attempt'', PInt (int number)), (''started_at'', PStr now), (''launch_input'', PStr launch_input)]"

definition absolute :: "ppath \<Rightarrow> ppath" where
  "absolute p = (if fst p = [] then (''/'', snd p) else p)"

definition repoint :: "ppath \<Rightarrow> string \<times> ppath \<Rightarrow> pydict \<Rightarrow> (fs, pydict) io" where
  "repoint directory kp current =
     (case kp of (key, path) \<Rightarrow>
       (let target = path_join directory (the (dget CANONICAL_NAMES key));
            alias = with_name (path_name path @ ''.latest'') path
        in bindM (liftM (named path)) (\<lambda>_.
           bindM (fsM (unlink_missing_ok alias)) (\<lambda>_.
           bindM (fsM (fs_new alias (Symlink (absolute target)))) (\<lambda>_.
           bindM (fsM (fs_replace alias path)) (\<lambda>_.
             returnM (if key = ''outcome'' then current
                      else dset (key @ ''_path'') (PStr (path_str target)) current)))))))"

definition begin_attempt :: "ctx \<Rightarrow> string \<Rightarrow> pydict \<Rightarrow> string \<Rightarrow> (fs, pydict) io" where
  "begin_attempt c now launch launch_input =
     bindM (liftM (paths_for launch)) (\<lambda>paths.
     bindM (liftM (root_for (log_of paths))) (\<lambda>root.
     bindM (fsM (mkdir_p 448 root)) (\<lambda>_.
     bindM (fsM (\<lambda>f. bindE (open_append 420 (path_join root ''.allocation.lock'') f) (\<lambda>(q, b).
         Inr (fs_put q (RegFile b (file_mode f q 420)) f)))) (\<lambda>_.
     bindM getM (\<lambda>f.
     bindM (liftM (attempts f launch)) (\<lambda>existing.
     (let number = next_number existing; directory = path_join root (show_nat number)
      in bindM (settle_marker (marker_path (log_of paths)) number) (\<lambda>_.
         bindM (fsM (fs_new directory (Dir 448))) (\<lambda>_.
         bindM (write_input c (path_join directory ''attempt.json'')
                  (attempt_record number now launch_input)) (\<lambda>_.
           forM (repoint directory) paths (dset ''attempt'' (PInt (int number)) launch)))))))))))"

section \<open>What allocation keeps\<close>

text \<open>Creating directories and files keeps every link, directory and entry there was.\<close>

definition entry_names :: "fs \<Rightarrow> ppath set" where
  "entry_names f = fst ` set (nodes f)"

definition is_dir_node :: "fs \<Rightarrow> ppath \<Rightarrow> bool" where
  "is_dir_node f p \<longleftrightarrow> (case node_at f p of Some (Dir m) \<Rightarrow> True | _ \<Rightarrow> False)"

definition link_at :: "fs \<Rightarrow> ppath \<Rightarrow> ppath option" where
  "link_at f p = (case node_at f p of Some (Symlink q) \<Rightarrow> Some q | _ \<Rightarrow> None)"

definition grows :: "fs \<Rightarrow> fs \<Rightarrow> bool" where
  "grows f f' \<longleftrightarrow> link_at f' = link_at f \<and> Collect (is_dir_node f) \<subseteq> Collect (is_dir_node f')
     \<and> entry_names f \<subseteq> entry_names f' \<and> noread f' = noread f"

lemma grows_refl [simp]: "grows f f"
  by (simp add: grows_def)

lemma grows_trans: "grows f g \<Longrightarrow> grows g h \<Longrightarrow> grows f h"
  unfolding grows_def by (metis order.trans)

lemma grows_put:
  assumes "link_at f p = None" "\<not> is_dir_node f p" "\<forall>q. n \<noteq> Symlink q"
  shows "grows f (fs_put p n f)"
proof -
  have p: "snd p \<noteq> []" using assms(2) by (auto simp: is_dir_node_def node_at_def)
  have "link_at (fs_put p n f) q = link_at f q" for q
    using assms by (auto simp: link_at_def node_at_fs_put [OF p] split: fnode.split)
  moreover have "is_dir_node f q \<Longrightarrow> is_dir_node (fs_put p n f) q" for q
    using assms(2) by (auto simp: is_dir_node_def node_at_fs_put [OF p])
  moreover have "entry_names f \<subseteq> entry_names (fs_put p n f)"
    by (simp add: entry_names_def fs_put_def dom_update subset_insertI)
  ultimately show ?thesis unfolding grows_def by (simp add: fun_eq_iff subset_iff)
qed

lemma resolve_parts_links:
  "link_at f' = link_at f \<Longrightarrow> resolve_parts n f' don cs = resolve_parts n f don cs"
proof (induction n f don cs rule: resolve_parts.induct)
  case (2 n f don c cs)
  let ?p = "(''/'', rev (c # don))"
  show ?case
  proof (cases "c = ''..''")
    case True
    with 2 show ?thesis by simp
  next
    case False
    have same: "link_at f' ?p = link_at f ?p" by (simp only: 2)
    show ?thesis
    proof (cases "link_at f ?p")
      case None
      then show ?thesis using False 2 same
        by (auto simp: link_at_def split: option.splits fnode.splits)
    next
      case (Some t)
      then have "node_at f ?p = Some (Symlink t)" "node_at f' ?p = Some (Symlink t)"
        using same by (auto simp: link_at_def split: option.splits fnode.splits)
      then show ?thesis using False 2 by (cases t; cases n) auto
    qed
  qed
qed simp

lemma grows_realpath: "grows f f' \<Longrightarrow> realpath f' p = realpath f p"
  by (simp add: grows_def realpath_def resolve_parts_links [of f' f])

lemma fs_is_dir_node:
  "fs_is_dir f p \<longleftrightarrow> (case realpath f p of Inl e \<Rightarrow> False | Inr q \<Rightarrow> is_dir_node f q)"
  by (auto simp: fs_is_dir_def is_dir_node_def split: sum.split)

lemma grows_is_dir: "grows f f' \<Longrightarrow> fs_is_dir f p \<Longrightarrow> fs_is_dir f' p"
  using grows_realpath [of f f' p] unfolding fs_is_dir_node
  by (auto simp: grows_def split: sum.split_asm)

lemma fs_list_entries:
  assumes "realpath f d = Inr q"
  shows "set (fs_list f d) = {last (snd p) | p. p \<in> entry_names f \<and> snd p \<noteq> [] \<and> path_parent p = q}"
  using assms by (force simp: fs_list_def entry_names_def)

lemma grows_list: "grows f f' \<Longrightarrow> set (fs_list f d) \<subseteq> set (fs_list f' d)"
proof (cases "realpath f d")
  case (Inr q)
  assume g: "grows f f'"
  then have "realpath f' d = Inr q" using Inr by (simp add: grows_realpath)
  with g Inr show ?thesis by (auto simp: fs_list_entries grows_def)
qed (simp add: fs_list_def)

lemma grows_attempts:
  assumes "grows f f'"
  shows "set (attempt_names f root) \<subseteq> set (attempt_names f' root)"
proof -
  have "noread f' = noread f" using assms by (simp add: grows_def)
  then show ?thesis
    using grows_list [OF assms, of root] grows_realpath [OF assms, of root]
    by (simp add: attempt_names_def subset_iff grows_is_dir [OF assms])
qed

lemma mkdirs_grows: "mkdirs m don cs f = Inr f' \<Longrightarrow> grows f f'"
proof (induction m don cs f rule: mkdirs.induct)
  case (2 m don c cs f)
  let ?p = "(''/'', don @ [c])"
  show ?case
  proof (cases "node_at f ?p")
    case None
    let ?g = "fs_put ?p (Dir (if cs = [] then m else 493)) f"
    have "grows f ?g" using None by (intro grows_put) (auto simp: link_at_def is_dir_node_def)
    moreover have "grows ?g f'"
      using 2(1) [OF refl None] 2(4) None by (auto simp: Let_def split: if_split_asm)
    ultimately show ?thesis by (rule grows_trans)
  next
    case (Some n)
    then show ?thesis using 2(2) [OF refl Some] 2(3) [OF refl Some] 2(4)
      by (cases n) (auto simp: Let_def split: if_split_asm)
  qed
qed simp

lemma open_append_grows:
  assumes "open_append m p f = Inr (q, b)"
  shows "grows f (fs_put q (RegFile b k) f)"
proof (rule grows_put)
  from assms have "node_at f q = None \<or> (\<exists>b m. node_at f q = Some (RegFile b m))"
    unfolding open_append_def bindE_eq_Inr
    by (elim exE conjE) (simp split: option.split_asm fnode.split_asm if_split_asm)
  then show "link_at f q = None" "\<not> is_dir_node f q" by (auto simp: link_at_def is_dir_node_def)
qed simp

lemma fsM_eq_Inr [res_simps]: "fsM c f = (Inr u, f') \<longleftrightarrow> c f = Inr f'"
  by (auto simp: fsM_def split: sum.split)

lemma repoint_current:
  "repoint dir (key, p) cur w = (Inr cur', w') \<Longrightarrow>
     cur' = (if key = ''outcome'' then cur
       else dset (key @ ''_path'') (PStr (path_str (path_join dir (the (dget CANONICAL_NAMES key))))) cur)"
  by (auto simp: repoint_def Let_def bindM_eq_Inr split: if_split_asm)

lemma paths_for_shape:
  assumes "paths_for launch = Inr paths"
  shows "(\<exists>log q. paths = [(''log'', log), (''outcome'', q)] \<and> \<not> truthy (pget launch ''result_path''))
    \<or> (\<exists>log q r. paths = [(''log'', log), (''outcome'', q), (''result'', r)] \<and> truthy (pget launch ''result_path''))"
  using assms unfolding paths_for_def bindE_eq_Inr
  by (elim exE conjE) (cases "truthy (pget launch ''result_path'')"; force simp: bindE_eq_Inr)

text \<open>The names in a started launch that follow the latest invocation.\<close>

definition moved_names :: "pydict \<Rightarrow> string list" where
  "moved_names launch = (if truthy (pget launch ''result_path'') then [''log'', ''result''] else [''log''])"

lemma repoint_all:
  assumes "paths_for launch = Inr paths" and "forM (repoint dir) paths cur w = (Inr cur', w')"
  shows "cur' = foldl (\<lambda>d key. dset (key @ ''_path'')
           (PStr (path_str (path_join dir (the (dget CANONICAL_NAMES key))))) d) cur (moved_names launch)"
  using paths_for_shape [OF assms(1)] assms(2)
  by (elim disjE exE conjE) (auto simp: bindM_eq_Inr moved_names_def dest!: repoint_current)

lemma next_number_above: "a \<in> set existing \<Longrightarrow> at_number a < next_number existing"
  by (auto simp: next_number_def less_Suc_eq_le intro!: Max_ge)

lemma number_above: "k \<in> at_number ` set existing \<Longrightarrow> k < next_number existing"
  by (auto intro: next_number_above)

lemma attempts_numbers:
  assumes "paths_for launch = Inr paths" "root_for (log_of paths) = Inr root" "attempts f launch = Inr es"
  shows "at_number ` set es = read_digits ` set (attempt_names f root)"
  using assms by (force simp: attempts_def attempt_of_def image_iff)

text \<open>
  (C23) Beginning an invocation allocates a number above that of every invocation directory the
  job already has, whatever numbers are missing between them, so no directory is used twice; the
  launch it returns carries that number and names the log (and the result, where the launch
  declares one) inside the new directory, and keeps every other field of the launch.
\<close>

theorem begin_allocates:
  assumes "begin_attempt c now launch inp f = (Inr current, f')"
    and "paths_for launch = Inr paths" and "root_for (log_of paths) = Inr root"
  shows "\<exists>n. (\<forall>name \<in> set (attempt_names f root). read_digits name < n)
     \<and> dget current ''attempt'' = Some (PInt (int n))
     \<and> (\<forall>key. dget current (key @ ''_path'') =
          (if key \<in> set (moved_names launch)
           then Some (PStr (path_str (path_join (path_join root (show_nat n)) (the (dget CANONICAL_NAMES key)))))
           else dget launch (key @ ''_path'')))
     \<and> (\<forall>k. k \<notin> {''attempt'', ''log_path'', ''result_path''} \<longrightarrow> dget current k = dget launch k)"
proof -
  from assms(1) obtain f1 q b f2 es w where
      dirs: "mkdir_p 448 root f = Inr f1" and lock: "open_append 420 (path_join root ''.allocation.lock'') f1 = Inr (q, b)"
    and f2: "f2 = fs_put q (RegFile b (file_mode f1 q 420)) f1" and es: "attempts f2 launch = Inr es"
    and rest: "forM (repoint (path_join root (show_nat (next_number es)))) paths
        (dset ''attempt'' (PInt (int (next_number es))) launch) w = (Inr current, f')"
    unfolding begin_attempt_def by (auto simp: bindM_eq_Inr assms(2,3) fsM_eq_Inr Let_def bindE_eq_Inr)
  have "grows f f2"
    using mkdirs_grows [of 448 "[]" "snd root" f f1] dirs open_append_grows [OF lock] f2
    by (metis grows_trans mkdir_p_def)
  then have "set (attempt_names f root) \<subseteq> set (attempt_names f2 root)" by (rule grows_attempts)
  then have "read_digits name < next_number es" if "name \<in> set (attempt_names f root)" for name
    using that attempts_numbers [OF assms(2,3) es] by (intro number_above) auto
  moreover note repoint_all [OF assms(2) rest]
  ultimately show ?thesis
    by (intro exI [of _ "next_number es"]) (auto simp: moved_names_def dget_dset)
qed

definition sample_attempts_fs :: fs where
  "sample_attempts_fs = \<lparr>nodes = [((''/'', [''j'']), Dir 448), ((''/'', [''j'', ''a.attempts'']), Dir 448),
     ((''/'', [''j'', ''a.attempts'', ''3'']), Dir 448)], noread = [], nowrite = []\<rparr>"

definition sample_launch :: pydict where
  "sample_launch = [(''log_path'', PStr ''/j/a.log'')]"

definition sample_entries :: "(ppath \<times> fnode) list" where
  "sample_entries = [((''/'', [''j'', ''a.attempts'', ''.allocation.lock'']), RegFile [] 420),
     ((''/'', [''j'', ''a.attempts'', ''4'']), Dir 448),
     ((''/'', [''j'', ''a.attempts'', ''4'', ''attempt.json'']),
        RegFile (json_dumps (PDict (attempt_record 4 ''t'' ''/i.json''))) 384)]"

definition sample_after :: "nat \<Rightarrow> fs" where
  "sample_after n = sample_attempts_fs\<lparr>nodes := nodes sample_attempts_fs @ take n sample_entries\<rparr>"

lemma sample_paths:
  "paths_for sample_launch = Inr [(''log'', mkpath ''/j/a.log''), (''outcome'', mkpath ''/j/a.outcome'')]"
  by code_simp

lemma sample_root:
  "root_for (mkpath ''/j/a.log'') = Inr (mkpath ''/j/a.attempts'')"
  by code_simp

lemma sample_mkdir:
  "mkdir_p 448 (mkpath ''/j/a.attempts'') sample_attempts_fs = Inr (sample_after 0)"
  by code_simp

lemma sample_lock:
  "bindE (open_append 420 (path_join (mkpath ''/j/a.attempts'') ''.allocation.lock'') (sample_after 0))
     (\<lambda>(q, b). Inr (fs_put q (RegFile b (file_mode (sample_after 0) q 420)) (sample_after 0)))
     = Inr (sample_after 1)"
  by code_simp

lemma sample_numbers:
  "map_sum id (map at_number) (attempts (sample_after 1) sample_launch) = Inr [3]"
  by code_simp

lemma sample_marker:
  "settle_marker (marker_path (mkpath ''/j/a.log'')) 4 (sample_after 1) = (Inr (), sample_after 1)"
  by code_simp

lemma sample_fresh:
  "fs_new (path_join (mkpath ''/j/a.attempts'') (show_nat 4)) (Dir 448) (sample_after 1) = Inr (sample_after 2)"
  by code_simp

lemma sample_record:
  "write_input sample_ctx (path_join (path_join (mkpath ''/j/a.attempts'') (show_nat 4)) ''attempt.json'')
     (attempt_record 4 ''t'' ''/i.json'') (sample_after 2) = (Inr (), sample_after 3)"
  by code_simp

lemma sample_names:
  "\<not> isl (fst (forM (repoint (path_join (mkpath ''/j/a.attempts'') (show_nat 4)))
     [(''log'', mkpath ''/j/a.log''), (''outcome'', mkpath ''/j/a.outcome'')]
     (dset ''attempt'' (PInt (int 4)) sample_launch) (sample_after 3)))"
  by code_simp

lemma sample_begin:
  "\<exists>current f'. begin_attempt sample_ctx ''t'' sample_launch ''/i.json'' sample_attempts_fs = (Inr current, f')"
proof -
  let ?paths = "[(''log'', mkpath ''/j/a.log''), (''outcome'', mkpath ''/j/a.outcome'')]"
  have log: "log_of ?paths = mkpath ''/j/a.log''" by (simp add: log_of_def)
  obtain es where es: "attempts (sample_after 1) sample_launch = Inr es" "map at_number es = [3]"
    using sample_numbers by (cases "attempts (sample_after 1) sample_launch") auto
  then have "set (map at_number es) = {3}" by simp
  then have n: "next_number es = 4" by (simp add: next_number_def)
  have steps: "begin_attempt sample_ctx ''t'' sample_launch ''/i.json'' sample_attempts_fs
      = forM (repoint (path_join (mkpath ''/j/a.attempts'') (show_nat 4))) ?paths
          (dset ''attempt'' (PInt (int 4)) sample_launch) (sample_after 3)"
    unfolding begin_attempt_def
    by (simp only: bindM_def liftM_apply fsM_def getM_apply sample_paths sample_root log sample_mkdir
        sample_lock es(1) n sample_marker sample_fresh sample_record Let_def prod.case sum.case)
  then show ?thesis using sample_names by (metis isl_def prod.collapse sum.collapse(2))
qed

theorem begin_allocates_witness:
  "\<exists>current n. fst (begin_attempt sample_ctx ''t'' sample_launch ''/i.json'' sample_attempts_fs) = Inr current
     \<and> 3 < n \<and> dget current ''attempt'' = Some (PInt (int n))"
proof -
  obtain current f' where run:
      "begin_attempt sample_ctx ''t'' sample_launch ''/i.json'' sample_attempts_fs = (Inr current, f')"
    using sample_begin by blast
  have root: "root_for (log_of [(''log'', mkpath ''/j/a.log''), (''outcome'', mkpath ''/j/a.outcome'')])
      = Inr (mkpath ''/j/a.attempts'')" using sample_root by (simp add: log_of_def)
  have "''3'' \<in> set (attempt_names sample_attempts_fs (mkpath ''/j/a.attempts''))" by code_simp
  moreover have "read_digits ''3'' = 3" by code_simp
  ultimately obtain n where "3 < n" "dget current ''attempt'' = Some (PInt (int n))"
    using begin_allocates [OF run sample_paths root] by (metis (no_types, lifting))
  then show ?thesis using run by auto
qed

end
