(* ===== verification/Py_Text.thy ===== *)
theory Py_Text
  imports Py_World
begin

text \<open>
  Text operations of the Python standard library that the job queries use: the word splitting and
  quoting of \<open>shlex\<close>, prefixes and replacement decoding of UTF-8, base64, and sums and
  differences of floating-point seconds.
\<close>

section \<open>Shell words\<close>

text \<open>The states of \<open>shlex\<close> in POSIX mode with \<open>whitespace_split\<close> and no comments: between words,
  in a word, within a quotation, and behind a backslash outside or inside double quotes.\<close>

datatype lexmode = Between | Bare | Quoted char | EscBare | EscQuoted

definition is_blank :: "char \<Rightarrow> bool" where
  "is_blank c \<longleftrightarrow> code c = 32 \<or> code c = 9 \<or> code c = 13 \<or> code c = 10"

definition is_quote :: "char \<Rightarrow> bool" where
  "is_quote c \<longleftrightarrow> c = squote \<or> c = dquote"

fun lex :: "lexmode \<Rightarrow> string \<Rightarrow> string \<Rightarrow> string list res" where
  "lex Between tok [] = Inr []"
| "lex Between tok (c # r) =
     (if is_blank c then lex Between [] r
      else if c = bslash then lex EscBare [] r
      else if is_quote c then lex (Quoted c) [] r
      else lex Bare [c] r)"
| "lex Bare tok [] = Inr [tok]"
| "lex Bare tok (c # r) =
     (if is_blank c then (case lex Between [] r of Inl e \<Rightarrow> Inl e | Inr ws \<Rightarrow> Inr (tok # ws))
      else if is_quote c then lex (Quoted c) tok r
      else if c = bslash then lex EscBare tok r
      else lex Bare (tok @ [c]) r)"
| "lex (Quoted q) tok [] = Inl (ValueErr ''No closing quotation'')"
| "lex (Quoted q) tok (c # r) =
     (if c = q then lex Bare tok r
      else if c = bslash \<and> q = dquote then lex EscQuoted tok r
      else lex (Quoted q) (tok @ [c]) r)"
| "lex EscBare tok [] = Inl (ValueErr ''No escaped character'')"
| "lex EscBare tok (c # r) = lex Bare (tok @ [c]) r"
| "lex EscQuoted tok [] = Inl (ValueErr ''No escaped character'')"
| "lex EscQuoted tok (c # r) =
     lex (Quoted dquote) (tok @ (if c \<noteq> bslash \<and> c \<noteq> dquote then [bslash] else []) @ [c]) r"

definition shlex_split :: "string \<Rightarrow> string list res" where
  "shlex_split s = lex Between [] s"

definition shell_safe :: "char \<Rightarrow> bool" where
  "shell_safe c \<longleftrightarrow> is_alnum c \<or> c \<in> set ''@%+=:,./-_''"

fun quote_inner :: "string \<Rightarrow> string" where
  "quote_inner [] = []"
| "quote_inner (c # r) =
     (if c = squote then [squote, dquote, squote, dquote, squote] else [c]) @ quote_inner r"

definition shlex_quote :: "string \<Rightarrow> string" where
  "shlex_quote s =
     (if s = [] then [squote, squote]
      else if list_all shell_safe s then s
      else [squote] @ quote_inner s @ [squote])"

definition shlex_join :: "string list \<Rightarrow> string" where
  "shlex_join ws = str_join '' '' (map shlex_quote ws)"

lemma quote_chars [simp]: "is_quote squote" "is_quote dquote" "squote \<noteq> dquote" "dquote \<noteq> squote"
    "squote \<noteq> bslash" "dquote \<noteq> bslash" "\<not> is_blank squote" "\<not> is_blank dquote"
  by (simp_all add: is_quote_def is_blank_def squote_def dquote_def bslash_def of_char_of)

lemma unsafe_chars: "\<not> shell_safe squote" "\<not> shell_safe dquote" "\<not> shell_safe bslash"
proof -
  show "\<not> shell_safe squote" by code_simp
  show "\<not> shell_safe dquote" by code_simp
  show "\<not> shell_safe bslash" by code_simp
qed

lemma safe_not_blank: "shell_safe c \<Longrightarrow> \<not> is_blank c"
proof
  assume safe: "shell_safe c" and "is_blank c"
  then have "code c \<in> {32, 9, 13, 10 :: nat}" by (auto simp: is_blank_def)
  then have "\<not> is_alnum c" by (auto simp: is_alnum_def is_lower_def is_upper_def is_digit_def)
  with safe have "c \<in> set ''@%+=:,./-_''" by (simp add: shell_safe_def)
  with \<open>is_blank c\<close> show False by (auto simp: is_blank_def)
qed

lemma safe_plain: "shell_safe c \<Longrightarrow> \<not> is_blank c \<and> \<not> is_quote c \<and> c \<noteq> bslash"
  using unsafe_chars safe_not_blank [of c] by (auto simp: is_quote_def)

lemma lex_safe:
  "list_all shell_safe s \<Longrightarrow> lex Bare tok (s @ r) = lex Bare (tok @ s) r"
  by (induction s arbitrary: tok) (auto dest!: safe_plain)

lemma lex_inner: "lex (Quoted squote) tok (quote_inner s @ r) = lex (Quoted squote) (tok @ s) r"
  by (induction s arbitrary: tok) auto

lemma lex_quote: "lex Between [] (shlex_quote s @ r) = lex Bare s r"
proof (cases "s \<noteq> [] \<and> list_all shell_safe s")
  case True
  then obtain c t where "s = c # t" "shell_safe c" "list_all shell_safe t" by (cases s) auto
  with True safe_plain [of c] lex_safe [of t "[c]" r] show ?thesis by (simp add: shlex_quote_def)
next
  case False
  then show ?thesis using lex_inner [of "[]" s "[squote] @ r"] by (auto simp: shlex_quote_def)
qed

text \<open>Quoted words come back as they were.\<close>

lemma shlex_split_join: "shlex_split (shlex_join ws) = Inr ws"
proof -
  have "lex Between [] (str_join '' '' (map shlex_quote ws)) = Inr ws"
  proof (induction ws rule: induct_list012)
    case (2 w)
    show ?case using lex_quote [of w "[]"] by simp
  next
    case (3 v w ws)
    have "is_blank CHR '' ''" by (simp add: is_blank_def)
    with 3 lex_quote [of v "'' '' @ str_join '' '' (map shlex_quote (w # ws))"] show ?case by simp
  qed simp
  then show ?thesis by (simp add: shlex_split_def shlex_join_def)
qed

section \<open>UTF-8\<close>

text \<open>\<open>s[:n]\<close>: the bytes of the first \<open>n\<close> code points.\<close>

fun take_points :: "nat \<Rightarrow> string \<Rightarrow> string" where
  "take_points n [] = []"
| "take_points n (c # r) =
     (if cont c then c # take_points n r else (case n of 0 \<Rightarrow> [] | Suc m \<Rightarrow> c # take_points m r))"

lemma py_len_take_points: "py_len (take_points n s) \<le> n"
  by (induction n s rule: take_points.induct) (auto simp: py_len_def split: nat.splits)

lemma take_points_prefix: "prefix (take_points n s) s"
  by (induction n s rule: take_points.induct) (auto split: nat.splits)

text \<open>\<open>decode('utf-8', 'replace')\<close>: one replacement character for each maximal ill-formed part.
  \<open>utf8_part\<close> is the length of the first part and whether it is well formed.\<close>

definition second_ok :: "nat \<Rightarrow> nat \<Rightarrow> bool" where
  "second_ok a b \<longleftrightarrow> 128 \<le> b \<and> b < 192 \<and> (a = 224 \<longrightarrow> 160 \<le> b) \<and> (a = 237 \<longrightarrow> b < 160)
     \<and> (a = 240 \<longrightarrow> 144 \<le> b) \<and> (a = 244 \<longrightarrow> b < 144)"

definition sequence_length :: "nat \<Rightarrow> nat" where
  "sequence_length a = (if a < 128 then 1 else if a < 194 then 0 else if a < 224 then 2
     else if a < 240 then 3 else if a < 245 then 4 else 0)"

definition well_formed_prefix :: "string \<Rightarrow> nat" where
  "well_formed_prefix s =
     (case s of
        a # b # r \<Rightarrow> if second_ok (code a) (code b) then 2 + length (takeWhile cont (take 2 r)) else 1
      | _ \<Rightarrow> 1)"

definition utf8_part :: "string \<Rightarrow> nat \<times> bool" where
  "utf8_part s =
     (let n = sequence_length (code (hd s)); k = min n (well_formed_prefix (take n s))
      in if n = 0 then (1, False) else if k = n then (n, True) else (max 1 k, False))"

lemma utf8_part_pos: "0 < fst (utf8_part s)"
  by (auto simp: utf8_part_def Let_def)

definition replacement :: string where
  "replacement = map char_of [239 :: nat, 191, 189]"

function utf8_replace :: "string \<Rightarrow> string" where
  "utf8_replace [] = []"
| "utf8_replace (c # r) =
     (case utf8_part (c # r) of (n, ok) \<Rightarrow>
        (if ok then take n (c # r) else replacement) @ utf8_replace (drop (n - 1) r))"
  by pat_completeness auto
termination by (relation "measure length") auto

section \<open>Base64\<close>

definition b64_char :: "nat \<Rightarrow> char" where
  "b64_char n =
     (if n < 26 then char_of (65 + n) else if n < 52 then char_of (71 + n)
      else if n < 62 then char_of (n - 4) else if n = 62 then CHR ''+'' else CHR ''/'')"

fun b64encode :: "string \<Rightarrow> string" where
  "b64encode [] = []"
| "b64encode [a] = [b64_char (code a div 4), b64_char (code a mod 4 * 16), CHR ''='', CHR ''='']"
| "b64encode [a, b] =
     [b64_char (code a div 4), b64_char (code a mod 4 * 16 + code b div 16),
      b64_char (code b mod 16 * 4), CHR ''='']"
| "b64encode (a # b # c # r) =
     [b64_char (code a div 4), b64_char (code a mod 4 * 16 + code b div 16),
      b64_char (code b mod 16 * 4 + code c div 64), b64_char (code c mod 64)] @ b64encode r"

lemma length_b64encode: "length (b64encode s) = 4 * ((length s + 2) div 3)"
proof (induction s rule: b64encode.induct)
  case (4 a b c r)
  have "(length (a # b # c # r) + 2) div 3 = (length r + 2) div 3 + 1" by simp
  with 4 show ?case by simp
qed auto

section \<open>Seconds\<close>

fun float_add :: "pyfloat \<Rightarrow> pyfloat \<Rightarrow> pyfloat" where
  "float_add (FDec m k) (FDec m' k') = mk_dec (m * 10 ^ k' + m' * 10 ^ k) (k + k')"
| "float_add FNan y = FNan"
| "float_add x FNan = FNan"
| "float_add (FInf neg) (FInf neg') = (if neg = neg' then FInf neg else FNan)"
| "float_add (FInf neg) y = FInf neg"
| "float_add x (FInf neg) = FInf neg"

definition float_sub :: "pyfloat \<Rightarrow> pyfloat \<Rightarrow> pyfloat" where
  "float_sub x y = float_add x (float_neg y)"

text \<open>\<open>min(x, y)\<close> and \<open>max(x, y)\<close> keep the first argument unless the second is smaller, or larger.\<close>

definition float_min :: "pyfloat \<Rightarrow> pyfloat \<Rightarrow> pyfloat" where
  "float_min x y = (if float_lt y x then y else x)"

definition float_max :: "pyfloat \<Rightarrow> pyfloat \<Rightarrow> pyfloat" where
  "float_max x y = (if float_lt x y then y else x)"

end
