(* ===== verification/Agentctl_Units.thy ===== *)
theory Agentctl_Units
  imports Agentctl_Artifacts Agentctl_Pueue Py_Text
begin

text \<open>
  The parts of \<open>agentctl/run.py\<close> that own transient units: their names, the cancellation marker,
  starting a service, waiting for it, settling orphans and the outcome it had. \<open>systemctl\<close>,
  \<open>systemd-run\<close> and the queue daemon are parameters: answers as functions of the calls so far.
  The file system others write in is a function of time, \<open>m_fs\<close>; the state counts the
  observations of time, and keeps the log of the run.
\<close>

section \<open>Constants and names\<close>

definition TIMEOUT_EXIT_CODE :: int where "TIMEOUT_EXIT_CODE = 124"
definition REFUSED_EXIT_CODE :: int where "REFUSED_EXIT_CODE = 125"
definition CANCELLED_EXIT_CODE :: int where "CANCELLED_EXIT_CODE = 130"
definition VANISHED_EXIT_CODE :: int where "VANISHED_EXIT_CODE = 126"
definition SLOT_OCCUPIED_EXIT_CODE :: int where "SLOT_OCCUPIED_EXIT_CODE = 75"
definition BUS_CONNECT_RETRY_SECONDS :: pyfloat where "BUS_CONNECT_RETRY_SECONDS = FDec 10 0"
definition UNIT_OBSERVATION_GRACE_SECONDS :: pyfloat where "UNIT_OBSERVATION_GRACE_SECONDS = FDec 10 0"
definition UNIT_POLL_INITIAL_SECONDS :: pyfloat where "UNIT_POLL_INITIAL_SECONDS = FDec 5 2"
definition UNIT_POLL_MAX_SECONDS :: pyfloat where "UNIT_POLL_MAX_SECONDS = FDec 2 0"
definition MAX_LOG_BYTES :: nat where "MAX_LOG_BYTES = 8000000"
definition MAX_RESULT_BYTES :: nat where "MAX_RESULT_BYTES = 64000"
definition UNIT_STEM_BYTES :: nat where "UNIT_STEM_BYTES = 100"

definition USER_BUS_CONNECTION_REFUSED :: string where
  "USER_BUS_CONNECTION_REFUSED =
     ''Failed to connect to user scope bus via local transport: Connection refused''"

datatype run_outcome = Success | Failed | Timeout | Cancelled | Vanished | SlotOccupied

fun outcome_value :: "run_outcome \<Rightarrow> string" where
  "outcome_value Success = ''success''"
| "outcome_value Failed = ''failed''"
| "outcome_value Timeout = ''timeout''"
| "outcome_value Cancelled = ''cancelled''"
| "outcome_value Vanished = ''vanished''"
| "outcome_value SlotOccupied = ''slot_occupied''"

definition POLICY_POOLS :: "string list" where
  "POLICY_POOLS =
     [''agent'', ''land-agent'', ''pytest'', ''pytest-heavy'', ''pytest-quick'', ''bulk'', ''normal'',
      ''interactive'', ''shell-quick'', ''shell-long'', ''compile'', ''background'', ''measure'',
      ''system-build'', ''codex'']"

definition PROTECTED_POOLS :: "string list" where "PROTECTED_POOLS = [''measure'']"

text \<open>\<open>re.sub('[^a-z0-9-]+', '-', s)\<close>: a run of other characters becomes one hyphen.\<close>

definition pool_char :: "char \<Rightarrow> bool" where
  "pool_char c \<longleftrightarrow> is_lower c \<or> is_digit c \<or> c = CHR ''-''"

fun hyphenate :: "string \<Rightarrow> string" where
  "hyphenate [] = []"
| "hyphenate [c] = (if pool_char c then [c] else ''-'')"
| "hyphenate (c # d # r) =
     (if pool_char c then c # hyphenate (d # r)
      else if pool_char d then CHR ''-'' # hyphenate (d # r) else hyphenate (d # r))"

definition strip_set :: "char list \<Rightarrow> string \<Rightarrow> string" where
  "strip_set cs s = rev (dropWhile (\<lambda>c. c \<in> set cs) (rev (dropWhile (\<lambda>c. c \<in> set cs) s)))"

definition unit_pool :: "pyval \<Rightarrow> string option" where
  "unit_pool v =
     (case v of
        PStr g \<Rightarrow> (let p = strip_set ''-'' (hyphenate (str_lower (strip g))) in if p = [] then None else Some p)
      | _ \<Rightarrow> None)"

definition pool_slice :: "string \<Rightarrow> string" where
  "pool_slice pool =
     ''agent-ctl-'' @ (if pool \<in> set POLICY_POOLS then pool else ''normal'') @ ''.slice''"

definition unit_description :: "string \<Rightarrow> string \<Rightarrow> string \<Rightarrow> string" where
  "unit_description dmn pool tk = ''agentctl:'' @ dmn @ '':'' @ pool @ '':'' @ tk"

text \<open>A unit name keeps letters, digits and \<open>_.-\<close>; any other code point becomes a hyphen. The
  digest of the whole path, \<open>dig\<close>, is a parameter.\<close>

definition unit_stem :: "string \<Rightarrow> string" where
  "unit_stem s =
     strip_set ''-.'' (concat (map (\<lambda>c. if is_alnum c \<or> c \<in> set ''_.-'' then [c]
         else if cont c then [] else ''-'') s))"

definition unit_for :: "(string \<Rightarrow> string) \<Rightarrow> ppath \<Rightarrow> string \<Rightarrow> string" where
  "unit_for dig input pool =
     (let stem = take UNIT_STEM_BYTES (unit_stem (path_stem input))
      in ''agentctl-'' @ pool @ ''-'' @ (if stem = [] then ''job'' else stem) @ ''-''
         @ take 12 (dig (path_str input)) @ ''.service'')"

definition sibling :: "ppath \<Rightarrow> string \<Rightarrow> ppath res" where
  "sibling log sfx = bindE (named log) (\<lambda>_. Inr (with_name (log_stem log @ sfx) log))"

definition cancel_marker_for :: "ppath \<Rightarrow> ppath res" where
  "cancel_marker_for log = sibling log ''.cancel''"

definition outcome_path_for :: "ppath \<Rightarrow> ppath res" where
  "outcome_path_for log = sibling log ''.outcome''"

definition marker_targets :: "fs \<Rightarrow> ppath \<Rightarrow> int \<Rightarrow> bool res" where
  "marker_targets f marker attempt =
     (case bindE (fs_read_text f marker) loads_text of
        Inr v \<Rightarrow> Inr (is_dict v \<and> eq_int (pget (items_of v) ''attempt'') attempt)
      | Inl e \<Rightarrow> if is_oserror e \<or> e = UnicodeErr \<or> e = JSONDecode then Inr False else Inl e)"

definition attempt_root_for_marker :: "ppath \<Rightarrow> ppath" where
  "attempt_root_for_marker marker =
     path_join (path_parent marker) (removesuffix ''.cancel'' (path_name marker) @ ''.attempts'')"

text \<open>\<open>cmd\<close> is the command the queue recorded.\<close>

definition launch_input_of :: "string \<Rightarrow> string option" where
  "launch_input_of cmd =
     (case shlex_split cmd of
        Inr [w, p] \<Rightarrow>
          if path_name (mkpath w) = ''agentctl-run'' \<and> path_absolute (mkpath p) then Some p else None
      | _ \<Rightarrow> None)"

section \<open>The host\<close>

record machine =
  m_pueue :: daemon
  m_systemctl :: "string list list \<Rightarrow> proc_result"
  m_mono :: "nat \<Rightarrow> pyfloat"
  m_fs :: "nat \<Rightarrow> fs"

record rworld = pq +
  rw_ctl :: "string list list"
  rw_clock :: nat
  rw_log :: string

definition write_log :: "string \<Rightarrow> ('z rworld_scheme, unit) io" where
  "write_log s w = (Inr (), w\<lparr>rw_log := rw_log w @ s\<rparr>)"

definition monotonic :: "machine \<Rightarrow> ('z rworld_scheme, pyfloat) io" where
  "monotonic m w = (Inr (m_mono m (rw_clock w)), w\<lparr>rw_clock := rw_clock w + 1\<rparr>)"

text \<open>A look at the file system as it is now.\<close>

definition look :: "machine \<Rightarrow> (fs \<Rightarrow> 'a res) \<Rightarrow> ('z rworld_scheme, 'a) io" where
  "look m g w = (g (m_fs m (rw_clock w)), w\<lparr>rw_clock := rw_clock w + 1\<rparr>)"

definition run_ctl :: "machine \<Rightarrow> string list \<Rightarrow> ('z rworld_scheme, proc_result) io" where
  "run_ctl m args w =
     (let cs = rw_ctl w @ [args] in (Inr (m_systemctl m cs), w\<lparr>rw_ctl := cs\<rparr>))"

definition systemd_environment :: "string dict \<Rightarrow> nat \<Rightarrow> string dict" where
  "systemd_environment env uid =
     (if dhas env ''XDG_RUNTIME_DIR'' then env
      else dset ''XDG_RUNTIME_DIR'' (''/run/user/'' @ show_nat uid) env)"

definition systemctl :: "machine \<Rightarrow> string list \<Rightarrow> ('z rworld_scheme, string option) io" where
  "systemctl m args =
     bindM (run_ctl m ([''systemctl'', ''--user''] @ args)) (\<lambda>r.
       liftM (case r of
           Exited rc out err \<Rightarrow> Inr (if rc = 0 then Some out else None)
         | Garbled \<Rightarrow> Inl UnicodeErr
         | _ \<Rightarrow> Inr None))"

section \<open>What a unit reports\<close>

definition snapshot_args :: "string \<Rightarrow> string list" where
  "snapshot_args unit =
     [''show'', ''-p'',
      ''LoadState,ActiveState,SubState,Result,ExecMainStatus,ExecMainCode,Type,ActiveEnterTimestampMonotonic,Job'',
      unit]"

definition property_lines :: "string \<Rightarrow> string dict" where
  "property_lines out =
     dict_of (List.map_filter (\<lambda>l. case str_partition CHR ''='' l of
         (k, True, v) \<Rightarrow> Some (k, v) | _ \<Rightarrow> None) (splitlines out))"

definition unit_snapshot :: "machine \<Rightarrow> string \<Rightarrow> ('z rworld_scheme, string dict option) io" where
  "unit_snapshot m unit =
     bindM (systemctl m (snapshot_args unit)) (\<lambda>shown. returnM (map_option property_lines shown))"

definition unit_properties :: "machine \<Rightarrow> string \<Rightarrow> ('z rworld_scheme, string dict) io" where
  "unit_properties m unit =
     bindM (unit_snapshot m unit) (\<lambda>p. returnM (case p of
         Some d \<Rightarrow> if dget d ''LoadState'' = Some ''loaded'' then d else [] | None \<Rightarrow> []))"

definition unit_is_terminal :: "string dict \<Rightarrow> bool" where
  "unit_is_terminal p \<longleftrightarrow>
     (case dget p ''Job'' of None \<Rightarrow> True | Some j \<Rightarrow> j \<in> {[], ''0''})
     \<and> dget p ''LoadState'' = Some ''loaded''
     \<and> (dget p ''ActiveState'' \<in> {Some ''inactive'', Some ''failed''}
        \<or> (dget p ''ActiveState'' = Some ''active'' \<and> dget p ''SubState'' = Some ''exited''))"

text \<open>One poll of the loop in \<open>_wait_for_unit\<close>: \<open>Some\<close> ends it. The sleep between polls is the time
  that passes before the next observation of the clock.\<close>

definition poll_result :: "string dict option \<Rightarrow> string dict option" where
  "poll_result p =
     (case p of
        None \<Rightarrow> None
      | Some d \<Rightarrow>
          (case dget d ''LoadState'' of
             Some l \<Rightarrow> if l \<noteq> [] \<and> l \<noteq> ''loaded'' then Some []
                       else if unit_is_terminal d then Some d else None
           | None \<Rightarrow> None))"

definition past :: "machine \<Rightarrow> pyfloat option \<Rightarrow> ('z rworld_scheme, bool) io" where
  "past m deadline_at =
     (case deadline_at of
        None \<Rightarrow> returnM False
      | Some d \<Rightarrow> bindM (monotonic m) (\<lambda>now. returnM (float_le d now)))"

text \<open>\<open>None\<close> outside the result means that the fuel ran out.\<close>

fun poll_unit :: "machine \<Rightarrow> string \<Rightarrow> pyfloat option \<Rightarrow> nat \<Rightarrow> ('z rworld_scheme, string dict option option) io" where
  "poll_unit m unit deadline_at 0 = returnM None"
| "poll_unit m unit deadline_at (Suc n) =
     bindM (unit_snapshot m unit) (\<lambda>p.
       (case poll_result p of
          Some r \<Rightarrow> returnM (Some (Some r))
        | None \<Rightarrow>
            bindM (past m deadline_at) (\<lambda>late.
              if late then returnM (Some None) else poll_unit m unit deadline_at n)))"

definition wait_for_unit :: "machine \<Rightarrow> string \<Rightarrow> nat \<Rightarrow> nat \<Rightarrow> ('z rworld_scheme, string dict option option) io" where
  "wait_for_unit m unit timeout_seconds fuel =
     (if timeout_seconds = 0 then poll_unit m unit None fuel
      else bindM (monotonic m) (\<lambda>now.
        poll_unit m unit (Some (float_add (float_add now (FDec (int timeout_seconds) 0))
          UNIT_OBSERVATION_GRACE_SECONDS)) fuel))"

section \<open>Starting a service\<close>

definition marked :: "machine \<Rightarrow> ppath \<Rightarrow> int \<Rightarrow> ('z rworld_scheme, bool) io" where
  "marked m marker attempt = look m (\<lambda>f. marker_targets f marker attempt)"

definition unit_argument :: "string list \<Rightarrow> string option" where
  "unit_argument cmd = map_option (drop 7) (find (prefix ''--unit='') cmd)"

text \<open>The startup client ran or could not: its status and diagnostics.\<close>

definition run_client :: "machine \<Rightarrow> string list \<Rightarrow> ('z rworld_scheme, int \<times> string) io" where
  "run_client m cmd =
     bindM (run_ctl m cmd) (\<lambda>r. liftM (case r of
         Exited rc out err \<Rightarrow> Inr (rc, err)
       | NotInstalled \<Rightarrow> Inl FileNotFound
       | TimedOut \<Rightarrow> Inl (SubprocessErr ''Command timed out'')
       | Garbled \<Rightarrow> Inl UnicodeErr))"

definition bytes_strip :: "string \<Rightarrow> string" where
  "bytes_strip s = strip_set (map char_of [32 :: nat, 9, 10, 11, 12, 13]) s"

definition retryable :: "int \<times> string \<Rightarrow> bool" where
  "retryable client \<longleftrightarrow> fst client \<noteq> 0 \<and> bytes_strip (take 512 (snd client)) = USER_BUS_CONNECTION_REFUSED
     \<and> length (snd client) \<le> 512"

datatype recovery = Cancel | GiveUp | Resubmit

text \<open>The backoff loop between two submissions, without the lock.\<close>

fun recover :: "machine \<Rightarrow> ppath \<Rightarrow> int \<Rightarrow> string \<Rightarrow> pyfloat \<Rightarrow> nat \<Rightarrow> ('z rworld_scheme, recovery option) io" where
  "recover m marker attempt unit deadline_at 0 = returnM None"
| "recover m marker attempt unit deadline_at (Suc n) =
     bindM (marked m marker attempt) (\<lambda>c.
       if c then returnM (Some Cancel)
       else bindM (monotonic m) (\<lambda>now.
         if float_le (float_sub deadline_at now) (FDec 0 0) then
           bindM (write_log (''startup connection recovery budget exhausted; service not resubmitted'' @ [newline]))
             (\<lambda>_. returnM (Some GiveUp))
         else bindM (marked m marker attempt) (\<lambda>c.
           if c then returnM (Some Cancel)
           else bindM (unit_snapshot m unit) (\<lambda>p.
             if p \<noteq> None \<and> dget (the p) ''LoadState'' \<noteq> Some ''not-found'' then
               bindM (write_log (''startup unit is not confirmed absent; service not resubmitted'' @ [newline]))
                 (\<lambda>_. returnM (Some GiveUp))
             else bindM (monotonic m) (\<lambda>now.
               if float_lt now deadline_at \<and> p \<noteq> None then
                 bindM (write_log (''user manager confirms unit absent; retrying the same service identity'' @ [newline]))
                   (\<lambda>_. returnM (Some Resubmit))
               else recover m marker attempt unit deadline_at n)))))"

text \<open>\<open>Some None\<close> is a cancelled start, \<open>Some (Some client)\<close> the client that was last run.\<close>

fun start_service ::
  "machine \<Rightarrow> string list \<Rightarrow> ppath \<Rightarrow> int \<Rightarrow> ('z rworld_scheme, unit) io \<Rightarrow> pyfloat option \<Rightarrow> nat
     \<Rightarrow> ('z rworld_scheme, (int \<times> string) option option) io" where
  "start_service m cmd marker attempt before_start deadline_at 0 = returnM None"
| "start_service m cmd marker attempt before_start deadline_at (Suc n) =
     bindM (marked m marker attempt) (\<lambda>c.
       if c then returnM (Some None)
       else bindM before_start (\<lambda>_.
         bindM (run_client m cmd) (\<lambda>client.
         bindM (write_log (snd client)) (\<lambda>_.
           (case unit_argument cmd of
              None \<Rightarrow> returnM (Some (Some client))
            | Some unit \<Rightarrow>
                if \<not> retryable client then returnM (Some (Some client))
                else
                  bindM (case deadline_at of
                      Some d \<Rightarrow> returnM d
                    | None \<Rightarrow>
                        bindM (monotonic m) (\<lambda>now.
                        bindM (write_log (''startup connection refused; waiting for confirmed unit absence before retry'' @ [newline]))
                          (\<lambda>_. returnM (float_add now BUS_CONNECT_RETRY_SECONDS)))) (\<lambda>d.
                  bindM (recover m marker attempt unit d n) (\<lambda>r.
                    (case r of
                       None \<Rightarrow> returnM None
                     | Some Cancel \<Rightarrow> returnM (Some None)
                     | Some GiveUp \<Rightarrow> returnM (Some (Some client))
                     | Some Resubmit \<Rightarrow> start_service m cmd marker attempt before_start (Some d) n))))))))"

section \<open>Occupancy\<close>

text \<open>\<open>line.split(None, n)\<close>.\<close>

fun split_max :: "nat \<Rightarrow> string \<Rightarrow> string list" where
  "split_max 0 s = (if lstrip s = [] then [] else [lstrip s])"
| "split_max (Suc n) s =
     (if lstrip s = [] then []
      else takeWhile (\<lambda>c. \<not> is_space c) (lstrip s) # split_max n (dropWhile (\<lambda>c. \<not> is_space c) (lstrip s)))"

definition unit_line :: "string \<Rightarrow> string \<Rightarrow> (string \<times> int option) option" where
  "unit_line pre line =
     (case split_max 4 line of
        [u, load, active, sub, desc] \<Rightarrow>
          if prefix pre (strip desc)
          then (let i = drop (length pre) (strip desc)
                in Some (u, if i \<noteq> [] \<and> list_all is_digit i then Some (int (read_digits i)) else None))
          else None
      | _ \<Rightarrow> None)"

definition active_units :: "machine \<Rightarrow> string \<Rightarrow> string \<Rightarrow> ('z rworld_scheme, (string \<times> int option) list) io" where
  "active_units m dmn pool =
     bindM (systemctl m [''list-units'', ''--plain'', ''--no-legend'',
         ''--state=active,activating,deactivating'', ''agentctl-'' @ pool @ ''-*'']) (\<lambda>listed.
       returnM (dict_of (List.map_filter (unit_line (unit_description dmn pool []))
         (splitlines (case listed of None \<Rightarrow> [] | Some s \<Rightarrow> s)))))"

text \<open>A task that a unit names but that is not among the running ones is asked for by its id.\<close>

definition adopt :: "daemon \<Rightarrow> string \<times> int option \<Rightarrow> tasks \<Rightarrow> ('z rworld_scheme, tasks) io" where
  "adopt d u ts =
     (case snd u of
        Some i \<Rightarrow>
          if dhas ts i then returnM ts
          else bindM (task_by_id d i) (\<lambda>owner. returnM (case owner of Some t \<Rightarrow> dset i t ts | None \<Rightarrow> ts))
      | None \<Rightarrow> returnM ts)"

definition holders ::
  "machine \<Rightarrow> string \<Rightarrow> string \<Rightarrow> ('z rworld_scheme, int option \<times> tasks \<times> (string \<times> int option) list) io" where
  "holders m pool dmn =
     bindM (groups (m_pueue m)) (\<lambda>gs.
     bindM (running_tasks (m_pueue m) pool) (\<lambda>ts.
     bindM (active_units m dmn pool) (\<lambda>us.
     bindM (forM (adopt (m_pueue m)) us ts) (\<lambda>ts'.
       returnM (dget gs pool, ts', us)))))"

definition owners_of :: "(string \<Rightarrow> string) \<Rightarrow> string \<Rightarrow> tasks \<Rightarrow> (string \<times> task) list" where
  "owners_of dig pool ts =
     dict_of (List.map_filter (\<lambda>(i, t). map_option (\<lambda>p. (unit_for dig (mkpath p) pool, t))
       (launch_input_of (tk_command t))) ts)"

definition holds_slot :: "(string \<times> task) list \<Rightarrow> string \<Rightarrow> string \<Rightarrow> bool" where
  "holds_slot owners unit other \<longleftrightarrow>
     other \<noteq> unit \<and> (case dget owners other of None \<Rightarrow> True | Some t \<Rightarrow> \<not> terminal t)"

fun settle_units ::
  "machine \<Rightarrow> string \<Rightarrow> string \<Rightarrow> int option \<Rightarrow> (string \<times> task) list \<Rightarrow> string list \<Rightarrow> ('z rworld_scheme, string) io" where
  "settle_units m pool unit par owners [] = returnM []"
| "settle_units m pool unit par owners (other # us) =
     (if holds_slot owners unit other then
        if par = Some 1 then
          bindM (write_log (''pool '' @ pool @ '' is occupied by '' @ other @ [newline])) (\<lambda>_.
            returnM ''slot_occupied'')
        else settle_units m pool unit par owners us
      else
        bindM (systemctl m [''stop'', other]) (\<lambda>_.
        bindM (systemctl m [''reset-failed'', other]) (\<lambda>_.
        bindM (write_log (''settled_orphan '' @ other @ [newline])) (\<lambda>_.
          settle_units m pool unit par owners us))))"

definition occupancy ::
  "machine \<Rightarrow> (string \<Rightarrow> string) \<Rightarrow> string \<Rightarrow> string \<Rightarrow> string \<Rightarrow> ('z rworld_scheme, string \<times> task option) io" where
  "occupancy m dig pool unit dmn =
     bindM (catchM (bindM (holders m pool dmn) (\<lambda>h. returnM (Some h)))
         (\<lambda>e. if is_pueueerror e then returnM None else raiseM e)) (\<lambda>r.
       (case r of
          None \<Rightarrow> returnM ([], None)
        | Some (par, ts, us) \<Rightarrow>
            bindM (settle_units m pool unit par (owners_of dig pool ts) (map fst us)) (\<lambda>refusal.
              returnM (refusal, dget (owners_of dig pool ts) unit))))"

section \<open>The outcome of a unit\<close>

definition classify :: "bool \<Rightarrow> string dict option \<Rightarrow> run_outcome \<times> int" where
  "classify cancelled p =
     (if cancelled then (Cancelled, CANCELLED_EXIT_CODE)
      else (case p of
          None \<Rightarrow> (Vanished, VANISHED_EXIT_CODE)
        | Some d \<Rightarrow>
            if d = [] \<or> \<not> unit_is_terminal d then (Vanished, VANISHED_EXIT_CODE)
            else if dget d ''Result'' = Some ''timeout'' then (Timeout, TIMEOUT_EXIT_CODE)
            else (case py_int (case dget d ''ExecMainStatus'' of None \<Rightarrow> [] | Some s \<Rightarrow> s) of
                None \<Rightarrow> (Vanished, VANISHED_EXIT_CODE)
              | Some i \<Rightarrow>
                  (let killed = dget d ''ExecMainCode'' \<in> {Some ''2'', Some ''3'', Some ''killed'', Some ''dumped''};
                       status = (if killed then i + 128 else i)
                   in if dget d ''Result'' = Some ''success'' \<and> status = 0 then
                        if dget d ''ExecMainCode'' \<notin> {Some ''1'', Some ''exited''}
                        then (Vanished, VANISHED_EXIT_CODE)
                        else (Success, 0)
                      else (Failed, if status = 0 then 1 else status)))))"

section \<open>Success is proven\<close>

text \<open>Systemd reported the loaded unit as finished, its result as success, and its main process as
  exited with status 0.\<close>

definition clean_exit :: "string dict \<Rightarrow> bool" where
  "clean_exit d \<longleftrightarrow> unit_is_terminal d \<and> dget d ''Result'' = Some ''success''
     \<and> (\<exists>s. dget d ''ExecMainStatus'' = Some s \<and> py_int s = Some 0)
     \<and> (dget d ''ExecMainCode'' = Some ''1'' \<or> dget d ''ExecMainCode'' = Some ''exited'')"

lemma classify_success:
  "(fst (classify c p) = Success \<longleftrightarrow> \<not> c \<and> (\<exists>d. p = Some d \<and> clean_exit d))
   \<and> (snd (classify c p) = 0 \<longleftrightarrow> fst (classify c p) = Success)"
proof (cases p)
  case None
  then show ?thesis by (simp add: classify_def CANCELLED_EXIT_CODE_def VANISHED_EXIT_CODE_def)
next
  case (Some d)
  have loaded: "unit_is_terminal d \<Longrightarrow> d \<noteq> []" by (auto simp: unit_is_terminal_def)
  have empty: "py_int [] = None" by (simp add: py_int_def strip_def)
  show ?thesis
  proof (cases "c \<or> \<not> unit_is_terminal d \<or> dget d ''Result'' = Some ''timeout''")
    case True
    then show ?thesis using Some loaded
      by (auto simp: classify_def CANCELLED_EXIT_CODE_def VANISHED_EXIT_CODE_def TIMEOUT_EXIT_CODE_def clean_exit_def)
  next
    case False
    then have d: "d \<noteq> []" using loaded by blast
    show ?thesis
    proof (cases "dget d ''ExecMainStatus''")
      case None
      then show ?thesis using Some False d empty by (simp add: classify_def VANISHED_EXIT_CODE_def clean_exit_def)
    next
      case status: (Some s)
      show ?thesis
      proof (cases "py_int s")
        case None
        then show ?thesis using Some False d status by (simp add: classify_def VANISHED_EXIT_CODE_def clean_exit_def)
      next
        case (Some i)
        then show ?thesis using \<open>p = Some d\<close> False d status
          by (auto simp: classify_def VANISHED_EXIT_CODE_def Let_def clean_exit_def)
      qed
    qed
  qed
qed

section \<open>Waiting ends\<close>

lemma unit_snapshot_step:
  "(\<exists>p. unit_snapshot m u w = (Inr p, w\<lparr>rw_ctl := rw_ctl w @ [[''systemctl'', ''--user''] @ snapshot_args u]\<rparr>))
   \<or> unit_snapshot m u w = (Inl UnicodeErr, w\<lparr>rw_ctl := rw_ctl w @ [[''systemctl'', ''--user''] @ snapshot_args u]\<rparr>)"
  by (auto simp: unit_snapshot_def systemctl_def run_ctl_def bindM_def Let_def split: proc_result.split)

definition ended :: "string dict option option res \<Rightarrow> bool" where
  "ended r \<longleftrightarrow> r = Inl UnicodeErr \<or>
     (\<exists>x. r = Inr (Some x) \<and> (case x of Some d \<Rightarrow> d = [] \<or> unit_is_terminal d | None \<Rightarrow> True))"

lemma poll_result_sound: "poll_result p = Some d \<Longrightarrow> d = [] \<or> unit_is_terminal d"
  by (auto simp: poll_result_def split: option.split_asm if_split_asm)

lemma poll_unit_ends:
  "k < n \<Longrightarrow> float_le d (m_mono m (rw_clock w + k)) \<Longrightarrow> ended (fst (poll_unit m u (Some d) n w))"
proof (induction n arbitrary: k w)
  case (Suc n)
  let ?w = "w\<lparr>rw_ctl := rw_ctl w @ [[''systemctl'', ''--user''] @ snapshot_args u]\<rparr>"
  let ?w' = "?w\<lparr>rw_clock := rw_clock w + 1\<rparr>"
  from unit_snapshot_step [of m u w] show ?case
  proof (elim disjE exE)
    fix p assume snap: "unit_snapshot m u w = (Inr p, ?w)"
    show ?thesis
    proof (cases "poll_result p")
      case (Some x)
      then show ?thesis using poll_result_sound [OF Some] snap by (simp add: bindM_def ended_def)
    next
      case None
      have past: "past m (Some d) ?w = (Inr (float_le d (m_mono m (rw_clock w))), ?w')"
        by (simp add: past_def monotonic_def bindM_def)
      show ?thesis
      proof (cases "float_le d (m_mono m (rw_clock w))")
        case True
        then show ?thesis using snap None past by (simp add: bindM_def ended_def)
      next
        case False
        then have "k \<noteq> 0" using Suc.prems(2) by (auto intro: gr0I)
        then have "ended (fst (poll_unit m u (Some d) n ?w'))"
          using Suc.prems by (intro Suc.IH [of "k - 1"]) auto
        then show ?thesis using False snap None past by (simp add: bindM_def)
      qed
    qed
  qed (simp add: bindM_def ended_def)
qed simp


definition silent_machine :: machine where
  "silent_machine = \<lparr>m_pueue = (\<lambda>cs. TimedOut), m_systemctl = (\<lambda>cs. TimedOut),
     m_mono = (\<lambda>n. FDec (20 * int n) 0), m_fs = (\<lambda>n. \<lparr>nodes = [], noread = [], nowrite = []\<rparr>)\<rparr>"

definition idle_world :: rworld where
  "idle_world = \<lparr>calls = [], deadline = None, rw_ctl = [], rw_clock = 0, rw_log = []\<rparr>"


section \<open>Only orphans are stopped\<close>

definition stop_call :: "string \<Rightarrow> string list" where
  "stop_call u = [''systemctl'', ''--user'', ''stop'', u]"

lemma systemctl_state: "systemctl m args w = (r, w') \<Longrightarrow>
    w' = w\<lparr>rw_ctl := rw_ctl w @ [[''systemctl'', ''--user''] @ args]\<rparr>"
  by (auto simp: systemctl_def run_ctl_def bindM_def Let_def)

lemma write_log_apply [simp]: "write_log s w = (Inr (), w\<lparr>rw_log := rw_log w @ s\<rparr>)"
  by (simp add: write_log_def)

lemma settle_units_spec:
  "settle_units m pool unit par owners us w = (Inr r, w') \<Longrightarrow>
     (\<exists>new. rw_ctl w' = rw_ctl w @ new
        \<and> (\<forall>x. stop_call x \<in> set new \<longrightarrow> x \<in> set us \<and> \<not> holds_slot owners unit x))
     \<and> (r = ''slot_occupied'' \<longleftrightarrow> par = Some 1 \<and> (\<exists>x \<in> set us. holds_slot owners unit x))"
proof (induction us arbitrary: w)
  case (Cons other us)
  show ?case
  proof (cases "holds_slot owners unit other")
    case True
    then show ?thesis using Cons.prems Cons.IH [of w] by (auto simp: bindM_def split: if_split_asm)
  next
    case False
    let ?stop = "[''stop'', other]" and ?reset = "[''reset-failed'', other]"
    obtain a where a: "systemctl m ?stop w = (Inr a, w\<lparr>rw_ctl := rw_ctl w @ [stop_call other]\<rparr>)"
      using Cons.prems False by (auto simp: bindM_def stop_call_def dest: systemctl_state
          split: prod.split_asm sum.split_asm)
    let ?w1 = "w\<lparr>rw_ctl := rw_ctl w @ [stop_call other]\<rparr>"
    let ?c2 = "[''systemctl'', ''--user''] @ ?reset"
    obtain b where b: "systemctl m ?reset ?w1 = (Inr b, ?w1\<lparr>rw_ctl := rw_ctl ?w1 @ [?c2]\<rparr>)"
      using Cons.prems False a by (auto simp: bindM_def dest: systemctl_state
          split: prod.split_asm sum.split_asm)
    let ?w2 = "?w1\<lparr>rw_ctl := rw_ctl ?w1 @ [?c2]\<rparr>"
    let ?w3 = "?w2\<lparr>rw_log := rw_log ?w2 @ ''settled_orphan '' @ other @ [newline]\<rparr>"
    have "settle_units m pool unit par owners us ?w3 = (Inr r, w')"
      using Cons.prems False a b by (simp add: bindM_def)
    from Cons.IH [OF this] obtain new where new: "rw_ctl w' = rw_ctl w @ ([stop_call other, ?c2] @ new)"
      "\<forall>x. stop_call x \<in> set new \<longrightarrow> x \<in> set us \<and> \<not> holds_slot owners unit x"
      "r = ''slot_occupied'' \<longleftrightarrow> par = Some 1 \<and> (\<exists>x \<in> set us. holds_slot owners unit x)" by auto
    have "stop_call x \<in> set ([stop_call other, ?c2] @ new) \<Longrightarrow> x \<in> set (other # us) \<and> \<not> holds_slot owners unit x" for x
      using new(2) False by (auto simp: stop_call_def)
    with new(1,3) False show ?thesis by auto
  qed
qed simp

lemma owners_of_mem:
  assumes "dget (owners_of dig pool ts) u = Some t"
  shows "\<exists>p. t \<in> snd ` set ts \<and> launch_input_of (tk_command t) = Some p \<and> unit_for dig (mkpath p) pool = u"
  using set_dict_of [OF assms [unfolded owners_of_def]] by (force simp: List.map_filter_def split: if_split_asm)

text \<open>A unit the runner may stop: its own, or one whose task the queue reports as finished.\<close>

definition orphan :: "(string \<Rightarrow> string) \<Rightarrow> string \<Rightarrow> string \<Rightarrow> tasks \<Rightarrow> string \<Rightarrow> bool" where
  "orphan dig pool unit ts u \<longleftrightarrow> u = unit \<or>
     (\<exists>t p. t \<in> snd ` set ts \<and> terminal t \<and> launch_input_of (tk_command t) = Some p
        \<and> unit_for dig (mkpath p) pool = u)"

lemma not_holds_orphan: "\<not> holds_slot (owners_of dig pool ts) unit u \<Longrightarrow> orphan dig pool unit ts u"
  using owners_of_mem [of dig pool ts u] by (auto simp: holds_slot_def orphan_def split: option.split_asm)

text \<open>
  (C33) Before a run starts, the only units it stops are its own and those of the pool's listed
  units whose task the queue reports as finished; a unit of an unknown or unfinished owner is never
  stopped, and in a pool of width one it, and nothing else, refuses the run its slot.
\<close>

theorem occupancy_settles:
  assumes "occupancy m dig pool unit dmn w = (Inr (refusal, own), w')"
    and "holders m pool dmn w = (Inr (par, ts, us), w1)"
  shows "(\<exists>new. rw_ctl w' = rw_ctl w1 @ new
       \<and> (\<forall>u. stop_call u \<in> set new \<longrightarrow> u \<in> fst ` set us \<and> orphan dig pool unit ts u))
     \<and> (refusal = ''slot_occupied'' \<longleftrightarrow> par = Some 1 \<and>
          (\<exists>u \<in> fst ` set us. holds_slot (owners_of dig pool ts) unit u))"
proof -
  have "settle_units m pool unit par (owners_of dig pool ts) (map fst us) w1 = (Inr refusal, w')"
    using assms by (auto simp: occupancy_def bindM_def catchM_def split: prod.split_asm sum.split_asm)
  from settle_units_spec [OF this] show ?thesis using not_holds_orphan by auto
qed

definition held_daemon :: daemon where
  "held_daemon cs =
     Exited 0 (if hd (snd (last cs)) = ''group'' then ''{\"normal\":{\"parallel_tasks\":1}}''
               else ''{\"tasks\":{},\"groups\":{}}'') []"

definition held_machine :: machine where
  "held_machine = silent_machine\<lparr>m_pueue := held_daemon,
     m_systemctl := (\<lambda>cs. Exited 0 ''v.service loaded active running agentctl:d:normal:x'' [])\<rparr>"

theorem occupancy_settles_witness:
  "\<exists>own w' w1. occupancy held_machine (\<lambda>x. x) ''normal'' ''u.service'' ''d'' idle_world
       = (Inr (''slot_occupied'', own), w')
     \<and> holders held_machine ''normal'' ''d'' idle_world = (Inr (Some 1, [], [(''v.service'', None)]), w1)
     \<and> holds_slot (owners_of (\<lambda>x. x) ''normal'' []) ''u.service'' ''v.service''"
proof -
  have h: "fst (holders held_machine ''normal'' ''d'' idle_world) = Inr (Some 1, [], [(''v.service'', None)])"
    by code_simp
  then obtain w1 where w1: "holders held_machine ''normal'' ''d'' idle_world
      = (Inr (Some 1, [], [(''v.service'', None)]), w1)" by (metis prod.collapse)
  have "\<not> isl (fst (occupancy held_machine (\<lambda>x. x) ''normal'' ''u.service'' ''d'' idle_world))"
    by code_simp
  then obtain refusal own w' where run: "occupancy held_machine (\<lambda>x. x) ''normal'' ''u.service'' ''d'' idle_world
      = (Inr (refusal, own), w')" by (metis isl_def prod.collapse sum.collapse(2) surj_pair)
  have slot: "holds_slot (owners_of (\<lambda>x. x) ''normal'' []) ''u.service'' ''v.service''"
    by code_simp
  with occupancy_settles [OF run w1] have "refusal = ''slot_occupied''" by simp
  with run w1 slot show ?thesis by blast
qed

end
