(* ===== verification/Agentctl_Cgroups.thy ===== *)
theory Agentctl_Cgroups
  imports Agentctl_Pueue
begin

text \<open>
  \<open>agentctl/cgroups.py\<close>: which processes a unit still has, asked of the kernel rather than of
  systemd's idea of the unit. \<open>sc\<close> is \<open>systemctl\<close>, the answer as a function of the arguments; the
  cgroup hierarchy is part of the file system.
\<close>

definition CGROUP_ROOT :: ppath where
  "CGROUP_ROOT = (''/'', [''sys'', ''fs'', ''cgroup''])"

definition control_group_line :: "string list \<Rightarrow> string option" where
  "control_group_line ls =
     map_option (\<lambda>l. snd (snd (str_partition CHR ''='' l))) (find (prefix ''ControlGroup='') ls)"

definition unit_cgroup :: "(string list \<Rightarrow> proc_result) \<Rightarrow> string \<Rightarrow> string option res" where
  "unit_cgroup sc unit =
     (case sc [''systemctl'', ''--user'', ''show'', ''-p'', ''ControlGroup'', ''--'', unit] of
        Exited rc out err \<Rightarrow> Inr (if rc = 0 then control_group_line (splitlines out) else None)
      | Garbled \<Rightarrow> Inl UnicodeErr
      | _ \<Rightarrow> Inr None)"

text \<open>The ancestors of a slice: \<open>a-b-c.slice\<close> lies in \<open>a.slice/a-b.slice\<close>.\<close>

definition slice_hierarchy :: "string \<Rightarrow> string list" where
  "slice_hierarchy slice =
     (let parts = split_on CHR ''-'' (removesuffix ''.slice'' slice)
      in map (\<lambda>n. str_join ''-'' (take n parts) @ ''.slice'') [1..<length parts + 1])"

definition planned_unit_cgroup :: "(string list \<Rightarrow> proc_result) \<Rightarrow> string \<Rightarrow> string \<Rightarrow> string option res" where
  "planned_unit_cgroup sc unit slice =
     bindE (unit_cgroup sc slice) (\<lambda>found.
     bindE (case found of
         Some (c # s) \<Rightarrow> Inr (Some (c # s))
       | _ \<Rightarrow>
           bindE (unit_cgroup sc ''-.slice'') (\<lambda>manager.
             (case manager of
                Some (c # s) \<Rightarrow>
                  Inr (Some (rstrip_char CHR ''/'' (c # s) @ ''/'' @ str_join ''/'' (slice_hierarchy slice)))
              | _ \<Rightarrow> Inr None))) (\<lambda>parent.
       Inr (map_option (\<lambda>p. rstrip_char CHR ''/'' p @ ''/'' @ unit) parent)))"

datatype occupancy = Unresolved | Empty | Populated "int list"

record observation =
  ob_unit :: string
  ob_cgroup :: "string option"
  ob_status :: occupancy

definition cgroup_path_ok :: "string \<Rightarrow> bool" where
  "cgroup_path_ok c \<longleftrightarrow> prefix ''/'' c \<and> c \<noteq> ''/'' \<and> ''..'' \<notin> set (path_parts (mkpath c))"

text \<open>The directories \<open>os.walk\<close> visits; it does not follow links.\<close>

definition walked_dirs :: "fs \<Rightarrow> ppath \<Rightarrow> ppath list" where
  "walked_dirs f base =
     base # map fst (filter (\<lambda>(p, n). fst p = fst base \<and> strict_prefix (snd base) (snd p)
                          \<and> (case n of Dir m \<Rightarrow> True | _ \<Rightarrow> False)) (nodes f))"

definition member_pids :: "fs \<Rightarrow> ppath \<Rightarrow> int list res" where
  "member_pids f dir =
     bindE (guardE (dir \<notin> set (noread f)) (OSErr ''Permission denied'')) (\<lambda>_.
     bindE (fs_read_text f (path_join dir ''cgroup.procs'')) (\<lambda>s.
       mapE (\<lambda>w. case py_int w of
           None \<Rightarrow> Inl (ValueErr ''invalid literal for int() with base 10'') | Some i \<Rightarrow> Inr i) (split_ws s)))"

text \<open>Nothing where the directory is absent; a file in its place, or any member that cannot be
  read, leaves the question open.\<close>

definition tree_occupancy :: "fs \<Rightarrow> ppath \<Rightarrow> occupancy" where
  "tree_occupancy f path =
     (case realpath f path of
        Inl e \<Rightarrow> Unresolved
      | Inr base \<Rightarrow>
          (case node_at f base of
             None \<Rightarrow> Empty
           | Some (Dir m) \<Rightarrow>
               (case mapE (member_pids f) (walked_dirs f base) of
                  Inl e \<Rightarrow> Unresolved
                | Inr pids \<Rightarrow> if concat pids = [] then Empty else Populated (sort (remdups (concat pids))))
           | Some n \<Rightarrow> Unresolved))"

definition observe_unit :: "(string list \<Rightarrow> proc_result) \<Rightarrow> fs \<Rightarrow> string \<Rightarrow> string option \<Rightarrow> observation res" where
  "observe_unit sc f unit cgroup =
     bindE (if cgroup = None \<or> cgroup = Some [] then unit_cgroup sc unit else Inr cgroup) (\<lambda>c.
       Inr \<lparr>ob_unit = unit, ob_cgroup = c,
            ob_status = (case c of
                None \<Rightarrow> Unresolved
              | Some s \<Rightarrow>
                  if s = [] then Empty
                  else if \<not> cgroup_path_ok s then Unresolved
                  else tree_occupancy f (path_join CGROUP_ROOT (lstrip_char CHR ''/'' s)))\<rparr>)"

datatype obstacle = NoUnitIdentity | StillThere observation

text \<open>A recorded cgroup that is neither a string nor null is left open like an unusable path.\<close>

definition cancellation_obstacle ::
  "(string list \<Rightarrow> proc_result) \<Rightarrow> fs \<Rightarrow> pydict option \<Rightarrow> obstacle option res" where
  "cancellation_obstacle sc f disposition =
     (case disposition of
        None \<Rightarrow> Inr None
      | Some d \<Rightarrow>
          if d = [] \<or> \<not> (truthy (pget d ''cancellation_incomplete'') \<or> dhas d ''cgroup'') then Inr None
          else
            (case pget d ''unit'' of
               PStr (u # us) \<Rightarrow>
                 if dget d ''cgroup'' = Some PNone
                 then Inr (Some (StillThere \<lparr>ob_unit = u # us, ob_cgroup = None, ob_status = Unresolved\<rparr>))
                 else
                   bindE (case pget d ''cgroup'' of
                       PStr s \<Rightarrow> observe_unit sc f (u # us) (Some s)
                     | v \<Rightarrow> if truthy v then Inr \<lparr>ob_unit = u # us, ob_cgroup = None, ob_status = Unresolved\<rparr>
                            else observe_unit sc f (u # us) None) (\<lambda>ob.
                     Inr (if ob_status ob = Empty then None else Some (StillThere ob)))
             | _ \<Rightarrow> Inr (Some NoUnitIdentity)))"

section \<open>Only proven emptiness lets a cancellation pass\<close>

text \<open>Proof that a cgroup holds no process: it has no path, or its directory is absent, or every
  directory of its tree has a readable member list and all of them are empty.\<close>

definition proven_empty :: "fs \<Rightarrow> string \<Rightarrow> bool" where
  "proven_empty f c \<longleftrightarrow>
     c = [] \<or> (cgroup_path_ok c \<and>
       (\<exists>base. realpath f (path_join CGROUP_ROOT (lstrip_char CHR ''/'' c)) = Inr base
          \<and> (node_at f base = None
             \<or> (\<forall>dir \<in> set (walked_dirs f base). member_pids f dir = Inr []))))"

lemma tree_empty:
  assumes "tree_occupancy f path = Empty"
  shows "\<exists>base. realpath f path = Inr base
     \<and> (node_at f base = None \<or> (\<forall>dir \<in> set (walked_dirs f base). member_pids f dir = Inr []))"
proof -
  from assms obtain base where base: "realpath f path = Inr base"
    by (auto simp: tree_occupancy_def split: sum.splits)
  show ?thesis
  proof (cases "node_at f base")
    case None
    with base show ?thesis by blast
  next
    case (Some n)
    with assms base obtain pids where pids: "mapE (member_pids f) (walked_dirs f base) = Inr pids"
      and "concat pids = []"
      by (auto simp: tree_occupancy_def split: fnode.splits sum.splits if_split_asm)
    have "member_pids f dir = Inr []" if "dir \<in> set (walked_dirs f base)" for dir
    proof -
      from mapE_image [OF pids that] have "\<exists>y \<in> set pids. member_pids f dir = Inr y" by blast
      with \<open>concat pids = []\<close> show ?thesis by auto
    qed
    with base show ?thesis by blast
  qed
qed

text \<open>An observation of emptiness is a proof of it, for the path given or the one systemd reports.\<close>

lemma observe_empty:
  assumes "observe_unit sc f unit cg = Inr ob" and "ob_status ob = Empty"
  shows "\<exists>c. proven_empty f c \<and> (if cg = None \<or> cg = Some [] then unit_cgroup sc unit = Inr (Some c) else cg = Some c)"
proof -
  from assms obtain c where c: "(if cg = None \<or> cg = Some [] then unit_cgroup sc unit else Inr cg) = Inr c"
    and st: "(case c of None \<Rightarrow> Unresolved
         | Some s \<Rightarrow> if s = [] then Empty else if \<not> cgroup_path_ok s then Unresolved
             else tree_occupancy f (path_join CGROUP_ROOT (lstrip_char CHR ''/'' s))) = Empty"
    by (auto simp: observe_unit_def bindE_eq_Inr)
  then obtain s where s: "c = Some s" by (cases c) auto
  with st have "proven_empty f s"
    by (auto simp: proven_empty_def dest: tree_empty split: if_split_asm)
  moreover have "if cg = None \<or> cg = Some [] then unit_cgroup sc unit = Inr (Some s) else cg = Some s"
    using c s by (auto split: if_split_asm)
  ultimately show ?thesis by blast
qed

text \<open>
  A cancellation is only taken to be finished on proof: when a disposition that records an
  incomplete cancellation or a cgroup has no obstacle, the control group named there, or the one the
  system reports for the unit, is proven to hold no process.
\<close>

theorem no_obstacle_means_empty:
  assumes "cancellation_obstacle sc f (Some d) = Inr None"
    and "truthy (pget d ''cancellation_incomplete'') \<or> dhas d ''cgroup''"
  shows "\<exists>unit c. pget d ''unit'' = PStr unit \<and> proven_empty f c
     \<and> (pget d ''cgroup'' = PStr c \<or> unit_cgroup sc unit = Inr (Some c))"
proof -
  have ne: "d \<noteq> []" using assms(2) by (auto simp: pget_def dhas_def)
  from assms ne obtain u us where unit: "pget d ''unit'' = PStr (u # us)"
    by (auto simp: cancellation_obstacle_def split: pyval.splits list.splits if_split_asm)
  let ?ob = "case pget d ''cgroup'' of
      PStr s \<Rightarrow> observe_unit sc f (u # us) (Some s)
    | v \<Rightarrow> if truthy v then Inr \<lparr>ob_unit = u # us, ob_cgroup = None, ob_status = Unresolved\<rparr>
           else observe_unit sc f (u # us) None"
  have "(if dget d ''cgroup'' = Some PNone
         then Inr (Some (StillThere \<lparr>ob_unit = u # us, ob_cgroup = None, ob_status = Unresolved\<rparr>))
         else bindE ?ob (\<lambda>ob. Inr (if ob_status ob = Empty then None else Some (StillThere ob)))) = Inr None"
    using assms ne unit by (simp add: cancellation_obstacle_def)
  then obtain ob where ob: "?ob = Inr ob" "ob_status ob = Empty"
    by (auto simp: bindE_eq_Inr split: if_split_asm)
  then obtain cg where obs: "observe_unit sc f (u # us) cg = Inr ob"
    and cg: "cg = None \<or> (\<exists>s. cg = Some s \<and> pget d ''cgroup'' = PStr s)"
    by (cases "pget d ''cgroup''") (auto split: if_split_asm)
  from observe_empty [OF obs ob(2)] cg unit show ?thesis by (auto split: if_split_asm)
qed

definition sample_disposition :: pydict where
  "sample_disposition = [(''unit'', PStr ''j.service''), (''cgroup'', PStr ''/u/j.service'')]"

definition sample_members_fs :: fs where
  "sample_members_fs = \<lparr>nodes =
     [((''/'', [''sys'', ''fs'', ''cgroup'', ''u'', ''j.service'']), Dir 493),
      ((''/'', [''sys'', ''fs'', ''cgroup'', ''u'', ''j.service'', ''cgroup.procs'']), RegFile [] 420)],
     noread = [], nowrite = []\<rparr>"

theorem no_obstacle_means_empty_witness:
  "cancellation_obstacle (\<lambda>args. NotInstalled) sample_members_fs (Some sample_disposition) = Inr None
     \<and> proven_empty sample_members_fs ''/u/j.service''"
proof -
  let ?sc = "\<lambda>args :: string list. NotInstalled"
  have run: "cancellation_obstacle ?sc sample_members_fs (Some sample_disposition) = Inr None" by code_simp
  have "dhas sample_disposition ''cgroup''" by code_simp
  with no_obstacle_means_empty [OF run] obtain unit c where
    c: "proven_empty sample_members_fs c"
      "pget sample_disposition ''cgroup'' = PStr c \<or> unit_cgroup ?sc unit = Inr (Some c)" by blast
  then have "c = ''/u/j.service''"
    by (auto simp: sample_disposition_def pget_def unit_cgroup_def)
  with run c show ?thesis by simp
qed

end
