(* ===== verification/Agentctl_Jobs.thy ===== *)
theory Agentctl_Jobs
  imports Agentctl_Units Agentctl_Config Agentctl_Cgroups
begin

text \<open>
  The reads of \<open>agentctl/job_queries.py\<close>: which launch input a task names, what a task may read
  back, the selected invocation and its artifacts, masked pages of them, and the view of one job.
  They are functions of the queue's record of the task, the file system and the configuration; the
  queue itself is asked in the theory of waiting.
\<close>

definition MAX_LAUNCH_INPUT_BYTES :: nat where "MAX_LAUNCH_INPUT_BYTES = 1048576"
definition MAX_OUTCOME_BYTES :: nat where "MAX_OUTCOME_BYTES = 2 * MAX_LAUNCH_INPUT_BYTES"
definition MAX_SNAPSHOT_ROWS :: int where "MAX_SNAPSHOT_ROWS = 100"
definition MAX_SNAPSHOT_TEXT :: nat where "MAX_SNAPSHOT_TEXT = 256"

definition AGENT_OPERATIONS :: "string list" where
  "AGENT_OPERATIONS = [''worker'', ''resume'', ''integrate'', ''review'']"

definition opt_str :: "string option \<Rightarrow> pyval" where
  "opt_str v = (case v of None \<Rightarrow> PNone | Some s \<Rightarrow> PStr s)"

definition opt_int :: "int option \<Rightarrow> pyval" where
  "opt_int v = (case v of None \<Rightarrow> PNone | Some i \<Rightarrow> PInt i)"

section \<open>Identity and ownership\<close>

definition JOB_ID :: "string \<Rightarrow> bool" where
  "JOB_ID s \<longleftrightarrow> s \<noteq> [] \<and> list_all (\<lambda>c. is_alnum c \<or> c \<in> set ''._-'') s"

definition launch_input_path :: "task \<Rightarrow> ppath option" where
  "launch_input_path t =
     (case shlex_split (tk_command t) of
        Inr [w, p] \<Rightarrow>
          if path_name (mkpath w) = ''agentctl-run'' \<and> path_absolute (mkpath p)
             \<and> path_suffix (mkpath p) = ''.json''
          then Some (mkpath p) else None
      | _ \<Rightarrow> None)"

definition job_id_of :: "task \<Rightarrow> string option" where
  "job_id_of t = map_option path_stem (launch_input_path t)"

definition unit_of :: "(string \<Rightarrow> string) \<Rightarrow> task \<Rightarrow> string option" where
  "unit_of dig t =
     (case (launch_input_path t, unit_pool (PStr (tk_group t))) of
        (Some p, Some pool) \<Rightarrow> Some (unit_for dig p pool) | _ \<Rightarrow> None)"

text \<open>\<open>any(resolved.is_relative_to(root.resolve()) for root in roots)\<close>; a root that does not resolve
  refuses the path unless an earlier root held it.\<close>

fun in_roots :: "fs \<Rightarrow> ppath \<Rightarrow> ppath list \<Rightarrow> bool" where
  "in_roots f r [] = False"
| "in_roots f r (q # qs) =
     (case realpath f q of Inl e \<Rightarrow> False | Inr s \<Rightarrow> is_relative_to r s \<or> in_roots f r qs)"

definition owned_roots :: "config \<Rightarrow> task \<Rightarrow> ppath list" where
  "owned_roots cfg t = state_dir cfg # (if prefix ''/'' (tk_path t) then [mkpath (tk_path t)] else [])"

definition owns_path :: "config \<Rightarrow> fs \<Rightarrow> task \<Rightarrow> ppath \<Rightarrow> bool" where
  "owns_path cfg f t p =
     (case realpath f p of Inl e \<Rightarrow> False | Inr r \<Rightarrow> in_roots f r (owned_roots cfg t))"

section \<open>Bounded reads\<close>

definition read_bounded :: "fs \<Rightarrow> ppath \<Rightarrow> nat \<Rightarrow> string option" where
  "read_bounded f p limit = (case fs_read_nofollow f p of Inl e \<Rightarrow> None | Inr b \<Rightarrow> Some (take limit b))"

definition read_outcome :: "fs \<Rightarrow> ppath option \<Rightarrow> nat \<Rightarrow> pydict option" where
  "read_outcome f path limit =
     (case path of
        None \<Rightarrow> None
      | Some p \<Rightarrow>
          (case fs_read_nofollow f p of
             Inl e \<Rightarrow> None
           | Inr b \<Rightarrow>
               if limit < length b then None
               else (case loads_bytes b of Inr (PDict d) \<Rightarrow> Some d | _ \<Rightarrow> None)))"

definition dict_document :: "string option \<Rightarrow> pydict option" where
  "dict_document raw =
     (case raw of
        None \<Rightarrow> None
      | Some b \<Rightarrow> (case loads_bytes b of Inr (PDict d) \<Rightarrow> Some d | _ \<Rightarrow> None))"

definition read_launch_input :: "config \<Rightarrow> fs \<Rightarrow> task \<Rightarrow> pydict option" where
  "read_launch_input cfg f t =
     (case launch_input_path t of
        None \<Rightarrow> None
      | Some p \<Rightarrow>
          if owns_path cfg f t p then dict_document (read_bounded f p MAX_LAUNCH_INPUT_BYTES) else None)"

text \<open>\<open>read_launch_input(...) or {}\<close>.\<close>

definition launch_document :: "config \<Rightarrow> fs \<Rightarrow> task \<Rightarrow> pydict" where
  "launch_document cfg f t = (case read_launch_input cfg f t of None \<Rightarrow> [] | Some d \<Rightarrow> d)"

definition disposition_path :: "ppath \<Rightarrow> ppath" where
  "disposition_path p = with_name (path_name p @ ''.disposition'') p"

definition read_disposition :: "config \<Rightarrow> fs \<Rightarrow> task \<Rightarrow> pydict option" where
  "read_disposition cfg f t =
     (case launch_input_path t of
        None \<Rightarrow> None
      | Some p \<Rightarrow>
          if owns_path cfg f t p
          then dict_document (read_bounded f (disposition_path p) MAX_LAUNCH_INPUT_BYTES) else None)"

section \<open>Views of a task\<close>

definition wrapper_phase :: "int option \<Rightarrow> string" where
  "wrapper_phase status =
     (if status = Some TIMEOUT_EXIT_CODE then ''timeout''
      else if status = Some REFUSED_EXIT_CODE then ''refused''
      else if status = Some CANCELLED_EXIT_CODE then ''cancelled''
      else if status = Some VANISHED_EXIT_CODE then ''vanished''
      else if status = Some SLOT_OCCUPIED_EXIT_CODE then ''slot_occupied''
      else ''failed'')"

definition phase_of :: "task \<Rightarrow> string" where
  "phase_of t =
     (if \<not> terminal t then str_lower (tk_status t)
      else if tk_result t = Some ''Success'' then ''succeeded''
      else if tk_result t = Some ''Killed'' then ''cancelled''
      else if tk_result t = Some ''DependencyFailed'' then ''dependency-failed''
      else if tk_result t = Some ''FailedToSpawn'' then ''launch-failed''
      else wrapper_phase (tk_exit t))"

definition label_parts :: "string \<Rightarrow> string \<times> string" where
  "label_parts label = (case str_partition CHR '':'' label of (project, sep, operation) \<Rightarrow> (project, operation))"

definition is_agent :: "string \<Rightarrow> bool" where
  "is_agent operation \<longleftrightarrow>
     takeWhile (\<lambda>c. c \<noteq> CHR '':'') operation \<in> set AGENT_OPERATIONS \<and> CHR '':'' \<in> set operation"

definition job_view :: "task \<Rightarrow> pydict" where
  "job_view t =
     (let (project, operation) = label_parts (tk_label t)
      in [(''task_id'', PInt (tk_id t)),
          (''label'', PStr (tk_label t)),
          (''kind'', PStr (if is_agent operation then ''attested-agent'' else ''declared-operation'')),
          (''project'', PStr project),
          (''operation'', PStr operation),
          (''group'', PStr (tk_group t)),
          (''dependencies'', PList (map PInt (tk_deps t))),
          (''phase'', PStr (phase_of t)),
          (''terminal'', PBool (terminal t)),
          (''result'', opt_str (tk_result t)),
          (''exit_code'', opt_int (tk_exit t)),
          (''path'', PStr (tk_path t)),
          (''job_id'', opt_str (job_id_of t)),
          (''enqueued_at'', opt_str (tk_enqueued t)),
          (''started_at'', opt_str (tk_started t)),
          (''ended_at'', opt_str (tk_ended t))])"

section \<open>Artifacts\<close>

record art_view =
  av_attempt :: nat
  av_artifacts :: "string dict"
  av_attempts :: "attempt_rec list"
  av_input :: string

text \<open>An older entry whose input is gone still has its conventional artifacts.\<close>

definition artifact_document :: "config \<Rightarrow> fs \<Rightarrow> task \<Rightarrow> pydict" where
  "artifact_document cfg f t =
     (let document = launch_document cfg f t
      in case job_id_of t of
           Some job \<Rightarrow>
             if truthy (pget document ''log_path'') then document
             else [(''log_path'', PStr (path_str (path_join (jobs_dir cfg) (job @ ''.log'')))),
                   (''result_path'', PStr (path_str (path_join (jobs_dir cfg) (job @ ''.result''))))]
         | None \<Rightarrow> document)"

definition owned_record :: "config \<Rightarrow> fs \<Rightarrow> task \<Rightarrow> attempt_rec \<Rightarrow> attempt_rec" where
  "owned_record cfg f t r =
     r\<lparr>at_artifacts := filter (\<lambda>(k, v). owns_path cfg f t (mkpath v)) (at_artifacts r)\<rparr>"

definition select_attempt :: "attempt_rec list \<Rightarrow> nat option \<Rightarrow> attempt_rec option" where
  "select_attempt records attempt =
     (case attempt of
        Some n \<Rightarrow> find (\<lambda>r. at_number r = n) records
      | None \<Rightarrow> if records = [] then None else Some (last records))"

definition artifact_view :: "config \<Rightarrow> fs \<Rightarrow> task \<Rightarrow> nat option \<Rightarrow> art_view res" where
  "artifact_view cfg f t attempt =
     (let document = artifact_document cfg f t
      in bindE (if truthy (pget document ''log_path'') then attempts f document else Inr []) (\<lambda>found.
         (let records = map (owned_record cfg f t) found; selected = select_attempt records attempt
          in bindE (guardE (\<not> (attempt \<noteq> None \<and> selected = None \<and> \<not> (attempt = Some 0 \<and> records = [])))
               (JobErr (''launch '' @ py_str (opt_str (job_id_of t)) @ '' has no attempt ''
                  @ show_nat (case attempt of None \<Rightarrow> 0 | Some n \<Rightarrow> n)))) (\<lambda>_.
             Inr \<lparr>av_attempt = (case selected of None \<Rightarrow> 0 | Some r \<Rightarrow> at_number r),
                  av_artifacts = (case selected of None \<Rightarrow> [] | Some r \<Rightarrow> at_artifacts r),
                  av_attempts = records,
                  av_input = (case launch_input_path t of None \<Rightarrow> ''None'' | Some p \<Rightarrow> path_str p)\<rparr>))))"

definition artifact_path :: "config \<Rightarrow> fs \<Rightarrow> task \<Rightarrow> string \<Rightarrow> nat option \<Rightarrow> ppath option res" where
  "artifact_path cfg f t key attempt =
     bindE (artifact_view cfg f t attempt) (\<lambda>view.
       (let declared = (case dget (av_artifacts view) key of
              Some s \<Rightarrow> PStr s
            | None \<Rightarrow> if attempt = None then pget (launch_document cfg f t) (key @ ''_path'') else PNone)
        in case declared of
             PStr (c # s) \<Rightarrow>
               if owns_path cfg f t (mkpath (c # s))
               then bindE (realpath f (mkpath (c # s))) (\<lambda>q. Inr (Some q)) else Inr None
           | _ \<Rightarrow>
               Inr (case job_id_of t of
                   Some job \<Rightarrow> if job \<noteq> [] \<and> attempt = None
                     then Some (path_join (jobs_dir cfg) (job @ ''.'' @ key)) else None
                 | None \<Rightarrow> None)))"

definition attempt_count :: "config \<Rightarrow> fs \<Rightarrow> task \<Rightarrow> nat res" where
  "attempt_count cfg f t =
     (let document = launch_document cfg f t
      in if \<not> truthy (pget document ''log_path'') then Inr 0
         else bindE (attempts f document) (\<lambda>rs. Inr (length rs)))"

definition unfinished_attempt :: "config \<Rightarrow> fs \<Rightarrow> task \<Rightarrow> bool res" where
  "unfinished_attempt cfg f t =
     (let document = launch_document cfg f t
      in if \<not> truthy (pget document ''log_path'') then Inr False
         else bindE (attempts f document) (\<lambda>rs.
           Inr (rs \<noteq> [] \<and> (case dget (at_artifacts (last rs)) ''outcome'' of
               Some s \<Rightarrow> \<not> fs_exists f (mkpath s) | None \<Rightarrow> True))))"

section \<open>Pages\<close>

definition job_secrets :: "config \<Rightarrow> ctx \<Rightarrow> fs \<Rightarrow> task \<Rightarrow> string list res" where
  "job_secrets cfg c f t =
     (case (launch_input_path t, read_launch_input cfg f t) of
        (Some p, Some value) \<Rightarrow>
          bindE (secret_environment c f p value) (\<lambda>(own, lost). Inr (secret_values (dmerge (c_env c) own)))
      | _ \<Rightarrow> Inr (secret_values (c_env c)))"

record page =
  pg_attempt :: nat
  pg_path :: "ppath option"
  pg_available :: bool
  pg_size :: nat
  pg_raw :: string
  pg_next :: "nat option"
  pg_complete :: bool
  pg_text :: string
  pg_base64 :: string

definition page_bounds_ok :: "pyval \<Rightarrow> pyval \<Rightarrow> bool" where
  "page_bounds_ok offset limit \<longleftrightarrow>
     is_exact_int offset \<and> 0 \<le> int_of offset
     \<and> is_exact_int limit \<and> 1 \<le> int_of limit \<and> int_of limit \<le> int MAX_LOG_BYTES"

text \<open>The canonical path of a declared artifact, if the task still owns it once resolved.\<close>

definition owned_artifact :: "config \<Rightarrow> fs \<Rightarrow> task \<Rightarrow> string option \<Rightarrow> ppath option res" where
  "owned_artifact cfg f t declared =
     (case declared of
        None \<Rightarrow> Inr None
      | Some s \<Rightarrow>
          if s = [] then Inr None
          else bindE (realpath f (mkpath s)) (\<lambda>p. Inr (if owns_path cfg f t p then Some p else None)))"

definition page_of :: "nat \<Rightarrow> ppath option \<Rightarrow> (nat \<times> string) option \<Rightarrow> nat \<Rightarrow> page" where
  "page_of attempt path content offset =
     (let (size, raw) = (case content of None \<Rightarrow> (0, []) | Some c \<Rightarrow> c); after = offset + length raw
      in \<lparr>pg_attempt = attempt, pg_path = path, pg_available = (content \<noteq> None), pg_size = size,
          pg_raw = raw, pg_next = (if after < size then Some after else None),
          pg_complete = (content \<noteq> None \<and> offset = 0 \<and> length raw = size),
          pg_text = utf8_replace raw, pg_base64 = b64encode raw\<rparr>)"

text \<open>The size of a regular file and the masked bytes of one page of it.\<close>

definition artifact_content ::
  "config \<Rightarrow> ctx \<Rightarrow> fs \<Rightarrow> task \<Rightarrow> ppath option \<Rightarrow> nat \<Rightarrow> nat \<Rightarrow> (nat \<times> string) option res" where
  "artifact_content cfg c f t path offset limit =
     (case path of
        None \<Rightarrow> Inr None
      | Some p \<Rightarrow>
          (case fs_read_nofollow f p of
             Inl e \<Rightarrow> Inr None
           | Inr b \<Rightarrow>
               bindE (job_secrets cfg c f t) (\<lambda>secrets.
                 Inr (Some (length b, masked_window (file_read b) offset limit secrets)))))"

text \<open>\<open>selected\<close> is the view already at hand, or the computation that selects one.\<close>

definition read_artifact ::
  "config \<Rightarrow> ctx \<Rightarrow> fs \<Rightarrow> task \<Rightarrow> art_view res \<Rightarrow> string \<Rightarrow> pyval \<Rightarrow> pyval \<Rightarrow> page res" where
  "read_artifact cfg c f t selected artifact offset limit =
     bindE (guardE (artifact \<in> {''log'', ''result'', ''outcome''})
        (JobErr (''unknown artifact '' @ str_repr artifact))) (\<lambda>_.
     bindE (guardE (page_bounds_ok offset limit)
        (JobErr (''offset must be nonnegative and limit must be 1..'' @ show_nat MAX_LOG_BYTES))) (\<lambda>_.
     bindE selected (\<lambda>view.
     bindE (owned_artifact cfg f t (dget (av_artifacts view) artifact)) (\<lambda>path.
     bindE (artifact_content cfg c f t path (nat (int_of offset)) (nat (int_of limit))) (\<lambda>content.
       Inr (page_of (av_attempt view) path content (nat (int_of offset))))))))"

definition read_attempt_artifact ::
  "config \<Rightarrow> ctx \<Rightarrow> fs \<Rightarrow> task \<Rightarrow> nat option \<Rightarrow> string \<Rightarrow> pyval \<Rightarrow> pyval \<Rightarrow> page res" where
  "read_attempt_artifact cfg c f t attempt artifact offset limit =
     read_artifact cfg c f t (artifact_view cfg f t attempt) artifact offset limit"

section \<open>Dispositions\<close>

definition occupancy_items :: "occupancy \<Rightarrow> pydict" where
  "occupancy_items s =
     (case s of
        Unresolved \<Rightarrow> [(''status'', PStr ''unresolved'')]
      | Empty \<Rightarrow> [(''status'', PStr ''empty''), (''pids'', PList [])]
      | Populated ps \<Rightarrow> [(''status'', PStr ''populated''), (''pids'', PList (map PInt ps))])"

definition obstacle_value :: "obstacle \<Rightarrow> pyval" where
  "obstacle_value ob =
     (case ob of
        NoUnitIdentity \<Rightarrow> PDict [(''status'', PStr ''unresolved''),
          (''error'', PStr ''cancellation has no unit identity'')]
      | StillThere o' \<Rightarrow> PDict ([(''unit'', PStr (ob_unit o')), (''cgroup'', opt_str (ob_cgroup o'))]
          @ occupancy_items (ob_status o')))"

text \<open>What is left of the disposition once its cancellation is known to be complete.\<close>

definition settled_view :: "pydict \<Rightarrow> nat option \<Rightarrow> pydict \<Rightarrow> pydict" where
  "settled_view disposition attempt rcpt =
     (if truthy (pget disposition ''unresolved'')
      then [(''phase'', PStr ''unresolved''), (''started'', PBool True)]
      else if pget disposition ''outcome'' \<noteq> PStr ''cancelled'' then []
      else
        (let never = (pget disposition ''started'' = PBool False)
         in [(''phase'', PStr ''cancelled''), (''terminal'', PBool True), (''started'', PBool (\<not> never))]
            @ (if \<not> never then []
               else if attempt = None then
                 [(''outcome'', PDict disposition),
                  (''exit_code'', pget_or disposition ''exit_code'' (PInt CANCELLED_EXIT_CODE))]
               else if rcpt \<noteq> [] then [(''outcome'', PDict rcpt)] else [])))"

definition disposition_view ::
  "(string list \<Rightarrow> proc_result) \<Rightarrow> fs \<Rightarrow> pydict \<Rightarrow> nat option \<Rightarrow> pydict \<Rightarrow> bool \<Rightarrow> pydict res" where
  "disposition_view sc f disposition attempt rcpt queue_terminal =
     (if (case attempt of
            Some n \<Rightarrow> is_int (pget disposition ''attempt'') \<and> int_of (pget disposition ''attempt'') \<noteq> int n
          | None \<Rightarrow> False)
      then Inr []
      else if truthy (pget disposition ''cancellation_incomplete'')
              \<or> (queue_terminal \<and> dhas disposition ''cgroup'') then
        bindE (cancellation_obstacle sc f (Some disposition)) (\<lambda>ob.
          Inr (case ob of
              Some x \<Rightarrow> [(''phase'', PStr ''unresolved''), (''started'', PBool True), (''terminal'', PBool False),
                (''cancellation_incomplete'', PBool True), (''cgroup_observation'', obstacle_value x)]
            | None \<Rightarrow> settled_view (dset ''unresolved'' (PBool False) disposition) attempt rcpt))
      else Inr (settled_view disposition attempt rcpt))"

section \<open>The view of one job\<close>

definition launch_selection :: "pydict \<Rightarrow> pydict" where
  "launch_selection launch_input =
     List.map_filter (\<lambda>k. case dget launch_input k of
         Some (PStr (c # s)) \<Rightarrow> Some (k, PStr (c # s)) | _ \<Rightarrow> None)
       [''descriptor_path'', ''project_root'', ''working_directory'']
     @ (let timeout = pget launch_input ''timeout_seconds''
        in if is_exact_int timeout \<and> 0 \<le> int_of timeout then [(''timeout_seconds'', timeout)] else [])"

definition attempt_value :: "attempt_rec \<Rightarrow> pyval" where
  "attempt_value r =
     PDict [(''attempt'', PInt (int (at_number r))),
            (''artifacts'', PDict (map (\<lambda>(k, v). (k, PStr v)) (at_artifacts r)))]"

definition artifact_items :: "art_view \<Rightarrow> nat \<Rightarrow> nat \<Rightarrow> pydict" where
  "artifact_items av offset limit =
     (let n = length (av_attempts av)
      in [(''attempt'', PInt (int (av_attempt av))),
          (''artifacts'', PDict (map (\<lambda>(k, v). (k, PStr v)) (av_artifacts av))),
          (''attempts'', PList (map attempt_value (take limit (drop offset (av_attempts av))))),
          (''input_path'', PStr (av_input av)),
          (''attempt_count'', PInt (int n)),
          (''next_attempt_offset'', if offset + limit < n then PInt (int (offset + limit)) else PNone)])"

definition nonempty :: "string \<Rightarrow> pyval \<Rightarrow> pydict" where
  "nonempty key v = (if truthy v then [(key, v)] else [])"

definition archived_items :: "task \<Rightarrow> pydict \<Rightarrow> pydict" where
  "archived_items t rcpt =
     (if tk_status t = ''Archived'' then
        [(''phase'', if pget rcpt ''outcome'' = PStr ''success'' then PStr ''succeeded''
            else pget_or rcpt ''outcome'' (PStr ''unknown'')),
         (''terminal'', PBool (rcpt \<noteq> [])), (''exit_code'', pget rcpt ''exit_code'')]
      else [])"

text \<open>The attempt whose cancellation request belongs in the view.\<close>

definition request_attempt ::
  "config \<Rightarrow> fs \<Rightarrow> task \<Rightarrow> nat option \<Rightarrow> pydict option \<Rightarrow> nat \<Rightarrow> nat res" where
  "request_attempt cfg f t attempt disposition current =
     (let queued_cancel = (attempt = None \<and> (case disposition of
              Some d \<Rightarrow> d \<noteq> [] \<and> pget d ''started'' = PBool False | None \<Rightarrow> False));
          n = (if queued_cancel then 0 else current)
      in if attempt = None \<and> \<not> queued_cancel \<and> tk_started t \<noteq> None then
           (if n = 0 then Inr 1
            else if terminal t then Inr n
            else bindE (unfinished_attempt cfg f t) (\<lambda>u. Inr (if u then n else n + 1)))
         else Inr n)"

definition cancellation_items ::
  "config \<Rightarrow> fs \<Rightarrow> task \<Rightarrow> pydict \<Rightarrow> nat option \<Rightarrow> pydict option \<Rightarrow> nat \<Rightarrow> pydict res" where
  "cancellation_items cfg f t launch_input attempt disposition current =
     (if \<not> truthy (pget launch_input ''log_path'') then Inr []
      else
        bindE (request_attempt cfg f t attempt disposition current) (\<lambda>n.
        bindE (path_arg (pget launch_input ''log_path'')) (\<lambda>log.
        bindE (cancellation f log (int n)) (\<lambda>request.
          Inr (case request of Some d \<Rightarrow> nonempty ''cancellation'' (PDict d) | None \<Rightarrow> [])))))"

definition job_detail ::
  "(string list \<Rightarrow> proc_result) \<Rightarrow> config \<Rightarrow> fs \<Rightarrow> task \<Rightarrow> nat option \<Rightarrow> nat \<Rightarrow> nat \<Rightarrow> (art_view \<times> pydict) res" where
  "job_detail sc cfg f t attempt offset limit =
     (let launch_input = launch_document cfg f t
      in bindE (artifact_view cfg f t attempt) (\<lambda>av.
         bindE (owned_artifact cfg f t (dget (av_artifacts av) ''outcome'')) (\<lambda>outcome_path.
         (let rcpt = (case read_outcome f outcome_path MAX_OUTCOME_BYTES of Some d \<Rightarrow> d | None \<Rightarrow> []);
              disposition = read_disposition cfg f t;
              known = (case disposition of Some d \<Rightarrow> d | None \<Rightarrow> [])
          in bindE (if known = [] then Inr [] else
                 bindE (disposition_view sc f known attempt rcpt (terminal t)) (\<lambda>v.
                   Inr ((''disposition'', PDict known) # v))) (\<lambda>overlay.
             bindE (cancellation_items cfg f t launch_input attempt disposition (av_attempt av)) (\<lambda>request.
               Inr (av, foldl dmerge (job_view t)
                 [launch_selection launch_input, nonempty ''binding'' (pget launch_input ''binding''),
                  nonempty ''admission'' (pget launch_input ''admission''),
                  artifact_items av offset limit, nonempty ''outcome'' (PDict rcpt),
                  [(''queue_present'', PBool (tk_status t \<noteq> ''Archived''))], archived_items t rcpt,
                  (case pget rcpt ''scratch'' of PDict s \<Rightarrow> [(''scratch'', PDict s)] | _ \<Rightarrow> []),
                  overlay, request])))))))"

definition job_outcome :: "config \<Rightarrow> fs \<Rightarrow> task \<Rightarrow> nat option \<Rightarrow> pydict option res" where
  "job_outcome cfg f t attempt =
     bindE (artifact_path cfg f t ''log'' attempt) (\<lambda>log.
       (case log of
          None \<Rightarrow> Inr None
        | Some p \<Rightarrow> bindE (outcome_path_for p) (\<lambda>q. Inr (read_outcome f (Some q) MAX_OUTCOME_BYTES))))"

record typed_result =
  tr_view :: pydict
  tr_kind :: string
  tr_value :: pyval
  tr_page :: page

definition page_value :: "page \<Rightarrow> pyval" where
  "page_value pg =
     (if pg_complete pg then (case json_loads (pg_text pg) of Some v \<Rightarrow> v | None \<Rightarrow> PStr (pg_text pg)) else PNone)"

definition job_result ::
  "(string list \<Rightarrow> proc_result) \<Rightarrow> config \<Rightarrow> ctx \<Rightarrow> fs \<Rightarrow> task \<Rightarrow> nat option \<Rightarrow> pyval \<Rightarrow> pyval \<Rightarrow> typed_result res" where
  "job_result sc cfg c f t attempt offset limit =
     bindE (job_detail sc cfg f t attempt 0 100) (\<lambda>(av, view).
     bindE (read_artifact cfg c f t (Inr av) ''result'' offset limit) (\<lambda>pg.
       Inr \<lparr>tr_view = view, tr_kind = (if pg_available pg then ''artifact'' else ''exit''),
            tr_value = page_value pg, tr_page = pg\<rparr>))"

section \<open>Failure excerpts\<close>

definition FAILURE_EXCERPT_LINES :: nat where "FAILURE_EXCERPT_LINES = 40"
definition FAILURE_TAIL_LINES :: nat where "FAILURE_TAIL_LINES = 8"

definition starts_any :: "string list \<Rightarrow> string \<Rightarrow> bool" where
  "starts_any ws s \<longleftrightarrow> list_ex (\<lambda>w. prefix w s) ws"

definition verdict_line :: "string \<Rightarrow> bool" where
  "verdict_line s \<longleftrightarrow>
     list_ex (\<lambda>w. prefix w (lstrip s)
         \<and> (let r = drop (length w) (lstrip s) in lstrip r \<noteq> r \<and> prefix ''['' (lstrip r)))
       [''FAIL'', ''TIMEOUT'', ''SIGSEGV'', ''SIGABRT'', ''SIGKILL'', ''SIGBUS'', ''LEAK-FAIL'']"

text \<open>\<open>(\[E\d+\])?:\<close> behind the word.\<close>

definition error_code_colon :: "string \<Rightarrow> bool" where
  "error_code_colon r \<longleftrightarrow> prefix '':'' r \<or>
     (prefix ''[E'' r \<and> (let ds = takeWhile is_digit (drop 2 r) in ds \<noteq> [] \<and> prefix '']:'' (drop (2 + length ds) r)))"

definition failure_line :: "string \<Rightarrow> bool" where
  "failure_line s \<longleftrightarrow> verdict_line s
     \<or> list_ex (\<lambda>w. prefix w s \<and> error_code_colon (drop (length w) s)) [''error'', ''warning: build failed'']
     \<or> str_in ''panicked at '' s
     \<or> (prefix ''recorded as run '' (lstrip s) \<and> (\<exists>c \<in> set (take 1 (drop 16 (lstrip s))). is_digit c))
     \<or> starts_any [''refused'', ''timed out after'', ''could not start the command'', ''could not control the command''] s"

fun matched_lines :: "string list \<Rightarrow> string list" where
  "matched_lines [] = []"
| "matched_lines (l # r) =
     (if failure_line l then l # (if str_in ''panicked at '' l then take 1 r else []) else []) @ matched_lines r"

definition failure_excerpt :: "string list \<Rightarrow> string list" where
  "failure_excerpt ls =
     (let n = length ls - FAILURE_TAIL_LINES; tail = drop n ls; found = matched_lines (take n ls);
          room = FAILURE_EXCERPT_LINES - length tail
      in (if room < length found
          then (''... '' @ show_nat (length found - room) @ '' earlier failure line(s) omitted'')
               # drop (length found - room) found
          else found) @ tail)"

text \<open>A line behind a panic that is a failure line itself is listed twice.\<close>

lemma excerpt_repeats:
  "failure_excerpt ([''thread panicked at a'', ''error: b''] @ replicate 8 ''x'')
     = [''thread panicked at a'', ''error: b'', ''error: b''] @ replicate 8 ''x''"
  by code_simp

section \<open>Pages stay inside\<close>

text \<open>A resolved path lies under a root that resolves.\<close>

definition under_root :: "fs \<Rightarrow> ppath list \<Rightarrow> ppath \<Rightarrow> bool" where
  "under_root f roots r \<longleftrightarrow> (\<exists>q \<in> set roots. \<exists>s. realpath f q = Inr s \<and> is_relative_to r s)"

lemma in_roots_under: "in_roots f r qs \<Longrightarrow> under_root f qs r"
  by (induction qs) (auto simp: under_root_def split: sum.split_asm)

lemma owns_path_under: "owns_path cfg f t p \<Longrightarrow> \<exists>r. realpath f p = Inr r \<and> under_root f (owned_roots cfg t) r"
  by (auto simp: owns_path_def intro: in_roots_under split: sum.split_asm)

lemma owned_artifact_under:
  "owned_artifact cfg f t d = Inr (Some p) \<Longrightarrow> \<exists>r. realpath f p = Inr r \<and> under_root f (owned_roots cfg t) r"
  by (cases d) (auto simp: owned_artifact_def bindE_eq_Inr dest: owns_path_under split: if_split_asm)


section \<open>A cancellation is final only when nothing is left\<close>

text \<open>
  A cancelled job is shown as finished by its disposition only when no process of it can be
  left: while its cancellation is marked incomplete, or its queue task is finished and a control
  group is on record, the view turns terminal only if no obstacle was observed, and any obstacle
  shows the job as unresolved and not terminal.
\<close>

theorem disposition_terminal:
  assumes "disposition_view sc f d None rcpt queue_terminal = Inr v"
    and "truthy (pget d ''cancellation_incomplete'') \<or> (queue_terminal \<and> dhas d ''cgroup'')"
  shows "(truthy (pget v ''terminal'') \<longrightarrow> cancellation_obstacle sc f (Some d) = Inr None)
    \<and> (\<forall>x. cancellation_obstacle sc f (Some d) = Inr (Some x) \<longrightarrow>
         pget v ''terminal'' = PBool False \<and> pget v ''phase'' = PStr ''unresolved'')"
proof -
  have "disposition_view sc f d None rcpt queue_terminal = bindE (cancellation_obstacle sc f (Some d)) (\<lambda>ob.
          Inr (case ob of
              Some x \<Rightarrow> [(''phase'', PStr ''unresolved''), (''started'', PBool True), (''terminal'', PBool False),
                (''cancellation_incomplete'', PBool True), (''cgroup_observation'', obstacle_value x)]
            | None \<Rightarrow> settled_view (dset ''unresolved'' (PBool False) d) None rcpt))"
    using assms(2) by (simp add: disposition_view_def)
  with assms(1) show ?thesis
    by (cases "cancellation_obstacle sc f (Some d)") (auto simp: pget_def split: option.splits)
qed

section \<open>Concrete cases\<close>

definition sample_cfg :: config where
  "sample_cfg = \<lparr>project_roots = [], event_spool = mkpath ''/e'', state_dir = mkpath ''/s'',
     agentctl_executable = [], private_catalog = None, cf_pools = [], config_path = None,
     inherited_environment = []\<rparr>"

definition sample_task :: task where
  "sample_task = \<lparr>tk_id = 4, tk_label = ''p:check'', tk_group = ''normal'', tk_status = ''Done'',
     tk_result = Some ''Success'', tk_exit = Some 0, tk_path = ''/w'', tk_deps = [],
     tk_command = ''agentctl-run /s/inputs/j.json'', tk_enqueued = None, tk_started = None, tk_ended = None\<rparr>"

definition sample_state_fs :: fs where
  "sample_state_fs = \<lparr>nodes = [((''/'', [''s'']), Dir 448), ((''/'', [''s'', ''inputs'']), Dir 448),
     ((''/'', [''s'', ''inputs'', ''j.json'']), RegFile ''{\"label\":\"p:check\"}'' 384),
     ((''/'', [''s'', ''o'']), RegFile ''hello world'' 384)], noread = [], nowrite = []\<rparr>"

definition sample_view :: art_view where
  "sample_view = \<lparr>av_attempt = 1, av_artifacts = [(''log'', ''/s/o'')], av_attempts = [], av_input = []\<rparr>"

definition sample_page_task :: task where "sample_page_task = sample_task\<lparr>tk_command := ''make check''\<rparr>"

lemma sample_page_command: "launch_input_path sample_page_task = None"
  by code_simp

lemma sample_page_read: "fs_read_nofollow sample_state_fs (mkpath ''/s/o'') = Inr ''hello world''"
  by code_simp

lemma sample_page_owned: "owned_artifact sample_cfg sample_state_fs sample_page_task (Some ''/s/o'') = Inr (Some (mkpath ''/s/o''))"
  by code_simp


definition sample_disposition_left :: pydict where
  "sample_disposition_left = [(''cancellation_incomplete'', PBool True), (''outcome'', PStr ''cancelled'')]"

theorem disposition_terminal_witness:
  "\<exists>v. disposition_view (\<lambda>args. TimedOut) sample_state_fs sample_disposition_left None [] False = Inr v
     \<and> pget v ''terminal'' = PBool False \<and> pget v ''phase'' = PStr ''unresolved''"
proof -
  let ?run = "disposition_view (\<lambda>args. TimedOut) sample_state_fs sample_disposition_left None [] False"
  have "\<not> isl ?run" by code_simp
  then obtain v where v: "?run = Inr v" by (cases ?run) auto
  have inc: "truthy (pget sample_disposition_left ''cancellation_incomplete'') \<or> (False \<and> dhas sample_disposition_left ''cgroup'')"
    by code_simp
  have "cancellation_obstacle (\<lambda>args. TimedOut) sample_state_fs (Some sample_disposition_left)
      = Inr (Some NoUnitIdentity)" by code_simp
  with disposition_terminal [OF v inc] v show ?thesis by blast
qed

end
