(* ===== verification/Agentctl_Queries.thy ===== *)
theory Agentctl_Queries
  imports Agentctl_Jobs
begin

text \<open>
  The queue-facing part of \<open>agentctl/job_queries.py\<close>: finding the task that carries a job after
  the queue reassigned its ids, archived reads, lists and the bounded snapshot, bindings, logs, and
  the wait. The file system and systemd are looked at as they are at that moment; a look that asks
  systemd for one property is not recorded among the calls.
\<close>

section \<open>Finding a job\<close>

text \<open>The first task that carries the job, in the order the queue lists them.\<close>

definition first_with_job :: "tasks \<Rightarrow> string \<Rightarrow> task option" where
  "first_with_job ts job = find (\<lambda>t. job_id_of t = Some job) (map snd ts)"

definition index_tasks_by_job_id :: "task list \<Rightarrow> (string \<times> task) list" where
  "index_tasks_by_job_id ts =
     foldl (\<lambda>ids t. case job_id_of t of
         Some j \<Rightarrow> if dhas ids j then ids else dset j t ids | None \<Rightarrow> ids) [] ts"

definition find_task :: "tasks \<Rightarrow> pyval \<Rightarrow> pyval \<Rightarrow> (string \<times> task) list option \<Rightarrow> task option" where
  "find_task ts task_id job_id index =
     (case job_id of
        PStr j \<Rightarrow> (case index of Some ids \<Rightarrow> dget ids j | None \<Rightarrow> first_with_job ts j)
      | _ \<Rightarrow> if is_int task_id then dget ts (int_of task_id) else None)"

definition vanished :: "tasks \<Rightarrow> pyval \<Rightarrow> pyval \<Rightarrow> (string \<times> task) list option \<Rightarrow> bool" where
  "vanished ts task_id job_id index \<longleftrightarrow>
     (is_int task_id \<or> is_str job_id) \<and> find_task ts task_id job_id index = None"

definition locate :: "daemon \<Rightarrow> pyval \<Rightarrow> string option \<Rightarrow> ('z pq_scheme, task option) io" where
  "locate d task_id job_id =
     bindM (if is_int task_id \<and> 0 \<le> int_of task_id
            then bindM (tasks_by_ids d [task_id]) (\<lambda>ts. returnM (dget ts (int_of task_id)))
            else returnM None) (\<lambda>t.
       (case job_id of
          None \<Rightarrow> returnM t
        | Some j \<Rightarrow>
            if t \<noteq> None \<and> job_id_of (the t) = Some j then returnM t
            else bindM (tasks_by_command d (j @ ''.json'')) (\<lambda>ts.
              returnM (find_task ts task_id (PStr j) None))))"

definition addressed :: "daemon \<Rightarrow> int \<Rightarrow> string option \<Rightarrow> ('z pq_scheme, task) io" where
  "addressed d task_id job_id =
     (case job_id of
        None \<Rightarrow>
          bindM (task_by_id d task_id) (\<lambda>t. case t of
              Some t' \<Rightarrow> returnM t' | None \<Rightarrow> raiseM (JobErr (''pueue has no task '' @ show_int task_id)))
      | Some j \<Rightarrow>
          bindM (locate d (PInt task_id) (Some j)) (\<lambda>t. case t of
              Some t' \<Rightarrow> returnM t' | None \<Rightarrow> raiseM (JobErr (''pueue has no task for job '' @ j))))"

text \<open>A job that left the queue, from its retained launch input. The fields of a retained input
  are of the types the launcher writes; another type fails here instead of at its first use.\<close>

definition str_field :: "pydict \<Rightarrow> string \<Rightarrow> string res" where
  "str_field d k = (case pget_or d k (PStr []) of PStr s \<Rightarrow> Inr s | _ \<Rightarrow> Inl AttributeErr)"

definition archived_task :: "config \<Rightarrow> int \<Rightarrow> string \<Rightarrow> pydict \<Rightarrow> task res" where
  "archived_task cfg task_id job document =
     bindE (case pget_or document ''queue_task_id'' (PInt task_id) of
         PInt i \<Rightarrow> Inr i | _ \<Rightarrow> Inl AttributeErr) (\<lambda>i.
     bindE (str_field document ''label'') (\<lambda>label.
     bindE (str_field document ''pool'') (\<lambda>pool.
     bindE (str_field document ''working_directory'') (\<lambda>wd.
       Inr \<lparr>tk_id = i, tk_label = label, tk_group = pool, tk_status = ''Archived'', tk_result = None,
            tk_exit = None, tk_path = wd, tk_deps = [],
            tk_command = shlex_join [''agentctl-run'', path_str (path_join (inputs_dir cfg) (job @ ''.json''))],
            tk_enqueued = None, tk_started = None, tk_ended = None\<rparr>))))"

definition read_archived :: "config \<Rightarrow> fs \<Rightarrow> int \<Rightarrow> string option \<Rightarrow> task res" where
  "read_archived cfg f task_id job_id =
     (let ok = (case job_id of Some j \<Rightarrow> JOB_ID j | None \<Rightarrow> False);
          job = (case job_id of Some j \<Rightarrow> j | None \<Rightarrow> [])
      in if \<not> ok then Inl (JobErr (''pueue has no task '' @ (if job \<noteq> [] then job else show_int task_id)
             @ ''; archived reads require a job id''))
         else (case dict_document (read_bounded f (path_join (inputs_dir cfg) (job @ ''.json'')) MAX_LAUNCH_INPUT_BYTES) of
             None \<Rightarrow> Inl (JobErr (''no retained launch '' @ job))
           | Some document \<Rightarrow> archived_task cfg task_id job document))"

definition read_task :: "machine \<Rightarrow> config \<Rightarrow> int \<Rightarrow> string option \<Rightarrow> (rworld, task) io" where
  "read_task m cfg task_id job_id =
     bindM (locate (m_pueue m) (PInt task_id) job_id) (\<lambda>t. case t of
         Some t' \<Rightarrow> returnM t'
       | None \<Rightarrow> look m (\<lambda>f. read_archived cfg f task_id job_id))"

section \<open>Lists\<close>

definition list_jobs :: "daemon \<Rightarrow> string option \<Rightarrow> ('z pq_scheme, pydict list) io" where
  "list_jobs d project =
     bindM (tasks_all d) (\<lambda>ts.
       returnM (map job_view (filter (\<lambda>t. case project of None \<Rightarrow> True
           | Some p \<Rightarrow> prefix (p @ '':'') (tk_label t)) (sort_key tk_id (map snd ts)))))"

record group_counts =
  gc_status :: string
  gc_parallel :: int
  gc_running :: nat
  gc_queued :: nat
  gc_paused :: nat
  gc_stashed :: nat
  gc_terminal :: nat
  gc_total :: nat

definition no_counts :: "string \<Rightarrow> int \<Rightarrow> group_counts" where
  "no_counts s n = \<lparr>gc_status = s, gc_parallel = n, gc_running = 0, gc_queued = 0, gc_paused = 0,
     gc_stashed = 0, gc_terminal = 0, gc_total = 0\<rparr>"

definition declared_counts :: "string \<times> pydict \<Rightarrow> (string \<times> group_counts) res" where
  "declared_counts g =
     bindE (if truthy (pget (snd g) ''parallel_tasks'') then py_int_of (pget (snd g) ''parallel_tasks'') else Inr 0)
       (\<lambda>n. Inr (fst g, no_counts (str_or_empty (pget (snd g) ''status'')) n))"

definition count_state :: "task \<Rightarrow> group_counts \<Rightarrow> group_counts" where
  "count_state t c =
     (let c1 = c\<lparr>gc_total := gc_total c + 1\<rparr>; s = str_lower (tk_status t)
      in if terminal t then c1\<lparr>gc_terminal := gc_terminal c + 1\<rparr>
         else if s = ''running'' then c1\<lparr>gc_running := gc_running c + 1\<rparr>
         else if s = ''queued'' then c1\<lparr>gc_queued := gc_queued c + 1\<rparr>
         else if s = ''paused'' then c1\<lparr>gc_paused := gc_paused c + 1\<rparr>
         else if s = ''stashed'' then c1\<lparr>gc_stashed := gc_stashed c + 1\<rparr>
         else c1)"

definition count_task :: "(string \<times> group_counts) list \<Rightarrow> task \<Rightarrow> (string \<times> group_counts) list" where
  "count_task gs t =
     dset (tk_group t) (count_state t (case dget gs (tk_group t) of Some c \<Rightarrow> c | None \<Rightarrow> no_counts [] 0)) gs"

text \<open>Latest first.\<close>

definition newest_first :: "task list \<Rightarrow> task list" where
  "newest_first ts = rev (sort_key tk_id (rev ts))"

definition shorten :: "pydict \<Rightarrow> string \<Rightarrow> pydict" where
  "shorten row key =
     (case pget row key of
        PStr s \<Rightarrow>
          if MAX_SNAPSHOT_TEXT < py_len s
          then dset key (PStr (take_points (MAX_SNAPSHOT_TEXT - 1) s @ map char_of [226 :: nat, 128, 166])) row
          else row
      | _ \<Rightarrow> row)"

definition too_long :: "pydict \<Rightarrow> string \<Rightarrow> bool" where
  "too_long row key \<longleftrightarrow> (case pget row key of PStr s \<Rightarrow> MAX_SNAPSHOT_TEXT < py_len s | _ \<Rightarrow> False)"

definition snapshot_row :: "config option \<Rightarrow> fs \<Rightarrow> task \<Rightarrow> pydict res" where
  "snapshot_row cfg f t =
     bindE (case cfg of
         None \<Rightarrow> Inr (job_view t)
       | Some c \<Rightarrow> bindE (artifact_view c f t None) (\<lambda>av.
           Inr (job_view t @ [(''attempt'', PInt (int (av_attempt av)))]))) (\<lambda>row.
       (let keys = [''label'', ''operation'', ''path'', ''job_id''];
            short = filter (too_long row) keys
        in Inr (foldl shorten row keys
             @ (if short = [] then [] else [(''shortened'', PList (map PStr short))]))))"

record snapshot =
  sn_limit :: nat
  sn_groups :: "(string \<times> group_counts) list"
  sn_jobs :: "pydict list"
  sn_active :: "nat \<times> nat"
  sn_terminal :: "nat \<times> nat"
  sn_omitted :: "nat \<times> nat \<times> nat"
  sn_truncated :: bool

definition snapshot_of :: "config option \<Rightarrow> fs \<Rightarrow> nat \<Rightarrow> qstatus \<Rightarrow> snapshot res" where
  "snapshot_of cfg f limit q =
     (let ts = map snd (qs_tasks q);
          active = newest_first (filter (\<lambda>t. \<not> terminal t) ts);
          finished = newest_first (filter terminal ts);
          selected = take limit (active @ finished);
          shown = length (filter (\<lambda>t. \<not> terminal t) selected)
      in bindE (mapE declared_counts (qs_groups q)) (\<lambda>gs.
         bindE (mapE (snapshot_row cfg f) selected) (\<lambda>rows.
           Inr \<lparr>sn_limit = limit, sn_groups = foldl count_task (dict_of gs) ts, sn_jobs = rows,
                sn_active = (length active, shown),
                sn_terminal = (length finished, length selected - shown),
                sn_omitted = (length ts - length selected, length active - shown,
                  length finished - (length selected - shown)),
                sn_truncated = (length selected < length ts)\<rparr>)))"

definition snapshot_jobs :: "machine \<Rightarrow> int \<Rightarrow> config option \<Rightarrow> (rworld, snapshot) io" where
  "snapshot_jobs m limit cfg =
     (if \<not> (1 \<le> limit \<and> limit \<le> MAX_SNAPSHOT_ROWS)
      then raiseM (JobErr (''job snapshot limit must be between 1 and '' @ show_int MAX_SNAPSHOT_ROWS))
      else bindM (full_status (m_pueue m)) (\<lambda>q. look m (\<lambda>f. snapshot_of cfg f (nat limit) q)))"

section \<open>Bindings\<close>

definition row_ids :: "pydict list \<Rightarrow> pyval list" where
  "row_ids rows =
     filter (\<lambda>v. is_exact_int v \<and> 0 \<le> int_of v) (map (\<lambda>row. pget row ''task_id'') rows)"

definition attach_row ::
  "machine \<Rightarrow> config \<Rightarrow> tasks \<Rightarrow> (string \<times> task) list \<Rightarrow> pydict \<Rightarrow> pydict list \<Rightarrow> (rworld, pydict list) io" where
  "attach_row m cfg ts ids row attached =
     (let task_id = pget row ''task_id''; job_id = pget row ''job_id''; found = find_task ts task_id job_id (Some ids)
      in bindM (if found = None \<and> is_str job_id \<and> JOB_ID (str_of job_id)
                then locate (m_pueue m) task_id (Some (str_of job_id)) else returnM found) (\<lambda>t.
         bindM (case t of
             None \<Rightarrow> returnM PNone
           | Some t' \<Rightarrow> look m (\<lambda>f. Inr (pget (launch_document cfg f t') ''binding''))) (\<lambda>binding.
           returnM (attached @ [if truthy binding then dset ''binding'' binding row else row]))))"

definition attach_bindings :: "machine \<Rightarrow> config \<Rightarrow> pydict list \<Rightarrow> (rworld, pydict list) io" where
  "attach_bindings m cfg rows =
     bindM (tasks_by_ids (m_pueue m) (row_ids rows)) (\<lambda>ts.
       forM (attach_row m cfg ts (index_tasks_by_job_id (map snd ts))) rows [])"

section \<open>Logs\<close>

definition masked_text :: "string list \<Rightarrow> string \<Rightarrow> string" where
  "masked_text secrets raw = utf8_replace (mask_secret_values raw secrets)"

definition stored_log :: "config \<Rightarrow> ctx \<Rightarrow> task \<Rightarrow> nat option \<Rightarrow> fs \<Rightarrow> (string \<times> string list) res" where
  "stored_log cfg c t attempt f =
     bindE (artifact_path cfg f t ''log'' attempt) (\<lambda>path.
     bindE (job_secrets cfg c f t) (\<lambda>secrets.
       Inr (case path of
           Some p \<Rightarrow> (case read_bounded f p MAX_LOG_BYTES of Some raw \<Rightarrow> masked_text secrets raw | None \<Rightarrow> [])
         | None \<Rightarrow> [], secrets)))"

definition join_log :: "string \<Rightarrow> string \<Rightarrow> string" where
  "join_log text wrapper =
     (if strip wrapper = [] then text
      else if text = [] then wrapper
      else text @ [newline] @ ''[wrapper]'' @ [newline] @ wrapper)"

definition task_logs :: "machine \<Rightarrow> config \<Rightarrow> ctx \<Rightarrow> task \<Rightarrow> nat option \<Rightarrow> (rworld, string) io" where
  "task_logs m cfg c t attempt =
     bindM (look m (stored_log cfg c t attempt)) (\<lambda>(text, secrets).
     bindM (if attempt = None \<and> tk_status t \<noteq> ''Archived'' then pueue_log (m_pueue m) (tk_id t) else returnM [])
       (\<lambda>wrapper. returnM (join_log text (masked_text secrets wrapper))))"

definition logs :: "machine \<Rightarrow> config \<Rightarrow> ctx \<Rightarrow> int \<Rightarrow> string option \<Rightarrow> nat option \<Rightarrow> (rworld, string) io" where
  "logs m cfg c task_id job_id attempt =
     bindM (read_task m cfg task_id job_id) (\<lambda>t. task_logs m cfg c t attempt)"

definition job_failure_excerpt :: "machine \<Rightarrow> config \<Rightarrow> ctx \<Rightarrow> task \<Rightarrow> (rworld, string list) io" where
  "job_failure_excerpt m cfg c t =
     bindM (task_logs m cfg c t None) (\<lambda>text. returnM (failure_excerpt (splitlines text)))"

section \<open>One job\<close>

definition look_systemd ::
  "machine \<Rightarrow> ((string list \<Rightarrow> proc_result) \<Rightarrow> fs \<Rightarrow> 'a res) \<Rightarrow> (rworld, 'a) io" where
  "look_systemd m g w =
     (g (\<lambda>args. m_systemctl m (rw_ctl w @ [args])) (m_fs m (rw_clock w)), w\<lparr>rw_clock := rw_clock w + 1\<rparr>)"

definition get_job ::
  "machine \<Rightarrow> config option \<Rightarrow> int \<Rightarrow> string option \<Rightarrow> nat option \<Rightarrow> int \<Rightarrow> int \<Rightarrow> (rworld, pydict) io" where
  "get_job m cfg task_id job_id attempt offset limit =
     (if offset < 0 \<or> \<not> (1 \<le> limit \<and> limit \<le> 100)
      then raiseM (JobErr ''attempt_offset must be nonnegative and attempt_limit must be 1..100'')
      else
        (case cfg of
           None \<Rightarrow> bindM (addressed (m_pueue m) task_id job_id) (\<lambda>t. returnM (job_view t))
         | Some c \<Rightarrow>
             bindM (read_task m c task_id job_id) (\<lambda>t.
             bindM (look_systemd m (\<lambda>sc f. job_detail sc c f t attempt (nat offset) (nat limit))) (\<lambda>(av, view).
               returnM view))))"

definition read_job_artifact ::
  "machine \<Rightarrow> config \<Rightarrow> ctx \<Rightarrow> int \<Rightarrow> string option \<Rightarrow> nat option \<Rightarrow> string \<Rightarrow> pyval \<Rightarrow> pyval \<Rightarrow> (rworld, page) io" where
  "read_job_artifact m cfg c task_id job_id attempt artifact offset limit =
     bindM (read_task m cfg task_id job_id) (\<lambda>t.
       look m (\<lambda>f. read_attempt_artifact cfg c f t attempt artifact offset limit))"

definition typed_result_of ::
  "machine \<Rightarrow> config \<Rightarrow> ctx \<Rightarrow> int \<Rightarrow> string option \<Rightarrow> nat option \<Rightarrow> pyval \<Rightarrow> pyval \<Rightarrow> (rworld, typed_result) io" where
  "typed_result_of m cfg c task_id job_id attempt offset limit =
     bindM (read_task m cfg task_id job_id) (\<lambda>t.
       look_systemd m (\<lambda>sc f. job_result sc cfg c f t attempt offset limit))"

section \<open>Waiting\<close>

definition WAIT_SLICE_SECONDS :: pyfloat where "WAIT_SLICE_SECONDS = FDec 5 0"

definition wait_slice :: "task \<Rightarrow> pyfloat \<Rightarrow> pyfloat" where
  "wait_slice t remaining =
     (if tk_status t = ''Running'' then float_max remaining (FDec 1 0)
      else float_max (float_min remaining WAIT_SLICE_SECONDS) (FDec 1 0))"

definition observed_view ::
  "(string list \<Rightarrow> proc_result) \<Rightarrow> config \<Rightarrow> fs \<Rightarrow> task \<Rightarrow> pydict res" where
  "observed_view sc cfg f t =
     (case read_disposition cfg f t of
        Some (p # ps) \<Rightarrow>
          bindE (disposition_view sc f (p # ps) None [] (terminal t)) (\<lambda>v. Inr (dmerge (job_view t) v))
      | _ \<Rightarrow> Inr (job_view t))"

definition absent_view ::
  "(string list \<Rightarrow> proc_result) \<Rightarrow> config \<Rightarrow> fs \<Rightarrow> task \<Rightarrow> string option \<Rightarrow> pydict res" where
  "absent_view sc cfg f t job_id =
     bindE (job_detail sc cfg f t None 0 100) (\<lambda>(av, view).
     bindE (guardE (truthy (pget view ''terminal''))
       (JobErr (''job '' @ py_str (opt_str job_id)
          @ '' is absent from pueue with no verified terminal outcome''))) (\<lambda>_. Inr view))"

definition observe_job ::
  "machine \<Rightarrow> config option \<Rightarrow> string option \<Rightarrow> int \<Rightarrow> (rworld, task \<times> pydict) io" where
  "observe_job m cfg job_id task_id =
     (case cfg of
        None \<Rightarrow>
          bindM (addressed (m_pueue m) task_id job_id) (\<lambda>t. returnM (t, job_view t))
      | Some c \<Rightarrow>
          bindM (read_task m c task_id job_id) (\<lambda>t.
          bindM (look_systemd m (\<lambda>sc f.
              if tk_status t = ''Archived'' then absent_view sc c f t job_id else observed_view sc c f t)) (\<lambda>view.
            returnM (t, view))))"

definition timed_out :: "pydict \<Rightarrow> string option \<Rightarrow> pydict" where
  "timed_out view detail =
     dmerge view ((''wait_timed_out'', PBool True)
       # (case detail of None \<Rightarrow> [] | Some s \<Rightarrow> [(''detail'', PStr s)]))"

text \<open>How one blocking call of the wait ended.\<close>

datatype block_end = Woke | Expired | Refused string

definition block_on :: "machine \<Rightarrow> int \<Rightarrow> pyfloat \<Rightarrow> (rworld, block_end) io" where
  "block_on m i timeout =
     catchM (bindM (wait_task (m_pueue m) i timeout) (\<lambda>_. returnM Woke))
       (\<lambda>e. (case e of
            PueueTimeout s \<Rightarrow> returnM Expired
          | _ \<Rightarrow> if is_pueueerror e then returnM (Refused (exn_str e)) else raiseM e))"

text \<open>The loop, with the observation already at hand; \<open>None\<close> is the end of the fuel. The sleep of
  a job whose queue task is finished is time that passes before the next observation.\<close>

fun wait_loop ::
  "machine \<Rightarrow> config option \<Rightarrow> string option \<Rightarrow> pyfloat \<Rightarrow> nat \<Rightarrow> string option \<Rightarrow> task \<times> pydict
     \<Rightarrow> (rworld, pydict option) io" where
  "wait_loop m cfg job_id deadline_at 0 detail ob = returnM None"
| "wait_loop m cfg job_id deadline_at (Suc n) detail ob =
     (if truthy (pget (snd ob) ''terminal'') then returnM (Some (snd ob))
      else
        bindM (monotonic m) (\<lambda>now.
          (let remaining = float_sub deadline_at now
           in if float_le remaining (FDec 0 0) \<or> detail \<noteq> None
              then returnM (Some (timed_out (snd ob) detail))
              else if terminal (fst ob) then
                bindM (observe_job m cfg job_id (tk_id (fst ob))) (\<lambda>ob'.
                  wait_loop m cfg job_id deadline_at n detail ob')
              else
                (let blocking = wait_slice (fst ob) remaining
                 in bindM (block_on m (tk_id (fst ob)) blocking) (\<lambda>e.
                    bindM (observe_job m cfg job_id (tk_id (fst ob))) (\<lambda>ob'.
                      (case e of
                         Expired \<Rightarrow>
                           if float_le remaining blocking then
                             returnM (Some (if truthy (pget (snd ob') ''terminal'') then snd ob'
                               else timed_out (snd ob') None))
                           else wait_loop m cfg job_id deadline_at n detail ob'
                       | Refused s \<Rightarrow> wait_loop m cfg job_id deadline_at n (Some s) ob'
                       | Woke \<Rightarrow> wait_loop m cfg job_id deadline_at n detail ob')))))))"

definition wait_job ::
  "machine \<Rightarrow> config option \<Rightarrow> int \<Rightarrow> pyfloat \<Rightarrow> string option \<Rightarrow> nat \<Rightarrow> (rworld, pydict option) io" where
  "wait_job m cfg task_id timeout job_id fuel =
     bindM (monotonic m) (\<lambda>now.
     bindM (case job_id of
         Some j \<Rightarrow> returnM (Some j)
       | None \<Rightarrow> bindM (addressed (m_pueue m) task_id None) (\<lambda>t. returnM (job_id_of t))) (\<lambda>job.
     bindM (observe_job m cfg job task_id) (\<lambda>ob.
       wait_loop m cfg job (float_add now timeout) fuel None ob)))"

section \<open>The index answers as the scan does\<close>

lemma index_step:
  "dget (foldl (\<lambda>ids t. case job_id_of t of
       Some j \<Rightarrow> if dhas ids j then ids else dset j t ids | None \<Rightarrow> ids) ids ts) j
   = (case dget ids j of Some t \<Rightarrow> Some t | None \<Rightarrow> find (\<lambda>t. job_id_of t = Some j) ts)"
  by (induction ts arbitrary: ids) (auto simp: dhas_iff dget_dset split: option.split)

text \<open>
  The index built once for many saved jobs gives, for every job and every stored task id, the
  same task as scanning the queue for that job, also where two tasks carry one job.
\<close>

theorem find_task_index:
  "find_task ts task_id job_id (Some (index_tasks_by_job_id (map snd ts))) = find_task ts task_id job_id None"
  by (cases job_id) (simp_all add: find_task_def index_tasks_by_job_id_def index_step first_with_job_def)

section \<open>Every answer carries the job asked for\<close>

lemma path_name_plain: "snd p \<noteq> [] \<Longrightarrow> path_name p = last (snd p)"
  by (simp add: path_name_def)

definition component_ok :: "string \<Rightarrow> bool" where
  "component_ok c \<longleftrightarrow> c \<noteq> [] \<and> c \<noteq> ''.'' \<and> CHR ''/'' \<notin> set c"

lemma mkpath_path_str:
  assumes "cs \<noteq> []" and "\<forall>c \<in> set cs. component_ok c"
  shows "mkpath (path_str (''/'', cs)) = (''/'', cs)"
proof -
  let ?s = "str_join ''/'' cs"
  have split: "split_on CHR ''/'' ?s = cs"
    using assms by (intro split_on_join) (auto simp: component_ok_def)
  obtain c r where cs: "cs = c # r" using assms(1) by (cases cs) auto
  have "?s \<noteq> [] \<and> hd ?s \<noteq> CHR ''/''"
    using assms(2) cs by (cases r; cases c) (auto simp: component_ok_def)
  then have "\<not> prefix ''//'' (''/'' @ ?s)" by (cases ?s) auto
  moreover have "filter (\<lambda>c. c \<noteq> [] \<and> c \<noteq> ''.'') cs = cs"
    using assms(2) by (intro filter_True) (auto simp: component_ok_def)
  ultimately show ?thesis using split assms(1) by (simp add: mkpath_def path_str_def)
qed

lemma json_name: "job \<noteq> [] \<Longrightarrow> name_suffix (job @ ''.json'') = ''.json'' \<and> name_stem (job @ ''.json'') = job"
proof -
  assume job: "job \<noteq> []"
  have t: "takeWhile (\<lambda>c. c \<noteq> CHR ''.'') (rev (job @ ''.json'')) = rev ''json''" by simp
  have "last_dot (job @ ''.json'') = Some (length job)"
    unfolding last_dot_def t Let_def by simp
  with job show ?thesis by (simp add: name_stem_def name_suffix_def)
qed

lemma JOB_ID_component: "JOB_ID job \<Longrightarrow> component_ok (job @ ''.json'') \<and> job \<noteq> []"
  by (auto simp: JOB_ID_def component_ok_def list_all_iff is_alnum_def is_lower_def is_upper_def is_digit_def)

definition inputs_ok :: "config \<Rightarrow> bool" where
  "inputs_ok cfg \<longleftrightarrow> fst (state_dir cfg) = ''/'' \<and> (\<forall>c \<in> set (snd (state_dir cfg)). component_ok c)"

lemma input_path:
  assumes "inputs_ok cfg" and "JOB_ID job"
  shows "path_join (inputs_dir cfg) (job @ ''.json'') = (''/'', snd (state_dir cfg) @ [''inputs'', job @ ''.json''])"
    and "mkpath (path_str (path_join (inputs_dir cfg) (job @ ''.json'')))
       = (''/'', snd (state_dir cfg) @ [''inputs'', job @ ''.json''])"
proof -
  have job: "component_ok (job @ ''.json'')" using JOB_ID_component [OF assms(2)] by simp
  have "mkpath ''inputs'' = ([], [''inputs''])" by (rule mkpath_single) simp_all
  moreover have "mkpath (job @ ''.json'') = ([], [job @ ''.json''])"
    using job by (intro mkpath_single) (auto simp: component_ok_def)
  ultimately show eq: "path_join (inputs_dir cfg) (job @ ''.json'')
      = (''/'', snd (state_dir cfg) @ [''inputs'', job @ ''.json''])"
    using assms(1) by (simp add: path_join_def inputs_dir_def inputs_ok_def Let_def)
  have "component_ok ''inputs''" by (simp add: component_ok_def)
  with job assms(1) show "mkpath (path_str (path_join (inputs_dir cfg) (job @ ''.json'')))
      = (''/'', snd (state_dir cfg) @ [''inputs'', job @ ''.json''])"
    unfolding eq by (intro mkpath_path_str) (auto simp: inputs_ok_def)
qed

lemma job_id_of_input:
  assumes "inputs_ok cfg" and "JOB_ID job"
    and "tk_command t = shlex_join [''agentctl-run'', path_str (path_join (inputs_dir cfg) (job @ ''.json''))]"
  shows "launch_input_path t = Some (path_join (inputs_dir cfg) (job @ ''.json'')) \<and> job_id_of t = Some job"
proof -
  have "path_name (mkpath ''agentctl-run'') = ''agentctl-run''" by code_simp
  moreover have "path_suffix (path_join (inputs_dir cfg) (job @ ''.json'')) = ''.json''"
      "path_stem (path_join (inputs_dir cfg) (job @ ''.json'')) = job"
    using json_name [of job] JOB_ID_component [OF assms(2)] input_path(1) [OF assms(1,2)]
    by (simp_all add: path_suffix_def path_stem_def path_name_def)
  ultimately show ?thesis
    using input_path [OF assms(1,2)] assms(3)
    by (simp add: launch_input_path_def job_id_of_def shlex_split_join path_absolute_def)
qed

lemma read_archived_job:
  assumes "read_archived cfg f task_id job_id = Inr t" and "inputs_ok cfg"
  shows "\<exists>job. job_id = Some job \<and> job_id_of t = Some job
     \<and> launch_input_path t = Some (path_join (inputs_dir cfg) (job @ ''.json''))"
proof -
  from assms(1) obtain job document where job: "job_id = Some job" "JOB_ID job"
    and t: "archived_task cfg task_id job document = Inr t"
    by (auto simp: read_archived_def Let_def split: option.split_asm if_split_asm)
  from t have "tk_command t = shlex_join [''agentctl-run'', path_str (path_join (inputs_dir cfg) (job @ ''.json''))]"
    by (auto simp: archived_task_def bindE_eq_Inr)
  with job_id_of_input [OF assms(2) job(2)] job(1) show ?thesis by blast
qed

text \<open>
  A job read from its retained input is the job asked for: the task made for it names that
  very input in its command, quoted so that the queue's own word splitting reads it back, whatever
  characters the state directory has.
\<close>

theorem archived_names_itself:
  assumes "read_archived cfg f task_id job_id = Inr t" and "inputs_ok cfg"
  shows "\<exists>job. job_id = Some job \<and> job_id_of t = Some job
     \<and> launch_input_path t = Some (path_join (inputs_dir cfg) (job @ ''.json''))"
  using assms by (rule read_archived_job)

lemma sample_archived_document:
  "dict_document (read_bounded sample_state_fs (path_join (inputs_dir sample_cfg) ''j.json'') MAX_LAUNCH_INPUT_BYTES)
     = Some [(''label'', PStr ''p:check'')]"
proof -
  have "fs_read_nofollow sample_state_fs (path_join (inputs_dir sample_cfg) ''j.json'') = Inr ''{\"label\":\"p:check\"}''"
    by code_simp
  moreover have "loads_bytes ''{\"label\":\"p:check\"}'' = Inr (PDict [(''label'', PStr ''p:check'')])"
    by code_simp
  ultimately show ?thesis
    by (simp add: read_bounded_def dict_document_def MAX_LAUNCH_INPUT_BYTES_def)
qed

lemma sample_archived: "\<not> isl (read_archived sample_cfg sample_state_fs 9 (Some ''j''))"
proof -
  have "JOB_ID ''j''" by code_simp
  then show ?thesis
    by (simp add: read_archived_def sample_archived_document archived_task_def str_field_def pget_or_def)
qed

theorem archived_names_itself_witness:
  "\<exists>t. read_archived sample_cfg sample_state_fs 9 (Some ''j'') = Inr t \<and> job_id_of t = Some ''j''"
proof -
  obtain t where t: "read_archived sample_cfg sample_state_fs 9 (Some ''j'') = Inr t"
    using sample_archived by (cases "read_archived sample_cfg sample_state_fs 9 (Some ''j'')") auto
  have "inputs_ok sample_cfg" by code_simp
  from archived_names_itself [OF t this] t show ?thesis by simp
qed

section \<open>A bounded snapshot says what it left out\<close>

lemma count_state_total [simp]: "gc_total (count_state t c) = gc_total c + 1"
  by (simp add: count_state_def Let_def)

lemma count_state_terminal [simp]:
  "gc_terminal (count_state t c) = gc_terminal c + (if terminal t then 1 else 0)"
  by (simp add: count_state_def Let_def)

text \<open>The counts of one group, zero for a group not listed.\<close>

definition totals :: "(string \<times> group_counts) list \<Rightarrow> string \<Rightarrow> nat \<times> nat" where
  "totals gs g = (case dget gs g of Some c \<Rightarrow> (gc_total c, gc_terminal c) | None \<Rightarrow> (0, 0))"

lemma count_tasks_totals:
  "totals (foldl count_task gs ts) g =
     (fst (totals gs g) + length (filter (\<lambda>t. tk_group t = g) ts),
      snd (totals gs g) + length (filter (\<lambda>t. tk_group t = g \<and> terminal t) ts))"
proof (induction ts arbitrary: gs)
  case (Cons t ts)
  have "totals (count_task gs t) g =
      (fst (totals gs g) + (if tk_group t = g then 1 else 0),
       snd (totals gs g) + (if tk_group t = g \<and> terminal t then 1 else 0))"
    by (auto simp: totals_def count_task_def dget_dset no_counts_def split: option.split)
  then show ?case using Cons.IH [of "count_task gs t"] by auto
qed simp

lemma declared_totals:
  assumes "mapE declared_counts raw = Inr gs"
  shows "totals (dict_of gs) g = (0, 0)"
proof -
  have zero: "gc_total (snd x) = 0 \<and> gc_terminal (snd x) = 0" if "declared_counts y = Inr x" for x y
    using that unfolding declared_counts_def bindE_eq_Inr by (auto simp: no_counts_def)
  have "gc_total c = 0 \<and> gc_terminal c = 0" if "(n, c) \<in> set gs" for n c
    using assms that by (induction raw arbitrary: gs) (auto dest!: zero split: sum.split_asm)
  moreover have "(g, c) \<in> set gs" if "dget (dict_of gs) g = Some c" for c
    using that by (metis dget_dict_of map_of_SomeD set_rev)
  ultimately show ?thesis by (auto simp: totals_def split: option.split)
qed

lemma newest_first_length [simp]: "length (newest_first ts) = length ts"
  by (simp add: newest_first_def)

lemma newest_first_set [simp]: "set (newest_first ts) = set ts"
  by (simp add: newest_first_def)

lemma mapE_length: "mapE g xs = Inr ys \<Longrightarrow> length ys = length xs"
  by (induction xs arbitrary: ys) (auto split: sum.split_asm)

lemma shown_active:
  assumes "\<forall>t \<in> set as. \<not> terminal t" and "\<forall>t \<in> set bs. terminal t"
  shows "length (filter (\<lambda>t. \<not> terminal t) (take n (as @ bs))) = min n (length as)"
proof -
  have "filter (\<lambda>t. \<not> terminal t) (take n as) = take n as"
    using assms(1) by (intro filter_True) (auto dest: in_set_takeD)
  moreover have "filter (\<lambda>t. \<not> terminal t) (take (n - length as) bs) = []"
    using assms(2) by (auto simp: filter_empty_conv dest: in_set_takeD)
  ultimately show ?thesis by (simp add: min_def)
qed

text \<open>
  The bounded snapshot accounts for the whole queue: it has as many rows as the limit allows,
  rows go to active tasks first, what is returned and what is omitted add up to the totals of both
  kinds and the totals to the queue, it is marked truncated exactly when something is missing, and
  the counts of a group count every task of that group, shown or not.
\<close>

theorem snapshot_accounts:
  assumes "snapshot_of cfg f limit q = Inr s"
  shows "(length (sn_jobs s) = min limit (length (qs_tasks q)))
    \<and> (fst (sn_active s) + fst (sn_terminal s) = length (qs_tasks q))
    \<and> (snd (sn_active s) = min limit (fst (sn_active s)))
    \<and> (snd (sn_active s) + snd (sn_terminal s) = length (sn_jobs s))
    \<and> (sn_omitted s = (length (qs_tasks q) - length (sn_jobs s), fst (sn_active s) - snd (sn_active s),
           fst (sn_terminal s) - snd (sn_terminal s)))
    \<and> (sn_truncated s \<longleftrightarrow> limit < length (qs_tasks q))
    \<and> (totals (sn_groups s) g =
           (length (filter (\<lambda>t. tk_group t = g) (map snd (qs_tasks q))),
            length (filter (\<lambda>t. tk_group t = g \<and> terminal t) (map snd (qs_tasks q)))))"
proof -
  let ?ts = "map snd (qs_tasks q)"
  let ?a = "newest_first (filter (\<lambda>t. \<not> terminal t) ?ts)" and ?b = "newest_first (filter terminal ?ts)"
  let ?sel = "take limit (?a @ ?b)"
  let ?n = "length (filter (\<lambda>t. \<not> terminal t) ?sel)"
  from assms obtain gs rows where gs: "mapE declared_counts (qs_groups q) = Inr gs"
    and rows: "mapE (snapshot_row cfg f) ?sel = Inr rows"
    and s: "s = \<lparr>sn_limit = limit, sn_groups = foldl count_task (dict_of gs) ?ts, sn_jobs = rows,
         sn_active = (length ?a, ?n), sn_terminal = (length ?b, length ?sel - ?n),
         sn_omitted = (length ?ts - length ?sel, length ?a - ?n, length ?b - (length ?sel - ?n)),
         sn_truncated = (length ?sel < length ?ts)\<rparr>"
    unfolding snapshot_of_def Let_def bindE_eq_Inr by blast
  have parts: "sn_groups s = foldl count_task (dict_of gs) ?ts" "sn_jobs s = rows"
      "sn_active s = (length ?a, ?n)" "sn_terminal s = (length ?b, length ?sel - ?n)"
      "sn_omitted s = (length ?ts - length ?sel, length ?a - ?n, length ?b - (length ?sel - ?n))"
      "sn_truncated s = (length ?sel < length ?ts)"
    unfolding s by (simp_all only: snapshot.simps)
  have n: "?n = min limit (length ?a)" by (rule shown_active) simp_all
  have ab: "length ?a + length ?b = length ?ts"
    using sum_length_filter_compl [of terminal ?ts] by simp
  have sel: "length ?sel = min limit (length ?ts)" unfolding length_take length_append ab by (rule min.commute)
  have len: "length rows = length ?sel" by (rule mapE_length [OF rows])
  have le: "?n \<le> length ?sel" by (rule length_filter_le)
  show ?thesis
  proof (intro conjI)
    show "length (sn_jobs s) = min limit (length (qs_tasks q))" unfolding parts len sel by simp
    show "fst (sn_active s) + fst (sn_terminal s) = length (qs_tasks q)" unfolding parts fst_conv ab by simp
    show "snd (sn_active s) = min limit (fst (sn_active s))" unfolding parts fst_conv snd_conv by (rule n)
    show "snd (sn_active s) + snd (sn_terminal s) = length (sn_jobs s)" unfolding parts fst_conv snd_conv len using le by (rule le_add_diff_inverse)
    show "sn_omitted s = (length (qs_tasks q) - length (sn_jobs s), fst (sn_active s) - snd (sn_active s),
           fst (sn_terminal s) - snd (sn_terminal s))" unfolding parts fst_conv snd_conv len by simp
    show "sn_truncated s \<longleftrightarrow> limit < length (qs_tasks q)" unfolding parts sel by (simp add: min_def)
    show "totals (sn_groups s) g = (length (filter (\<lambda>t. tk_group t = g) ?ts),
        length (filter (\<lambda>t. tk_group t = g \<and> terminal t) ?ts))"
      unfolding parts count_tasks_totals declared_totals [OF gs] by simp
  qed
qed

definition sample_queue :: qstatus where
  "sample_queue = \<lparr>qs_tasks = [(4, sample_task), (5, sample_task\<lparr>tk_id := 5, tk_status := ''Running''\<rparr>)],
     qs_groups = [(''normal'', [(''status'', PStr ''Running'')])]\<rparr>"

lemma sample_snapshot: "\<not> isl (snapshot_of None sample_state_fs 1 sample_queue)"
  by code_simp

theorem snapshot_accounts_witness:
  "\<exists>s. snapshot_of None sample_state_fs 1 sample_queue = Inr s \<and> length (sn_jobs s) = 1 \<and> sn_truncated s"
proof -
  obtain s where s: "snapshot_of None sample_state_fs 1 sample_queue = Inr s"
    using sample_snapshot by (cases "snapshot_of None sample_state_fs 1 sample_queue") auto
  have "length (qs_tasks sample_queue) = 2" by (simp add: sample_queue_def)
  with snapshot_accounts [OF s] s show ?thesis by auto
qed

end
