(* ===== verification/Agentctl_Wait.thy ===== *)
theory Agentctl_Wait
  imports Agentctl_Queries
begin

text \<open>
  What the queries of jobs promise their callers: that looking changes nothing in the queue, that a
  wait ends, and that it answers for the job it was asked to follow.
\<close>

section \<open>Reading leaves the queue alone\<close>

text \<open>
  The contract of every operation of this module: only reads of the queue, no recorded call of
  systemd, and a clock that does not go back.
\<close>

definition only_reads :: "rworld \<Rightarrow> rworld \<Rightarrow> bool" where
  "only_reads w w' \<longleftrightarrow> rw_ctl w' = rw_ctl w
     \<and> list_all (\<lambda>c. is_read (snd c)) (drop (length (calls w)) (calls w'))"

locale job_reader = pueue_reader m for m :: "(rworld, 'a) io" +
  assumes reader_ctl: "rw_ctl (snd (m w)) = rw_ctl w"
    and reader_clock: "rw_clock w \<le> rw_clock (snd (m w))"
begin

lemma reader_later: "k \<le> rw_clock w \<Longrightarrow> k \<le> rw_clock (snd (m w))"
  using reader_clock [of w] by simp

lemma reader_quiet: "only_reads w (snd (m w))"
  unfolding only_reads_def list_all_iff using reader_ctl reader_issues_no_mutation by blast

end

lemma job_readerI:
  assumes "pueue_op is_read m" and "\<And>w. rw_ctl (snd (m w)) = rw_ctl w"
    and "\<And>w. rw_clock w \<le> rw_clock (snd (m w))"
  shows "job_reader m"
  using assms by (simp add: job_reader_def job_reader_axioms_def pueue_reader_def)

lemma job_reader_op: "job_reader m \<Longrightarrow> pueue_op is_read m"
  by (simp add: job_reader_def pueue_reader_def)

lemma job_reader_return: "job_reader (returnM x)"
  by (rule job_readerI) (auto intro: pueue_op_intros)

lemma job_reader_raise: "job_reader (raiseM e)"
  by (rule job_readerI) (auto intro: pueue_op_intros)

lemma job_reader_lift: "job_reader (liftM r)"
  by (rule job_readerI) (auto intro: pueue_op_intros)

lemma job_reader_run: "is_read args \<Longrightarrow> job_reader (pueue_run d args t)"
  by (rule job_readerI) (auto intro: pueue_op_run simp: pueue_run_def Let_def split: proc_result.split)

lemma job_reader_bind:
  assumes "job_reader m" and "\<And>x. job_reader (k x)"
  shows "job_reader (bindM m k)"
proof (rule job_readerI)
  show "pueue_op is_read (bindM m k)" using assms by (intro pueue_op_bind job_reader_op)
next
  fix w
  show "rw_ctl (snd (bindM m k w)) = rw_ctl w"
    using job_reader.reader_ctl [OF assms(1), of w] job_reader.reader_ctl [OF assms(2)]
    by (auto simp: bindM_def split: prod.split sum.split)
  show "rw_clock w \<le> rw_clock (snd (bindM m k w))"
    using job_reader.reader_clock [OF assms(1), of w] job_reader.reader_clock [OF assms(2)]
    by (auto simp: bindM_def split: prod.split sum.split intro: order_trans)
qed

lemma job_reader_catch:
  assumes "job_reader m" and "\<And>e. job_reader (h e)"
  shows "job_reader (catchM m h)"
proof (rule job_readerI)
  show "pueue_op is_read (catchM m h)" using assms by (intro pueue_op_catch job_reader_op)
next
  fix w
  show "rw_ctl (snd (catchM m h w)) = rw_ctl w"
    using job_reader.reader_ctl [OF assms(1), of w] job_reader.reader_ctl [OF assms(2)]
    by (auto simp: catchM_def split: prod.split sum.split)
  show "rw_clock w \<le> rw_clock (snd (catchM m h w))"
    using job_reader.reader_clock [OF assms(1), of w] job_reader.reader_clock [OF assms(2)]
    by (auto simp: catchM_def split: prod.split sum.split intro: order_trans)
qed

lemma job_reader_if: "job_reader m \<Longrightarrow> job_reader n \<Longrightarrow> job_reader (if b then m else n)"
  by simp

lemma job_reader_option:
  "job_reader m \<Longrightarrow> (\<And>x. job_reader (k x)) \<Longrightarrow> job_reader (case z of None \<Rightarrow> m | Some x \<Rightarrow> k x)"
  by (cases z) auto

lemma job_reader_pair: "(\<And>x y. job_reader (k x y)) \<Longrightarrow> job_reader (case z of (x, y) \<Rightarrow> k x y)"
  by (cases z) auto

lemma job_reader_forM: "(\<And>x b. job_reader (f x b)) \<Longrightarrow> job_reader (forM f xs b)"
  by (induction xs arbitrary: b) (auto intro: job_reader_return job_reader_bind)

lemma look_op: "pueue_op P (look m g)"
  by unfold_locales (auto simp: look_def)

lemma look_systemd_op: "pueue_op P (look_systemd m g)"
  by unfold_locales (auto simp: look_systemd_def)

lemma monotonic_op: "pueue_op P (monotonic m)"
  by unfold_locales (auto simp: monotonic_def)

lemma job_reader_look: "job_reader (look m g)"
  by (rule job_readerI) (auto intro: look_op simp: look_def)

lemma job_reader_systemd: "job_reader (look_systemd m g)"
  by (rule job_readerI) (auto intro: look_systemd_op simp: look_systemd_def)

lemma job_reader_monotonic: "job_reader (monotonic m)"
  by (rule job_readerI) (auto intro: monotonic_op simp: monotonic_def)

lemmas job_reader_intros =
  job_reader_return job_reader_raise job_reader_lift job_reader_bind job_reader_catch job_reader_if
  job_reader_option job_reader_pair job_reader_forM job_reader_look job_reader_systemd job_reader_monotonic

lemma job_reader_default: "is_read args \<Longrightarrow> job_reader (run_default d args)"
  unfolding run_default_def by (rule job_reader_run)

interpretation tasks_by_ids: job_reader "tasks_by_ids d vs" for d vs
  unfolding tasks_by_ids_def Let_def
  by (intro job_reader_intros job_reader_default) (simp add: is_read_def)

interpretation task_by_id: job_reader "task_by_id d i" for d i
  unfolding task_by_id_def by (intro job_reader_intros tasks_by_ids.job_reader_axioms)

interpretation tasks_by_command: job_reader "tasks_by_command d g" for d g
  unfolding tasks_by_command_def selected_tasks_def
  by (intro job_reader_intros job_reader_default) (simp add: is_read_def)

interpretation tasks_all: job_reader "tasks_all d" for d
  unfolding tasks_all_def by (intro job_reader_intros job_reader_default) (simp add: is_read_def)

interpretation full_status: job_reader "full_status d" for d
  unfolding full_status_def status_query_def
  by (intro job_reader_intros job_reader_default) (simp add: is_read_def)

interpretation wait_task: job_reader "wait_task d i t" for d i t
  unfolding wait_task_def
  by (intro job_reader_intros job_reader_run task_by_id.job_reader_axioms) (simp add: is_read_def)

interpretation pueue_log: job_reader "pueue_log d i" for d i
  unfolding pueue_log_def by (intro job_reader_intros job_reader_default) (simp add: is_read_def)

interpretation locate: job_reader "locate d i j" for d i j
  unfolding locate_def
  by (intro job_reader_intros tasks_by_ids.job_reader_axioms tasks_by_command.job_reader_axioms)

interpretation addressed: job_reader "addressed d i j" for d i j
  unfolding addressed_def
  by (intro job_reader_intros task_by_id.job_reader_axioms locate.job_reader_axioms)

interpretation read_task: job_reader "read_task m cfg i j" for m cfg i j
  unfolding read_task_def by (intro job_reader_intros locate.job_reader_axioms)

interpretation observe_job: job_reader "observe_job m cfg j i" for m cfg j i
  unfolding observe_job_def
  by (intro job_reader_intros addressed.job_reader_axioms read_task.job_reader_axioms)

interpretation task_logs: job_reader "task_logs m cfg c t a" for m cfg c t a
  unfolding task_logs_def by (intro job_reader_intros pueue_log.job_reader_axioms)

interpretation logs: job_reader "logs m cfg c i j a" for m cfg c i j a
  unfolding logs_def by (intro job_reader_intros read_task.job_reader_axioms task_logs.job_reader_axioms)

interpretation get_job: job_reader "get_job m cfg i j a off lim" for m cfg i j a off lim
  unfolding get_job_def
  by (intro job_reader_intros addressed.job_reader_axioms read_task.job_reader_axioms)

interpretation read_job_artifact: job_reader "read_job_artifact m cfg c i j a n off lim" for m cfg c i j a n off lim
  unfolding read_job_artifact_def by (intro job_reader_intros read_task.job_reader_axioms)

interpretation typed_result_of: job_reader "typed_result_of m cfg c i j a off lim" for m cfg c i j a off lim
  unfolding typed_result_of_def by (intro job_reader_intros read_task.job_reader_axioms)

interpretation snapshot_jobs: job_reader "snapshot_jobs m lim cfg" for m lim cfg
  unfolding snapshot_jobs_def by (intro job_reader_intros full_status.job_reader_axioms)

interpretation attach_bindings: job_reader "attach_bindings m cfg rows" for m cfg rows
  unfolding attach_bindings_def attach_row_def Let_def
  by (intro job_reader_intros tasks_by_ids.job_reader_axioms locate.job_reader_axioms)

interpretation list_jobs: job_reader "list_jobs d p" for d p
  unfolding list_jobs_def by (intro job_reader_intros tasks_all.job_reader_axioms)

lemma block_on_reader: "job_reader (block_on m i t)"
  unfolding block_on_def
proof (intro job_reader_catch job_reader_bind job_reader_return wait_task.job_reader_axioms)
  fix e show "job_reader (case e of PueueTimeout s \<Rightarrow> returnM Expired
      | _ \<Rightarrow> if is_pueueerror e then returnM (Refused (exn_str e)) else raiseM e)"
    by (cases e) (auto intro: job_reader_intros)
qed

interpretation block_on: job_reader "block_on m i t" for m i t
  by (rule block_on_reader)

lemma job_reader_end:
  "job_reader x \<Longrightarrow> (\<And>s. job_reader (y s)) \<Longrightarrow> job_reader z
     \<Longrightarrow> job_reader (case e of Woke \<Rightarrow> z | Expired \<Rightarrow> x | Refused s \<Rightarrow> y s)"
  by (cases e) auto

interpretation wait_loop: job_reader "wait_loop m cfg j d n detail ob" for m cfg j d n detail ob
proof -
  show "job_reader (wait_loop m cfg j d n detail ob)"
  proof (induction n arbitrary: detail ob)
    case (Suc n)
    show ?case unfolding wait_loop.simps Let_def
      by (intro job_reader_intros job_reader_end block_on.job_reader_axioms observe_job.job_reader_axioms Suc.IH)
  qed (simp add: job_reader_return)
qed

interpretation wait_job: job_reader "wait_job m cfg i timeout j fuel" for m cfg i timeout j fuel
  unfolding wait_job_def
  by (intro job_reader_intros addressed.job_reader_axioms observe_job.job_reader_axioms wait_loop.job_reader_axioms)


section \<open>A wait ends, with the job it was asked for\<close>

text \<open>\<open>lasts N n c\<close>: with \<open>n\<close> rounds left to the instant \<open>N\<close>, the computation does not run out of fuel.\<close>

definition lasts :: "nat \<Rightarrow> nat \<Rightarrow> (rworld, 'a option) io \<Rightarrow> bool" where
  "lasts N n c \<longleftrightarrow> (\<forall>w. N < rw_clock w + n \<longrightarrow> fst (c w) \<noteq> Inr None)"

lemma lasts_return: "lasts N n (returnM (Some x))"
  by (simp add: lasts_def)

lemma lasts_bind:
  assumes "job_reader m" and "\<And>x. lasts N n (k x)"
  shows "lasts N n (bindM m k)"
  unfolding lasts_def
proof (intro allI impI)
  fix w :: rworld assume w: "N < rw_clock w + n"
  obtain r w' where o: "m w = (r, w')" by force
  with job_reader.reader_clock [OF assms(1), of w] w have "N < rw_clock w' + n" by simp
  with assms(2) o show "fst (bindM m k w) \<noteq> Inr None" by (cases r) (auto simp: bindM_def lasts_def)
qed

lemma lasts_if: "lasts N n a \<Longrightarrow> lasts N n b \<Longrightarrow> lasts N n (if c then a else b)"
  by simp

lemma lasts_end:
  "lasts N n x \<Longrightarrow> (\<And>s. lasts N n (y s)) \<Longrightarrow> lasts N n z
     \<Longrightarrow> lasts N n (case e of Woke \<Rightarrow> z | Expired \<Rightarrow> x | Refused s \<Rightarrow> y s)"
  by (cases e) auto

lemma monotonic_bind:
  "bindM (monotonic m) k w = k (m_mono m (rw_clock w)) (w\<lparr>rw_clock := rw_clock w + 1\<rparr>)"
  by (simp add: monotonic_def bindM_def)

lemma wait_loop_lasts:
  assumes late: "\<forall>k \<ge> N. float_le (float_sub d (m_mono m k)) (FDec 0 0)"
  shows "0 < n \<Longrightarrow> lasts N n (wait_loop m cfg j d n detail ob)"
proof (induction n arbitrary: detail ob)
  case (Suc n)
  show ?case unfolding lasts_def
  proof (intro allI impI)
    fix w :: rworld assume w: "N < rw_clock w + Suc n"
    let ?remaining = "float_sub d (m_mono m (rw_clock w))" and ?w = "w\<lparr>rw_clock := rw_clock w + 1\<rparr>"
    show "fst (wait_loop m cfg j d (Suc n) detail ob w) \<noteq> Inr None"
    proof (cases "truthy (pget (snd ob) ''terminal'') \<or> float_le ?remaining (FDec 0 0) \<or> detail \<noteq> None")
      case True
      then show ?thesis by (auto simp: monotonic_bind Let_def)
    next
      case False
      then have "rw_clock w < N" using late by (meson not_le_imp_less)
      with w have n: "0 < n" "N < rw_clock ?w + n" by simp_all
      have "lasts N n (if terminal (fst ob) then
            bindM (observe_job m cfg j (tk_id (fst ob))) (\<lambda>ob'. wait_loop m cfg j d n detail ob')
          else bindM (block_on m (tk_id (fst ob)) (wait_slice (fst ob) ?remaining)) (\<lambda>e.
            bindM (observe_job m cfg j (tk_id (fst ob))) (\<lambda>ob'.
              (case e of
                 Expired \<Rightarrow>
                   if float_le ?remaining (wait_slice (fst ob) ?remaining) then
                     returnM (Some (if truthy (pget (snd ob') ''terminal'') then snd ob'
                       else timed_out (snd ob') None))
                   else wait_loop m cfg j d n detail ob'
               | Refused s \<Rightarrow> wait_loop m cfg j d n (Some s) ob'
               | Woke \<Rightarrow> wait_loop m cfg j d n detail ob'))))"
        using n(1)
        by (intro lasts_if lasts_bind lasts_end lasts_return observe_job.job_reader_axioms
            block_on.job_reader_axioms Suc.IH)
      from this [unfolded lasts_def, rule_format, OF n(2)] False show ?thesis
        by (auto simp: monotonic_bind Let_def split: if_split_asm)
    qed
  qed
qed simp

text \<open>
  (C31) A wait ends. If the clock stays past the deadline from some instant on, rounds up to that
  instant are enough: the wait gives a view or an error, it does not go on, whatever the queue, its
  blocking calls, the file system and systemd answer.
\<close>

theorem wait_job_ends:
  assumes "\<forall>k \<ge> N. float_le (float_sub (float_add (m_mono m (rw_clock w)) timeout) (m_mono m k)) (FDec 0 0)"
    and "0 < fuel" and "N \<le> rw_clock w + fuel"
  shows "fst (wait_job m cfg i timeout j fuel w) \<noteq> Inr None"
proof -
  let ?d = "float_add (m_mono m (rw_clock w)) timeout"
  have "lasts N fuel (bindM (case j of Some j \<Rightarrow> returnM (Some j)
       | None \<Rightarrow> bindM (addressed (m_pueue m) i None) (\<lambda>t. returnM (job_id_of t))) (\<lambda>job.
       bindM (observe_job m cfg job i) (\<lambda>ob. wait_loop m cfg job ?d fuel None ob)))"
    by (intro lasts_bind wait_loop_lasts assms(1,2) job_reader_option job_reader_bind job_reader_return
        observe_job.job_reader_axioms addressed.job_reader_axioms)
  with assms(3) show ?thesis by (simp add: lasts_def wait_job_def monotonic_bind)
qed

theorem wait_job_ends_witness:
  "fst (wait_job silent_machine None 7 (FDec 30 0) (Some ''j'') 3 idle_world) \<noteq> Inr None"
proof (rule wait_job_ends [of 2])
  show "\<forall>k \<ge> 2. float_le (float_sub (float_add (m_mono silent_machine (rw_clock idle_world)) (FDec 30 0))
      (m_mono silent_machine k)) (FDec 0 0)"
    by (auto simp: silent_machine_def idle_world_def float_sub_def mk_dec_def)
qed (simp_all add: idle_world_def)

text \<open>The view of an observation names the job of the task observed.\<close>

lemma pget_dmerge_other: "k \<notin> fst ` set e \<Longrightarrow> pget (dmerge d e) k = pget d k"
proof -
  assume "k \<notin> fst ` set e"
  then have "dget (rev e) k = None" by (simp add: map_of_eq_None_iff)
  then show ?thesis unfolding pget_def dget_dmerge by simp
qed

lemma job_view_job_id: "pget (job_view t) ''job_id'' = opt_str (job_id_of t)"
  by (simp add: job_view_def pget_def split: prod.split)

lemma disposition_view_job_id:
  "disposition_view sc f d a rcpt q = Inr v \<Longrightarrow> ''job_id'' \<notin> fst ` set v"
  by (auto simp: disposition_view_def settled_view_def Let_def bindE_eq_Inr
      split: if_split_asm option.split_asm)

lemma observed_view_job_id:
  assumes "observed_view sc cfg f t = Inr v"
  shows "pget v ''job_id'' = opt_str (job_id_of t)"
proof (cases "\<exists>d. d \<noteq> [] \<and> read_disposition cfg f t = Some d")
  case True
  then obtain p ps where "read_disposition cfg f t = Some (p # ps)" by (metis list.exhaust)
  with assms obtain d where "disposition_view sc f (p # ps) None [] (terminal t) = Inr d"
    and "v = dmerge (job_view t) d"
    by (simp only: observed_view_def option.case list.case bindE_eq_Inr sum.inject) blast
  then show ?thesis by (simp add: pget_dmerge_other disposition_view_job_id job_view_job_id)
next
  case False
  with assms have "v = job_view t"
    by (cases "read_disposition cfg f t") (auto simp: observed_view_def)
  then show ?thesis by (simp add: job_view_job_id)
qed

lemma cancellation_items_job_id:
  assumes "cancellation_items cfg f t d a disp cur = Inr v"
  shows "''job_id'' \<notin> fst ` set v"
proof (cases "truthy (pget d ''log_path'')")
  case True
  with assms obtain request where
    "(case request of Some d \<Rightarrow> nonempty ''cancellation'' (PDict d) | None \<Rightarrow> []) = v"
    by (simp only: cancellation_items_def not_True_eq_False if_False bindE_eq_Inr sum.inject) blast
  then show ?thesis by (cases request) (auto simp: nonempty_def)
next
  case False
  with assms show ?thesis by (simp add: cancellation_items_def)
qed

lemma launch_selection_job_id: "''job_id'' \<notin> fst ` set (launch_selection d)"
proof -
  have "fst x \<in> set ks" if "x \<in> set (List.map_filter (\<lambda>k. case dget d k of
         Some (PStr (c # s)) \<Rightarrow> Some (k, PStr (c # s)) | _ \<Rightarrow> None) ks)" for x ks
    using that by (induction ks) (auto split: option.split_asm pyval.split_asm list.split_asm)
  note keys = this
  have other: "fst x \<noteq> ''job_id''" if x: "x \<in> set (launch_selection d)" for x
    using x [unfolded launch_selection_def set_append Un_iff]
  proof (elim disjE)
    assume "x \<in> set (List.map_filter (\<lambda>k. case dget d k of
         Some (PStr (c # s)) \<Rightarrow> Some (k, PStr (c # s)) | _ \<Rightarrow> None)
       [''descriptor_path'', ''project_root'', ''working_directory''])"
    from keys [OF this] show ?thesis by auto
  qed (auto simp: Let_def split: if_split_asm)
  show ?thesis
  proof
    assume "''job_id'' \<in> fst ` set (launch_selection d)"
    then obtain x where "x \<in> set (launch_selection d)" and "''job_id'' = fst x" by (rule imageE)
    with other [of x] show False by simp
  qed
qed

lemma job_detail_job_id:
  assumes "job_detail sc cfg f t a off lim = Inr (av, v)"
  shows "pget v ''job_id'' = opt_str (job_id_of t)"
proof -
  let ?rcpt = "\<lambda>p. case read_outcome f p MAX_OUTCOME_BYTES of Some d \<Rightarrow> d | None \<Rightarrow> []"
  let ?known = "case read_disposition cfg f t of Some d \<Rightarrow> d | None \<Rightarrow> []"
  define d where "d = launch_document cfg f t"
  from assms obtain av' path overlay request where
      o: "(if ?known = [] then Inr [] else
                 bindE (disposition_view sc f ?known a (?rcpt path) (terminal t)) (\<lambda>v.
                   Inr ((''disposition'', PDict ?known) # v))) = Inr overlay"
    and r: "cancellation_items cfg f t d a (read_disposition cfg f t) (av_attempt av') = Inr request"
    and res: "Inr (av', foldl dmerge (job_view t)
        [launch_selection d, nonempty ''binding'' (pget d ''binding''),
         nonempty ''admission'' (pget d ''admission''), artifact_items av' off lim,
         nonempty ''outcome'' (PDict (?rcpt path)),
         [(''queue_present'', PBool (tk_status t \<noteq> ''Archived''))], archived_items t (?rcpt path),
         (case pget (?rcpt path) ''scratch'' of PDict s \<Rightarrow> [(''scratch'', PDict s)] | _ \<Rightarrow> []),
         overlay, request]) = (Inr (av, v) :: (art_view \<times> pydict) res)"
    unfolding job_detail_def Let_def bindE_eq_Inr d_def by blast
  define rcpt where "rcpt = ?rcpt path"
  from res have v: "v = foldl dmerge (job_view t)
        [launch_selection d, nonempty ''binding'' (pget d ''binding''),
         nonempty ''admission'' (pget d ''admission''), artifact_items av off lim, nonempty ''outcome'' (PDict rcpt),
         [(''queue_present'', PBool (tk_status t \<noteq> ''Archived''))], archived_items t rcpt,
         (case pget rcpt ''scratch'' of PDict s \<Rightarrow> [(''scratch'', PDict s)] | _ \<Rightarrow> []),
         overlay, request]"
    unfolding rcpt_def sum.inject prod.inject by (elim conjE) (hypsubst, rule refl)
  have "''job_id'' \<notin> fst ` set overlay"
  proof (cases "?known = []")
    case True
    with o show ?thesis by (simp only: if_True sum.inject) auto
  next
    case False
    with o obtain w where "disposition_view sc f ?known a (?rcpt path) (terminal t) = Inr w"
      and "overlay = (''disposition'', PDict ?known) # w"
      by (simp only: if_False bindE_eq_Inr sum.inject) blast
    then show ?thesis by (simp add: disposition_view_job_id)
  qed
  moreover have "''job_id'' \<notin> fst ` set request" using r by (auto dest: cancellation_items_job_id)
  moreover have "''job_id'' \<notin> fst ` set (nonempty n x)" if "n \<noteq> ''job_id''" for n x
    using that by (auto simp: nonempty_def)
  moreover have "''job_id'' \<notin> fst ` set (artifact_items av off lim)" by (simp add: artifact_items_def Let_def)
  moreover have "''job_id'' \<notin> fst ` set (archived_items t rcpt)" by (auto simp: archived_items_def)
  moreover have "''job_id'' \<notin> fst ` set (case pget rcpt ''scratch'' of PDict s \<Rightarrow> [(''scratch'', PDict s)] | _ \<Rightarrow> [])"
    by (auto split: pyval.split_asm)
  ultimately show ?thesis
    unfolding v by (simp add: pget_dmerge_other launch_selection_job_id job_view_job_id)
qed

lemma first_with_job_id: "first_with_job ts j = Some t \<Longrightarrow> job_id_of t = Some j"
  by (auto simp: first_with_job_def find_Some_iff)

lemma locate_job_id:
  assumes "locate d i (Some j) w = (Inr (Some t), w')"
  shows "job_id_of t = Some j"
proof -
  from assms obtain t0 w1 where "(if t0 \<noteq> None \<and> job_id_of (the t0) = Some j then returnM t0
      else bindM (tasks_by_command d (j @ ''.json'')) (\<lambda>ts. returnM (find_task ts i (PStr j) None))) w1
      = (Inr (Some t), w')"
    unfolding locate_def bindM_eq_Inr by auto
  then show ?thesis
    by (auto simp: bindM_eq_Inr find_task_def first_with_job_id split: if_split_asm)
qed

lemma addressed_job_id: "addressed d i (Some j) w = (Inr t, w') \<Longrightarrow> job_id_of t = Some j"
  by (auto simp: addressed_def bindM_eq_Inr dest: locate_job_id split: option.split_asm)

lemma read_task_job_id:
  assumes "read_task m cfg i (Some j) w = (Inr t, w')" and "inputs_ok cfg"
  shows "job_id_of t = Some j"
  using assms
  by (auto simp: read_task_def bindM_eq_Inr look_def dest: locate_job_id read_archived_job split: option.split_asm)

text \<open>What an observation of a job shows is a view of that job.\<close>

definition roots_ok :: "config option \<Rightarrow> bool" where
  "roots_ok cfg \<longleftrightarrow> (case cfg of None \<Rightarrow> True | Some c \<Rightarrow> inputs_ok c)"

lemma observe_job_id:
  assumes "observe_job m cfg (Some j) i w = (Inr ob, w')" and "roots_ok cfg"
  shows "pget (snd ob) ''job_id'' = PStr j"
proof (cases cfg)
  case None
  with assms(1) show ?thesis
    by (auto simp: observe_job_def bindM_eq_Inr job_view_job_id opt_str_def dest!: addressed_job_id)
next
  case (Some c)
  with assms obtain t v w1 where "job_id_of t = Some j" and ob: "ob = (t, v)"
    and "look_systemd m (\<lambda>sc f. if tk_status t = ''Archived'' then absent_view sc c f t (Some j)
        else observed_view sc c f t) w1 = (Inr v, w')"
    by (auto simp: observe_job_def bindM_eq_Inr roots_ok_def dest: read_task_job_id)
  then show ?thesis
    by (auto simp: look_systemd_def absent_view_def bindE_eq_Inr opt_str_def
        dest!: observed_view_job_id job_detail_job_id split: if_split_asm)
qed

text \<open>The end of a wait for \<open>j\<close>: a terminal view of it, or one marked as timed out.\<close>

definition wait_answer :: "string \<Rightarrow> pydict \<Rightarrow> bool" where
  "wait_answer j v \<longleftrightarrow> pget v ''job_id'' = PStr j
     \<and> (truthy (pget v ''terminal'') \<or> pget v ''wait_timed_out'' = PBool True)"

lemma timed_out_answer: "pget v ''job_id'' = PStr j \<Longrightarrow> wait_answer j (timed_out v detail)"
  by (cases detail) (auto simp: wait_answer_def timed_out_def pget_def dget_dmerge)

lemma terminal_answer: "pget v ''job_id'' = PStr j \<Longrightarrow> truthy (pget v ''terminal'') \<Longrightarrow> wait_answer j v"
  by (simp add: wait_answer_def)

lemma wait_loop_answer:
  assumes "roots_ok cfg"
  shows "pget (snd ob) ''job_id'' = PStr j \<Longrightarrow> wait_loop m cfg (Some j) d n detail ob w = (Inr (Some v), w')
     \<Longrightarrow> wait_answer j v"
proof (induction n arbitrary: detail ob w)
  case (Suc n)
  show ?case
  proof (cases "truthy (pget (snd ob) ''terminal'') \<or> float_le (float_sub d (m_mono m (rw_clock w))) (FDec 0 0)
      \<or> detail \<noteq> None")
    case True
    with Suc.prems(2) have "truthy (pget (snd ob) ''terminal'') \<and> v = snd ob \<or> v = timed_out (snd ob) detail"
      by (auto simp: monotonic_bind Let_def split: if_split_asm)
    with Suc.prems(1) timed_out_answer show ?thesis by (auto simp: wait_answer_def)
  next
    case False
    note seen = observe_job_id [OF _ assms]
    show ?thesis using Suc.prems False
      by (auto simp: monotonic_bind Let_def bindM_eq_Inr timed_out_answer intro: Suc.IH terminal_answer dest!: seen split: if_split_asm block_end.split_asm)
  qed
qed simp

text \<open>
  (C30) A wait answers for its own job: the view it gives names the job id it was asked to follow,
  wherever the queue moved the job meanwhile, and is terminal or marked as timed out.
\<close>

theorem wait_job_answers:
  assumes "wait_job m cfg i timeout (Some j) fuel w = (Inr (Some v), w')" and "roots_ok cfg"
  shows "pget v ''job_id'' = PStr j \<and> (truthy (pget v ''terminal'') \<or> pget v ''wait_timed_out'' = PBool True)"
proof -
  from assms obtain ob w1 w2 where "observe_job m cfg (Some j) i w1 = (Inr ob, w2)"
    and loop: "wait_loop m cfg (Some j) (float_add (m_mono m (rw_clock w)) timeout) fuel None ob w2
      = (Inr (Some v), w')"
    by (auto simp: wait_job_def monotonic_bind bindM_eq_Inr)
  then have "wait_answer j v" using observe_job_id wait_loop_answer [OF assms(2)] assms(2) by blast
  then show ?thesis by (simp add: wait_answer_def)
qed

definition done_machine :: machine where
  "done_machine = silent_machine\<lparr>m_pueue := (\<lambda>cs. Exited 0 (''{\"7\":{\"task\":{\"id\":7,\"label\":\"p:x\",''
     @ ''\"status\":{\"Done\":{\"result\":\"Success\"}},\"command\":\"agentctl-run /s/inputs/j.json\"}}}'') [])\<rparr>"

definition done_task :: task where
  "done_task = \<lparr>tk_id = 7, tk_label = ''p:x'', tk_group = [], tk_status = ''Done'', tk_result = Some ''Success'',
     tk_exit = Some 0, tk_path = [], tk_deps = [], tk_command = ''agentctl-run /s/inputs/j.json'',
     tk_enqueued = None, tk_started = None, tk_ended = None\<rparr>"

lemma done_tasks: "fst (tasks_by_ids (m_pueue done_machine) [PInt 7] w) = Inr [(7, done_task)]"
proof -
  let ?out = "''{\"7\":{\"task\":{\"id\":7,\"label\":\"p:x\",''
     @ ''\"status\":{\"Done\":{\"result\":\"Success\"}},\"command\":\"agentctl-run /s/inputs/j.json\"}}}''"
  have "bindE (pueue_decode ''log'' ?out) (\<lambda>v. log_tasks v (Some [7])) = Inr [(7, done_task)]" by code_simp
  then show ?thesis
    by (simp add: tasks_by_ids_def done_machine_def run_default_def pueue_run_def bindM_def Let_def)
qed

lemma done_job: "job_id_of done_task = Some ''j''"
  by code_simp

theorem wait_job_answers_witness:
  "\<exists>v w'. wait_job done_machine None 7 (FDec 30 0) (Some ''j'') 3 idle_world = (Inr (Some v), w')
     \<and> pget v ''job_id'' = PStr ''j''"
proof -
  let ?w = "idle_world\<lparr>rw_clock := rw_clock idle_world + 1\<rparr>"
  obtain w1 where w1: "tasks_by_ids (m_pueue done_machine) [PInt 7] ?w = (Inr [(7, done_task)], w1)"
    using done_tasks [of ?w] by (metis prod.collapse)
  have "pget (job_view done_task) ''terminal'' = PBool True"
    by (simp add: job_view_def pget_def terminal_def done_task_def split: prod.split)
  then have "wait_job done_machine None 7 (FDec 30 0) (Some ''j'') 3 idle_world = (Inr (Some (job_view done_task)), w1)"
    using w1 done_job
    by (simp add: wait_job_def monotonic_bind)
      (simp add: observe_job_def addressed_def locate_def bindM_def numeral_3_eq_3)
  moreover have "roots_ok None" by (simp add: roots_ok_def)
  ultimately show ?thesis using wait_job_answers by blast
qed

end
