(* ===== verification/Agentctl_History.thy ===== *)
theory Agentctl_History
  imports Agentctl_Config
begin

text \<open>
  \<open>agentctl/batch_history.py\<close>: reading the records of the removed batch engine. A run is its
  original document; its properties are functions of it. Where Python accepts a list of pairs for
  an object (\<open>dict(value)\<close>), so does \<open>py_dict\<close>, for keys that are strings.
\<close>

section \<open>Run documents\<close>

definition pair_of :: "pyval \<Rightarrow> (string \<times> pyval) res" where
  "pair_of v =
     bindE (py_iter v) (\<lambda>vs.
       (case vs of
          [PStr k, x] \<Rightarrow> Inr (k, x)
        | [k, x] \<Rightarrow> Inl TypeErr
        | _ \<Rightarrow> Inl (ValueErr ''dictionary update sequence element has the wrong length'')))"

definition py_dict :: "pyval \<Rightarrow> pydict res" where
  "py_dict v =
     (case v of
        PDict d \<Rightarrow> Inr d
      | _ \<Rightarrow> bindE (py_iter v) (\<lambda>vs. bindE (mapE pair_of vs) (\<lambda>kvs. Inr (dict_of kvs))))"

definition item_of :: "pydict \<Rightarrow> string \<Rightarrow> pyval res" where
  "item_of d k = (case dget d k of None \<Rightarrow> Inl (KeyErr k) | Some v \<Rightarrow> Inr v)"

definition RUN_KEYS :: "string list" where
  "RUN_KEYS = [''run_id'', ''project'', ''base_commit'', ''created_at'', ''harness'']"

definition check_optional_dict :: "pydict \<Rightarrow> string \<Rightarrow> pydict res" where
  "check_optional_dict d k = (if truthy (pget d k) then py_dict (pget d k) else Inr [])"

definition check_document :: "pyval \<Rightarrow> pydict res" where
  "check_document v =
     (case v of
        PDict d \<Rightarrow>
          bindE (mapE (item_of d) RUN_KEYS) (\<lambda>_.
          bindE (bindE (item_of d ''landing'') py_dict) (\<lambda>_.
          bindE (bindE (bindE (item_of d ''workers'') py_iter) (mapE py_dict)) (\<lambda>_.
          bindE (mapE (check_optional_dict d) [''acceptance'', ''abandoned'']) (\<lambda>_.
          bindE (if truthy (pget d ''artifacts'')
              then bindE (py_iter (pget d ''artifacts'')) (mapE py_dict) else Inr []) (\<lambda>_.
            Inr d)))))
      | _ \<Rightarrow> Inl TypeErr)"

text \<open>\<open>KeyError\<close>, \<open>TypeError\<close> and \<open>ValueError\<close> become the unreadable-manifest error.\<close>

definition from_dict :: "pyval \<Rightarrow> pydict res" where
  "from_dict v =
     (case check_document v of
        Inr d \<Rightarrow> Inr d
      | Inl e \<Rightarrow>
          if e = TypeErr \<or> (case e of KeyErr k \<Rightarrow> True | _ \<Rightarrow> False) \<or> is_valueerror e
          then Inl (HistoryErr ''manifest'' (''unreadable run manifest: '' @ exn_str e))
          else Inl e)"

definition run_str :: "pydict \<Rightarrow> string \<Rightarrow> string" where
  "run_str run k = py_str (pget run k)"

definition run_id :: "pydict \<Rightarrow> string" where "run_id run = run_str run ''run_id''"
definition run_project :: "pydict \<Rightarrow> string" where "run_project run = run_str run ''project''"
definition run_base_commit :: "pydict \<Rightarrow> string" where "run_base_commit run = run_str run ''base_commit''"
definition run_created_at :: "pydict \<Rightarrow> string" where "run_created_at run = run_str run ''created_at''"
definition run_harness :: "pydict \<Rightarrow> string" where "run_harness run = run_str run ''harness''"

definition run_runtime_revision :: "pydict \<Rightarrow> string" where
  "run_runtime_revision run = str_or_empty (pget run ''runtime_revision'')"

definition run_verify_profile :: "pydict \<Rightarrow> pyval" where
  "run_verify_profile run = pget run ''verify_profile''"

definition run_review_profile :: "pydict \<Rightarrow> string" where
  "run_review_profile run =
     (if truthy (pget run ''review_profile'') then py_str (pget run ''review_profile'') else ''review'')"

definition run_workers :: "pydict \<Rightarrow> pydict list res" where
  "run_workers run = bindE (bindE (item_of run ''workers'') py_iter) (mapE py_dict)"

definition run_landing :: "pydict \<Rightarrow> pydict res" where
  "run_landing run = bindE (item_of run ''landing'') py_dict"

definition run_optional :: "pydict \<Rightarrow> string \<Rightarrow> pydict option res" where
  "run_optional run k =
     (if truthy (pget run k) then bindE (py_dict (pget run k)) (\<lambda>d. Inr (Some d)) else Inr None)"

definition run_acceptance :: "pydict \<Rightarrow> pydict option res" where
  "run_acceptance run = run_optional run ''acceptance''"

definition run_abandoned :: "pydict \<Rightarrow> pydict option res" where
  "run_abandoned run = run_optional run ''abandoned''"

definition run_prepared :: "pydict \<Rightarrow> bool" where
  "run_prepared run = truthy (pget run ''prepared'')"

definition run_preparation_error :: "pydict \<Rightarrow> pyval" where
  "run_preparation_error run = pget run ''preparation_error''"

definition run_artifacts :: "pydict \<Rightarrow> pyval list res" where
  "run_artifacts run =
     (if truthy (pget run ''artifacts'') then py_iter (pget run ''artifacts'') else Inr [])"

definition run_live :: "pydict \<Rightarrow> bool res" where
  "run_live run =
     bindE (run_acceptance run) (\<lambda>a.
       if a \<noteq> None then Inr False else bindE (run_abandoned run) (\<lambda>b. Inr (b = None)))"

definition run_beads :: "pydict \<Rightarrow> pyval list res" where
  "run_beads run =
     bindE (run_workers run) (\<lambda>ws.
     bindE (mapE (\<lambda>w. bindE (item_of w ''beads'') py_iter) ws) (\<lambda>bs. Inr (concat bs)))"

definition run_actor :: "pydict \<Rightarrow> string" where
  "run_actor run = ''agentctl-batch-'' @ run_id run"

fun find_worker :: "string \<Rightarrow> string \<Rightarrow> pydict list \<Rightarrow> pydict res" where
  "find_worker rid wid [] = Inl (HistoryRefusal ''worker_missing'' (''run '' @ rid @ '' has no worker '' @ wid))"
| "find_worker rid wid (w # ws) =
     bindE (item_of w ''id'') (\<lambda>i. if i = PStr wid then Inr w else find_worker rid wid ws)"

definition run_worker :: "pydict \<Rightarrow> string \<Rightarrow> pydict res" where
  "run_worker run wid = bindE (run_workers run) (find_worker (run_id run) wid)"

section \<open>The directory of runs\<close>

definition runs_dir :: "config \<Rightarrow> ppath" where
  "runs_dir c = path_join (state_dir c) ''runs''"

definition manifest_path :: "config \<Rightarrow> string \<Rightarrow> ppath res" where
  "manifest_path c rid =
     (if rid = [] \<or> path_name (mkpath rid) \<noteq> rid \<or> rid = ''.'' \<or> rid = ''..''
      then Inl (HistoryRefusal ''unknown_run'' ''run identity must be one filename'')
      else Inr (path_join (runs_dir c) (rid @ ''.json'')))"

definition load_run :: "config \<Rightarrow> fs \<Rightarrow> string \<Rightarrow> pydict res" where
  "load_run c f rid =
     bindE (manifest_path c rid) (\<lambda>path.
       (case bindE (bindE (fs_read_text f path) loads_text) from_dict of
          Inr run \<Rightarrow> Inr run
        | Inl e \<Rightarrow>
            if e = FileNotFound
            then Inl (HistoryRefusal ''unknown_run'' (''no run '' @ rid @ '' under '' @ path_str (path_parent path)))
            else if is_oserror e \<or> is_valueerror e
            then Inl (HistoryErr ''manifest'' (''cannot read '' @ path_str path @ '': '' @ exn_str e))
            else Inl e))"

definition dir_entries :: "fs \<Rightarrow> ppath \<Rightarrow> string list res" where
  "dir_entries f d =
     bindE (realpath f d) (\<lambda>q.
       (case node_at f q of
          None \<Rightarrow> Inl FileNotFound
        | Some (Dir m) \<Rightarrow> if q \<in> set (noread f) then Inl (OSErr ''Permission denied'') else Inr (fs_list f d)
        | Some n \<Rightarrow> Inl (OSErr ''Not a directory'')))"

fun load_all :: "(string \<Rightarrow> pydict res) \<Rightarrow> bool \<Rightarrow> string option \<Rightarrow> string list \<Rightarrow> pydict list res" where
  "load_all ld strict project [] = Inr []"
| "load_all ld strict project (n # ns) =
     (case ld (name_stem n) of
        Inl e \<Rightarrow> if is_historyerror e \<and> \<not> strict then load_all ld strict project ns else Inl e
      | Inr run \<Rightarrow>
          bindE (load_all ld strict project ns) (\<lambda>rest.
            Inr (if project = None \<or> project = Some (run_project run) then run # rest else rest)))"

definition list_runs :: "config \<Rightarrow> fs \<Rightarrow> string option \<Rightarrow> bool \<Rightarrow> pydict list res" where
  "list_runs c f project strict =
     (case dir_entries f (runs_dir c) of
        Inl e \<Rightarrow>
          if e = FileNotFound then Inr []
          else if is_oserror e
          then Inl (HistoryErr ''manifest'' (''cannot inventory '' @ path_str (runs_dir c) @ '': '' @ exn_str e))
          else Inl e
      | Inr names \<Rightarrow> load_all (load_run c f) strict project (sort (filter (\<lambda>n. name_suffix n = ''.json'') names)))"

definition short_run_id :: "string \<Rightarrow> string" where
  "short_run_id rid = rsplit_last CHR ''-'' rid"

definition unique_match :: "'a list \<Rightarrow> exn \<Rightarrow> exn \<Rightarrow> 'a res" where
  "unique_match xs none many = (case xs of [] \<Rightarrow> Inl none | x # ys \<Rightarrow> if ys = [] then Inr x else Inl many)"

lemma unique_match_Inr: "unique_match xs none many = Inr r \<longleftrightarrow> xs = [r]"
  by (auto simp: unique_match_def split: list.splits)

definition named_runs :: "string \<Rightarrow> pydict list \<Rightarrow> string list" where
  "named_runs token runs = filter (\<lambda>r. short_run_id r = token) (map run_id runs)"

definition resolve_run_id :: "config \<Rightarrow> fs \<Rightarrow> string \<Rightarrow> string res" where
  "resolve_run_id c f token =
     bindE (manifest_path c token) (\<lambda>path.
       if fs_is_file f path then Inr token
       else
         bindE (list_runs c f None True) (\<lambda>runs.
           unique_match (named_runs token runs)
             (HistoryRefusal ''unknown_run'' (''no run '' @ token @ '' under '' @ path_str (runs_dir c)))
             (HistoryRefusal ''ambiguous_run''
               (token @ '' names '' @ show_nat (length (named_runs token runs)) @ '' runs''))))"

section \<open>What is read\<close>

lemma item_of_Inr [simp]: "item_of d k = Inr v \<longleftrightarrow> dget d k = Some v"
  by (simp add: item_of_def split: option.splits)

lemma from_dict_Inr: "from_dict v = Inr d \<longleftrightarrow> check_document v = Inr d"
  by (auto simp: from_dict_def split: sum.splits if_splits)

text \<open>
  (C27) A run that loads can be read: its document is the whole original document, its identifying
  fields are present, and none of the accessors of its landing, workers, acceptance, abandonment,
  liveness or artifacts can fail on it.
\<close>

theorem from_dict_readable:
  assumes "from_dict v = Inr d"
  shows "v = PDict d \<and> (\<forall>k \<in> set RUN_KEYS. dhas d k)
     \<and> \<not> isl (run_landing d) \<and> \<not> isl (run_workers d) \<and> \<not> isl (run_acceptance d)
     \<and> \<not> isl (run_abandoned d) \<and> \<not> isl (run_live d) \<and> \<not> isl (run_artifacts d)"
proof -
  from assms have doc: "check_document v = Inr d" by (simp add: from_dict_Inr)
  then have v: "v = PDict d" by (cases v) (auto simp: check_document_def bindE_eq_Inr)
  note parts = doc [unfolded v check_document_def pyval.case bindE_eq_Inr]
  from parts obtain ks where "mapE (item_of d) RUN_KEYS = Inr ks" by blast
  then have keys: "\<forall>k \<in> set RUN_KEYS. dhas d k"
    by (auto simp: RUN_KEYS_def dhas_iff split: sum.splits)
  from parts obtain x y where "item_of d ''landing'' = Inr x" "py_dict x = Inr y" by blast
  then have landing: "\<not> isl (run_landing d)" by (simp add: run_landing_def item_of_def)
  from parts obtain x xs ys where "item_of d ''workers'' = Inr x" "py_iter x = Inr xs" "mapE py_dict xs = Inr ys"
    by blast
  then have workers: "\<not> isl (run_workers d)" by (simp add: run_workers_def item_of_def)
  from parts obtain os where "mapE (check_optional_dict d) [''acceptance'', ''abandoned''] = Inr os" by blast
  then have opt: "\<not> isl (run_optional d k)" if "k = ''acceptance'' \<or> k = ''abandoned''" for k
    using that by (auto simp: run_optional_def check_optional_dict_def bindE_def split: sum.splits if_splits)
  then have "\<not> isl (run_acceptance d)" "\<not> isl (run_abandoned d)"
    by (simp_all add: run_acceptance_def run_abandoned_def)
  moreover from this have "\<not> isl (run_live d)"
    by (auto simp: run_live_def bindE_def split: sum.splits)
  moreover have "\<not> isl (run_artifacts d)"
  proof (cases "truthy (pget d ''artifacts'')")
    case True
    from parts obtain ys where "(if truthy (pget d ''artifacts'')
        then bindE (py_iter (pget d ''artifacts'')) (mapE py_dict) else Inr []) = Inr ys" by blast
    with True show ?thesis by (auto simp: run_artifacts_def bindE_eq_Inr)
  qed (simp add: run_artifacts_def)
  ultimately show ?thesis using v keys landing workers by blast
qed

definition sample_run :: pydict where
  "sample_run = [(''run_id'', PStr ''r-1''), (''project'', PStr ''p''), (''base_commit'', PStr ''c''),
     (''created_at'', PStr ''t''), (''harness'', PStr ''h''), (''landing'', PDict []),
     (''workers'', PList [PDict [(''id'', PStr ''w'')]])]"

theorem from_dict_readable_witness:
  "from_dict (PDict sample_run) = Inr sample_run \<and> \<not> isl (run_workers sample_run)"
proof -
  have run: "from_dict (PDict sample_run) = Inr sample_run" by code_simp
  with from_dict_readable [OF run] show ?thesis by simp
qed

text \<open>
  A run identity names one file of the run directory: whatever the token, the path that is
  opened lies directly in that directory, so no identity reaches a file elsewhere.
\<close>

theorem manifest_path_contained:
  assumes "manifest_path c rid = Inr p"
  shows "path_parent p = runs_dir c \<and> path_name p = rid @ ''.json''"
proof -
  from assms have ne: "rid \<noteq> []" and name: "path_name (mkpath rid) = rid"
    and p: "p = path_join (runs_dir c) (rid @ ''.json'')"
    by (auto simp: manifest_path_def split: if_split_asm)
  from ne name have "rid \<in> set (snd (mkpath rid))"
    by (metis last_in_set path_name_def)
  then have "CHR ''/'' \<notin> set rid" using mkpath_components by blast
  then have "mkpath (rid @ ''.json'') = ([], [rid @ ''.json''])"
    by (intro mkpath_single) (use ne in \<open>auto simp: neq_Nil_conv\<close>)
  then show ?thesis by (simp add: p path_join_def path_parent_def path_name_def)
qed

definition sample_config :: config where
  "sample_config = default_config [] (mkpath ''/h'') (Some (mkpath ''/s''))"

theorem manifest_path_contained_witness:
  "\<exists>p. manifest_path sample_config ''r-1'' = Inr p \<and> path_parent p = mkpath ''/s/runs''"
proof -
  have run: "manifest_path sample_config ''r-1'' = Inr (mkpath ''/s/runs/r-1.json'')" by code_simp
  have "runs_dir sample_config = mkpath ''/s/runs''" by code_simp
  with manifest_path_contained [OF run] run show ?thesis by simp
qed

text \<open>
  A token resolves to the run it names: to itself when that run exists, otherwise to the one
  run, among all that can be read, whose short identity it is; two such runs are an error, never a
  choice.
\<close>

theorem resolve_run_id_unique:
  assumes "resolve_run_id c f token = Inr r"
  shows "(\<exists>p. manifest_path c token = Inr p \<and> fs_is_file f p \<and> r = token)
     \<or> (\<exists>runs. list_runs c f None True = Inr runs \<and> r \<in> set (map run_id runs) \<and> short_run_id r = token
          \<and> length (filter (\<lambda>x. short_run_id x = token) (map run_id runs)) = 1)"
proof -
  from assms obtain p where p: "manifest_path c token = Inr p"
    by (auto simp: resolve_run_id_def bindE_eq_Inr)
  show ?thesis
  proof (cases "fs_is_file f p")
    case True
    with assms p show ?thesis by (simp add: resolve_run_id_def)
  next
    case False
    with assms p obtain runs where runs: "list_runs c f None True = Inr runs"
      and one: "named_runs token runs = [r]"
      by (auto simp: resolve_run_id_def bindE_eq_Inr unique_match_Inr)
    then have "r \<in> set (named_runs token runs)" by simp
    then have "r \<in> set (map run_id runs)" "short_run_id r = token"
      unfolding named_runs_def by (simp_all only: set_filter mem_Collect_eq)
    moreover have "length (filter (\<lambda>x. short_run_id x = token) (map run_id runs)) = 1"
      using one unfolding named_runs_def by simp
    ultimately show ?thesis using runs by blast
  qed
qed

definition sample_runs_fs :: fs where
  "sample_runs_fs = \<lparr>nodes = [((''/'', [''s'']), Dir 448), ((''/'', [''s'', ''runs'']), Dir 448),
     ((''/'', [''s'', ''runs'', ''r-1.json'']),
        RegFile ''{\"run_id\":\"r-1\",\"project\":\"p\",\"base_commit\":\"c\",\"created_at\":\"t\",\"harness\":\"h\",\"landing\":{},\"workers\":[]}'' 384)],
     noread = [], nowrite = []\<rparr>"

theorem resolve_run_id_unique_witness:
  "resolve_run_id sample_config sample_runs_fs ''1'' = Inr ''r-1'' \<and> short_run_id ''r-1'' = ''1''"
proof -
  have run: "resolve_run_id sample_config sample_runs_fs ''1'' = Inr ''r-1''" by code_simp
  with resolve_run_id_unique [OF run] show ?thesis by auto
qed

end
