(* ===== verification/Agentctl_Compaction.thy ===== *)
theory Agentctl_Compaction
  imports Sinnix_Ledger
begin

text \<open>
  \<open>agentctl/event_compaction.py\<close>: the one-shot migration of the event log that replaces outcome
  records embedded in finished events by a reference to the outcome file. The hash function is the
  parameter \<open>dig\<close>; only the equality of digests matters. The new log is built in a temporary file
  of the same directory, verified, and renamed; here it is built as a value, so that a refusal
  leaves nothing behind.
\<close>

section \<open>One line\<close>

definition SHARED :: "string list" where
  "SHARED = [''attempt'', ''outcome'', ''exit_code'', ''unit'', ''pool'']"

definition embeds_outcome :: "pydict \<Rightarrow> bool" where
  "embeds_outcome event \<longleftrightarrow>
     pget event ''kind'' = PStr ''queue-task'' \<and> pget event ''phase'' = PStr ''finished''
     \<and> dhas event ''execution_receipt'' \<and> \<not> dhas event ''outcome_ref''"

definition filename_ok :: "pyval \<Rightarrow> bool" where
  "filename_ok job \<longleftrightarrow> is_str job \<and> path_name (mkpath (str_of job)) = str_of job
     \<and> str_of job \<notin> set [''.'', ''..'', []]"

text \<open>The outcome files an event may have embedded, the attempt's own first.\<close>

definition outcome_candidates :: "ppath \<Rightarrow> string \<Rightarrow> pyval \<Rightarrow> ppath list" where
  "outcome_candidates jobs job attempt =
     (if is_exact_int attempt \<and> 0 < int_of attempt
      then [path_join (path_join (path_join jobs (job @ ''.attempts'')) (show_int (int_of attempt)))
              ''output.outcome'']
      else []) @ [path_join jobs (job @ ''.outcome'')]"

definition embedded_fields :: "pydict \<Rightarrow> pydict \<Rightarrow> pydict res" where
  "embedded_fields event outcome =
     mapE (\<lambda>k. case dget event k of None \<Rightarrow> Inl (KeyErr k) | Some v \<Rightarrow> Inr (k, v)) (dkeys outcome)"

text \<open>The file a candidate resolves to, its bytes and its fields, when the event embeds exactly
  those bytes.\<close>

definition check_candidate ::
  "(string \<Rightarrow> string) \<Rightarrow> fs \<Rightarrow> pydict \<Rightarrow> ppath \<Rightarrow> (ppath \<times> string \<times> pydict) option" where
  "check_candidate dig f event candidate =
     (case realpath f candidate of
        Inl e \<Rightarrow> None
      | Inr path \<Rightarrow>
          (case fs_read f path of
             Inl e \<Rightarrow> None
           | Inr payload \<Rightarrow>
               (case loads_bytes payload of
                  Inr (PDict outcome) \<Rightarrow>
                    if \<not> dhas outcome ''execution_receipt'' then None
                    else
                      (case embedded_fields event outcome of
                         Inl e \<Rightarrow> None
                       | Inr embedded \<Rightarrow>
                           if dig (json_dumps_sorted (PDict embedded)) \<noteq> dig payload then None
                           else Some (path, payload, outcome))
                | _ \<Rightarrow> None)))"

definition compact_event :: "(string \<Rightarrow> string) \<Rightarrow> pydict \<Rightarrow> ppath \<times> string \<times> pydict \<Rightarrow> pydict" where
  "compact_event dig event found =
     (case found of (path, payload, outcome) \<Rightarrow>
        dset ''outcome_ref'' (PDict [(''path'', PStr (path_str path)), (''sha256'', PStr (dig payload))])
          (filter (\<lambda>(k, v). \<not> dhas outcome k \<or> k \<in> set SHARED) event))"

text \<open>The new line, and whether the line holds a receipt.\<close>

definition rewrite_line :: "(string \<Rightarrow> string) \<Rightarrow> fs \<Rightarrow> ppath \<Rightarrow> string \<Rightarrow> string \<times> bool" where
  "rewrite_line dig f jobs raw =
     (case loads_bytes raw of
        Inr (PDict event) \<Rightarrow>
          if \<not> embeds_outcome event then (raw, False)
          else if \<not> filename_ok (pget event ''job_id'') then (raw, True)
          else
            (case List.map_filter (check_candidate dig f event)
                    (outcome_candidates jobs (str_of (pget event ''job_id'')) (pget event ''attempt'')) of
               [] \<Rightarrow> (raw, True)
             | found # rest \<Rightarrow> (record_line (compact_event dig event found), True))
      | _ \<Rightarrow> (raw, False))"

section \<open>The whole log\<close>

record compaction =
  cp_rewritten :: nat
  cp_kept :: nat
  cp_unresolved :: nat

definition count_line :: "string \<Rightarrow> string \<times> bool \<Rightarrow> compaction \<Rightarrow> compaction" where
  "count_line raw out c =
     (case out of (rewritten, has_receipt) \<Rightarrow>
        (let changed = rewritten \<noteq> raw
         in c\<lparr>cp_rewritten := cp_rewritten c + (if changed then 1 else 0),
              cp_kept := cp_kept c + (if changed then 0 else 1),
              cp_unresolved := cp_unresolved c + (if has_receipt \<and> \<not> changed then 1 else 0)\<rparr>))"

fun compact_lines ::
  "(string \<Rightarrow> string \<times> bool) \<Rightarrow> string list \<Rightarrow> string \<Rightarrow> compaction \<Rightarrow> (string \<times> compaction) res" where
  "compact_lines rw [] target c = Inr (target, c)"
| "compact_lines rw (raw # ls) target c =
     (if last raw \<noteq> newline then Inl (CompactionErr ''unterminated event log tail; original retained'')
      else compact_lines rw ls (target @ fst (rw raw)) (count_line raw (rw raw) c))"

text \<open>The second reading: \<open>zip_longest\<close> over the lines of both files.\<close>

fun verify_lines :: "(string \<Rightarrow> string \<times> bool) \<Rightarrow> string list \<Rightarrow> string list \<Rightarrow> nat \<Rightarrow> nat res" where
  "verify_lines rw [] [] n = Inr n"
| "verify_lines rw (a # as) (b # bs) n =
     (if a \<noteq> b \<and> fst (rw a) \<noteq> b then Inl (CompactionErr ''rewritten outcome no longer resolves'')
      else verify_lines rw as bs (n + 1))"
| "verify_lines rw _ _ n = Inl (CompactionErr ''compaction changed the line count'')"

definition is_symlink :: "fs \<Rightarrow> ppath \<Rightarrow> bool" where
  "is_symlink f p =
     (case realpath f (path_parent p) of
        Inl e \<Rightarrow> False
      | Inr d \<Rightarrow> (case node_at f (fst d, snd d @ [path_name p]) of Some (Symlink q) \<Rightarrow> True | _ \<Rightarrow> False))"

definition dir_writable :: "fs \<Rightarrow> ppath \<Rightarrow> unit res" where
  "dir_writable f p =
     bindE (realpath f p) (\<lambda>d.
       (case node_at f d of
          Some (Dir m) \<Rightarrow> if d \<in> set (nowrite f) then Inl (OSErr ''Permission denied'') else Inr ()
        | Some n \<Rightarrow> Inl (OSErr ''Not a directory'')
        | None \<Rightarrow> Inl FileNotFound))"

definition compacted :: "(string \<Rightarrow> string) \<Rightarrow> fs \<Rightarrow> ppath \<Rightarrow> ppath \<Rightarrow> (string \<times> string \<times> compaction) res" where
  "compacted dig f spool jobs =
     bindE (fs_read f spool) (\<lambda>b.
     bindE (guardE (\<not> is_symlink f spool)
         (CompactionErr ''event log must be a regular file, not a symlink'')) (\<lambda>_.
     bindE (dir_writable f (path_parent spool)) (\<lambda>_.
     bindE (compact_lines (rewrite_line dig f jobs) (byte_lines b) []
         \<lparr>cp_rewritten = 0, cp_kept = 0, cp_unresolved = 0\<rparr>) (\<lambda>(target, counts).
     bindE (verify_lines (rewrite_line dig f jobs) (byte_lines b) (byte_lines target) 0) (\<lambda>verified.
     bindE (guardE (verified = cp_rewritten counts + cp_kept counts)
         (CompactionErr ''compaction line count verification failed'')) (\<lambda>_.
       Inr (b, target, counts)))))))"

text \<open>The renaming keeps the mode of the old log.\<close>

definition compact_events ::
  "(string \<Rightarrow> string) \<Rightarrow> ppath \<Rightarrow> ppath \<Rightarrow> (fs, nat \<times> nat \<times> compaction) io" where
  "compact_events dig spool jobs =
     catchM
       (flock (lock_path spool)
         (bindM getM (\<lambda>f.
          bindM (liftM (compacted dig f spool jobs)) (\<lambda>(b, target, counts).
          bindM (fsM (fs_publish spool target (case realpath f spool of
              Inr q \<Rightarrow> file_mode f q 420 | Inl e \<Rightarrow> 420))) (\<lambda>_.
            returnM (length b, length target, counts))))))
       (\<lambda>e. if is_oserror e then raiseM (CompactionErr (''event compaction failed: '' @ exn_str e))
         else raiseM e)"

section \<open>Nothing is lost\<close>

lemma map_filter_hd: "List.map_filter g xs = y # ys \<Longrightarrow> \<exists>x \<in> set xs. g x = Some y"
  by (induction xs) (auto simp: List.map_filter_def split: if_split_asm)

lemma rewrite_line_whole: "whole_line raw \<Longrightarrow> whole_line (fst (rewrite_line dig f jobs raw))"
  by (auto simp: rewrite_line_def record_line_whole split: sum.splits pyval.splits list.splits)

lemma rewrite_changed:
  assumes "fst (rewrite_line dig f jobs raw) \<noteq> raw"
  obtains event candidate found where "loads_bytes raw = Inr (PDict event)" and "embeds_outcome event"
    and "check_candidate dig f event candidate = Some found"
    and "fst (rewrite_line dig f jobs raw) = record_line (compact_event dig event found)"
proof -
  from assms obtain event where event: "loads_bytes raw = Inr (PDict event)"
    by (auto simp: rewrite_line_def split: sum.splits pyval.splits)
  let ?found = "List.map_filter (check_candidate dig f event)
      (outcome_candidates jobs (str_of (pget event ''job_id'')) (pget event ''attempt''))"
  from assms event have emb: "embeds_outcome event" and name: "filename_ok (pget event ''job_id'')"
    and "?found \<noteq> []"
    by (auto simp: rewrite_line_def split: if_split_asm)
  then obtain found rest where found: "?found = found # rest" by (cases ?found) auto
  then obtain candidate where "check_candidate dig f event candidate = Some found"
    by (blast dest: map_filter_hd)
  moreover have "fst (rewrite_line dig f jobs raw) = record_line (compact_event dig event found)"
    using event emb name found by (simp add: rewrite_line_def)
  ultimately show thesis using that event emb by blast
qed

lemma embedded_fields_Inr:
  assumes "embedded_fields event outcome = Inr embedded" and "dhas outcome k"
  shows "dhas event k \<and> (k, pget event k) \<in> set embedded"
proof -
  from assms(2) have "k \<in> set (dkeys outcome)" by (simp add: dhas_def dkeys_def)
  from mapE_image [OF assms(1) [unfolded embedded_fields_def] this] obtain y where "y \<in> set embedded"
    and "(case dget event k of None \<Rightarrow> Inl (KeyErr k) | Some v \<Rightarrow> Inr (k, v)) = Inr y"
    by blast
  then show ?thesis by (auto simp: dhas_iff split: option.splits)
qed

lemma check_candidate_Some:
  assumes "check_candidate dig f event candidate = Some (path, payload, outcome)"
  shows "realpath f candidate = Inr path" and "fs_read f path = Inr payload"
    and "loads_bytes payload = Inr (PDict outcome)" and "dhas outcome ''execution_receipt''"
    and "\<exists>embedded. embedded_fields event outcome = Inr embedded
      \<and> dig (json_dumps_sorted (PDict embedded)) = dig payload"
  using assms
  by (auto simp: check_candidate_def split: sum.splits pyval.splits if_split_asm)

lemma map_of_filter_keys: "P k \<Longrightarrow> map_of (filter (\<lambda>(k, v). P k) xs) k = map_of xs k"
  by (induction xs) auto

lemma compact_event_get:
  "k \<noteq> ''outcome_ref'' \<Longrightarrow> dget event k = Some v \<Longrightarrow> \<not> dhas outcome k \<or> k \<in> set SHARED \<Longrightarrow>
     dget (compact_event dig event (path, payload, outcome)) k = Some v"
  by (simp add: compact_event_def dget_dset map_of_filter_keys)

text \<open>
  (C24) A rewritten line loses nothing: every field of the event is still in the line, or is a field
  of the outcome file the line now refers to by path and digest, and that digest is also the digest
  of the fields the event embedded, printed as the publisher printed them.
\<close>

theorem rewrite_line_lossless:
  assumes "loads_bytes raw = Inr (PDict event)" and "fst (rewrite_line dig f jobs raw) \<noteq> raw"
  shows "\<exists>d path payload outcome embedded. fst (rewrite_line dig f jobs raw) = record_line d
     \<and> fs_read f path = Inr payload \<and> loads_bytes payload = Inr (PDict outcome)
     \<and> pget d ''outcome_ref'' = PDict [(''path'', PStr (path_str path)), (''sha256'', PStr (dig payload))]
     \<and> dig (json_dumps_sorted (PDict embedded)) = dig payload
     \<and> (\<forall>k v. dget event k = Some v \<longrightarrow>
          dget d k = Some v \<or> (dhas outcome k \<and> (k, v) \<in> set embedded))"
proof -
  from assms(2) obtain event' candidate found where ev: "loads_bytes raw = Inr (PDict event')"
    and emb: "embeds_outcome event'" and cand: "check_candidate dig f event' candidate = Some found"
    and line: "fst (rewrite_line dig f jobs raw) = record_line (compact_event dig event' found)"
    by (rule rewrite_changed)
  with assms(1) have same: "event' = event" by simp
  obtain path payload outcome where found: "found = (path, payload, outcome)" by (metis prod_cases3)
  note c = check_candidate_Some [OF cand [unfolded found same]]
  from c(5) obtain embedded where e: "embedded_fields event outcome = Inr embedded"
    "dig (json_dumps_sorted (PDict embedded)) = dig payload" by blast
  let ?d = "compact_event dig event (path, payload, outcome)"
  have "pget ?d ''outcome_ref'' = PDict [(''path'', PStr (path_str path)), (''sha256'', PStr (dig payload))]"
    by (simp add: compact_event_def pget_dset)
  moreover have "dget ?d k = Some v \<or> (dhas outcome k \<and> (k, v) \<in> set embedded)"
    if "dget event k = Some v" for k v
  proof (cases "dhas outcome k \<and> k \<notin> set SHARED")
    case True
    with embedded_fields_Inr [OF e(1), of k] that show ?thesis by simp
  next
    case False
    have "k \<noteq> ''outcome_ref''"
      using that emb same by (auto simp: embeds_outcome_def dhas_iff)
    with False that show ?thesis using compact_event_get by blast
  qed
  ultimately show ?thesis using line [unfolded found same] c(2,3) e(2) by blast
qed

section \<open>The migration of a log\<close>

lemma compact_lines_Inr:
  "\<forall>l \<in> set ls. last l = newline \<Longrightarrow>
     \<exists>c'. compact_lines rw ls target c = Inr (target @ concat (map (fst \<circ> rw) ls), c')
       \<and> cp_rewritten c' + cp_kept c' = cp_rewritten c + cp_kept c + length ls"
proof (induction ls arbitrary: target c)
  case (Cons raw ls)
  let ?c = "count_line raw (rw raw) c"
  have "cp_rewritten ?c + cp_kept ?c = Suc (cp_rewritten c + cp_kept c)"
    by (auto simp: count_line_def Let_def split: prod.splits)
  with Cons.IH [of "target @ fst (rw raw)" ?c] Cons.prems show ?case by auto
qed simp

lemma verify_lines_Inr: "verify_lines rw ls (map (fst \<circ> rw) ls) n = Inr (n + length ls)"
  by (induction ls arbitrary: n) auto

lemma compacted_Inr:
  assumes "fs_read f spool = Inr b" and "b = [] \<or> last b = newline" and "\<not> is_symlink f spool"
    and "dir_writable f (path_parent spool) = Inr ()"
  shows "\<exists>counts. compacted dig f spool jobs
      = Inr (b, concat (map (fst \<circ> rewrite_line dig f jobs) (byte_lines b)), counts)
    \<and> cp_rewritten counts + cp_kept counts = length (byte_lines b)"
proof -
  let ?rw = "rewrite_line dig f jobs"
  have whole: "\<forall>l \<in> set (byte_lines b). whole_line l" using assms(2) by (rule byte_lines_whole)
  then have "\<forall>l \<in> set (byte_lines b). last l = newline" by (auto simp: whole_line_def)
  then obtain c where c: "compact_lines ?rw (byte_lines b) [] \<lparr>cp_rewritten = 0, cp_kept = 0, cp_unresolved = 0\<rparr>
      = Inr (concat (map (fst \<circ> ?rw) (byte_lines b)), c)"
    "cp_rewritten c + cp_kept c = length (byte_lines b)"
    using compact_lines_Inr [of "byte_lines b" ?rw "[]"] by fastforce
  from whole rewrite_line_whole have "\<forall>l \<in> set (map (fst \<circ> ?rw) (byte_lines b)). whole_line l"
    by auto
  then have "byte_lines (concat (map (fst \<circ> ?rw) (byte_lines b))) = map (fst \<circ> ?rw) (byte_lines b)"
    by (rule byte_lines_concat)
  with c assms verify_lines_Inr [of ?rw "byte_lines b" 0] show ?thesis
    by (simp add: compacted_def)
qed

text \<open>
  On a regular log of complete lines in a writable directory the migration succeeds, its own
  verification never refuses, and the new log is the old one line by line: as many lines, each one
  unchanged or rewritten, and the two counts account for all of them.
\<close>

theorem compacted_line_by_line:
  assumes "fs_read f spool = Inr b" and "b = [] \<or> last b = newline" and "\<not> is_symlink f spool"
    and "dir_writable f (path_parent spool) = Inr ()"
  shows "\<exists>target counts. compacted dig f spool jobs = Inr (b, target, counts)
     \<and> byte_lines target = map (\<lambda>l. fst (rewrite_line dig f jobs l)) (byte_lines b)
     \<and> cp_rewritten counts + cp_kept counts = length (byte_lines b)"
proof -
  let ?rw = "rewrite_line dig f jobs"
  from compacted_Inr [OF assms] obtain counts where
    c: "compacted dig f spool jobs = Inr (b, concat (map (fst \<circ> ?rw) (byte_lines b)), counts)"
      "cp_rewritten counts + cp_kept counts = length (byte_lines b)" by blast
  have "\<forall>l \<in> set (map (fst \<circ> ?rw) (byte_lines b)). whole_line l"
    using byte_lines_whole [OF assms(2)] rewrite_line_whole by auto
  then have "byte_lines (concat (map (fst \<circ> ?rw) (byte_lines b))) = map (fst \<circ> ?rw) (byte_lines b)"
    by (rule byte_lines_concat)
  with c show ?thesis by (auto simp: o_def)
qed

definition sample_outcome :: string where
  "sample_outcome = ''{\"execution_receipt\": 1, \"outcome\": \"ok\"}''"

definition sample_line :: string where
  "sample_line =
     ''{\"kind\":\"queue-task\",\"phase\":\"finished\",\"job_id\":\"j\",\"execution_receipt\":1,\"outcome\":\"ok\"}''
     @ [newline]"

definition sample_jobs_fs :: fs where
  "sample_jobs_fs = \<lparr>nodes = [((''/'', [''j.outcome'']), RegFile sample_outcome 384),
     ((''/'', [''e.jsonl'']), RegFile sample_line 420)], noread = [], nowrite = []\<rparr>"

theorem rewrite_line_lossless_witness:
  "\<exists>d path payload. fst (rewrite_line (\<lambda>x. x) sample_jobs_fs (mkpath ''/'') sample_line) = record_line d
     \<and> record_line d \<noteq> sample_line \<and> fs_read sample_jobs_fs path = Inr payload
     \<and> pget d ''outcome_ref'' = PDict [(''path'', PStr (path_str path)), (''sha256'', PStr payload)]"
proof -
  let ?out = "fst (rewrite_line (\<lambda>x. x) sample_jobs_fs (mkpath ''/'') sample_line)"
  have changed: "?out \<noteq> sample_line" by code_simp
  have "(case loads_bytes sample_line of Inr (PDict e) \<Rightarrow> True | _ \<Rightarrow> False)" by code_simp
  then obtain event where "loads_bytes sample_line = Inr (PDict event)"
    by (auto split: sum.splits pyval.splits)
  from rewrite_line_lossless [OF this changed] obtain d path payload where "?out = record_line d"
    and "fs_read sample_jobs_fs path = Inr payload"
    and "pget d ''outcome_ref'' = PDict [(''path'', PStr (path_str path)), (''sha256'', PStr payload)]"
    by blast
  with changed show ?thesis by (intro exI [of _ d] exI [of _ path] exI [of _ payload]) simp
qed

theorem compacted_line_by_line_witness:
  "\<exists>target counts. compacted (\<lambda>x. x) sample_jobs_fs (mkpath ''/e.jsonl'') (mkpath ''/'')
       = Inr (sample_line, target, counts)
     \<and> length (byte_lines target) = 1 \<and> cp_rewritten counts + cp_kept counts = 1"
proof -
  have "fs_read sample_jobs_fs (mkpath ''/e.jsonl'') = Inr sample_line" by code_simp
  moreover have "sample_line = [] \<or> last sample_line = newline" by (simp add: sample_line_def)
  moreover have "\<not> is_symlink sample_jobs_fs (mkpath ''/e.jsonl'')" by code_simp
  moreover have "dir_writable sample_jobs_fs (path_parent (mkpath ''/e.jsonl'')) = Inr ()" by code_simp
  moreover have "length (byte_lines sample_line) = 1" by code_simp
  ultimately show ?thesis
    using compacted_line_by_line [of sample_jobs_fs "mkpath ''/e.jsonl''" sample_line "\<lambda>x. x" "mkpath ''/''"]
    by fastforce
qed

end
