(* ===== verification/Agentctl_Runner.thy ===== *)
theory Agentctl_Runner
  imports Agentctl_Units Agentctl_Cgroups Agentctl_Pressure
begin

text \<open>
  The rest of what \<open>agentctl/run.py\<close> does around a queued command: the Git observations of the
  checkout, the environment of the child, the custody of its unit and scratch directory, the
  systemd service it becomes, and the decision how the run ended. The files of the run itself are
  state, \<open>ru_fs\<close>; what others write, the cancellation marker and the control groups, is a function
  of time as in \<open>Agentctl_Units\<close>. Git is a parameter like \<open>systemctl\<close>.
\<close>

section \<open>State\<close>

record runner = rworld +
  ru_fs :: fs
  ru_git :: "string list list"
  ru_task :: "int option"
  sc_path :: "ppath option"
  sc_unit :: "string option"
  sc_cgroup :: "string option"
  sc_cleaned :: bool

definition own_files :: "(fs, 'a) io \<Rightarrow> (runner, 'a) io" where
  "own_files c w = (case c (ru_fs w) of (r, f') \<Rightarrow> (r, w\<lparr>ru_fs := f'\<rparr>))"

definition ask_systemd ::
  "machine \<Rightarrow> ((string list \<Rightarrow> proc_result) \<Rightarrow> fs \<Rightarrow> 'a res) \<Rightarrow> (runner, 'a) io" where
  "ask_systemd m q w =
     (q (\<lambda>args. m_systemctl m (rw_ctl w @ [args])) (m_fs m (rw_clock w)), w\<lparr>rw_clock := rw_clock w + 1\<rparr>)"

definition str_or_none :: "string option \<Rightarrow> pyval" where
  "str_or_none v = (case v of None \<Rightarrow> PNone | Some s \<Rightarrow> PStr s)"

definition str_items :: "pyval \<Rightarrow> string dict" where
  "str_items v = map (\<lambda>(k, x). (k, str_of x)) (items_of v)"

section \<open>Git observations\<close>

type_synonym git = "string list list \<Rightarrow> proc_result"

definition run_git :: "git \<Rightarrow> ppath \<Rightarrow> string list \<Rightarrow> (runner, proc_result) io" where
  "run_git g cwd args w =
     (let cs = ru_git w @ [[''git'', ''-C'', path_str cwd] @ args] in (Inr (g cs), w\<lparr>ru_git := cs\<rparr>))"

text \<open>The value and the failure token.\<close>

definition git_probe ::
  "git \<Rightarrow> ppath \<Rightarrow> string list \<Rightarrow> bool \<Rightarrow> (runner, string option \<times> string option) io" where
  "git_probe g cwd args allow_empty =
     bindM (run_git g cwd args) (\<lambda>r. liftM (case r of
         TimedOut \<Rightarrow> Inr (None, Some ''timeout'')
       | NotInstalled \<Rightarrow> Inr (None, Some ''unavailable'')
       | Garbled \<Rightarrow> Inl UnicodeErr
       | Exited rc out err \<Rightarrow>
           if rc \<noteq> 0 \<or> (strip out = [] \<and> \<not> allow_empty) then Inr (None, Some ''unavailable'')
           else Inr (Some (strip out), None)))"

text \<open>A command of \<open>content_tree\<close>: its output if it worked. The throwaway index is named in the
  environment of the call.\<close>

definition tree_step :: "git \<Rightarrow> ppath \<Rightarrow> string list \<Rightarrow> (runner, string option) io" where
  "tree_step g cwd args =
     bindM (run_git g cwd args) (\<lambda>r. liftM (case r of
         Exited rc out err \<Rightarrow> Inr (if rc = 0 then Some out else None)
       | Garbled \<Rightarrow> Inl UnicodeErr
       | _ \<Rightarrow> Inr None))"

definition index_copied :: "fs \<Rightarrow> ppath \<Rightarrow> bool res" where
  "index_copied f index =
     (case fs_read f index of
        Inr b \<Rightarrow> Inr True
      | Inl e \<Rightarrow> if e = FileNotFound then Inr True else if is_oserror e then Inr False else Inl e)"

definition content_tree :: "machine \<Rightarrow> git \<Rightarrow> ppath \<Rightarrow> (runner, string option) io" where
  "content_tree m g cwd =
     bindM (git_probe g cwd [''rev-parse'', ''--git-path'', ''index''] False) (\<lambda>(index, e).
       (case (index, e) of
          (Some i, None) \<Rightarrow>
            bindM (look m (\<lambda>f. index_copied f (path_join cwd i))) (\<lambda>ok.
            if \<not> ok then returnM None
            else
              bindM (tree_step g cwd [''add'', ''-A'']) (\<lambda>added.
              if added = None then returnM None
              else
                bindM (tree_step g cwd [''write-tree'']) (\<lambda>tree.
                  returnM (case tree of None \<Rightarrow> None
                    | Some out \<Rightarrow> if strip out = [] then None else Some (strip out)))))
        | _ \<Rightarrow> returnM None))"

definition git_failures :: "(string \<times> string option) list \<Rightarrow> string list" where
  "git_failures errs = map fst (filter (\<lambda>(n, e). e \<noteq> None) errs)"

definition git_reason :: "string list \<Rightarrow> pyval" where
  "git_reason errors =
     (if errors = [] then PNone else PStr (''git_'' @ str_join ''_'' errors @ ''_unavailable''))"

text \<open>The observation from the four probes, \<open>content\<close> being absent for a clean checkout.\<close>

definition observation_of ::
  "string \<Rightarrow> string option \<times> string option \<Rightarrow> string option \<times> string option \<Rightarrow> pyval \<Rightarrow> string option
     \<Rightarrow> string option option \<Rightarrow> pydict" where
  "observation_of now head tree dirty dirty_error content =
     (let errors = git_failures [(''head'', snd head), (''tree'', snd tree), (''dirty'', dirty_error)]
            @ (if content = Some None then [''content''] else [])
      in [(''observed_at'', PStr now), (''head'', str_or_none (fst head)), (''tree'', str_or_none (fst tree)),
          (''dirty'', dirty)]
         @ (case content of None \<Rightarrow> [] | Some c \<Rightarrow> [(''content_tree'', str_or_none c)])
         @ [(''status'', PStr (if errors = [] then ''observed'' else ''unavailable'')),
            (''reason'', git_reason errors)])"

definition git_observation :: "machine \<Rightarrow> git \<Rightarrow> string \<Rightarrow> ppath \<Rightarrow> (runner, pydict) io" where
  "git_observation m g now cwd =
     bindM (git_probe g cwd [''rev-parse'', ''HEAD''] False) (\<lambda>head.
     bindM (git_probe g cwd [''rev-parse'', ''HEAD^{tree}''] False) (\<lambda>tree.
     bindM (git_probe g cwd [''status'', ''--porcelain=v1'', ''--untracked-files=all''] True) (\<lambda>(changes, e).
     (let dirty = (if e \<noteq> None then PNone else PBool (changes \<noteq> None \<and> changes \<noteq> Some []))
      in bindM (if dirty = PBool True then bindM (content_tree m g cwd) (\<lambda>c. returnM (Some c)) else returnM None)
           (\<lambda>content. returnM (observation_of now head tree dirty e content))))))"

definition receipt_fields :: "string list" where
  "receipt_fields = [''head'', ''tree'', ''dirty'', ''content_tree'']"

definition execution_receipt :: "pydict \<Rightarrow> pydict \<Rightarrow> pydict" where
  "execution_receipt start stop =
     (let available = list_all (\<lambda>ob. pget ob ''status'' = PStr ''observed'') [start, stop];
          same = list_all (\<lambda>k. py_eq (pget start k) (pget stop k)) receipt_fields;
          (binding, reason) =
            (if \<not> available then (''unavailable'', PStr ''git_observation_unavailable'')
             else if \<not> same then (''changed'', PStr ''checkout_identity_changed_between_observations'')
             else (''unchanged_endpoints'', PNone))
      in [(''schema_version'', PInt 2), (''start'', PDict start), (''end'', PDict stop),
          (''binding'', PStr binding), (''reason'', reason)])"

section \<open>Custody of the scratch directory and the unit\<close>

text \<open>\<open>shutil.rmtree\<close>: entries go deepest first and the removal stops at the first refusal.\<close>

definition tree_entries :: "fs \<Rightarrow> ppath \<Rightarrow> ppath list" where
  "tree_entries f q =
     rev (sort_key (\<lambda>p. length (snd p))
       (filter (\<lambda>p. fst p = fst q \<and> strict_prefix (snd q) (snd p)) (map fst (nodes f))))"

fun remove_entries :: "ppath list \<Rightarrow> (fs, unit) io" where
  "remove_entries [] f = (Inr (), f)"
| "remove_entries (p # ps) f =
     (if path_parent p \<in> set (nowrite f) then (Inl (OSErr ''Permission denied''), f)
      else remove_entries ps (fs_remove p f))"

definition fs_rmtree :: "ppath \<Rightarrow> (fs, unit) io" where
  "fs_rmtree p f =
     (case realpath f (path_parent p) of
        Inl e \<Rightarrow> (Inl e, f)
      | Inr d \<Rightarrow>
          (let q = (fst d, snd d @ [path_name p])
           in case node_at f q of
                None \<Rightarrow> (Inl FileNotFound, f)
              | Some (Dir m) \<Rightarrow>
                  if list_ex (\<lambda>x. x \<in> set (noread f)) (q # tree_entries f q)
                  then (Inl (OSErr ''Permission denied''), f)
                  else remove_entries (tree_entries f q @ [q]) f
              | Some (Symlink t) \<Rightarrow> (Inl (OSErr ''Cannot call rmtree on a symbolic link''), f)
              | Some n \<Rightarrow> (Inl (OSErr ''Not a directory''), f)))"

definition error_label :: "exn \<Rightarrow> string" where
  "error_label e =
     (if e = OSErr ''Permission denied'' then ''PermissionError (errno 13)''
      else if e = OSErr ''Not a directory'' then ''NotADirectoryError (errno 20)''
      else if e = OSErr ''Too many levels of symbolic links'' then ''OSError (errno 40)''
      else ''OSError (errno None)'')"

definition remove_scratch :: "ppath option \<Rightarrow> (runner, string option) io" where
  "remove_scratch path =
     (case path of
        None \<Rightarrow> returnM None
      | Some p \<Rightarrow>
          catchM (bindM (own_files (fs_rmtree p)) (\<lambda>_. returnM None))
            (\<lambda>e. if e = FileNotFound then returnM None
                 else if is_oserror e then returnM (Some (error_label e)) else raiseM e))"

definition set_unit :: "string option \<Rightarrow> (runner, unit) io" where
  "set_unit u w = (Inr (), w\<lparr>sc_unit := u\<rparr>)"

definition set_cgroup :: "string option \<Rightarrow> (runner, unit) io" where
  "set_cgroup c w = (Inr (), w\<lparr>sc_cgroup := c\<rparr>)"

definition custody_record :: "string \<Rightarrow> string option \<Rightarrow> int \<Rightarrow> pydict" where
  "custody_record unit cg attempt =
     [(''unit'', PStr unit), (''cgroup'', str_or_none cg), (''attempt'', PInt attempt)]"

definition custody_path :: "string \<Rightarrow> ppath" where
  "custody_path launch_input = mkpath (launch_input @ ''.disposition'')"

definition claim_unit :: "machine \<Rightarrow> string \<Rightarrow> string \<Rightarrow> string \<Rightarrow> int \<Rightarrow> (runner, unit) io" where
  "claim_unit m unit pool launch_input attempt =
     bindM (ask_systemd m (\<lambda>sc f. planned_unit_cgroup sc unit (pool_slice pool))) (\<lambda>cg.
     bindM (set_cgroup cg) (\<lambda>_.
       own_files (fsM (fs_publish (custody_path launch_input)
         (json_dumps_sorted (PDict (custody_record unit cg attempt))) 384))))"

definition stop_confirmed :: "machine \<Rightarrow> string \<Rightarrow> (runner, bool) io" where
  "stop_confirmed m u =
     bindM (systemctl m [''stop'', u]) (\<lambda>stopped.
       if stopped \<noteq> None then returnM True
       else bindM (unit_snapshot m u) (\<lambda>observed. returnM (case observed of
           None \<Rightarrow> False
         | Some p \<Rightarrow> dget p ''LoadState'' = Some ''not-found'' \<or> unit_is_terminal p)))"

text \<open>\<open>Some\<close> is the reason why the unit \<open>u\<close> is still held; \<open>g\<close> is the control group known so far.\<close>

definition release_held :: "machine \<Rightarrow> string \<Rightarrow> string option \<Rightarrow> (runner, string option) io" where
  "release_held m u g =
     bindM (if g = None then bindM (ask_systemd m (\<lambda>sc f. unit_cgroup sc u)) set_cgroup else returnM ()) (\<lambda>_.
     bindM (stop_confirmed m u) (\<lambda>ok.
       if \<not> ok then returnM (Some ''unit termination unconfirmed; cleanup deferred'')
       else bindM (\<lambda>w. ask_systemd m (\<lambda>sc f. observe_unit sc f u (sc_cgroup w)) w) (\<lambda>ob.
         if ob_status ob \<noteq> Empty
         then returnM (Some ''unit cgroup termination unconfirmed; cleanup deferred'')
         else bindM (systemctl m [''reset-failed'', u]) (\<lambda>_.
           bindM (set_unit None) (\<lambda>_. returnM None)))))"

definition release_unit :: "machine \<Rightarrow> (runner, string option) io" where
  "release_unit m w =
     (case sc_unit w of None \<Rightarrow> (Inr None, w) | Some u \<Rightarrow> release_held m u (sc_cgroup w) w)"

definition cleanup :: "machine \<Rightarrow> (runner, string option) io" where
  "cleanup m w =
     (if sc_cleaned w then (Inr None, w)
      else bindM (release_unit m) (\<lambda>err.
        (case err of
           Some e \<Rightarrow> returnM (Some e)
         | None \<Rightarrow> (\<lambda>w. remove_scratch (sc_path w) (w\<lparr>sc_path := None\<rparr>)))) (w\<lparr>sc_cleaned := True\<rparr>))"

text \<open>\<open>run\<close>: whatever happens in the body, the custody is settled afterwards.\<close>

definition run_guarded :: "machine \<Rightarrow> (runner, 'a) io \<Rightarrow> (runner, 'a) io" where
  "run_guarded m body w =
     (case body w of (r, w1) \<Rightarrow>
       (case cleanup m w1 of (Inl e, w2) \<Rightarrow> (Inl e, w2) | (Inr err, w2) \<Rightarrow> (r, w2)))"

section \<open>The environment of the command\<close>

definition PROVENANCE :: "string list" where
  "PROVENANCE = [''JOB_ID'', ''CORRELATION_ID'', ''PROJECT_ID'', ''OPERATION'', ''CHECKOUT_ID'', ''CHECKOUT_HEAD'']"

definition own_provenance :: "pydict \<Rightarrow> string dict" where
  "own_provenance launch =
     [(''DEVKIT_JOB_RUNNER'', ''agentctl''),
      (''DEVKIT_JOB_ID'', py_str (pget launch ''job_id'')),
      (''AGENTCTL_CORRELATION_ID'', py_str (pget launch ''job_id'')),
      (''AGENTCTL_JOB_ID'', py_str (pget launch ''job_id'')),
      (''AGENTCTL_PROJECT_ID'', py_str (pget launch ''project_id'')),
      (''AGENTCTL_OPERATION'', py_str (pget launch ''operation'')),
      (''AGENTCTL_QUEUE_WORKER'', ''1'')]"

definition checkout_identity :: "(string \<Rightarrow> string) \<Rightarrow> fs \<Rightarrow> pyval \<Rightarrow> string option \<Rightarrow> string option res" where
  "checkout_identity dig f root checkout =
     (case (root, checkout) of
        (PStr (r # rs), Some (c # cs)) \<Rightarrow>
          bindE (realpath f (mkpath (c # cs))) (\<lambda>path.
          bindE (realpath f (mkpath (r # rs))) (\<lambda>base.
            Inr (Some (if path = base then ''default'' else ''worktree-'' @ take 16 (dig (path_str path))))))
      | _ \<Rightarrow> Inr None)"

definition opt_set :: "string \<Rightarrow> string option \<Rightarrow> string dict \<Rightarrow> string dict" where
  "opt_set k v e = (case v of None \<Rightarrow> e | Some x \<Rightarrow> dset k x e)"

definition nonempty_str :: "pyval \<Rightarrow> string option" where
  "nonempty_str v = (case v of PStr (c # s) \<Rightarrow> Some (c # s) | _ \<Rightarrow> None)"

text \<open>The declared environment with the secrets in it; the checkout identity and head as observed.\<close>

definition child_environment ::
  "pydict \<Rightarrow> string dict \<Rightarrow> string option \<Rightarrow> pyval \<Rightarrow> string option \<Rightarrow> ppath option \<Rightarrow> string dict" where
  "child_environment launch secrets checkout head pool scratch =
     (let declared = dmerge (str_items (pget launch ''environment'')) secrets;
          owned = dmerge (foldl (\<lambda>e k. dpop (''AGENTCTL_'' @ k) e) declared PROVENANCE) (own_provenance launch);
          placed = opt_set ''AGENTCTL_POOL'' pool
            (opt_set ''AGENTCTL_CHECKOUT_HEAD'' (nonempty_str head)
              (opt_set ''AGENTCTL_CHECKOUT_ID'' checkout owned));
          plain = dpop ''DEVKIT_SCRATCH'' placed
      in case scratch of
           None \<Rightarrow> plain
         | Some p \<Rightarrow> dset ''TMPDIR'' (path_str p)
             (dset ''DEVKIT_SCRATCH'' (path_str p) (dset ''AGENTCTL_SCRATCH'' (path_str p) plain)))"

section \<open>The service\<close>

definition timeout_of :: "pydict \<Rightarrow> nat" where
  "timeout_of launch = nat (int_of (pget launch ''timeout_seconds''))"

definition service_properties :: "pydict \<Rightarrow> string \<Rightarrow> ppath \<Rightarrow> ppath \<Rightarrow> string list" where
  "service_properties launch pool stdout log =
     [''RuntimeMaxSec='' @ (if timeout_of launch = 0 then ''infinity'' else show_nat (timeout_of launch)),
      ''Type=exec'', ''ExitType=cgroup'', ''KillMode=control-group'', ''RemainAfterExit=yes'',
      ''IOAccounting=yes'',
      (if pool \<notin> set PROTECTED_POOLS then ''OOMScoreAdjust=900'' else ''OOMScoreAdjust=100'')]
     @ (if pool \<in> set PROTECTED_POOLS then [''ManagedOOMPreference=avoid''] else [])
     @ [''WorkingDirectory='' @ py_str (pget launch ''working_directory''),
        ''StandardOutput='' @ (if stdout = log then ''append'' else ''file'') @ '':'' @ path_str stdout,
        ''StandardError=append:'' @ path_str log]
     @ map str_of (elems_of (pget launch ''unit_properties''))"

definition service_command ::
  "pydict \<Rightarrow> string \<Rightarrow> string \<Rightarrow> string \<Rightarrow> string list \<Rightarrow> string dict \<Rightarrow> ppath \<Rightarrow> ppath \<Rightarrow> string list" where
  "service_command launch unit pool description argv env stdout log =
     [''systemd-run'', ''--user'', ''--quiet'', ''--unit='' @ unit, ''--slice='' @ pool_slice pool,
      ''--description='' @ description]
     @ map (\<lambda>(k, v). ''--setenv='' @ k @ ''='' @ v) env
     @ concat (map (\<lambda>v. [''-p'', v]) (service_properties launch pool stdout log))
     @ [''--''] @ argv"

section \<open>Scratch measurement and log masking\<close>

definition MAX_SCRATCH_ENTRIES :: nat where "MAX_SCRATCH_ENTRIES = 100000"

text \<open>What \<open>os.walk\<close> lists as files: a link to a directory is not one of them, and a directory
  that cannot be listed is passed over with all below it.\<close>

definition walked_files :: "fs \<Rightarrow> ppath \<Rightarrow> (ppath \<times> fnode) list" where
  "walked_files f p =
     filter (\<lambda>(q, n). fst q = fst p \<and> strict_prefix (snd p) (snd q)
         \<and> list_all (\<lambda>d. \<not> (is_relative_to d p \<and> is_relative_to q d)) (noread f)
         \<and> (case n of Dir m \<Rightarrow> False | Symlink t \<Rightarrow> \<not> fs_is_dir f q | _ \<Rightarrow> True)) (nodes f)"

fun lstat_size :: "fnode \<Rightarrow> nat" where
  "lstat_size (RegFile b m) = length b"
| "lstat_size (Symlink t) = length (path_str t)"
| "lstat_size n = 0"

definition scratch_footprint :: "fs \<Rightarrow> ppath \<Rightarrow> pydict" where
  "scratch_footprint f p =
     (let files = walked_files f p; counted = take MAX_SCRATCH_ENTRIES files
      in [(''bytes'', PInt (int (sum_list (map (\<lambda>(q, n). lstat_size n) counted)))),
          (''files'', PInt (int (length counted))),
          (''truncated'', PBool (MAX_SCRATCH_ENTRIES < length files))])"

definition mask_log :: "string list \<Rightarrow> ppath \<Rightarrow> (fs, unit) io" where
  "mask_log vs p f =
     (case fs_read f p of
        Inl e \<Rightarrow> if is_oserror e then (Inr (), f) else (Inl e, f)
      | Inr b \<Rightarrow>
          (let masked = mask_secret_values b vs
           in if masked = b then (Inr (), f) else fsM (fs_publish p masked 384) f))"

definition mask_logs :: "ppath list \<Rightarrow> string list \<Rightarrow> (fs, unit) io" where
  "mask_logs paths vs =
     (if vs = [] then returnM () else forM (\<lambda>p u. mask_log vs p) (rev (remdups (rev paths))) ())"

section \<open>Running the unit\<close>

datatype io_refusal = Unreadable | Above pyfloat pyfloat

definition io_pressure_refusal :: "fs \<Rightarrow> pyfloat \<Rightarrow> io_refusal option res" where
  "io_pressure_refusal f limit =
     bindE (read_pressure f (mkpath ''/proc/pressure'')) (\<lambda>p.
       Inr (case dget p ''io_full_avg60'' of
           Some (Some v) \<Rightarrow> if float_lt limit v then Some (Above v limit) else None
         | _ \<Rightarrow> Some Unreadable))"

text \<open>Outside the queue the process is a parameter: how it ended.\<close>

definition run_bare :: "proc_result \<Rightarrow> (run_outcome \<times> int) res" where
  "run_bare r =
     (case r of
        Exited status out err \<Rightarrow> Inr (if status = 0 then (Success, 0) else (Failed, status))
      | TimedOut \<Rightarrow> Inr (Timeout, TIMEOUT_EXIT_CODE)
      | _ \<Rightarrow> Inl FileNotFound)"

text \<open>\<open>None\<close> is the end of the fuel of a wait.\<close>

definition await_unit ::
  "machine \<Rightarrow> string \<Rightarrow> nat \<Rightarrow> int \<Rightarrow> nat \<Rightarrow> (runner, string dict option option) io" where
  "await_unit m unit timeout rc fuel =
     (if rc = 0 then wait_for_unit m unit timeout fuel
      else bindM (unit_snapshot m unit) (\<lambda>p.
        (case p of
           Some d \<Rightarrow>
             if dget d ''LoadState'' = Some ''loaded'' \<and> \<not> unit_is_terminal d
             then wait_for_unit m unit timeout fuel else returnM (Some p)
         | None \<Rightarrow> returnM (Some p))))"

datatype finish = Refused "string option" | Finished run_outcome int "string dict option"

definition settle_unit ::
  "machine \<Rightarrow> string \<Rightarrow> ppath \<Rightarrow> int \<Rightarrow> int \<Rightarrow> string dict option \<Rightarrow> (runner, finish) io" where
  "settle_unit m unit marker attempt rc p =
     bindM (marked m marker attempt) (\<lambda>c.
     bindM (release_unit m) (\<lambda>err.
     bindM (case err of None \<Rightarrow> returnM () | Some e \<Rightarrow> write_log (e @ [newline])) (\<lambda>_.
     (let (out, status) = (if err = None then classify c p else (Vanished, VANISHED_EXIT_CODE))
      in bindM (if out = Vanished
                then write_log (''unit '' @ unit @ '' vanished (rc '' @ show_int rc @ '')'' @ [newline])
                else returnM ()) (\<lambda>_.
           returnM (Finished out status p))))))"

definition run_unit ::
  "machine \<Rightarrow> pydict \<Rightarrow> string \<Rightarrow> ppath \<Rightarrow> int \<Rightarrow> string \<Rightarrow> string \<Rightarrow> string list \<Rightarrow> nat \<Rightarrow> (runner, finish option) io" where
  "run_unit m launch launch_input marker attempt pool unit cmd fuel =
     bindM (set_unit (Some unit)) (\<lambda>_.
     bindM (start_service m cmd marker attempt (claim_unit m unit pool launch_input attempt) None fuel) (\<lambda>r.
       (case r of
          None \<Rightarrow> returnM None
        | Some None \<Rightarrow> returnM (Some (Finished Cancelled CANCELLED_EXIT_CODE (Some [])))
        | Some (Some client) \<Rightarrow>
            bindM (await_unit m unit (timeout_of launch) (fst client) fuel) (\<lambda>w.
              (case w of
                 None \<Rightarrow> returnM None
               | Some p \<Rightarrow>
                   bindM (settle_unit m unit marker attempt (fst client) p) (\<lambda>fin. returnM (Some fin)))))))"

definition refuse :: "machine \<Rightarrow> (runner, finish option) io" where
  "refuse m = bindM (cleanup m) (\<lambda>e. returnM (Some (Refused e)))"

definition set_task :: "int option \<Rightarrow> (runner, unit) io" where
  "set_task i w = (Inr (), w\<lparr>ru_task := i\<rparr>)"

text \<open>Admission: host pressure, then the slot, then the service. \<open>say\<close> prints the two numbers.\<close>

definition run_admitted ::
  "machine \<Rightarrow> (string \<Rightarrow> string) \<Rightarrow> (io_refusal \<Rightarrow> string) \<Rightarrow> pydict \<Rightarrow> string \<Rightarrow> ppath \<Rightarrow> int \<Rightarrow> string \<Rightarrow> string
     \<Rightarrow> string \<Rightarrow> string list \<Rightarrow> string dict \<Rightarrow> ppath \<Rightarrow> ppath \<Rightarrow> nat \<Rightarrow> (runner, finish option) io" where
  "run_admitted m dig say launch launch_input marker attempt pool unit dmn argv env stdout log fuel =
     bindM (case num_of (pget launch ''max_io_pressure'') of
         None \<Rightarrow> returnM None
       | Some limit \<Rightarrow> look m (\<lambda>f. io_pressure_refusal f limit)) (\<lambda>reason.
     (case reason of
        Some x \<Rightarrow>
          bindM (write_log (''refused: '' @ say x @ ''; measurements under load are not valid, so start it again when the host is quiet''
              @ [newline])) (\<lambda>_. refuse m)
      | None \<Rightarrow>
          bindM (occupancy m dig pool unit dmn) (\<lambda>(refusal, own).
          bindM (case own of None \<Rightarrow> returnM () | Some t \<Rightarrow> set_task (Some (tk_id t))) (\<lambda>_.
            if refusal \<noteq> [] then returnM (Some (Finished SlotOccupied SLOT_OCCUPIED_EXIT_CODE (Some [])))
            else run_unit m launch launch_input marker attempt pool unit
              (service_command launch unit pool
                (unit_description dmn pool (case own of Some t \<Rightarrow> show_int (tk_id t) | None \<Rightarrow> launch_input))
                argv env stdout log) fuel))))"

definition run_command ::
  "machine \<Rightarrow> (string \<Rightarrow> string) \<Rightarrow> (io_refusal \<Rightarrow> string) \<Rightarrow> proc_result \<Rightarrow> pydict \<Rightarrow> string \<Rightarrow> ppath \<Rightarrow> int
     \<Rightarrow> (string \<times> string) option \<Rightarrow> string \<Rightarrow> string list \<Rightarrow> string dict \<Rightarrow> ppath \<Rightarrow> ppath \<Rightarrow> nat
     \<Rightarrow> (runner, finish option) io" where
  "run_command m dig say bare launch launch_input marker attempt place dmn argv env stdout log fuel =
     (case place of
        None \<Rightarrow> liftM (bindE (run_bare bare) (\<lambda>(out, st). Inr (Some (Finished out st (Some [])))))
      | Some (pool, unit) \<Rightarrow>
          run_admitted m dig say launch launch_input marker attempt pool unit dmn argv env stdout log fuel)"

definition failure_action :: "machine \<Rightarrow> exn \<Rightarrow> (runner, finish option) io" where
  "failure_action m e w =
     bindM (write_log (''could not '' @ (if sc_unit w \<noteq> None then ''control'' else ''start'') @ '' the command: ''
         @ exn_str e @ [newline])) (\<lambda>_. refuse m) w"

definition run_queued ::
  "machine \<Rightarrow> (string \<Rightarrow> string) \<Rightarrow> (io_refusal \<Rightarrow> string) \<Rightarrow> proc_result \<Rightarrow> pydict \<Rightarrow> string \<Rightarrow> ppath \<Rightarrow> int
     \<Rightarrow> (string \<times> string) option \<Rightarrow> string \<Rightarrow> string list \<Rightarrow> string option \<Rightarrow> string dict \<Rightarrow> string list \<Rightarrow> ppath
     \<Rightarrow> ppath \<Rightarrow> nat \<Rightarrow> (runner, finish option) io" where
  "run_queued m dig say bare launch launch_input marker attempt place dmn argv executable env lost stdout log fuel =
     bindM (if lost = [] then returnM ()
            else write_log (''secret environment no longer held (runtime directory was reset): ''
              @ str_join '', '' lost @ [newline])) (\<lambda>_.
     bindM (marked m marker attempt) (\<lambda>c.
       if c then returnM (Some (Finished Cancelled CANCELLED_EXIT_CODE (Some [])))
       else
         (case executable of
            None \<Rightarrow>
              bindM (write_log (''could not start the command: '' @ hd argv @ '' not found'' @ [newline])) (\<lambda>_. refuse m)
          | Some exe \<Rightarrow>
              bindM (catchM (run_command m dig say bare launch launch_input marker attempt place dmn (exe # tl argv)
                    env stdout log fuel)
                  (\<lambda>e. if is_oserror e then failure_action m e else raiseM e)) (\<lambda>r.
              bindM (case r of
                  Some (Finished Timeout st p) \<Rightarrow>
                    write_log (''timed out after '' @ show_nat (timeout_of launch) @ '' seconds'' @ [newline])
                | _ \<Rightarrow> returnM ()) (\<lambda>_. returnM r)))))"

section \<open>What is published\<close>

definition append_lifecycle :: "string \<Rightarrow> ppath option \<Rightarrow> pydict \<Rightarrow> (fs, unit) io" where
  "append_lifecycle now spool event =
     (case spool of
        None \<Rightarrow> returnM ()
      | Some p \<Rightarrow>
          catchM (append_jsonl p
              (dmerge [(''schema_version'', PInt 1), (''emitted_at'', PStr now)] event) 420)
            (\<lambda>e. if is_oserror e then returnM () else raiseM e))"

definition publish_outcome ::
  "(string \<Rightarrow> string) \<Rightarrow> string \<Rightarrow> ppath option \<Rightarrow> ppath \<Rightarrow> pydict \<Rightarrow> pydict \<Rightarrow> (fs, unit) io" where
  "publish_outcome dig now spool log event record =
     (let payload = json_dumps_sorted (PDict record)
      in bindM (liftM (outcome_path_for log)) (\<lambda>path.
         bindM (fsM (fs_publish path payload 384)) (\<lambda>_.
           append_lifecycle now spool (dmerge event
             [(''phase'', PStr ''finished''), (''outcome'', pget record ''outcome''),
              (''exit_code'', pget record ''exit_code''),
              (''outcome_ref'', PDict [(''path'', PStr (path_str path)), (''sha256'', PStr (dig payload))])]))))"

definition refused_record ::
  "int \<Rightarrow> string option \<Rightarrow> ppath option \<Rightarrow> string option \<Rightarrow> pydict option \<Rightarrow> pydict" where
  "refused_record attempt unit scratch err request =
     [(''outcome'', PStr ''refused''), (''exit_code'', PInt REFUSED_EXIT_CODE), (''attempt'', PInt attempt)]
     @ (case unit of None \<Rightarrow> [] | Some u \<Rightarrow> [(''unit'', PStr u)])
     @ (case err of
          None \<Rightarrow> []
        | Some e \<Rightarrow>
            (case scratch of
               None \<Rightarrow> [(''unit_error'', PStr e)]
             | Some p \<Rightarrow> [(''scratch'', PDict [(''path'', PStr (path_str p)), (''cleanup_error'', PStr e)])]))
     @ (case request of Some (r # rs) \<Rightarrow> [(''cancellation'', PDict (r # rs))] | _ \<Rightarrow> [])"

end
