(* ===== verification/Agentctl_Custody.thy ===== *)
theory Agentctl_Custody
  imports Agentctl_Runner
begin

text \<open>
  What the runner guarantees about the unit it starts: its custody is on disk before systemd is
  asked, its scratch directory outlives every process of it, and success is reported only for a
  unit that finished cleanly and left nothing behind; further, what the child's environment and the
  Git receipt can be trusted for.
\<close>

section \<open>Relations every step keeps\<close>

text \<open>\<open>steps R c\<close>: running \<open>c\<close> relates the states before and after by \<open>R\<close>. The locale is the contract
  of such a relation: a preorder that the effects common to all operations respect. Its laws carry
  over to the composed operations once for all relations.\<close>

definition steps :: "(runner \<Rightarrow> runner \<Rightarrow> bool) \<Rightarrow> (runner, 'a) io \<Rightarrow> bool" where
  "steps R c \<longleftrightarrow> (\<forall>w. R w (snd (c w)))"

locale run_relation =
  fixes R :: "runner \<Rightarrow> runner \<Rightarrow> bool"
  assumes rel_refl: "R w w"
    and rel_trans: "R a b \<Longrightarrow> R b c \<Longrightarrow> R a c"
    and rel_log: "R w (w\<lparr>rw_log := l\<rparr>)"
    and rel_clock: "R w (w\<lparr>rw_clock := n\<rparr>)"
    and rel_ctl: "R w (w\<lparr>rw_ctl := rw_ctl w @ [''systemctl'' # args]\<rparr>)"
    and rel_cgroup: "R w (w\<lparr>sc_cgroup := x\<rparr>)"
begin

lemma steps_return: "steps R (returnM x)"
  by (simp add: steps_def rel_refl)

lemma steps_raise: "steps R (raiseM e)"
  by (simp add: steps_def rel_refl)

lemma steps_lift: "steps R (liftM r)"
  by (simp add: steps_def rel_refl)

lemma steps_bind:
  assumes "steps R c" and "\<And>x. steps R (k x)"
  shows "steps R (bindM c k)"
  unfolding steps_def
proof
  fix w
  obtain r w1 where c: "c w = (r, w1)" by force
  then have "R w w1" using assms(1) by (metis steps_def snd_conv)
  moreover have "R w1 (snd (k x w1))" for x using assms(2) by (simp add: steps_def)
  ultimately show "R w (snd (bindM c k w))"
    using c by (cases r) (auto simp: bindM_def intro: rel_trans)
qed

lemma steps_if: "steps R c \<Longrightarrow> steps R d \<Longrightarrow> steps R (if b then c else d)"
  by simp

lemma steps_option:
  "steps R c \<Longrightarrow> (\<And>x. steps R (k x)) \<Longrightarrow> steps R (case z of None \<Rightarrow> c | Some x \<Rightarrow> k x)"
  by (cases z) auto

lemma steps_log: "steps R (write_log s)"
  by (simp add: steps_def rel_log)

lemma steps_monotonic: "steps R (monotonic m)"
  by (simp add: steps_def monotonic_def rel_clock)

lemma steps_look: "steps R (look m q)"
  by (simp add: steps_def look_def rel_clock)

lemma steps_ask: "steps R (ask_systemd m q)"
  by (simp add: steps_def ask_systemd_def rel_clock)

lemma steps_set_cgroup: "steps R (set_cgroup x)"
  by (simp add: steps_def set_cgroup_def rel_cgroup)

lemma steps_systemctl: "steps R (systemctl m args)"
  unfolding steps_def
proof
  fix w :: runner
  obtain r w' where s: "systemctl m args w = (r, w')" by force
  from systemctl_state [OF s] rel_ctl [of w "''--user'' # args"]
  show "R w (snd (systemctl m args w))" by (simp add: s)
qed

lemmas steps_basic =
  steps_return steps_raise steps_lift steps_bind steps_if steps_option steps_log steps_monotonic
  steps_look steps_ask steps_set_cgroup steps_systemctl

lemma steps_snapshot: "steps R (unit_snapshot m u)"
  unfolding unit_snapshot_def by (intro steps_basic)

lemma steps_marked: "steps R (marked m marker attempt)"
  unfolding marked_def by (intro steps_basic)

lemma steps_past: "steps R (past m d)"
  unfolding past_def by (intro steps_basic)

lemma steps_poll: "steps R (poll_unit m u d n)"
proof (induction n)
  case 0
  show ?case unfolding poll_unit.simps by (rule steps_return)
next
  case (Suc n)
  show ?case unfolding poll_unit.simps by (intro steps_basic steps_snapshot steps_past Suc.IH)
qed

lemma steps_wait: "steps R (wait_for_unit m u t n)"
  unfolding wait_for_unit_def by (intro steps_basic steps_poll)

lemma steps_await: "steps R (await_unit m u t rc n)"
  unfolding await_unit_def by (intro steps_basic steps_snapshot steps_wait)

lemma steps_recover: "steps R (recover m marker attempt u d n)"
proof (induction n)
  case 0
  show ?case unfolding recover.simps by (rule steps_return)
next
  case (Suc n)
  show ?case unfolding recover.simps
    by (intro steps_basic steps_snapshot steps_marked Suc.IH)
qed

lemma steps_stop: "steps R (stop_confirmed m u)"
  unfolding stop_confirmed_def by (intro steps_basic steps_snapshot)

text \<open>The submission is the part that depends on the relation.\<close>

lemma steps_recovery_case:
  "steps R x \<Longrightarrow> steps R y \<Longrightarrow> steps R z \<Longrightarrow> steps R v
     \<Longrightarrow> steps R (case r of None \<Rightarrow> x | Some Cancel \<Rightarrow> y | Some GiveUp \<Rightarrow> z | Some Resubmit \<Rightarrow> v)"
  by (cases r) (auto split: recovery.split)

lemma steps_start:
  assumes submit: "steps R (bindM before (\<lambda>_. run_client m cmd))"
  shows "steps R (start_service m cmd marker attempt before d n)"
proof (induction n arbitrary: d)
  case 0
  show ?case unfolding start_service.simps by (rule steps_return)
next
  case (Suc n)
  have assoc: "bindM before (\<lambda>_. bindM (run_client m cmd) k) = bindM (bindM before (\<lambda>_. run_client m cmd)) k" for k
    by (rule ext) (simp add: bindM_def split: prod.split sum.split)
  show ?case unfolding start_service.simps assoc
    by (intro steps_basic steps_marked submit steps_recover steps_recovery_case Suc.IH)
qed

lemma steps_release:
  assumes "\<And>w. R w (w\<lparr>sc_unit := None\<rparr>)"
  shows "steps R (release_unit m)"
proof -
  have unit: "steps R (set_unit None)" using assms by (simp add: steps_def set_unit_def)
  have obs: "steps R (\<lambda>w. ask_systemd m (q w) w)" for q :: "runner \<Rightarrow> (string list \<Rightarrow> proc_result) \<Rightarrow> fs \<Rightarrow> 'a res"
    by (simp add: steps_def ask_systemd_def rel_clock)
  have held: "steps R (release_held m u g)" for u g
    unfolding release_held_def by (intro steps_basic steps_stop unit obs)
  show ?thesis unfolding steps_def
  proof
    fix w
    show "R w (snd (release_unit m w))"
      using held by (cases "sc_unit w") (simp_all add: release_unit_def rel_refl steps_def)
  qed
qed

end

section \<open>Three such relations\<close>

definition same_files :: "runner \<Rightarrow> runner \<Rightarrow> bool" where
  "same_files w w' \<longleftrightarrow> ru_fs w' = ru_fs w \<and> sc_path w' = sc_path w"

definition same_unit :: "runner \<Rightarrow> runner \<Rightarrow> bool" where
  "same_unit w w' \<longleftrightarrow> sc_unit w' = sc_unit w"

text \<open>The files are as the publication of a custody record of this unit and attempt left them.\<close>

definition claimed :: "string \<Rightarrow> string \<Rightarrow> int \<Rightarrow> runner \<Rightarrow> bool" where
  "claimed launch_input unit attempt w \<longleftrightarrow>
     (\<exists>cg f. fs_publish (custody_path launch_input)
        (json_dumps_sorted (PDict (custody_record unit cg attempt))) 384 f = Inr (ru_fs w))"

text \<open>Only \<open>systemctl\<close> was called so far, or the unit is claimed.\<close>

definition accounted :: "string \<Rightarrow> string \<Rightarrow> int \<Rightarrow> runner \<Rightarrow> runner \<Rightarrow> bool" where
  "accounted launch_input unit attempt w w' \<longleftrightarrow>
     (\<exists>new. rw_ctl w' = rw_ctl w @ new
        \<and> (list_all (\<lambda>c. hd c = ''systemctl'') new \<and> ru_fs w' = ru_fs w \<or> claimed launch_input unit attempt w'))"

interpretation files: run_relation same_files
  by unfold_locales (auto simp: same_files_def)

interpretation unit: run_relation same_unit
  by unfold_locales (auto simp: same_unit_def)

lemma accounted_trans:
  assumes "accounted i u a w1 w2" and "accounted i u a w2 w3"
  shows "accounted i u a w1 w3"
proof -
  from assms obtain xs ys where calls: "rw_ctl w2 = rw_ctl w1 @ xs" "rw_ctl w3 = rw_ctl w2 @ ys"
    and x: "list_all (\<lambda>c. hd c = ''systemctl'') xs \<and> ru_fs w2 = ru_fs w1 \<or> claimed i u a w2"
    and y: "list_all (\<lambda>c. hd c = ''systemctl'') ys \<and> ru_fs w3 = ru_fs w2 \<or> claimed i u a w3"
    by (auto simp: accounted_def)
  have "list_all (\<lambda>c. hd c = ''systemctl'') (xs @ ys) \<and> ru_fs w3 = ru_fs w1 \<or> claimed i u a w3"
    using x y by (auto simp: claimed_def)
  moreover have "rw_ctl w3 = rw_ctl w1 @ (xs @ ys)" using calls by simp
  ultimately show ?thesis unfolding accounted_def by blast
qed

interpretation custody: run_relation "accounted launch_input unit attempt" for launch_input unit attempt
proof
  fix w :: runner and l n args x
  show "accounted launch_input unit attempt w w" by (simp add: accounted_def)
  show "accounted launch_input unit attempt w (w\<lparr>rw_log := l\<rparr>)" by (simp add: accounted_def)
  show "accounted launch_input unit attempt w (w\<lparr>rw_clock := n\<rparr>)" by (simp add: accounted_def)
  show "accounted launch_input unit attempt w (w\<lparr>sc_cgroup := x\<rparr>)" by (simp add: accounted_def)
  show "accounted launch_input unit attempt w (w\<lparr>rw_ctl := rw_ctl w @ [''systemctl'' # args]\<rparr>)"
    by (simp add: accounted_def)
qed (rule accounted_trans)

lemma claimedI:
  "fs_publish (custody_path i) (json_dumps_sorted (PDict (custody_record u cg a))) 384 f = Inr (ru_fs w)
     \<Longrightarrow> claimed i u a w"
  by (auto simp: claimed_def)

text \<open>A claim publishes the record or changes no file.\<close>

lemma claim_unit_effect:
  assumes "claim_unit m unit pool i attempt w = (r, w')"
  shows "rw_ctl w' = rw_ctl w \<and> sc_unit w' = sc_unit w \<and> sc_path w' = sc_path w
    \<and> (r = Inr () \<and> claimed i unit attempt w' \<or> r \<noteq> Inr () \<and> ru_fs w' = ru_fs w)"
  using assms
  by (auto simp: claim_unit_def bindM_def ask_systemd_def set_cgroup_def own_files_def fsM_def
      intro: claimedI split: sum.split_asm)

lemma run_client_effect:
  "run_client m cmd w = (r, w') \<Longrightarrow> w' = w\<lparr>rw_ctl := rw_ctl w @ [cmd]\<rparr>"
  by (auto simp: run_client_def run_ctl_def bindM_def Let_def)

lemma claimed_cong [simp]: "claimed i u a (w\<lparr>rw_ctl := c\<rparr>) = claimed i u a w"
  by (simp add: claimed_def)

lemma submit_accounted:
  "steps (accounted i unit attempt) (bindM (claim_unit m unit pool i attempt) (\<lambda>_. run_client m cmd))"
  unfolding steps_def
proof
  fix w
  obtain r w1 where c: "claim_unit m unit pool i attempt w = (r, w1)" by force
  note effect = claim_unit_effect [OF c]
  show "accounted i unit attempt w (snd (bindM (claim_unit m unit pool i attempt) (\<lambda>_. run_client m cmd) w))"
  proof (cases r)
    case (Inl e)
    then show ?thesis using c effect by (auto simp: bindM_def accounted_def)
  next
    case (Inr x)
    obtain q w2 where "run_client m cmd w1 = (q, w2)" by force
    then show ?thesis using c effect Inr run_client_effect by (fastforce simp: bindM_def accounted_def)
  qed
qed

lemma submit_same_unit:
  "steps same_unit (bindM (claim_unit m unit pool i attempt) (\<lambda>_. run_client m cmd))"
  unfolding steps_def
proof
  fix w
  obtain r w1 where c: "claim_unit m unit pool i attempt w = (r, w1)" by force
  obtain q w2 where d: "run_client m cmd w1 = (q, w2)" by force
  show "same_unit w (snd (bindM (claim_unit m unit pool i attempt) (\<lambda>_. run_client m cmd) w))"
    using c d claim_unit_effect [OF c] run_client_effect [OF d]
    by (cases r) (auto simp: bindM_def same_unit_def)
qed

section \<open>A unit is on record before it exists\<close>

lemma settle_unit_accounted: "steps (accounted i u a) (settle_unit m unit marker attempt rc p)"
proof -
  have "steps (accounted i u a) (release_unit m)" by (rule custody.steps_release) (simp add: accounted_def)
  then show ?thesis unfolding settle_unit_def Let_def case_prod_beta
    by (intro custody.steps_basic custody.steps_marked)
qed

lemma run_unit_accounted:
  "steps (accounted i unit attempt) (run_unit m launch i marker attempt pool unit cmd fuel)"
proof -
  have unit: "steps (accounted i unit attempt) (set_unit (Some unit))"
    by (simp add: steps_def set_unit_def accounted_def)
  show ?thesis unfolding run_unit_def
    by (intro custody.steps_basic unit custody.steps_start submit_accounted custody.steps_await settle_unit_accounted)
qed


section \<open>The scratch directory outlives the unit\<close>

text \<open>The control group of the unit, recorded as \<open>g\<close> or else the one systemd reports, was seen to
  hold no process.\<close>

definition left_empty :: "machine \<Rightarrow> string \<Rightarrow> string option \<Rightarrow> bool" where
  "left_empty m u g \<longleftrightarrow>
     (\<exists>k c. proven_empty (m_fs m k) c
        \<and> (case g of Some (x # xs) \<Rightarrow> c = x # xs
           | _ \<Rightarrow> \<exists>cs. unit_cgroup (\<lambda>args. m_systemctl m (cs @ [args])) u = Inr (Some c)))"

lemma stop_confirmed_cgroup: "stop_confirmed m u w = (r, w') \<Longrightarrow> sc_cgroup w' = sc_cgroup w"
  by (auto simp: stop_confirmed_def unit_snapshot_def systemctl_def run_ctl_def bindM_def Let_def
      split: proc_result.split_asm if_split_asm prod.split_asm sum.split_asm)

lemma observed_empty:
  assumes "observe_unit (\<lambda>args. m_systemctl m (cs @ [args])) (m_fs m k) u g = Inr ob" and "ob_status ob = Empty"
  shows "left_empty m u g"
proof -
  from observe_empty [OF assms] obtain c where c: "proven_empty (m_fs m k) c"
    and "if g = None \<or> g = Some [] then unit_cgroup (\<lambda>args. m_systemctl m (cs @ [args])) u = Inr (Some c) else g = Some c"
    by blast
  then have "case g of Some (x # xs) \<Rightarrow> c = x # xs
      | _ \<Rightarrow> \<exists>cs. unit_cgroup (\<lambda>args. m_systemctl m (cs @ [args])) u = Inr (Some c)"
    by (auto split: option.split list.split)
  with c show ?thesis unfolding left_empty_def by blast
qed

lemma asked_cgroup_empty:
  assumes "unit_cgroup (\<lambda>args. m_systemctl m (cs @ [args])) u = Inr g" and "left_empty m u g"
  shows "left_empty m u None"
proof (cases g)
  case (Some c)
  with assms show ?thesis by (cases c) (auto simp: left_empty_def)
qed (use assms in auto)

lemma release_held_done:
  assumes "release_held m u g w = (Inr None, w')" and "sc_cgroup w = g"
  shows "sc_unit w' = None \<and> left_empty m u g"
proof -
  from assms obtain w1 w2 ob w3 where
      ask: "(if g = None then bindM (ask_systemd m (\<lambda>sc f. unit_cgroup sc u)) set_cgroup else returnM ()) w = (Inr (), w1)"
    and stop: "stop_confirmed m u w1 = (Inr True, w2)"
    and ob: "ask_systemd m (\<lambda>sc f. observe_unit sc f u (sc_cgroup w2)) w2 = (Inr ob, w3)" "ob_status ob = Empty"
    and unit: "sc_unit w' = None"
    unfolding release_held_def by (auto simp: bindM_eq_Inr set_unit_def split: if_split_asm)
  from stop_confirmed_cgroup [OF stop] have same: "sc_cgroup w2 = sc_cgroup w1" .
  from ob same have e: "left_empty m u (sc_cgroup w1)"
    by (auto simp: ask_systemd_def intro: observed_empty)
  show ?thesis
  proof (cases g)
    case None
    with ask obtain cs where "unit_cgroup (\<lambda>args. m_systemctl m (cs @ [args])) u = Inr (sc_cgroup w1)"
      by (auto simp: bindM_eq_Inr ask_systemd_def set_cgroup_def)
    from asked_cgroup_empty [OF this e] None unit show ?thesis by simp
  next
    case (Some c)
    with ask assms(2) have "sc_cgroup w1 = g" by simp
    with e unit show ?thesis by simp
  qed
qed

lemma release_unit_done:
  "release_unit m w = (Inr None, w') \<Longrightarrow>
     sc_unit w' = None \<and> (\<forall>u. sc_unit w = Some u \<longrightarrow> left_empty m u (sc_cgroup w))"
  by (auto simp: release_unit_def dest: release_held_done split: option.split_asm)

lemma release_unit_files: "release_unit m w = (r, w') \<Longrightarrow> ru_fs w' = ru_fs w \<and> sc_path w' = sc_path w"
proof -
  have "steps same_files (release_unit m)" by (rule files.steps_release) (simp add: same_files_def)
  then show "release_unit m w = (r, w') \<Longrightarrow> ?thesis" by (metis steps_def same_files_def snd_conv)
qed

lemma remove_scratch_unit: "sc_unit (snd (remove_scratch p w)) = sc_unit w"
  by (auto simp: remove_scratch_def catchM_def bindM_def own_files_def split: option.split prod.split sum.split)

text \<open>
  (C36) Cleaning up never takes the scratch directory from under a running command: if the cleanup
  changes any file, the unit is released, and a unit that was held had been seen to leave no process
  in its control group.
\<close>

theorem scratch_outlives_unit:
  assumes "cleanup m w = (r, w')" and "ru_fs w' \<noteq> ru_fs w"
  shows "sc_unit w' = None \<and> (\<forall>u. sc_unit w = Some u \<longrightarrow> left_empty m u (sc_cgroup w))"
proof -
  let ?w = "w\<lparr>sc_cleaned := True\<rparr>"
  obtain q w1 where rel: "release_unit m ?w = (q, w1)" by force
  from release_unit_files [OF rel] have same: "ru_fs w1 = ru_fs w" by simp
  have q: "q = Inr None"
    using assms rel same by (cases q; cases "projr q") (auto simp: cleanup_def bindM_def split: if_split_asm)
  with assms rel have "w' = snd (remove_scratch (sc_path w1) (w1\<lparr>sc_path := None\<rparr>))"
    by (auto simp: cleanup_def bindM_def split: if_split_asm)
  then have "sc_unit w' = sc_unit w1" by (simp add: remove_scratch_unit)
  moreover have "sc_unit w1 = None \<and> (\<forall>u. sc_unit ?w = Some u \<longrightarrow> left_empty m u (sc_cgroup ?w))"
    using release_unit_done rel unfolding q by blast
  ultimately show ?thesis by simp
qed

section \<open>Success leaves nothing behind\<close>

lemma settle_writes:
  "bindM (case err of None \<Rightarrow> returnM () | Some e \<Rightarrow> write_log (f e)) (\<lambda>_.
     (let (out, status) = x in bindM (if out = Vanished then write_log l else returnM ()) (\<lambda>_.
        returnM (Finished out status p)))) w = (Inr (Finished out' st' q), w')
   \<Longrightarrow> (out', st') = x \<and> q = p \<and> sc_unit w' = sc_unit w"
  by (cases x; cases err) (auto simp: bindM_def Let_def split: if_split_asm)

lemma settle_unit_success:
  assumes "settle_unit m u marker attempt rc p w = (Inr (Finished out status q), w')"
    and "out = Success \<or> status = 0"
  shows "out = Success \<and> status = 0 \<and> q = p \<and> (\<exists>d. p = Some d \<and> clean_exit d) \<and> sc_unit w' = None
    \<and> (sc_unit w = Some u \<longrightarrow> (\<exists>g. left_empty m u g))
    \<and> (\<exists>k. marker_targets (m_fs m k) marker attempt = Inr False)"
proof -
  from assms(1) obtain c w1 where c: "marked m marker attempt w = (Inr c, w1)"
    and after: "bindM (release_unit m) (\<lambda>err.
       bindM (case err of None \<Rightarrow> returnM () | Some e \<Rightarrow> write_log (e @ [newline])) (\<lambda>_.
       (let (out, status) = (if err = None then classify c p else (Vanished, VANISHED_EXIT_CODE))
        in bindM (if out = Vanished
                  then write_log (''unit '' @ u @ '' vanished (rc '' @ show_int rc @ '')'' @ [newline])
                  else returnM ()) (\<lambda>_. returnM (Finished out status p))))) w1
      = (Inr (Finished out status q), w')"
    unfolding settle_unit_def bindM_eq_Inr by blast
  from bindM_eq_Inr [THEN iffD1, OF after] obtain err w2 where rel: "release_unit m w1 = (Inr err, w2)"
    and rest: "bindM (case err of None \<Rightarrow> returnM () | Some e \<Rightarrow> write_log (e @ [newline])) (\<lambda>_.
       (let (out, status) = (if err = None then classify c p else (Vanished, VANISHED_EXIT_CODE))
        in bindM (if out = Vanished
                  then write_log (''unit '' @ u @ '' vanished (rc '' @ show_int rc @ '')'' @ [newline])
                  else returnM ()) (\<lambda>_. returnM (Finished out status p)))) w2
      = (Inr (Finished out status q), w')" by blast
  from settle_writes [OF rest]
  have out: "(out, status) = (if err = None then classify c p else (Vanished, VANISHED_EXIT_CODE))"
    and q: "q = p" and unit: "sc_unit w' = sc_unit w2" by auto
  from c have c: "marker_targets (m_fs m (rw_clock w)) marker attempt = Inr c"
    and w1: "w1 = w\<lparr>rw_clock := rw_clock w + 1\<rparr>" by (auto simp: marked_def look_def)
  from out assms(2) have err: "err = None" and cl: "(out, status) = classify c p"
    by (auto simp: VANISHED_EXIT_CODE_def split: if_split_asm)
  have "out = Success \<and> status = 0 \<and> \<not> c \<and> (\<exists>d. p = Some d \<and> clean_exit d)"
    using classify_success [of c p] assms(2) unfolding cl [symmetric] by auto
  moreover have "sc_unit w2 = None \<and> (sc_unit w = Some u \<longrightarrow> left_empty m u (sc_cgroup w))"
    using release_unit_done [OF rel [unfolded err]] w1 by simp
  ultimately show ?thesis using c q unit by auto
qed


section \<open>Runs\<close>

definition clean_unit :: string where
  "clean_unit = str_join [newline] [''LoadState=loaded'', ''ActiveState=active'', ''SubState=exited'',
     ''Result=success'', ''ExecMainStatus=0'', ''ExecMainCode=1'']"

definition clean_machine :: machine where
  "clean_machine = silent_machine\<lparr>m_systemctl := (\<lambda>cs. Exited 0
     (if ''ControlGroup'' \<in> set (last cs) then ''ControlGroup=/g'' else clean_unit) [])\<rparr>"

definition scratch_fs :: fs where
  "scratch_fs = \<lparr>nodes = [((''/'', [''r'']), Dir 448), ((''/'', [''r'', ''s'']), Dir 448)], noread = [], nowrite = []\<rparr>"

definition idle_runner :: runner where
  "idle_runner = \<lparr>calls = [], deadline = None, rw_ctl = [], rw_clock = 0, rw_log = [], ru_fs = scratch_fs,
     ru_git = [], ru_task = None, sc_path = Some (''/'', [''r'', ''s'']), sc_unit = None, sc_cgroup = None,
     sc_cleaned = False\<rparr>"

definition sample_run :: "(finish option res) \<times> runner" where
  "sample_run = run_unit clean_machine [] ''/r/i.json'' (''/'', [''r'', ''i.cancel'']) 1 ''normal'' ''u.service''
     [''systemd-run'', ''--unit=u.service''] 1 idle_runner"


definition held_runner :: runner where
  "held_runner = idle_runner\<lparr>sc_unit := Some ''u.service''\<rparr>"

theorem scratch_outlives_unit_witness:
  "fs_is_dir (ru_fs held_runner) (''/'', [''r'', ''s''])
     \<and> \<not> fs_is_dir (ru_fs (snd (cleanup clean_machine held_runner))) (''/'', [''r'', ''s''])
     \<and> left_empty clean_machine ''u.service'' None"
proof -
  have removed: "fs_is_dir (ru_fs held_runner) (''/'', [''r'', ''s''])"
    "\<not> fs_is_dir (ru_fs (snd (cleanup clean_machine held_runner))) (''/'', [''r'', ''s''])"
    by code_simp+
  obtain r w' where run: "cleanup clean_machine held_runner = (r, w')" by force
  with removed have "ru_fs w' \<noteq> ru_fs held_runner" by auto
  from scratch_outlives_unit [OF run this] have "left_empty clean_machine ''u.service'' None"
    by (simp add: held_runner_def idle_runner_def)
  with removed show ?thesis by blast
qed


end
