(* ===== verification/Agentctl_Evidence.thy ===== *)
theory Agentctl_Evidence
  imports Agentctl_Runner
begin

text \<open>
  What a run can be trusted to say: the provenance its child process is given, and the Git receipt
  that compares the checkout before and after.
\<close>

section \<open>Provenance of the child\<close>

lemma dget_opt_set: "dget (opt_set k v d) k' = (if k' = k \<and> v \<noteq> None then v else dget d k')"
  by (auto simp: opt_set_def dget_dset split: option.split)

definition provenance_keys :: "string list" where
  "provenance_keys = map (\<lambda>k. ''AGENTCTL_'' @ k) PROVENANCE"

lemma dget_dpops: "dget (foldl (\<lambda>e k. dpop (f k) e) d ks) k = (if k \<in> f ` set ks then None else dget d k)"
  by (induction ks arbitrary: d) (auto simp: dget_dpop)

text \<open>Where a variable comes from.\<close>

lemma child_environment_dget:
  "dget (child_environment launch secrets checkout head pool scratch) k =
    (if scratch \<noteq> None \<and> k \<in> {''TMPDIR'', ''DEVKIT_SCRATCH'', ''AGENTCTL_SCRATCH''} then map_option path_str scratch
     else if k = ''DEVKIT_SCRATCH'' then None
     else if k = ''AGENTCTL_POOL'' \<and> pool \<noteq> None then pool
     else if k = ''AGENTCTL_CHECKOUT_HEAD'' \<and> nonempty_str head \<noteq> None then nonempty_str head
     else if k = ''AGENTCTL_CHECKOUT_ID'' \<and> checkout \<noteq> None then checkout
     else (case dget (rev (own_provenance launch)) k of Some v \<Rightarrow> Some v
       | None \<Rightarrow> if k \<in> set provenance_keys then None
           else (case dget (rev secrets) k of Some v \<Rightarrow> Some v
             | None \<Rightarrow> dget (str_items (pget launch ''environment'')) k)))"
  by (cases scratch)
    (simp_all only: child_environment_def Let_def option.case dget_dset dget_dpop dget_dmerge dget_dpops
      dget_opt_set provenance_keys_def set_map option.distinct simp_thms insert_iff empty_iff option.map
      if_True if_False, auto split: option.split)

lemma provenance_keys_members:
  "''AGENTCTL_CHECKOUT_ID'' \<in> set provenance_keys" "''AGENTCTL_CHECKOUT_HEAD'' \<in> set provenance_keys"
  by (simp_all add: provenance_keys_def PROVENANCE_def)


section \<open>The Git receipt\<close>

lemma git_probe_result:
  "git_probe g cwd args allow w = (Inr (v, e), w') \<Longrightarrow> (case e of None \<Rightarrow> \<exists>s. v = Some s | Some x \<Rightarrow> v = None)"
  by (auto simp: git_probe_def bindM_def run_git_def Let_def split: proc_result.split_asm if_split_asm)

text \<open>An observation that calls itself observed holds its head, its tree and whether the checkout
  was dirty, and for a dirty one the tree of its content.\<close>

definition complete_observation :: "pydict \<Rightarrow> bool" where
  "complete_observation ob \<longleftrightarrow> is_str (pget ob ''head'') \<and> is_str (pget ob ''tree'')
     \<and> (pget ob ''dirty'' = PBool False \<or> pget ob ''dirty'' = PBool True \<and> is_str (pget ob ''content_tree''))"

lemma observation_of_fields:
  "pget (observation_of now h t dirty e c) ''head'' = str_or_none (fst h)"
  "pget (observation_of now h t dirty e c) ''tree'' = str_or_none (fst t)"
  "pget (observation_of now h t dirty e c) ''dirty'' = dirty"
  "pget (observation_of now h t dirty e (Some x)) ''content_tree'' = str_or_none x"
  by (simp_all add: observation_of_def pget_def Let_def)

lemma observation_of_status:
  "pget (observation_of now h t dirty e c) ''status'' = PStr ''observed''
     \<longleftrightarrow> snd h = None \<and> snd t = None \<and> e = None \<and> c \<noteq> Some None"
  by (cases c) (simp_all add: observation_of_def pget_def Let_def git_failures_def)

lemma observation_of_complete:
  assumes "pget (observation_of now (head, e1) (tree, e2) dirty e3 content) ''status'' = PStr ''observed''"
    and "e1 = None \<Longrightarrow> head \<noteq> None" and "e2 = None \<Longrightarrow> tree \<noteq> None"
    and "e3 = None \<Longrightarrow> dirty = PBool (content \<noteq> None)"
  shows "complete_observation (observation_of now (head, e1) (tree, e2) dirty e3 content)"
proof -
  from assms obtain h t where known: "head = Some h" "tree = Some t" "dirty = PBool (content \<noteq> None)" "content \<noteq> Some None"
    unfolding observation_of_status by auto
  show ?thesis
  proof (cases content)
    case None
    with known show ?thesis by (simp add: complete_observation_def observation_of_fields str_or_none_def)
  next
    case (Some c)
    with known obtain x where "c = Some x" by auto
    with Some known show ?thesis by (simp add: complete_observation_def observation_of_fields str_or_none_def)
  qed
qed

definition last_observation ::
  "machine \<Rightarrow> git \<Rightarrow> string \<Rightarrow> ppath \<Rightarrow> string option \<times> string option \<Rightarrow> string option \<times> string option
     \<Rightarrow> string option \<times> string option \<Rightarrow> (runner, pydict) io" where
  "last_observation m g now cwd head tree = (\<lambda>(changes, e).
     (let dirty = (if e \<noteq> None then PNone else PBool (changes \<noteq> None \<and> changes \<noteq> Some []))
      in bindM (if dirty = PBool True then bindM (content_tree m g cwd) (\<lambda>c. returnM (Some c)) else returnM None)
           (\<lambda>content. returnM (observation_of now head tree dirty e content))))"

lemma last_observation_shape:
  assumes "last_observation m g now cwd head tree x w = (Inr ob, w')"
  shows "\<exists>dirty e content. ob = observation_of now head tree dirty e content
    \<and> (e = None \<longrightarrow> dirty = PBool (content \<noteq> None))"
proof (cases "snd x = None \<and> fst x \<noteq> None \<and> fst x \<noteq> Some []")
  case True
  then show ?thesis using assms by (cases x) (auto simp: last_observation_def bindM_eq_Inr Let_def)
next
  case False
  then have "ob = observation_of now head tree (if snd x \<noteq> None then PNone else PBool False) (snd x) None"
    using assms by (cases x) (auto simp: last_observation_def bindM_eq_Inr Let_def split: if_split_asm)
  then show ?thesis by (cases "snd x") auto
qed

lemma git_observation_complete:
  assumes "git_observation m g now cwd w = (Inr ob, w')" and "pget ob ''status'' = PStr ''observed''"
  shows "complete_observation ob"
proof -
  from assms(1) [unfolded git_observation_def, THEN bindM_eq_Inr [THEN iffD1]] obtain h w1 where
      p1: "git_probe g cwd [''rev-parse'', ''HEAD''] False w = (Inr h, w1)"
    and r1: "bindM (git_probe g cwd [''rev-parse'', ''HEAD^{tree}''] False) (\<lambda>tree.
      bindM (git_probe g cwd [''status'', ''--porcelain=v1'', ''--untracked-files=all''] True) (last_observation m g now cwd h tree)) w1
      = (Inr ob, w')" unfolding last_observation_def by blast
  from bindM_eq_Inr [THEN iffD1, OF r1] obtain k w2 where
      p2: "git_probe g cwd [''rev-parse'', ''HEAD^{tree}''] False w1 = (Inr k, w2)"
    and r2: "bindM (git_probe g cwd [''status'', ''--porcelain=v1'', ''--untracked-files=all''] True)
      (last_observation m g now cwd h k) w2 = (Inr ob, w')" by blast
  from bindM_eq_Inr [THEN iffD1, OF r2] obtain x w3 where
    r3: "last_observation m g now cwd h k x w3 = (Inr ob, w')" by blast
  obtain head e1 where h: "h = (head, e1)" by force
  obtain tree e2 where k: "k = (tree, e2)" by force
  from last_observation_shape [OF r3] obtain dirty e3 content where
    ob: "ob = observation_of now (head, e1) (tree, e2) dirty e3 content"
    and dirty: "e3 = None \<Longrightarrow> dirty = PBool (content \<noteq> None)" unfolding h k by blast
  note p1 = p1 [unfolded h] and p2 = p2 [unfolded k]
  show ?thesis unfolding ob
    using git_probe_result [OF p1] git_probe_result [OF p2] assms(2) ob dirty
    by (intro observation_of_complete) auto
qed

lemma bool_floats: "\<not> float_eq (float_of_int 0) (float_of_int 1)" "\<not> float_eq (float_of_int 1) (float_of_int 0)"
  by code_simp+


definition quiet_git :: git where
  "quiet_git cs = Exited 0 (if ''status'' \<in> set (last cs) then [] else ''4b825dc'') []"

definition fresh_runner :: runner where
  "fresh_runner = \<lparr>calls = [], deadline = None, rw_ctl = [], rw_clock = 0, rw_log = [],
     ru_fs = m_fs silent_machine 0, ru_git = [], ru_task = None, sc_path = None, sc_unit = None, sc_cgroup = None,
     sc_cleaned = False\<rparr>"

definition quiet_observation :: "pydict res \<times> runner" where
  "quiet_observation = git_observation silent_machine quiet_git ''2026-01-01T00:00:00Z'' (mkpath ''/w'') fresh_runner"


end
