(* ===== verification/Agentctl_Host.thy ===== *)
theory Agentctl_Host
  imports Agentctl_Wait Agentctl_Runner
begin

text \<open>
  The world of the operations that change jobs: the calls of the queue, of systemd and of Git, and
  files that this program and others write. The files are state; what the others do to them between
  two of this program's operations is \<open>h_env\<close>, a function of time. A query of \<open>Agentctl_Queries\<close>
  runs in this world as it is: it sees the files as they are at each of its observations.
\<close>

record lworld = rworld +
  lw_fs :: fs
  lw_git :: "string list list"

text \<open>\<open>h_lock_free\<close>: the bounded wait for the admission lock that starts at this moment gets it.
  \<open>h_stranded\<close>: a file exists, is new since the call began, and no process holds it;
  \<open>h_abandoned\<close>: it has existed for some seconds and no process holds it;
  \<open>h_lock_state\<close>: the inode of a file and the time it was written, nothing where it is absent.\<close>

record host =
  h_sys :: machine
  h_env :: "nat \<Rightarrow> fs \<Rightarrow> fs"
  h_git :: git
  h_ctx :: ctx
  h_stamp :: "nat \<Rightarrow> string"
  h_lock_free :: "nat \<Rightarrow> bool"
  h_stranded :: "nat \<Rightarrow> ppath \<Rightarrow> bool"
  h_abandoned :: "nat \<Rightarrow> ppath \<Rightarrow> bool"
  h_lock_state :: "nat \<Rightarrow> ppath \<Rightarrow> (int \<times> int) option"

abbreviation h_daemon :: "host \<Rightarrow> daemon" where
  "h_daemon h \<equiv> m_pueue (h_sys h)"

text \<open>One moment passes.\<close>

definition pass :: "host \<Rightarrow> lworld \<Rightarrow> lworld" where
  "pass h w = w\<lparr>lw_fs := h_env h (rw_clock w) (lw_fs w), rw_clock := rw_clock w + 1\<rparr>"

text \<open>The files as they will be at a later moment if this program does nothing.\<close>

definition seen :: "host \<Rightarrow> lworld \<Rightarrow> nat \<Rightarrow> fs" where
  "seen h w n = fold (h_env h) [rw_clock w ..< n] (lw_fs w)"

definition peek :: "host \<Rightarrow> (fs \<Rightarrow> 'a res) \<Rightarrow> (lworld, 'a) io" where
  "peek h g w = (g (lw_fs w), pass h w)"

definition edit :: "host \<Rightarrow> (fs, 'a) io \<Rightarrow> (lworld, 'a) io" where
  "edit h c w = (case c (lw_fs w) of (r, f') \<Rightarrow> (r, pass h (w\<lparr>lw_fs := f'\<rparr>)))"

definition ask :: "host \<Rightarrow> (machine \<Rightarrow> (rworld, 'a) io) \<Rightarrow> (lworld, 'a) io" where
  "ask h c w =
     (case c (h_sys h\<lparr>m_fs := seen h w\<rparr>) (rworld.truncate w) of
        (r, v) \<Rightarrow> (r, w\<lparr>calls := calls v, deadline := deadline v, rw_ctl := rw_ctl v, rw_log := rw_log v,
                        rw_clock := rw_clock v, lw_fs := seen h w (rw_clock v)\<rparr>))"

text \<open>A question to systemd about one property together with a look at the files.\<close>

definition consult :: "host \<Rightarrow> ((string list \<Rightarrow> proc_result) \<Rightarrow> fs \<Rightarrow> 'a res) \<Rightarrow> (lworld, 'a) io" where
  "consult h q w = (q (\<lambda>args. m_systemctl (h_sys h) (rw_ctl w @ [args])) (lw_fs w), pass h w)"

definition stamp_now :: "host \<Rightarrow> (lworld, string) io" where
  "stamp_now h w = (Inr (h_stamp h (rw_clock w)), pass h w)"

definition clock_now :: "host \<Rightarrow> (lworld, pyfloat) io" where
  "clock_now h w = (Inr (m_mono (h_sys h) (rw_clock w)), pass h w)"

definition env_var :: "host \<Rightarrow> string \<Rightarrow> string option" where
  "env_var h k = dget (c_env (h_ctx h)) k"

text \<open>\<open>open("a")\<close> of a lock file, and the advisory event that \<open>append_event\<close> writes.\<close>

definition touch :: "ppath \<Rightarrow> fs \<Rightarrow> fs res" where
  "touch p f = bindE (open_append 420 p f) (\<lambda>(q, b). Inr (fs_put q (RegFile b (file_mode f q 420)) f))"

definition publish_event :: "host \<Rightarrow> ppath \<Rightarrow> pydict \<Rightarrow> (lworld, unit) io" where
  "publish_event h spool event =
     bindM (stamp_now h) (\<lambda>now. edit h (append_lifecycle now (Some spool) event))"

section \<open>What these operations ask of the queue\<close>

text \<open>Time, files and questions to systemd make no call of the queue, and a query makes reads only.\<close>

lemma calls_pass [simp]: "calls (pass h w) = calls w" "deadline (pass h w) = deadline w"
  by (simp_all add: pass_def)

lemma peek_op: "pueue_op P (peek h g)"
  by unfold_locales (simp_all add: peek_def)

lemma edit_op: "pueue_op P (edit h c)"
  by unfold_locales (auto simp: edit_def split: prod.split)

lemma consult_op: "pueue_op P (consult h q)"
  by unfold_locales (simp_all add: consult_def)

lemma stamp_op: "pueue_op P (stamp_now h)"
  by unfold_locales (simp_all add: stamp_now_def)

lemma clock_op: "pueue_op P (clock_now h)"
  by unfold_locales (simp_all add: clock_now_def)

lemma publish_event_op: "pueue_op P (publish_event h spool event)"
  unfolding publish_event_def by (intro pueue_op_intros stamp_op edit_op)

lemma run_ctl_op: "pueue_op P (run_ctl m args :: (lworld, proc_result) io)"
  by unfold_locales (simp_all add: run_ctl_def Let_def)

lemma ask_op:
  assumes "\<And>m. job_reader (c m)"
  shows "pueue_op is_read (ask h c)"
proof
  fix w :: lworld
  let ?m = "h_sys h\<lparr>m_fs := seen h w\<rparr>" and ?v = "rworld.truncate w"
  note op = job_reader_op [OF assms, of ?m]
  have v: "calls ?v = calls w" "deadline ?v = deadline w" by (simp_all add: rworld.truncate_def)
  show "\<exists>new. calls (snd (ask h c w)) = calls w @ new \<and> (\<forall>x \<in> set new. is_read (snd x) \<and> within (deadline w) (fst x))"
    using pueue_op.op_calls [OF op, of ?v] unfolding v by (auto simp: ask_def split: prod.split)
  show "deadline (snd (ask h c w)) = deadline w"
    using pueue_op.op_deadline [OF op, of ?v] unfolding v by (auto simp: ask_def split: prod.split)
qed

lemmas host_ops = peek_op edit_op consult_op stamp_op clock_op publish_event_op run_ctl_op

text \<open>A query leaves no trace but its reads.\<close>

lemma reads_op: "pueue_op is_read m \<Longrightarrow> (\<And>a. is_read a \<Longrightarrow> P a) \<Longrightarrow> pueue_op P m"
  by (rule pueue_op_weaken)

section \<open>Undisturbed files\<close>

text \<open>No one else writes the files.\<close>

definition undisturbed :: "host \<Rightarrow> bool" where
  "undisturbed h \<longleftrightarrow> h_env h = (\<lambda>n f. f)"

lemma peek_still: "undisturbed h \<Longrightarrow> peek h g w = (r, w') \<Longrightarrow> lw_fs w' = lw_fs w \<and> r = g (lw_fs w)"
  by (auto simp: peek_def pass_def undisturbed_def)

text \<open>Operations that leave the files as they are, when no one else writes.\<close>

locale file_keeper =
  fixes m :: "(lworld, 'a) io"
  assumes keeps_files: "lw_fs (snd (m w)) = lw_fs w"
begin

lemma same_files: "m w = (r, w') \<Longrightarrow> lw_fs w' = lw_fs w"
  using keeps_files [of w] by simp

end

lemma file_keeper_return: "file_keeper (returnM x)"
  by unfold_locales simp

lemma file_keeper_raise: "file_keeper (raiseM e)"
  by unfold_locales simp

lemma file_keeper_lift: "file_keeper (liftM r)"
  by unfold_locales simp

lemma file_keeper_run: "file_keeper (pueue_run d args t)"
  by unfold_locales (auto simp: pueue_run_def Let_def split: proc_result.split)

lemma file_keeper_bind:
  assumes "file_keeper m" and "\<And>x. file_keeper (k x)"
  shows "file_keeper (bindM m k)"
  by unfold_locales
    (use assms in \<open>auto simp: bindM_def file_keeper_def split: prod.split sum.split; metis snd_conv\<close>)

lemma file_keeper_catch:
  assumes "file_keeper m" and "\<And>e. file_keeper (k e)"
  shows "file_keeper (catchM m k)"
  by unfold_locales
    (use assms in \<open>auto simp: catchM_def file_keeper_def split: prod.split sum.split; metis snd_conv\<close>)

lemma file_keeper_if: "file_keeper m \<Longrightarrow> file_keeper n \<Longrightarrow> file_keeper (if b then m else n)"
  by simp

lemma file_keeper_option:
  "file_keeper m \<Longrightarrow> (\<And>x. file_keeper (k x)) \<Longrightarrow> file_keeper (case z of None \<Rightarrow> m | Some x \<Rightarrow> k x)"
  by (cases z) auto

lemma file_keeper_peek: "undisturbed h \<Longrightarrow> file_keeper (peek h g)"
  by unfold_locales (simp add: peek_def pass_def undisturbed_def)

lemma seen_still: "undisturbed h \<Longrightarrow> seen h w n = lw_fs w"
proof -
  have "fold (\<lambda>n f. f) ns x = x" for ns :: "nat list" and x :: fs by (induction ns) auto
  then show "undisturbed h \<Longrightarrow> seen h w n = lw_fs w" by (simp add: seen_def undisturbed_def)
qed

lemma file_keeper_ask: "undisturbed h \<Longrightarrow> file_keeper (ask h c)"
  by unfold_locales (simp add: ask_def seen_still split: prod.split)

lemmas file_keeper_intros =
  file_keeper_return file_keeper_raise file_keeper_lift file_keeper_bind file_keeper_catch file_keeper_if
  file_keeper_option file_keeper_run

interpretation kept_tasks_all: file_keeper "tasks_all d" for d
  unfolding tasks_all_def run_default_def by (intro file_keeper_intros)

interpretation kept_task_by_id: file_keeper "task_by_id d i" for d i
  unfolding task_by_id_def tasks_by_ids_def Let_def run_default_def by (intro file_keeper_intros)

end
