(* ===== verification/Agentctl_Git.thy ===== *)
theory Agentctl_Git
  imports Agentctl_Host
begin

text \<open>
  \<open>agentctl/gitcmd.py\<close>: one Git call, with its three rules about \<open>index.lock\<close>; and the inventory of
  stranded locks a run leaves, \<open>stranded_index_locks\<close> of \<open>agentctl/run.py\<close>. Git is a parameter;
  whether a lock is stranded, which takes the time of a file and the open files of all processes, is
  \<open>h_stranded\<close> of the host. The output of Git is decoded without failure, so \<open>Garbled\<close> does not occur.
\<close>

definition INDEX_WRITING_VERBS :: "string list" where
  "INDEX_WRITING_VERBS =
     [''add'', ''am'', ''apply'', ''checkout'', ''checkout-index'', ''cherry-pick'', ''commit'', ''merge'', ''mv'',
      ''pull'', ''read-tree'', ''rebase'', ''reset'', ''restore'', ''revert'', ''rm'', ''stash'', ''switch'',
      ''update-index'']"

record git_dirs =
  gd_dir :: ppath
  gd_main :: bool

text \<open>A path and its parents.\<close>

definition ancestors :: "ppath \<Rightarrow> ppath list" where
  "ancestors p = map (\<lambda>n. (fst p, take n (snd p))) (rev [0..<length (snd p) + 1])"

fun git_directories_from :: "fs \<Rightarrow> ppath list \<Rightarrow> git_dirs option res" where
  "git_directories_from f [] = Inr None"
| "git_directories_from f (c # cs) =
     (let dot = path_join c ''.git''
      in if fs_is_dir f dot then Inr (Some \<lparr>gd_dir = dot, gd_main = True\<rparr>)
         else if fs_is_file f dot then
           (case fs_read_text f dot of
              Inl e \<Rightarrow> if is_oserror e then Inr None else Inl e
            | Inr s \<Rightarrow>
                if prefix ''gitdir:'' (strip s)
                then Inr (Some \<lparr>gd_dir = path_join c (strip (drop 7 (strip s))), gd_main = False\<rparr>)
                else Inr None)
         else git_directories_from f cs)"

definition git_directories :: "fs \<Rightarrow> ppath \<Rightarrow> git_dirs option res" where
  "git_directories f p = git_directories_from f (ancestors p)"

text \<open>\<open>os.path.normpath\<close>.\<close>

definition norm_step :: "bool \<Rightarrow> string list \<Rightarrow> string \<Rightarrow> string list" where
  "norm_step rooted out c =
     (if c \<noteq> ''..'' then out @ [c]
      else if out \<noteq> [] \<and> last out \<noteq> ''..'' then butlast out
      else if rooted then out else out @ [''..''])"

definition normpath :: "ppath \<Rightarrow> ppath" where
  "normpath p = (fst p, foldl (norm_step (path_absolute p)) [] (snd p))"

definition common_git_dir :: "fs \<Rightarrow> git_dirs \<Rightarrow> ppath res" where
  "common_git_dir f d =
     (if gd_main d then Inr (gd_dir d)
      else (case fs_read_text f (path_join (gd_dir d) ''commondir'') of
          Inl e \<Rightarrow> if is_oserror e then Inr (gd_dir d) else Inl e
        | Inr s \<Rightarrow> Inr (normpath (path_join (gd_dir d) (strip s)))))"

definition index_lock :: "ppath \<Rightarrow> ppath" where
  "index_lock d = path_join d ''index.lock''"

definition clear_stranded_lock :: "host \<Rightarrow> ppath \<Rightarrow> (lworld, ppath option) io" where
  "clear_stranded_lock h path =
     bindM (peek h (\<lambda>f. git_directories f path)) (\<lambda>ds.
       (case ds of
          None \<Rightarrow> returnM None
        | Some d \<Rightarrow>
            if gd_main d then returnM None
            else bindM (\<lambda>w. (Inr (h_abandoned h (rw_clock w) (index_lock (gd_dir d))), pass h w)) (\<lambda>left.
              if \<not> left then returnM None
              else catchM (bindM (edit h (fsM (fs_unlink (index_lock (gd_dir d))))) (\<lambda>_.
                  returnM (Some (index_lock (gd_dir d)))))
                (\<lambda>e. if is_oserror e then returnM None else raiseM e))))"

definition call_git :: "host \<Rightarrow> ppath \<Rightarrow> string list \<Rightarrow> (lworld, proc_result) io" where
  "call_git h path args w =
     (let cs = lw_git w @ [[''git'', ''-C'', path_str path] @ args] in (Inr (h_git h cs), w\<lparr>lw_git := cs\<rparr>))"

text \<open>What \<open>str(StrandedIndexLock)\<close> says.\<close>

definition stranded_text :: "ppath \<Rightarrow> bool \<Rightarrow> string" where
  "stranded_text lock removed =
     (if removed then ''removed the stranded '' @ path_str lock
      else ''left a stranded '' @ path_str lock @ ''; no process holds it, remove it by hand'')"

definition drop_lock :: "host \<Rightarrow> ppath \<Rightarrow> (lworld, bool) io" where
  "drop_lock h lock =
     catchM (bindM (edit h (fsM (fs_unlink lock))) (\<lambda>_. returnM True))
       (\<lambda>e. if e = FileNotFound then returnM True else if is_oserror e then returnM False else raiseM e)"

definition raise_failure ::
  "host \<Rightarrow> (string \<Rightarrow> exn) \<Rightarrow> string \<Rightarrow> string \<Rightarrow> ppath \<Rightarrow> bool \<Rightarrow> (lworld, 'a) io" where
  "raise_failure h err detail verb path owned =
     bindM (if verb \<in> set INDEX_WRITING_VERBS then peek h (\<lambda>f. git_directories f path) else returnM None) (\<lambda>ds.
       (case ds of
          None \<Rightarrow> raiseM (err detail)
        | Some d \<Rightarrow>
            bindM (\<lambda>w. (Inr (h_stranded h (rw_clock w) (index_lock (gd_dir d))), pass h w)) (\<lambda>stranded.
              if \<not> stranded then raiseM (err detail)
              else bindM (if owned \<and> \<not> gd_main d then drop_lock h (index_lock (gd_dir d)) else returnM False)
                (\<lambda>removed. raiseM (err (detail @ ''; '' @ stranded_text (index_lock (gd_dir d)) removed))))))"

text \<open>Whether a call that writes the index must be refused.\<close>

definition guard_main :: "host \<Rightarrow> (string \<Rightarrow> exn) \<Rightarrow> ppath \<Rightarrow> string \<Rightarrow> bool \<Rightarrow> (lworld, unit) io" where
  "guard_main h err path verb main_checkout =
     (if verb \<in> set INDEX_WRITING_VERBS \<and> \<not> main_checkout
      then bindM (peek h (\<lambda>f. git_directories f path)) (\<lambda>ds.
        (case ds of
           Some d \<Rightarrow>
             if gd_main d
             then raiseM (err (''git '' @ verb @ '' refused in the main checkout '' @ path_str path
               @ '': agentctl writes the index only of a worktree it owns''))
             else returnM ()
         | None \<Rightarrow> returnM ()))
      else returnM ())"

definition git_call ::
  "host \<Rightarrow> (string \<Rightarrow> exn) \<Rightarrow> ppath \<Rightarrow> string list \<Rightarrow> int list \<Rightarrow> bool \<Rightarrow> bool \<Rightarrow> (lworld, string) io" where
  "git_call h err path args ok owned main_checkout =
     (let verb = (case args of [] \<Rightarrow> [] | v # vs \<Rightarrow> v)
      in bindM (guard_main h err path verb main_checkout) (\<lambda>_.
         bindM (call_git h path args) (\<lambda>r.
           (case r of
              NotInstalled \<Rightarrow>
                raiseM (err (''git '' @ verb @ '' failed in '' @ path_str path @ '': '' @ exn_str FileNotFound))
            | TimedOut \<Rightarrow>
                raise_failure h err (''git '' @ verb @ '' failed in '' @ path_str path @ '': timed out'') verb path owned
            | Garbled \<Rightarrow> raiseM UnicodeErr
            | Exited rc out errout \<Rightarrow>
                if rc \<notin> set ok
                then raise_failure h err (''git '' @ str_join '' '' (take 2 args) @ '': ''
                    @ (if strip errout \<noteq> [] then strip errout else strip out)) verb path owned
                else returnM (if ''-z'' \<in> set args \<or> ''--null'' \<in> set args then out else strip out)))))"

text \<open>The locks of a worktree and of the main checkout it belongs to; \<open>stranded\<close> decides for one.\<close>

definition stranded_index_locks :: "fs \<Rightarrow> (ppath \<Rightarrow> bool) \<Rightarrow> ppath \<Rightarrow> (ppath \<times> bool) list res" where
  "stranded_index_locks f stranded cwd =
     bindE (git_directories f cwd) (\<lambda>ds.
       (case ds of
          None \<Rightarrow> Inr []
        | Some d \<Rightarrow>
            bindE (common_git_dir f d) (\<lambda>common.
              (let own = index_lock (gd_dir d); shared = index_lock common
               in Inr (filter (\<lambda>(lock, main). stranded lock)
                    ((own, gd_main d) # (if shared = own then [] else [(shared, True)])))))))"

section \<open>Main checkouts are left alone\<close>

lemma call_git_effect: "call_git h path args w = (r, w') \<Longrightarrow> lw_fs w' = lw_fs w \<and> rw_clock w' = rw_clock w"
  by (auto simp: call_git_def Let_def)

lemma guard_main_Inr:
  assumes "guard_main h err path verb False w = (Inr u, w')" and "verb \<in> set INDEX_WRITING_VERBS"
  shows "\<exists>ds. git_directories (lw_fs w) path = Inr ds \<and> (\<forall>d. ds = Some d \<longrightarrow> \<not> gd_main d)"
  using assms
  by (auto simp: guard_main_def bindM_eq_Inr peek_def split: option.split_asm if_split_asm)

lemma raise_failure_git: "lw_git (snd (raise_failure h err detail verb path owned w)) = lw_git w"
  by (auto simp: raise_failure_def bindM_def peek_def pass_def drop_lock_def catchM_def edit_def
      split: option.split prod.split sum.split)

text \<open>
  (C17) Without an explicit permission, a Git command that writes the index runs only where the files
  show no main checkout: a refused call never reaches Git.
\<close>

theorem git_call_spares_main:
  assumes "git_call h err path (verb # args) ok owned False w = (r, w')"
    and "verb \<in> set INDEX_WRITING_VERBS" and "lw_git w' \<noteq> lw_git w"
  shows "\<exists>ds. git_directories (lw_fs w) path = Inr ds \<and> (\<forall>d. ds = Some d \<longrightarrow> \<not> gd_main d)"
proof -
  obtain q w1 where guard: "guard_main h err path verb False w = (q, w1)" by force
  have same: "lw_git w1 = lw_git w"
    using guard by (auto simp: guard_main_def bindM_def peek_def pass_def split: if_split_asm sum.split_asm option.split_asm)
  have "q = Inr ()"
  proof (cases q)
    case (Inl e)
    then show ?thesis using assms(1,3) guard same by (simp add: git_call_def bindM_def)
  qed simp
  from guard_main_Inr [OF guard [unfolded this] assms(2)] show ?thesis .
qed

definition sample_git_host :: host where
  "sample_git_host = \<lparr>h_sys = silent_machine, h_env = (\<lambda>n f. f), h_git = (\<lambda>cs. Exited 0 ''ok'' []),
     h_ctx = \<lparr>c_env = [], c_uid = 1000\<rparr>, h_stamp = (\<lambda>n. ''2026-01-01T00:00:00+00:00''),
     h_lock_free = (\<lambda>n. True), h_stranded = (\<lambda>n p. False), h_abandoned = (\<lambda>n p. False), h_lock_state = (\<lambda>n p. None)\<rparr>"

definition sample_git_fs :: fs where
  "sample_git_fs = \<lparr>nodes = [((''/'', [''w'']), Dir 493), ((''/'', [''w'', ''.git'']), RegFile ''gitdir: /r/.git/worktrees/w'' 420)],
     noread = [], nowrite = []\<rparr>"

definition sample_lworld :: "fs \<Rightarrow> lworld" where
  "sample_lworld f = \<lparr>calls = [], deadline = None, rw_ctl = [], rw_clock = 0, rw_log = [], lw_fs = f, lw_git = []\<rparr>"

theorem git_call_spares_main_witness:
  "lw_git (snd (git_call sample_git_host JobErr (mkpath ''/w'') [''add'', ''-A''] [0] True False (sample_lworld sample_git_fs)))
       = [[''git'', ''-C'', ''/w'', ''add'', ''-A'']]
     \<and> (\<exists>d. git_directories sample_git_fs (mkpath ''/w'') = Inr (Some d) \<and> \<not> gd_main d)"
proof -
  let ?w = "sample_lworld sample_git_fs"
  obtain r w' where run: "git_call sample_git_host JobErr (mkpath ''/w'') [''add'', ''-A''] [0] True False ?w = (r, w')"
    by force
  have ran: "lw_git (snd (git_call sample_git_host JobErr (mkpath ''/w'') [''add'', ''-A''] [0] True False ?w))
      = [[''git'', ''-C'', ''/w'', ''add'', ''-A'']]" by code_simp
  have "lw_git w' \<noteq> lw_git ?w" using ran run by (simp add: sample_lworld_def)
  moreover have "''add'' \<in> set INDEX_WRITING_VERBS" by code_simp
  ultimately obtain ds where ds: "git_directories (lw_fs ?w) (mkpath ''/w'') = Inr ds" "\<forall>d. ds = Some d \<longrightarrow> \<not> gd_main d"
    using git_call_spares_main [OF run] by blast
  have "case git_directories sample_git_fs (mkpath ''/w'') of Inr (Some d) \<Rightarrow> True | _ \<Rightarrow> False" by code_simp
  with ds ran show ?thesis by (auto simp: sample_lworld_def split: option.split_asm)
qed

end
