(* ===== verification/Agentctl_Projects.thy ===== *)
theory Agentctl_Projects
  imports Agentctl_LaunchInput
begin

text \<open>
  \<open>agentctl/projects.py\<close> and \<open>agentctl/environment.py\<close>: the project descriptor, what it declares
  of operations and their environment, and the catalog of configured projects. The TOML reader is a
  parameter, \<open>toml\<close>: the table a text denotes, or nothing where it is not TOML. Identifiers are
  ASCII. A warning about an ignored field is printed and changes nothing; it is not modelled.
\<close>

section \<open>Data\<close>

record project_environment =
  pe_kind :: string
  pe_command :: "string list"
  pe_inherit :: "string list"
  pe_unset :: "string list"
  pe_declared :: "string dict"
  pe_require :: "string list"
  pe_cache_inputs :: "string list"

record workspace_policy =
  wp_root :: ppath
  wp_default_base :: string
  wp_retain_artifacts :: "string list"

record project_operation =
  op_name :: string
  op_description :: string
  op_command :: "string list"
  op_pool :: string
  op_result :: string
  op_timeout :: int
  op_checkout :: string
  op_cache :: string
  op_scratch :: string
  op_arguments :: string
  op_admission :: "int option"
  op_unit_properties :: "string list"
  op_max_io_pressure :: "pyfloat option"
  op_priority :: int

record project =
  pj_id :: string
  pj_display_name :: string
  pj_root :: ppath
  pj_descriptor :: ppath
  pj_digest :: string
  pj_environment :: project_environment
  pj_workspace :: "workspace_policy option"
  pj_operations :: "project_operation list"

definition CACHE_KINDS :: "string list" where "CACHE_KINDS = [''none'', ''tree+environment'']"
definition SCRATCH_KINDS :: "string list" where "SCRATCH_KINDS = [''none'', ''tmpfs'', ''nvme'']"
definition ARGUMENTS_KINDS :: "string list" where "ARGUMENTS_KINDS = [''none'', ''required'']"
definition CHECKOUT_KINDS :: "string list" where "CHECKOUT_KINDS = [''any'', ''default'']"
definition DECLARABLE_RESULT_KINDS :: "string list" where
  "DECLARABLE_RESULT_KINDS = [''exit'', ''json'', ''pytest'']"
definition TABLES :: "string list" where
  "TABLES = [''schema'', ''project'', ''environment'', ''workspace'', ''operations'']"
definition NIX_DEVELOP_KIND :: string where "NIX_DEVELOP_KIND = ''nix-develop''"
definition DEVENV_COMMAND :: string where "DEVENV_COMMAND = ''agentctl-devenv''"
definition MAX_ADMISSION_MEMORY_MIB :: int where "MAX_ADMISSION_MEMORY_MIB = 64 * 1024"
definition DEFAULT_PATH :: string where "DEFAULT_PATH = ''/run/current-system/sw/bin''"

section \<open>The environment of a launch\<close>

definition build_environment :: "string list \<Rightarrow> string list \<Rightarrow> string dict \<Rightarrow> string dict \<Rightarrow> string dict" where
  "build_environment inherit unset vals source =
     (let kept = dict_of (List.map_filter (\<lambda>k. if k \<in> set unset then None
            else map_option (\<lambda>v. (k, v)) (dget source k)) inherit);
          pathed = (if ''PATH'' \<notin> set unset \<and> \<not> dhas kept ''PATH''
            then dset ''PATH'' (case dget source ''PATH'' of Some v \<Rightarrow> v | None \<Rightarrow> DEFAULT_PATH) kept
            else kept)
      in dmerge pathed (filter (\<lambda>(k, v). k \<notin> set unset) vals))"

text \<open>\<open>ProjectEnvironment.values\<close>; \<open>env\<close> is the environment of the process.\<close>

definition environment_values :: "project_environment \<Rightarrow> environ \<Rightarrow> string dict \<Rightarrow> string dict res" where
  "environment_values pe env host =
     (let environment = build_environment (pe_inherit pe) (pe_unset pe) (pe_declared pe) (dmerge env host);
          missing = sort (filter (\<lambda>n. \<not> dhas environment n) (pe_require pe))
      in if missing \<noteq> []
         then Inl (ConfigErr (''required environment variable(s) unavailable: '' @ str_join '', '' missing
                @ '' (declare a value under [environment.values] or export them)''))
         else Inr (dset ''GIT_OPTIONAL_LOCKS'' ''0'' environment))"

definition command_for :: "project_environment \<Rightarrow> string list \<Rightarrow> string list" where
  "command_for pe payload =
     (if pe_cache_inputs pe \<noteq> []
      then DEVENV_COMMAND # map (\<lambda>i. ''--input='' @ i) (pe_cache_inputs pe) @ [''--''] @ payload
      else pe_command pe @ payload)"

section \<open>Catalog rows\<close>

definition str_values :: "string list \<Rightarrow> pyval" where
  "str_values xs = PList (map PStr xs)"

definition environment_row :: "project_environment \<Rightarrow> pydict" where
  "environment_row pe =
     [(''kind'', PStr (pe_kind pe)), (''command'', str_values (pe_command pe)),
      (''declared'', str_values (sort (map fst (pe_declared pe)))), (''require'', str_values (pe_require pe)),
      (''cache_inputs'', str_values (pe_cache_inputs pe))]"

definition workspace_row :: "workspace_policy \<Rightarrow> pydict" where
  "workspace_row wp =
     [(''root'', PStr (path_str (wp_root wp))), (''default_base'', PStr (wp_default_base wp)),
      (''retain_artifacts'', str_values (wp_retain_artifacts wp))]"

definition admission_row :: "int \<Rightarrow> pydict" where
  "admission_row mib = [(''memory_mib'', PInt mib)]"

definition operation_row :: "project_operation \<Rightarrow> pydict" where
  "operation_row op =
     [(''name'', PStr (op_name op)), (''description'', PStr (op_description op)),
      (''command'', str_values (op_command op)), (''pool'', PStr (op_pool op)), (''result'', PStr (op_result op)),
      (''timeout_seconds'', PInt (op_timeout op)), (''checkout'', PStr (op_checkout op)),
      (''cache'', PStr (op_cache op)), (''scratch'', PStr (op_scratch op)), (''arguments'', PStr (op_arguments op)),
      (''admission'', case op_admission op of None \<Rightarrow> PNone | Some m \<Rightarrow> PDict (admission_row m)),
      (''unit_properties'', str_values (op_unit_properties op)),
      (''max_io_pressure'', case op_max_io_pressure op of None \<Rightarrow> PNone | Some x \<Rightarrow> PFloat x),
      (''priority'', PInt (op_priority op))]"

definition project_row :: "project \<Rightarrow> pydict" where
  "project_row p =
     [(''id'', PStr (pj_id p)), (''display_name'', PStr (pj_display_name p)),
      (''root'', PStr (path_str (pj_root p))), (''descriptor'', PStr (path_str (pj_descriptor p))),
      (''digest'', PStr (pj_digest p)), (''environment'', PDict (environment_row (pj_environment p))),
      (''workspace'', case pj_workspace p of None \<Rightarrow> PNone | Some w \<Rightarrow> PDict (workspace_row w)),
      (''operations'', PList (map (\<lambda>op. PDict (operation_row op)) (pj_operations p)))]"

text \<open>\<open>ProjectAdapter.operation\<close>.\<close>

definition operation_named :: "project \<Rightarrow> string \<Rightarrow> project_operation res" where
  "operation_named p name =
     (case find (\<lambda>op. op_name op = name) (pj_operations p) of
        Some op \<Rightarrow> Inr op
      | None \<Rightarrow> Inl (KeyErr (''unknown project operation: '' @ pj_id p @ ''.'' @ name)))"

section \<open>Reading a descriptor\<close>

definition reject :: "bool \<Rightarrow> string \<Rightarrow> unit res" where
  "reject b m = guardE (\<not> b) (ConfigErr m)"

definition string_list :: "pyval \<Rightarrow> string \<Rightarrow> string list res" where
  "string_list v field =
     bindE (reject (\<not> is_list v \<or> elems_of v = [] \<or> \<not> list_all (\<lambda>x. is_str x \<and> str_of x \<noteq> []) (elems_of v))
         (field @ '' must be a non-empty list of non-empty strings'')) (\<lambda>_. Inr (map str_of (elems_of v)))"

definition optional_string_list :: "pyval \<Rightarrow> string \<Rightarrow> string list res" where
  "optional_string_list v field =
     (if v = PNone then Inr []
      else bindE (reject (\<not> is_list v \<or> \<not> list_all (\<lambda>x. is_str x \<and> str_of x \<noteq> []) (elems_of v))
             (field @ '' must be a list of non-empty strings'')) (\<lambda>_. Inr (map str_of (elems_of v))))"

text \<open>\<open>[A-Z_][A-Z0-9_]*\<close>, without the prefix the host reserves.\<close>

definition environment_name_ok :: "string \<Rightarrow> bool" where
  "environment_name_ok s \<longleftrightarrow>
     (case s of [] \<Rightarrow> False
      | c # r \<Rightarrow> (is_upper c \<or> c = CHR ''_'') \<and> list_all (\<lambda>d. is_upper d \<or> is_digit d \<or> d = CHR ''_'') r)
     \<and> \<not> prefix ''SINNIX'' s"

definition relative_inside :: "string \<Rightarrow> bool" where
  "relative_inside s \<longleftrightarrow> \<not> path_absolute (mkpath s) \<and> ''..'' \<notin> set (path_parts (mkpath s))"

definition environment_of :: "pydict \<Rightarrow> string \<Rightarrow> project_environment res" where
  "environment_of raw descriptor =
     (case pget raw ''environment'' of
        PDict environment \<Rightarrow>
          (let kind = pget environment ''kind''; vals = pget_or environment ''values'' (PDict [])
           in bindE (reject (\<not> is_str kind \<or> str_of kind = []) (descriptor @ '' environment.kind must be non-empty'')) (\<lambda>_.
              bindE (reject (\<not> is_dict vals \<or> \<not> list_all (\<lambda>(k, v). environment_name_ok k \<and> is_str v) (items_of vals))
                (descriptor @ '' [environment.values] must map uppercase non-SINNIX variable names to strings'')) (\<lambda>_.
              bindE (optional_string_list (pget environment ''require'') ''environment.require'') (\<lambda>required.
              bindE (reject (\<not> list_all environment_name_ok required)
                (descriptor @ '' environment.require must name uppercase non-SINNIX variables'')) (\<lambda>_.
              bindE (optional_string_list (pget environment ''cache_inputs'') ''environment.cache_inputs'') (\<lambda>inputs.
              bindE (reject (inputs \<noteq> [] \<and> kind \<noteq> PStr NIX_DEVELOP_KIND)
                (descriptor @ '' environment.cache_inputs applies only to kind '' @ str_repr NIX_DEVELOP_KIND)) (\<lambda>_.
              bindE (reject (\<not> list_all relative_inside inputs)
                (descriptor @ '' environment.cache_inputs must be repository-relative paths'')) (\<lambda>_.
              bindE (string_list (pget environment ''command'') ''environment.command'') (\<lambda>cmd.
              bindE (optional_string_list (pget environment ''inherit'') ''environment.inherit'') (\<lambda>inherit.
              bindE (optional_string_list (pget environment ''unset'') ''environment.unset'') (\<lambda>unset.
                Inr \<lparr>pe_kind = str_of kind, pe_command = cmd, pe_inherit = inherit, pe_unset = unset,
                     pe_declared = map (\<lambda>(k, v). (k, str_of v)) (sort_key fst (items_of vals)),
                     pe_require = required, pe_cache_inputs = inputs\<rparr>)))))))))))
      | _ \<Rightarrow> Inl (ConfigErr (descriptor @ '' requires an [environment] table'')))"

definition workspace_of :: "pydict \<Rightarrow> string \<Rightarrow> workspace_policy option res" where
  "workspace_of raw descriptor =
     (case pget raw ''workspace'' of
        PNone \<Rightarrow> Inr None
      | PDict w \<Rightarrow>
          (let root = pget w ''root''; base = pget w ''default_base''
           in bindE (reject (\<not> is_str root \<or> \<not> path_absolute (mkpath (str_of root)))
                (descriptor @ '' workspace.root must be an absolute path'')) (\<lambda>_.
              bindE (reject (\<not> is_str base \<or> str_of base = [])
                (descriptor @ '' workspace.default_base must be non-empty'')) (\<lambda>_.
              bindE (optional_string_list (pget w ''retain_artifacts'') ''workspace.retain_artifacts'') (\<lambda>patterns.
              bindE (reject (\<not> list_all relative_inside patterns)
                (descriptor @ '' workspace.retain_artifacts must be relative'')) (\<lambda>_.
                Inr (Some \<lparr>wp_root = mkpath (str_of root), wp_default_base = str_of base,
                     wp_retain_artifacts = patterns\<rparr>))))))
      | _ \<Rightarrow> Inl (ConfigErr (descriptor @ '' [workspace] must be a table'')))"

section \<open>Operations\<close>

definition field_error :: "string \<Rightarrow> string \<Rightarrow> string" where
  "field_error name rest = ''operations.'' @ name @ ''.'' @ rest"

definition admission_of :: "string \<Rightarrow> pyval \<Rightarrow> int res" where
  "admission_of name v =
     (case v of
        PDict d \<Rightarrow>
          (let m = pget d ''memory_mib''
           in bindE (reject (\<not> is_exact_int m \<or> \<not> (1 \<le> int_of m \<and> int_of m \<le> MAX_ADMISSION_MEMORY_MIB))
                (field_error name (''admission.memory_mib must be an integer between 1 and ''
                   @ show_int MAX_ADMISSION_MEMORY_MIB))) (\<lambda>_. Inr (int_of m)))
      | _ \<Rightarrow> Inl (ConfigErr (field_error name ''admission must be a table'')))"

text \<open>A field that names one of a set of kinds. A list or a table is not hashable: asking whether
  it is in the set raises \<open>TypeError\<close>.\<close>

definition kind_field :: "string \<Rightarrow> string \<Rightarrow> string list \<Rightarrow> string \<Rightarrow> pydict \<Rightarrow> string res" where
  "kind_field name key kinds dflt d =
     (case dget d key of
        None \<Rightarrow> Inr dflt
      | Some (PList xs) \<Rightarrow> Inl TypeErr
      | Some (PDict xs) \<Rightarrow> Inl TypeErr
      | Some v \<Rightarrow> bindE (reject (\<not> (is_str v \<and> str_of v \<in> set kinds)) (field_error name (key @ '' is invalid'')))
          (\<lambda>_. Inr (str_of v)))"

text \<open>\<open>[a-z][a-z0-9-]{0,63}\<close>.\<close>

definition declared_pool_ok :: "string \<Rightarrow> bool" where
  "declared_pool_ok s \<longleftrightarrow>
     (case s of [] \<Rightarrow> False
      | c # r \<Rightarrow> is_lower c \<and> length r \<le> 63 \<and> list_all (\<lambda>d. is_lower d \<or> is_digit d \<or> d = CHR ''-'') r)"

definition pool_field :: "string \<Rightarrow> pydict \<Rightarrow> string res" where
  "pool_field name d =
     (case dget d ''pool'' of
        None \<Rightarrow> Inr ''normal''
      | Some v \<Rightarrow> bindE (reject (\<not> (is_str v \<and> declared_pool_ok (str_of v))) (field_error name ''pool is invalid''))
          (\<lambda>_. Inr (str_of v)))"

definition timeout_field :: "string \<Rightarrow> pydict \<Rightarrow> int res" where
  "timeout_field name d =
     (case dget d ''timeout_seconds'' of
        None \<Rightarrow> Inr DEFAULT_TIMEOUT_SECONDS
      | Some v \<Rightarrow> bindE (reject (\<not> valid_timeout_seconds v ''declared-operation'')
            (field_error name (''timeout_seconds must be 0 (no runtime deadline) or between 1 and ''
               @ show_int MAX_DECLARED_OPERATION_TIMEOUT_SECONDS))) (\<lambda>_. Inr (int_of v)))"

definition pressure_field :: "string \<Rightarrow> pydict \<Rightarrow> pyfloat option res" where
  "pressure_field name d =
     (case dget d ''max_io_pressure'' of
        None \<Rightarrow> Inr None
      | Some v \<Rightarrow> bindE (reject (percentage_bad v)
            (field_error name ''max_io_pressure must be a percentage between 0 and 100'')) (\<lambda>_. Inr (num_of v)))"

definition priority_field :: "string \<Rightarrow> pydict \<Rightarrow> int res" where
  "priority_field name d =
     (case dget d ''priority'' of
        None \<Rightarrow> Inr 0
      | Some v \<Rightarrow> bindE (reject (\<not> (is_exact_int v \<and> - 100 \<le> int_of v \<and> int_of v \<le> 100))
            (field_error name ''priority must be an integer from -100 to 100'')) (\<lambda>_. Inr (int_of v)))"

definition identifier_name :: "string \<Rightarrow> bool" where
  "identifier_name s \<longleftrightarrow>
     (case s of [] \<Rightarrow> False
      | c # r \<Rightarrow> (is_lower c \<or> is_upper c \<or> c = CHR ''_'') \<and> list_all (\<lambda>d. is_alnum d \<or> d = CHR ''_'') r)"

definition operation_of :: "string \<Rightarrow> string \<times> pyval \<Rightarrow> project_operation res" where
  "operation_of descriptor entry =
     (let name = fst entry; d = items_of (snd entry); description = pget d ''description''
      in bindE (reject (\<not> identifier_name name \<or> \<not> is_dict (snd entry))
           (descriptor @ '' contains an invalid operation declaration: '' @ name)) (\<lambda>_.
         bindE (reject (\<not> is_str description \<or> str_of description = [])
           (descriptor @ '' operation '' @ name @ '' requires description'')) (\<lambda>_.
         bindE (string_list (pget d ''exec'') (field_error name ''exec'')) (\<lambda>cmd.
         bindE (pool_field name d) (\<lambda>pool.
         bindE (kind_field name ''result'' DECLARABLE_RESULT_KINDS ''exit'' d) (\<lambda>rslt.
         bindE (timeout_field name d) (\<lambda>timeout.
         bindE (kind_field name ''checkout'' CHECKOUT_KINDS ''any'' d) (\<lambda>checkout.
         bindE (case dget d ''admission'' of None \<Rightarrow> Inr None
             | Some v \<Rightarrow> bindE (admission_of name v) (\<lambda>m. Inr (Some m))) (\<lambda>admission.
         bindE (optional_string_list (pget d ''unit_properties'') (field_error name ''unit_properties'')) (\<lambda>properties.
         bindE (reject (\<not> list_all (\<lambda>v. supported_unit_property (PStr v)) properties)
           (field_error name ''unit_properties must contain supported task resource or path limits'')) (\<lambda>_.
         bindE (kind_field name ''cache'' CACHE_KINDS ''none'' d) (\<lambda>cache.
         bindE (kind_field name ''scratch'' SCRATCH_KINDS ''none'' d) (\<lambda>scratch.
         bindE (kind_field name ''arguments'' ARGUMENTS_KINDS ''none'' d) (\<lambda>arguments.
         bindE (pressure_field name d) (\<lambda>pressure.
         bindE (priority_field name d) (\<lambda>priority.
           Inr \<lparr>op_name = name, op_description = str_of description, op_command = cmd, op_pool = pool,
                op_result = rslt, op_timeout = timeout, op_checkout = checkout, op_cache = cache,
                op_scratch = scratch, op_arguments = arguments, op_admission = admission,
                op_unit_properties = properties, op_max_io_pressure = pressure, op_priority = priority\<rparr>))))))))))))))))"

section \<open>A project and the catalog\<close>

definition project_of ::
  "(string \<Rightarrow> string) \<Rightarrow> fs \<Rightarrow> ppath \<Rightarrow> ppath \<Rightarrow> string \<Rightarrow> pydict \<Rightarrow> project res" where
  "project_of dig f root descriptor raw_bytes raw =
     (let at = path_str descriptor;
          unknown = filter (\<lambda>k. k \<notin> set TABLES) (map fst raw);
          proj = pget raw ''project''; i = pget (items_of proj) ''id''; dn = pget (items_of proj) ''display_name'';
          ops = pget_or raw ''operations'' (PDict [])
      in bindE (reject (\<not> py_eq (pget raw ''schema'') (PInt 1)) (at @ '' must declare schema = 1'')) (\<lambda>_.
         bindE (reject (unknown \<noteq> []) (at @ '' contains unknown tables: '' @ str_join '', '' (sorted_set unknown))) (\<lambda>_.
         bindE (reject (\<not> is_dict proj) (at @ '' requires a [project] table'')) (\<lambda>_.
         bindE (reject (\<not> is_str i \<or> \<not> identifier_name (str_of i)) (at @ '' project.id must be an identifier'')) (\<lambda>_.
         bindE (reject (\<not> is_str dn \<or> str_of dn = []) (at @ '' project.display_name must be non-empty'')) (\<lambda>_.
         bindE (string_list (pget (items_of proj) ''root_markers'') ''project.root_markers'') (\<lambda>markers.
         (let missing = filter (\<lambda>m. \<not> fs_exists f (path_join root m)) markers
          in bindE (reject (missing \<noteq> []) (at @ '' root marker(s) missing: '' @ str_join '', '' missing)) (\<lambda>_.
             bindE (reject (\<not> is_dict ops) (at @ '' [operations] must be a table'')) (\<lambda>_.
             bindE (mapE (operation_of at) (sort_key fst (items_of ops))) (\<lambda>operations.
             bindE (workspace_of raw at) (\<lambda>workspace.
             bindE (environment_of raw at) (\<lambda>environment.
               Inr \<lparr>pj_id = str_of i, pj_display_name = str_of dn, pj_root = root, pj_descriptor = descriptor,
                    pj_digest = ''sha256:'' @ dig raw_bytes, pj_environment = environment,
                    pj_workspace = workspace, pj_operations = operations\<rparr>)))))))))))))"

definition load_project_adapter ::
  "(string \<Rightarrow> pydict option) \<Rightarrow> (string \<Rightarrow> string) \<Rightarrow> fs \<Rightarrow> ppath \<Rightarrow> project res" where
  "load_project_adapter toml dig f root0 =
     bindE (realpath f root0) (\<lambda>root.
     (let descriptor = path_join (path_join root ''.agentctl'') ''project.toml''
      in bindE (case fs_read f descriptor of
           Inr b \<Rightarrow> Inr b
         | Inl e \<Rightarrow> if e = FileNotFound then Inl (ConfigErr (''project adapter is missing: '' @ path_str descriptor))
                   else Inl e) (\<lambda>raw_bytes.
         (case (if utf8_ok raw_bytes then toml raw_bytes else None) of
            None \<Rightarrow> Inl (ConfigErr (''invalid project adapter '' @ path_str descriptor))
          | Some raw \<Rightarrow> project_of dig f root descriptor raw_bytes raw))))"

text \<open>The catalog: the adapters by their id and the reason a root is unavailable.\<close>

record catalog =
  ct_adapters :: "(string \<times> project) list"
  ct_unavailable :: "string dict"

definition add_root ::
  "(ppath \<Rightarrow> project res) \<Rightarrow> bool \<Rightarrow> catalog \<Rightarrow> ppath \<Rightarrow> catalog res" where
  "add_root load tolerant c root =
     (case load root of
        Inl e \<Rightarrow>
          if tolerant \<and> (is_valueerror e \<or> is_oserror e)
          then Inr (c\<lparr>ct_unavailable := dset (path_str root) (exn_str e) (ct_unavailable c)\<rparr>) else Inl e
      | Inr p \<Rightarrow>
          if dhas (ct_adapters c) (pj_id p)
          then (if tolerant
                then Inr (c\<lparr>ct_unavailable := dset (path_str (pj_root p))
                       (''duplicate project id: '' @ pj_id p) (ct_unavailable c)\<rparr>)
                else Inl (ConfigErr ''project adapter IDs must be unique''))
          else Inr (c\<lparr>ct_adapters := dset (pj_id p) p (ct_adapters c)\<rparr>))"

fun add_roots :: "(ppath \<Rightarrow> project res) \<Rightarrow> bool \<Rightarrow> catalog \<Rightarrow> ppath list \<Rightarrow> catalog res" where
  "add_roots load tolerant c [] = Inr c"
| "add_roots load tolerant c (r # rs) =
     bindE (add_root load tolerant c r) (\<lambda>c'. add_roots load tolerant c' rs)"

definition project_catalog :: "(ppath \<Rightarrow> project res) \<Rightarrow> bool \<Rightarrow> ppath list \<Rightarrow> catalog res" where
  "project_catalog load tolerant roots =
     add_roots load tolerant \<lparr>ct_adapters = [], ct_unavailable = []\<rparr> roots"

definition catalog_list :: "catalog \<Rightarrow> pydict list" where
  "catalog_list c = map (\<lambda>(i, p). project_row p) (sort_key fst (ct_adapters c))"

definition catalog_get :: "catalog \<Rightarrow> string \<Rightarrow> project res" where
  "catalog_get c i =
     (case dget (ct_adapters c) i of
        Some p \<Rightarrow> Inr p
      | None \<Rightarrow>
          (case find (\<lambda>(root, reason). path_name (mkpath root) = i) (sort_key fst (ct_unavailable c)) of
             Some (root, reason) \<Rightarrow> Inl (KeyErr (''project '' @ i @ '' is out of service: '' @ reason))
           | None \<Rightarrow> Inl (KeyErr (''unknown project: '' @ i))))"

section \<open>What a loaded operation promises\<close>

lemma reject_Inr [simp]: "reject b m = Inr u \<longleftrightarrow> \<not> b"
  by (simp add: reject_def guardE_def)

lemma reject_bind: "bindE (reject b m) k = Inr y \<longleftrightarrow> \<not> b \<and> k () = Inr y"
  by (simp add: reject_def guardE_def)

lemma kind_field_Inr: "kind_field name key kinds dflt d = Inr s \<Longrightarrow> s = dflt \<or> s \<in> set kinds"
  by (auto simp: kind_field_def bindE_eq_Inr split: option.split_asm pyval.split_asm)

lemma declared_pool_name: "declared_pool_ok s \<Longrightarrow> pool_name_ok s"
  by (auto simp: declared_pool_ok_def pool_name_ok_def list_all_iff split: list.split_asm)

lemma pool_field_Inr: "pool_field name d = Inr s \<Longrightarrow> pool_name_ok s"
proof -
  have "pool_name_ok ''normal''" by code_simp
  then show "pool_field name d = Inr s \<Longrightarrow> ?thesis"
    by (auto simp: pool_field_def bindE_eq_Inr declared_pool_name split: option.split_asm)
qed

lemma timeout_field_Inr: "timeout_field name d = Inr i \<Longrightarrow> valid_timeout_seconds (PInt i) ''declared-operation''"
proof -
  have "valid_timeout_seconds (PInt DEFAULT_TIMEOUT_SECONDS) ''declared-operation''" by code_simp
  moreover have "valid_timeout_seconds v k \<Longrightarrow> v = PInt (int_of v)" for v k
    by (cases v) (auto simp: valid_timeout_seconds_def)
  ultimately show "timeout_field name d = Inr i \<Longrightarrow> ?thesis"
    by (auto simp: timeout_field_def bindE_eq_Inr split: option.split_asm)
qed

lemma percentage_num: "\<not> percentage_bad v \<Longrightarrow> \<exists>x. num_of v = Some x \<and> \<not> percentage_bad (PFloat x)"
  by (auto simp: percentage_bad_def split: option.split_asm)

lemma pressure_field_Inr: "pressure_field name d = Inr (Some x) \<Longrightarrow> \<not> percentage_bad (PFloat x)"
  using percentage_num by (fastforce simp: pressure_field_def bindE_eq_Inr split: option.split_asm)

lemma string_list_Inr: "string_list v field = Inr xs \<Longrightarrow> xs \<noteq> []"
  by (auto simp: string_list_def bindE_eq_Inr)

text \<open>The settings of a loaded operation are ones a launch input may carry.\<close>

definition launchable :: "project_operation \<Rightarrow> bool" where
  "launchable op \<longleftrightarrow> op_command op \<noteq> [] \<and> pool_name_ok (op_pool op)
     \<and> op_result op \<in> set RESULT_KINDS
     \<and> valid_timeout_seconds (PInt (op_timeout op)) ''declared-operation''
     \<and> list_all (\<lambda>v. supported_unit_property (PStr v)) (op_unit_properties op)
     \<and> (case op_max_io_pressure op of None \<Rightarrow> True | Some x \<Rightarrow> \<not> percentage_bad (PFloat x))
     \<and> op_scratch op \<in> set SCRATCH_KINDS"

lemma operation_launchable:
  assumes "operation_of at e = Inr op"
  shows "launchable op \<and> op_name op = fst e"
proof -
  from assms obtain cmd pool rslt timeout scratch pressure where
      fields: "op_command op = cmd" "op_pool op = pool" "op_result op = rslt" "op_timeout op = timeout"
        "op_scratch op = scratch" "op_max_io_pressure op = pressure" "op_name op = fst e"
    and cmd: "string_list (pget (items_of (snd e)) ''exec'') (field_error (fst e) ''exec'') = Inr cmd"
    and pool: "pool_field (fst e) (items_of (snd e)) = Inr pool"
    and rslt: "kind_field (fst e) ''result'' DECLARABLE_RESULT_KINDS ''exit'' (items_of (snd e)) = Inr rslt"
    and timeout: "timeout_field (fst e) (items_of (snd e)) = Inr timeout"
    and units: "list_all (\<lambda>v. supported_unit_property (PStr v)) (op_unit_properties op)"
    and scratch: "kind_field (fst e) ''scratch'' SCRATCH_KINDS ''none'' (items_of (snd e)) = Inr scratch"
    and pressure: "pressure_field (fst e) (items_of (snd e)) = Inr pressure"
    unfolding operation_of_def Let_def reject_bind by (auto simp: bindE_eq_Inr)
  from kind_field_Inr [OF rslt] kind_field_Inr [OF scratch]
  have "rslt \<in> set RESULT_KINDS" "scratch \<in> set SCRATCH_KINDS"
    by (auto simp: DECLARABLE_RESULT_KINDS_def RESULT_KINDS_def SCRATCH_KINDS_def)
  moreover have "case pressure of None \<Rightarrow> True | Some x \<Rightarrow> \<not> percentage_bad (PFloat x)"
    using pressure_field_Inr pressure by (auto split: option.split)
  ultimately show ?thesis unfolding launchable_def fields
    using string_list_Inr [OF cmd] pool_field_Inr [OF pool] timeout_field_Inr [OF timeout] units fields(7) by simp
qed

section \<open>The environment holds what was declared\<close>

lemma dget_map_filter_kept:
  "dget (rev (List.map_filter (\<lambda>k. if k \<in> U then None else map_option (\<lambda>v. (k, v)) (dget s k)) ks)) k
     = (if k \<in> set ks \<and> k \<notin> U then dget s k else None)"
  by (induction ks) (auto simp: List.map_filter_def map_add_def split: option.split)

text \<open>Where a variable of the built environment comes from.\<close>

lemma build_environment_dget:
  "dget (build_environment inherit unset vals source) k =
    (if k \<in> set unset then None
     else case dget (rev vals) k of Some v \<Rightarrow> Some v
       | None \<Rightarrow> if k \<in> set inherit \<and> dget source k \<noteq> None then dget source k
           else if k = ''PATH'' then Some (case dget source ''PATH'' of Some v \<Rightarrow> v | None \<Rightarrow> DEFAULT_PATH) else None)"
proof -
  have kept: "dget (rev (filter (\<lambda>(k, v). k \<notin> set unset) vals)) k = (if k \<in> set unset then None else dget (rev vals) k)"
    by (induction vals) (auto simp: map_add_def split: option.split)
  show ?thesis
    by (auto simp: build_environment_def Let_def dget_dmerge dget_dset dget_dict_of dget_map_filter_kept dhas_iff kept
        split: option.split)
qed

lemma sort_eq_Nil: "sort xs = [] \<longleftrightarrow> xs = []"
  by (metis length_0_conv length_sort)

lemma build_environment_source:
  assumes "dget (build_environment inherit unset vals source) k = Some v"
  shows "k \<notin> set unset \<and> ((k, v) \<in> set vals \<or> k \<in> set inherit \<and> dget source k = Some v
    \<or> k = ''PATH'' \<and> v = (case dget source ''PATH'' of Some p \<Rightarrow> p | None \<Rightarrow> DEFAULT_PATH))"
proof (cases "dget (rev vals) k")
  case (Some x)
  with assms have "k \<notin> set unset" "x = v" unfolding build_environment_dget by (simp_all split: if_split_asm)
  with map_of_SomeD [OF Some] show ?thesis by simp
next
  case None
  with assms show ?thesis unfolding build_environment_dget by (simp split: if_split_asm)
qed

definition variable_source :: "project_environment \<Rightarrow> string dict \<Rightarrow> string \<Rightarrow> string \<Rightarrow> bool" where
  "variable_source pe host k v \<longleftrightarrow>
     k = ''GIT_OPTIONAL_LOCKS'' \<and> v = ''0''
     \<or> k \<notin> set (pe_unset pe) \<and>
       ((k, v) \<in> set (pe_declared pe) \<or> k \<in> set (pe_inherit pe) \<and> dget host k = Some v
        \<or> k = ''PATH'' \<and> v = (case dget host ''PATH'' of Some p \<Rightarrow> p | None \<Rightarrow> DEFAULT_PATH))"

text \<open>
  (C18) A command is started in a closed environment: a variable of it was declared with that value,
  or is inherited by name from the host and not removed, or is the search path or the Git setting
  every launch has; nothing else of the caller's environment leaks into it, and every required
  variable is there.
\<close>

theorem environment_values_closed:
  assumes "environment_values pe env host = Inr e"
  shows "(\<forall>k v. dget e k = Some v \<longrightarrow> variable_source pe (dmerge env host) k v) \<and> (\<forall>k \<in> set (pe_require pe). dhas e k)"
proof -
  let ?b = "build_environment (pe_inherit pe) (pe_unset pe) (pe_declared pe) (dmerge env host)"
  from assms have e: "e = dset ''GIT_OPTIONAL_LOCKS'' ''0'' ?b"
    and required: "filter (\<lambda>n. \<not> dhas ?b n) (pe_require pe) = []"
    by (auto simp: environment_values_def Let_def sort_eq_Nil split: if_split_asm)
  have "variable_source pe (dmerge env host) k v" if "dget e k = Some v" for k v
  proof (cases "k = ''GIT_OPTIONAL_LOCKS''")
    case True
    with that show ?thesis unfolding e dget_dset variable_source_def by simp
  next
    case False
    with that have "dget ?b k = Some v" unfolding e dget_dset by simp
    from build_environment_source [OF this] show ?thesis unfolding variable_source_def by blast
  qed
  moreover have "\<forall>k \<in> set (pe_require pe). dhas e k"
    using required unfolding e filter_empty_conv by (auto simp: dhas_iff dget_dset)
  ultimately show ?thesis by blast
qed

definition sample_environment :: project_environment where
  "sample_environment = \<lparr>pe_kind = ''shell'', pe_command = [''env''], pe_inherit = [''HOME''], pe_unset = [''PATH''],
     pe_declared = [(''MODE'', ''ci'')], pe_require = [''HOME''], pe_cache_inputs = []\<rparr>"

theorem environment_values_closed_witness:
  "\<exists>e. environment_values sample_environment [(''HOME'', ''/h''), (''SECRET'', ''s'')] [] = Inr e
     \<and> dhas e ''HOME'' \<and> \<not> dhas e ''SECRET''"
proof -
  let ?env = "[(''HOME'', ''/h''), (''SECRET'', ''s'')] :: string dict"
  have run: "environment_values sample_environment ?env []
      = Inr [(''HOME'', ''/h''), (''MODE'', ''ci''), (''GIT_OPTIONAL_LOCKS'', ''0'')]" (is "_ = Inr ?e") by code_simp
  from environment_values_closed [OF run] have "\<forall>k \<in> set (pe_require sample_environment). dhas ?e k" by blast
  then have "dhas ?e ''HOME''" by (simp add: sample_environment_def)
  moreover have "\<not> dhas ?e ''SECRET''" by code_simp
  ultimately show ?thesis using run by blast
qed

section \<open>One bad descriptor hides no other\<close>

text \<open>Every root is accounted for, and every adapter comes from a root.\<close>

definition accounts_for :: "(ppath \<Rightarrow> project res) \<Rightarrow> ppath list \<Rightarrow> catalog \<Rightarrow> bool" where
  "accounts_for load roots c \<longleftrightarrow>
     (\<forall>r \<in> set roots. case load r of
        Inl e \<Rightarrow> dhas (ct_unavailable c) (path_str r) | Inr p \<Rightarrow> dhas (ct_adapters c) (pj_id p))
     \<and> (\<forall>i p. dget (ct_adapters c) i = Some p \<longrightarrow> pj_id p = i \<and> (\<exists>r \<in> set roots. load r = Inr p))"

lemma add_root_accounts:
  assumes "accounts_for load rs c" and "\<forall>e. load r = Inl e \<longrightarrow> is_valueerror e \<or> is_oserror e"
  shows "\<exists>c'. add_root load True c r = Inr c' \<and> accounts_for load (rs @ [r]) c'"
proof (cases "load r")
  case (Inl e)
  with assms(2) have "is_valueerror e \<or> is_oserror e" by blast
  with Inl assms(1) show ?thesis
    by (auto simp: add_root_def accounts_for_def dhas_iff dget_dset split: sum.split sum.split_asm)
next
  case (Inr p)
  show ?thesis
  proof (cases "dhas (ct_adapters c) (pj_id p)")
    case True
    with Inr assms(1) show ?thesis
      by (auto simp: add_root_def accounts_for_def dhas_iff dget_dset split: sum.split sum.split_asm)
  next
    case False
    with Inr assms(1) show ?thesis
      by (auto simp: add_root_def accounts_for_def dhas_iff dget_dset split: sum.split sum.split_asm)
  qed
qed

lemma add_roots_accounts:
  "accounts_for load rs c \<Longrightarrow> \<forall>r \<in> set qs. \<forall>e. load r = Inl e \<longrightarrow> is_valueerror e \<or> is_oserror e
     \<Longrightarrow> \<exists>c'. add_roots load True c qs = Inr c' \<and> accounts_for load (rs @ qs) c'"
proof (induction qs arbitrary: rs c)
  case (Cons q qs)
  from add_root_accounts [OF Cons.prems(1), of q] Cons.prems(2)
  obtain c' where c': "add_root load True c q = Inr c'" "accounts_for load (rs @ [q]) c'" by auto
  from Cons.IH [OF c'(2)] Cons.prems(2) c'(1) show ?case by auto
qed simp


definition sample_roots_fs :: fs where
  "sample_roots_fs = \<lparr>nodes = [((''/'', [''a'']), Dir 493)], noread = [], nowrite = []\<rparr>"


end
