(* ===== verification/Agentctl_Launch.thy ===== *)
theory Agentctl_Launch
  imports Agentctl_Git Agentctl_Projects
begin

text \<open>
  The first half of \<open>agentctl/launch.py\<close>: receipts and cached results, admission and its holds,
  enqueueing a job, keyed requests, and starting a declared operation. \<open>dig\<close> is the digest, the fresh
  part of a job id and the reader of TOML are parameters. \<open>EnqueueUncertain\<close> is a job error with the
  text of that class. The fields of a retained input have the types the launcher writes.
\<close>

definition HOLD_REASON :: string where "HOLD_REASON = ''pool-exclusivity''"
definition LAUNCHER_POOL_VARIABLE :: string where "LAUNCHER_POOL_VARIABLE = ''AGENTCTL_POOL''"
definition QUEUE_RUN_EXECUTABLE :: string where "QUEUE_RUN_EXECUTABLE = ''agentctl-run''"

definition enqueue_uncertain :: "string \<Rightarrow> exn \<Rightarrow> exn" where
  "enqueue_uncertain job e = JobErr (''pueue acceptance is unknown for launch '' @ job @ '': '' @ exn_str e)"

fun is_joberror :: "exn \<Rightarrow> bool" where
  "is_joberror (JobErr m) = True"
| "is_joberror _ = False"

definition label_for :: "string \<Rightarrow> string \<Rightarrow> string" where
  "label_for project_id operation = project_id @ '':'' @ operation"

text \<open>\<open>re.sub('[^A-Za-z0-9._-]+', '-', label)\<close>.\<close>

definition job_char :: "char \<Rightarrow> bool" where
  "job_char c \<longleftrightarrow> is_alnum c \<or> c \<in> set ''._-''"

fun safe_label :: "string \<Rightarrow> string" where
  "safe_label [] = []"
| "safe_label [c] = (if job_char c then [c] else ''-'')"
| "safe_label (c # d # r) =
     (if job_char c then c # safe_label (d # r)
      else if job_char d then CHR ''-'' # safe_label (d # r) else safe_label (d # r))"

definition new_job_id :: "string \<Rightarrow> string \<Rightarrow> string" where
  "new_job_id fresh label =
     (let s = strip_set ''-'' (safe_label label) in (if s = [] then ''job'' else s) @ ''-'' @ fresh)"

section \<open>Receipts\<close>

definition git_read :: "host \<Rightarrow> ppath \<Rightarrow> string list \<Rightarrow> (lworld, string) io" where
  "git_read h path args = git_call h JobErr path args [0] False False"

definition tree_receipt :: "host \<Rightarrow> ppath \<Rightarrow> (lworld, pydict) io" where
  "tree_receipt h path =
     bindM (git_read h path [''rev-parse'', ''HEAD'']) (\<lambda>head.
     bindM (git_read h path [''rev-parse'', ''HEAD^{tree}'']) (\<lambda>tree.
     bindM (git_read h path [''status'', ''--porcelain=v1'', ''--untracked-files=all'']) (\<lambda>changes.
       returnM [(''head'', PStr head), (''tree'', PStr tree), (''dirty'', PBool (changes \<noteq> []))])))"

definition environment_receipt ::
  "(string \<Rightarrow> string) \<Rightarrow> project \<Rightarrow> project_operation \<Rightarrow> string dict \<Rightarrow> string list \<Rightarrow> pydict" where
  "environment_receipt dig p op env extra =
     [(''digest'', PStr (''sha256:'' @ dig (json_dumps (PDict
        [(''descriptor'', PStr (pj_digest p)), (''kind'', PStr (pe_kind (pj_environment p))),
         (''command'', str_values (pe_command (pj_environment p))),
         (''cache_inputs'', str_values (pe_cache_inputs (pj_environment p))),
         (''operation'', PStr (op_name op)), (''argv'', str_values (op_command op @ extra)),
         (''environment'', PList (map (\<lambda>(k, v). PList [PStr k, PStr v]) (sort_key fst env)))]))))]"

definition same_tree :: "pyval \<Rightarrow> pydict \<Rightarrow> bool" where
  "same_tree recorded requested \<longleftrightarrow>
     (case recorded of
        PDict r \<Rightarrow> pget r ''dirty'' = PBool False \<and> pget requested ''dirty'' = PBool False
          \<and> is_str (pget r ''tree'') \<and> py_eq (pget r ''tree'') (pget requested ''tree'')
      | _ \<Rightarrow> False)"

definition result_key_path :: "(string \<Rightarrow> string) \<Rightarrow> config \<Rightarrow> string \<Rightarrow> pydict \<Rightarrow> pydict \<Rightarrow> ppath" where
  "result_key_path dig cfg label tree env =
     path_join (path_join (state_dir cfg) ''results'')
       (dig (json_dumps_plain (PList [PStr label, pget tree ''tree'', pget env ''digest''])))"

definition record_result_key ::
  "host \<Rightarrow> (string \<Rightarrow> string) \<Rightarrow> config \<Rightarrow> string \<Rightarrow> pydict \<Rightarrow> pydict \<Rightarrow> string \<Rightarrow> (lworld, unit) io" where
  "record_result_key h dig cfg label tree env job =
     (let p = result_key_path dig cfg label tree env
      in edit h (bindM (fsM (mkdir_p 493 (path_parent p))) (\<lambda>_. fsM (fs_publish p job 384))))"

section \<open>Cached results\<close>

text \<open>Both endpoints of an execution saw this clean tree.\<close>

definition observed_tree :: "pyval \<Rightarrow> pydict \<Rightarrow> bool" where
  "observed_tree ob tree \<longleftrightarrow>
     (case ob of
        PDict o' \<Rightarrow> pget o' ''status'' = PStr ''observed'' \<and> py_eq (pget o' ''tree'') (pget tree ''tree'')
          \<and> pget o' ''dirty'' = PBool False
      | _ \<Rightarrow> False)"

text \<open>An outcome that is evidence for a request of this tree and environment.\<close>

definition outcome_matches :: "nat \<Rightarrow> string \<Rightarrow> pydict \<Rightarrow> pydict \<Rightarrow> bool" where
  "outcome_matches number environment_identity tree oc \<longleftrightarrow>
     eq_int (pget oc ''attempt'') (int number) \<and> pget oc ''outcome'' = PStr ''success''
     \<and> (case (pget oc ''execution_receipt'', pget oc ''execution_evidence'') of
          (PDict ex, PDict ev) \<Rightarrow>
            pget ex ''binding'' = PStr ''unchanged_endpoints''
            \<and> pget ev ''environment_identity'' = PStr environment_identity
            \<and> observed_tree (pget ex ''start'') tree \<and> observed_tree (pget ex ''end'') tree
        | _ \<Rightarrow> False)"

text \<open>The metadata of an attempt pins it to this launch input.\<close>

definition attempt_pinned :: "fs \<Rightarrow> ppath \<Rightarrow> nat \<Rightarrow> ppath \<Rightarrow> bool" where
  "attempt_pinned f outcome number launch \<longleftrightarrow>
     (case dict_document (read_bounded f (path_join (path_parent outcome) ''attempt.json'') 16384) of
        Some md \<Rightarrow> eq_int (pget md ''attempt'') (int number) \<and> pget md ''launch_input'' = PStr (path_str launch)
      | None \<Rightarrow> False)"

definition last_attempt_result ::
  "(string \<Rightarrow> string) \<Rightarrow> config \<Rightarrow> fs \<Rightarrow> task \<Rightarrow> ppath \<Rightarrow> pydict \<Rightarrow> pydict \<Rightarrow> attempt_rec \<Rightarrow> pydict option" where
  "last_attempt_result dig cfg f t launch document tree a =
     (case dget (at_artifacts a) ''outcome'' of
        None \<Rightarrow> None
      | Some s \<Rightarrow>
          if \<not> owns_path cfg f t (mkpath s) \<or> \<not> attempt_pinned f (mkpath s) (at_number a) launch then None
          else
            (case read_outcome f (Some (mkpath s)) MAX_OUTCOME_BYTES of
               None \<Rightarrow> None
             | Some oc \<Rightarrow>
                 if outcome_matches (at_number a)
                      (dig (json_dumps_sorted (if truthy (pget document ''environment'')
                         then pget document ''environment'' else PDict []))) tree oc
                 then Some (dset ''attempt'' (PInt (int (at_number a))) oc) else None))"

definition successful_cached_attempt ::
  "(string \<Rightarrow> string) \<Rightarrow> config \<Rightarrow> fs \<Rightarrow> task \<Rightarrow> pydict \<Rightarrow> pydict option \<Rightarrow> pydict option res" where
  "successful_cached_attempt dig cfg f t tree env =
     (if tk_status t \<noteq> ''Archived'' \<and> (\<not> terminal t \<or> \<not> succeeded t) then Inr None
      else
        (case (launch_input_path t, read_launch_input cfg f t) of
           (Some launch, Some document) \<Rightarrow>
             if (case env of None \<Rightarrow> False
                 | Some e \<Rightarrow> \<not> same_tree (pget document ''tree_receipt'') tree
                     \<or> \<not> py_eq (pget document ''environment_receipt'') (PDict e))
             then Inr None
             else bindE (attempts f document) (\<lambda>as.
               Inr (if as = [] then None else last_attempt_result dig cfg f t launch document tree (last as)))
         | _ \<Rightarrow> Inr None))"

definition retained_match ::
  "host \<Rightarrow> (string \<Rightarrow> string) \<Rightarrow> config \<Rightarrow> string \<Rightarrow> pydict \<Rightarrow> pydict \<Rightarrow> (lworld, task option) io" where
  "retained_match h dig cfg label tree env =
     bindM (peek h (\<lambda>f. Inr (read_bounded f (result_key_path dig cfg label tree env) 256))) (\<lambda>raw.
       (let job = (case raw of None \<Rightarrow> [] | Some b \<Rightarrow> strip b)
        in if \<not> JOB_ID job then returnM None
           else bindM (catchM (bindM (ask h (\<lambda>m. read_task m cfg (- 1) (Some job))) (\<lambda>t. returnM (Some t)))
                 (\<lambda>e. if is_joberror e then returnM None else raiseM e)) (\<lambda>found.
             (case found of
                None \<Rightarrow> returnM None
              | Some t \<Rightarrow>
                  if tk_label t \<noteq> label \<or> (tk_status t \<noteq> ''Archived'' \<and> \<not> terminal t) then returnM None
                  else bindM (peek h (\<lambda>f. successful_cached_attempt dig cfg f t tree (Some env))) (\<lambda>r.
                    returnM (if r = None then None else Some t))))))"

fun first_match ::
  "host \<Rightarrow> (string \<Rightarrow> string) \<Rightarrow> config \<Rightarrow> string \<Rightarrow> pydict \<Rightarrow> pydict \<Rightarrow> task list \<Rightarrow> (lworld, task option) io" where
  "first_match h dig cfg label tree env [] = returnM None"
| "first_match h dig cfg label tree env (t # ts) =
     (if tk_label t \<noteq> label then first_match h dig cfg label tree env ts
      else bindM (peek h (\<lambda>f. Inr (read_launch_input cfg f t))) (\<lambda>v.
        (case v of
           None \<Rightarrow> first_match h dig cfg label tree env ts
         | Some d \<Rightarrow>
             if \<not> same_tree (pget d ''tree_receipt'') tree \<or> \<not> py_eq (pget d ''environment_receipt'') (PDict env)
             then first_match h dig cfg label tree env ts
             else if \<not> terminal t then returnM (Some t)
             else if \<not> succeeded t then first_match h dig cfg label tree env ts
             else bindM (peek h (\<lambda>f. successful_cached_attempt dig cfg f t tree (Some env))) (\<lambda>r.
               if r \<noteq> None then returnM (Some t) else first_match h dig cfg label tree env ts))))"

definition matching_task ::
  "host \<Rightarrow> (string \<Rightarrow> string) \<Rightarrow> config \<Rightarrow> project \<Rightarrow> project_operation \<Rightarrow> pydict \<Rightarrow> pydict \<Rightarrow> (lworld, task option) io" where
  "matching_task h dig cfg p op tree env =
     (let label = label_for (pj_id p) (op_name op)
      in bindM (tasks_all (h_daemon h)) (\<lambda>ts.
         bindM (first_match h dig cfg label tree env (sort_key tk_id (map snd ts))) (\<lambda>found.
           (case found of Some t \<Rightarrow> returnM (Some t) | None \<Rightarrow> retained_match h dig cfg label tree env))))"

section \<open>What a cached result is evidence of\<close>

text \<open>A recorded observation of the requested tree, clean.\<close>

lemma observed_tree_clean:
  "observed_tree ob tree \<Longrightarrow> \<exists>d. ob = PDict d \<and> pget d ''status'' = PStr ''observed''
     \<and> py_eq (pget d ''tree'') (pget tree ''tree'') \<and> pget d ''dirty'' = PBool False"
  by (cases ob) (simp_all add: observed_tree_def)

lemma outcome_matches_clean:
  assumes "outcome_matches n ident tree oc"
  shows "pget oc ''outcome'' = PStr ''success''"
    and "\<exists>ex. pget oc ''execution_receipt'' = PDict ex \<and> pget ex ''binding'' = PStr ''unchanged_endpoints''
       \<and> observed_tree (pget ex ''start'') tree \<and> observed_tree (pget ex ''end'') tree"
  using assms by (auto simp: outcome_matches_def split: pyval.split_asm)

lemma last_attempt_result_Some:
  assumes "last_attempt_result dig cfg f t launch document tree a = Some r"
  shows "\<exists>p oc ident. dget (at_artifacts a) ''outcome'' = Some p \<and> attempt_pinned f (mkpath p) (at_number a) launch
     \<and> read_outcome f (Some (mkpath p)) MAX_OUTCOME_BYTES = Some oc
     \<and> outcome_matches (at_number a) ident tree oc \<and> r = dset ''attempt'' (PInt (int (at_number a))) oc"
  using assms by (auto simp: last_attempt_result_def Let_def split: option.split_asm if_split_asm)

lemma pget_dset_other: "k \<noteq> j \<Longrightarrow> pget (dset j v d) k = pget d k"
  by (simp add: pget_def dget_dset)

lemma py_eq_str: "is_str v \<Longrightarrow> py_eq v w \<Longrightarrow> is_str w"
  by (cases v) auto

text \<open>
  (C15) A result is reused only as evidence for the same request: the job is archived or succeeded, its
  input recorded the requested clean tree and environment, and the last attempt, pinned to that input,
  ended with success with the same clean tree observed at its start and at its end.
\<close>

theorem cached_attempt_is_evidence:
  assumes "successful_cached_attempt dig cfg f t tree (Some env) = Inr (Some r)"
  shows "(tk_status t = ''Archived'' \<or> terminal t \<and> succeeded t)
     \<and> pget tree ''dirty'' = PBool False \<and> is_str (pget tree ''tree'')
     \<and> (\<exists>launch document a as p oc ex st en.
         launch_input_path t = Some launch \<and> read_launch_input cfg f t = Some document
       \<and> same_tree (pget document ''tree_receipt'') tree
       \<and> py_eq (pget document ''environment_receipt'') (PDict env)
       \<and> attempts f document = Inr (as @ [a])
       \<and> dget (at_artifacts a) ''outcome'' = Some p \<and> attempt_pinned f (mkpath p) (at_number a) launch
       \<and> read_outcome f (Some (mkpath p)) MAX_OUTCOME_BYTES = Some oc
       \<and> r = dset ''attempt'' (PInt (int (at_number a))) oc \<and> pget oc ''outcome'' = PStr ''success''
       \<and> pget oc ''execution_receipt'' = PDict ex \<and> pget ex ''binding'' = PStr ''unchanged_endpoints''
       \<and> pget ex ''start'' = PDict st \<and> py_eq (pget st ''tree'') (pget tree ''tree'') \<and> pget st ''dirty'' = PBool False
       \<and> pget ex ''end'' = PDict en \<and> py_eq (pget en ''tree'') (pget tree ''tree'') \<and> pget en ''dirty'' = PBool False)"
proof -
  from assms have state: "tk_status t = ''Archived'' \<or> terminal t \<and> succeeded t"
    by (auto simp: successful_cached_attempt_def split: if_split_asm)
  with assms obtain launch document where doc: "launch_input_path t = Some launch" "read_launch_input cfg f t = Some document"
    by (auto simp: successful_cached_attempt_def split: if_split_asm option.split_asm)
  with assms state have same: "same_tree (pget document ''tree_receipt'') tree"
      "py_eq (pget document ''environment_receipt'') (PDict env)"
    by (auto simp: successful_cached_attempt_def split: if_split_asm)
  from assms state doc same obtain as0 where as0: "attempts f document = Inr as0" "as0 \<noteq> []"
      "last_attempt_result dig cfg f t launch document tree (last as0) = Some r"
    by (auto simp: successful_cached_attempt_def bindE_eq_Inr split: if_split_asm)
  let ?a = "last as0"
  have as: "attempts f document = Inr (butlast as0 @ [?a])" using as0 by simp
  from last_attempt_result_Some [OF as0(3)] obtain p oc ident where
      oc: "dget (at_artifacts ?a) ''outcome'' = Some p" "attempt_pinned f (mkpath p) (at_number ?a) launch"
        "read_outcome f (Some (mkpath p)) MAX_OUTCOME_BYTES = Some oc"
        "r = dset ''attempt'' (PInt (int (at_number ?a))) oc"
      and matches: "outcome_matches (at_number ?a) ident tree oc" by blast
  from outcome_matches_clean [OF matches] obtain ex where
      ex: "pget oc ''outcome'' = PStr ''success''" "pget oc ''execution_receipt'' = PDict ex"
        "pget ex ''binding'' = PStr ''unchanged_endpoints''"
      and ends: "observed_tree (pget ex ''start'') tree" "observed_tree (pget ex ''end'') tree" by blast
  from ends [THEN observed_tree_clean] obtain st en where
      "pget ex ''start'' = PDict st" "py_eq (pget st ''tree'') (pget tree ''tree'')" "pget st ''dirty'' = PBool False"
      "pget ex ''end'' = PDict en" "py_eq (pget en ''tree'') (pget tree ''tree'')" "pget en ''dirty'' = PBool False"
    by blast
  moreover from same(1) have "pget tree ''dirty'' = PBool False" "is_str (pget tree ''tree'')"
    by (auto simp: same_tree_def split: pyval.split_asm dest: py_eq_str)
  ultimately show ?thesis using state doc same as oc ex by blast
qed


definition cached_input :: string where
  "cached_input = ''{\"log_path\":\"/s/jobs/j.log\",\"tree_receipt\":{\"dirty\":false,\"tree\":\"t\"},\"environment_receipt\":{}}''"

definition cached_outcome :: string where
  "cached_outcome = ''{\"attempt\":1,\"outcome\":\"success\",\"execution_evidence\":{\"environment_identity\":\"e\"},''
     @ ''\"execution_receipt\":{\"binding\":\"unchanged_endpoints\",''
     @ ''\"start\":{\"status\":\"observed\",\"tree\":\"t\",\"dirty\":false},''
     @ ''\"end\":{\"status\":\"observed\",\"tree\":\"t\",\"dirty\":false}}}''"

definition cached_fs :: fs where
  "cached_fs = \<lparr>nodes =
     [((''/'', [''s'']), Dir 448), ((''/'', [''s'', ''inputs'']), Dir 448), ((''/'', [''s'', ''jobs'']), Dir 448),
      ((''/'', [''s'', ''inputs'', ''j.json'']), RegFile cached_input 384),
      ((''/'', [''s'', ''jobs'', ''j.attempts'']), Dir 448), ((''/'', [''s'', ''jobs'', ''j.attempts'', ''1'']), Dir 448),
      ((''/'', [''s'', ''jobs'', ''j.attempts'', ''1'', ''attempt.json'']),
        RegFile ''{\"attempt\":1,\"launch_input\":\"/s/inputs/j.json\"}'' 384),
      ((''/'', [''s'', ''jobs'', ''j.attempts'', ''1'', ''output.outcome'']), RegFile cached_outcome 384)],
     noread = [], nowrite = []\<rparr>"

definition cached_tree :: pydict where "cached_tree = [(''tree'', PStr ''t''), (''dirty'', PBool False)]"

definition cached_document :: pydict where
  "cached_document = [(''log_path'', PStr ''/s/jobs/j.log''),
     (''tree_receipt'', PDict [(''dirty'', PBool False), (''tree'', PStr ''t'')]), (''environment_receipt'', PDict [])]"

lemma read_bounded_all: "fs_read_nofollow f p = Inr b \<Longrightarrow> length b \<le> n \<Longrightarrow> read_bounded f p n = Some b"
  by (simp add: read_bounded_def)

lemma cached_launch: "launch_input_path Agentctl_Jobs.sample_task = Some (mkpath ''/s/inputs/j.json'')"
  by code_simp

lemma cached_read: "read_launch_input Agentctl_Jobs.sample_cfg cached_fs Agentctl_Jobs.sample_task = Some cached_document"
proof -
  have "owns_path Agentctl_Jobs.sample_cfg cached_fs Agentctl_Jobs.sample_task (mkpath ''/s/inputs/j.json'')" by code_simp
  moreover have "fs_read_nofollow cached_fs (mkpath ''/s/inputs/j.json'') = Inr cached_input" by code_simp
  moreover have "loads_bytes cached_input = Inr (PDict cached_document)" by code_simp
  ultimately show ?thesis
    by (simp add: read_launch_input_def cached_launch dict_document_def read_bounded_all cached_input_def
        MAX_LAUNCH_INPUT_BYTES_def)
qed

lemma cached_attempts: "attempts cached_fs cached_document = Inr [\<lparr>at_number = 1, at_artifacts =
     [(''log'', ''/s/jobs/j.attempts/1/output.log''), (''outcome'', ''/s/jobs/j.attempts/1/output.outcome'')]\<rparr>]"
  by code_simp

lemma cached_pinned: "attempt_pinned cached_fs (mkpath ''/s/jobs/j.attempts/1/output.outcome'') 1 (mkpath ''/s/inputs/j.json'')"
proof -
  let ?raw = "''{\"attempt\":1,\"launch_input\":\"/s/inputs/j.json\"}''"
  have "fs_read_nofollow cached_fs (path_join (path_parent (mkpath ''/s/jobs/j.attempts/1/output.outcome'')) ''attempt.json'')
      = Inr ?raw" by code_simp
  moreover have "loads_bytes ?raw = Inr (PDict [(''attempt'', PInt 1), (''launch_input'', PStr ''/s/inputs/j.json'')])"
    by code_simp
  moreover have "path_str (mkpath ''/s/inputs/j.json'') = ''/s/inputs/j.json''" by code_simp
  ultimately show ?thesis
    by (simp add: attempt_pinned_def dict_document_def read_bounded_all pget_def)
qed

lemma cached_result: "\<exists>oc. last_attempt_result (\<lambda>s. ''e'') Agentctl_Jobs.sample_cfg cached_fs Agentctl_Jobs.sample_task
     (mkpath ''/s/inputs/j.json'') cached_document cached_tree
     \<lparr>at_number = 1, at_artifacts = [(''log'', ''/s/jobs/j.attempts/1/output.log''),
        (''outcome'', ''/s/jobs/j.attempts/1/output.outcome'')]\<rparr> = Some oc"
proof -
  have owns: "owns_path Agentctl_Jobs.sample_cfg cached_fs Agentctl_Jobs.sample_task
      (mkpath ''/s/jobs/j.attempts/1/output.outcome'')" by code_simp
  have raw: "fs_read_nofollow cached_fs (mkpath ''/s/jobs/j.attempts/1/output.outcome'') = Inr cached_outcome" by code_simp
  have "case loads_bytes cached_outcome of Inr (PDict d) \<Rightarrow> outcome_matches 1 ''e'' cached_tree d | _ \<Rightarrow> False" by code_simp
  then obtain oc where oc: "loads_bytes cached_outcome = Inr (PDict oc)" "outcome_matches 1 ''e'' cached_tree oc"
    by (auto split: sum.split_asm pyval.split_asm)
  have "length cached_outcome \<le> MAX_OUTCOME_BYTES"
    by (simp add: cached_outcome_def MAX_OUTCOME_BYTES_def MAX_LAUNCH_INPUT_BYTES_def)
  with raw oc(1) have "read_outcome cached_fs (Some (mkpath ''/s/jobs/j.attempts/1/output.outcome'')) MAX_OUTCOME_BYTES
      = Some oc" by (simp add: read_outcome_def)
  with owns oc(2) cached_pinned show ?thesis by (simp add: last_attempt_result_def)
qed

lemma cached_success: "\<exists>r. successful_cached_attempt (\<lambda>s. ''e'') Agentctl_Jobs.sample_cfg cached_fs
     Agentctl_Jobs.sample_task cached_tree (Some []) = Inr (Some r)"
proof -
  have "terminal Agentctl_Jobs.sample_task" "succeeded Agentctl_Jobs.sample_task"
    "same_tree (pget cached_document ''tree_receipt'') cached_tree"
    "py_eq (pget cached_document ''environment_receipt'') (PDict [])" by code_simp+
  with cached_result show ?thesis
    by (auto simp: successful_cached_attempt_def cached_launch cached_read cached_attempts)
qed

theorem cached_attempt_is_evidence_witness:
  "\<exists>r. successful_cached_attempt (\<lambda>s. ''e'') Agentctl_Jobs.sample_cfg cached_fs Agentctl_Jobs.sample_task cached_tree (Some [])
       = Inr (Some r) \<and> is_str (pget cached_tree ''tree'')"
proof -
  obtain r where run: "successful_cached_attempt (\<lambda>s. ''e'') Agentctl_Jobs.sample_cfg cached_fs
      Agentctl_Jobs.sample_task cached_tree (Some []) = Inr (Some r)" using cached_success by blast
  with cached_attempt_is_evidence [OF run] show ?thesis by blast
qed

section \<open>A reused job answers the request\<close>

text \<open>The input of the job records this request.\<close>

definition answers :: "config \<Rightarrow> fs \<Rightarrow> pydict \<Rightarrow> pydict \<Rightarrow> task \<Rightarrow> bool" where
  "answers cfg f tree env t \<longleftrightarrow> (case read_launch_input cfg f t of
       Some d \<Rightarrow> same_tree (pget d ''tree_receipt'') tree \<and> py_eq (pget d ''environment_receipt'') (PDict env)
     | None \<Rightarrow> False)"

lemma cached_answers:
  "successful_cached_attempt dig cfg f t tree (Some env) = Inr (Some r) \<Longrightarrow> answers cfg f tree env t"
  by (auto simp: answers_def successful_cached_attempt_def split: if_split_asm option.split_asm)

lemma first_match_answers:
  assumes "undisturbed h" and "first_match h dig cfg label tree env ts w = (Inr (Some t), w')"
  shows "t \<in> set ts \<and> tk_label t = label \<and> answers cfg (lw_fs w) tree env t
     \<and> (\<not> terminal t \<or> (\<exists>r. successful_cached_attempt dig cfg (lw_fs w) t tree (Some env) = Inr (Some r)))"
  using assms(2)
proof (induction ts arbitrary: w)
  case (Cons u ts)
  show ?case
  proof (cases "tk_label u = label")
    case False
    with Cons.prems Cons.IH [of w] show ?thesis by simp
  next
    case True
    obtain w1 where look: "peek h (\<lambda>f. Inr (read_launch_input cfg f u)) w = (Inr (read_launch_input cfg (lw_fs w) u), w1)"
      and w1: "lw_fs w1 = lw_fs w"
      using peek_still [OF assms(1), of "\<lambda>f. Inr (read_launch_input cfg f u)" w] by (metis prod.exhaust)
    let ?v = "read_launch_input cfg (lw_fs w) u"
    show ?thesis
    proof (cases "answers cfg (lw_fs w) tree env u \<and> (\<not> terminal u \<or> succeeded u)")
      case False
      then have "first_match h dig cfg label tree env ts w1 = (Inr (Some t), w')"
        using Cons.prems True look by (auto simp: bindM_def answers_def split: option.split_asm if_split_asm)
      with Cons.IH [of w1] w1 show ?thesis by simp
    next
      case ans: True
      then obtain d where d: "?v = Some d" "same_tree (pget d ''tree_receipt'') tree"
          "py_eq (pget d ''environment_receipt'') (PDict env)"
        by (auto simp: answers_def split: option.split_asm)
      show ?thesis
      proof (cases "terminal u")
        case False
        with Cons.prems True look d have "u = t" by (simp add: bindM_def)
        with False True ans show ?thesis by simp
      next
        case fin: True
        let ?c = "\<lambda>f. successful_cached_attempt dig cfg f u tree (Some env)"
        obtain q w2 where p2: "peek h ?c w1 = (q, w2)" by force
        with peek_still [OF assms(1) p2] w1 have q: "q = ?c (lw_fs w)" "lw_fs w2 = lw_fs w" by auto
        from Cons.prems True look d fin ans p2 have run:
          "(case q of Inl e \<Rightarrow> (Inl e, w2)
             | Inr r \<Rightarrow> (if r \<noteq> None then returnM (Some u) else first_match h dig cfg label tree env ts) w2)
            = (Inr (Some t), w')"
          by (simp add: bindM_def split: sum.split_asm)
        show ?thesis
        proof (cases q)
          case (Inr r)
          show ?thesis
          proof (cases r)
            case None
            with run Inr have "first_match h dig cfg label tree env ts w2 = (Inr (Some t), w')" by simp
            with Cons.IH [of w2] q show ?thesis by simp
          next
            case (Some x)
            with run Inr have "u = t" by simp
            with Some Inr q True ans show ?thesis by auto
          qed
        qed (use run in simp)
      qed
    qed
  qed
qed simp

lemma retained_match_answers:
  assumes "undisturbed h" and "retained_match h dig cfg label tree env w = (Inr (Some t), w')"
  shows "tk_label t = label
     \<and> (\<exists>r. successful_cached_attempt dig cfg (lw_fs w) t tree (Some env) = Inr (Some r))"
proof -
  let ?key = "\<lambda>f. Inr (read_bounded f (result_key_path dig cfg label tree env) 256)"
  obtain raw w1 where w1: "peek h ?key w = (Inr raw, w1)" and f1: "lw_fs w1 = lw_fs w"
    using peek_still [OF assms(1), of ?key w] by (metis prod.exhaust)
  define job where "job = (case raw of None \<Rightarrow> [] | Some b \<Rightarrow> strip b)"
  let ?find = "catchM (bindM (ask h (\<lambda>m. read_task m cfg (- 1) (Some job))) (\<lambda>t. returnM (Some t)))
                 (\<lambda>e. if is_joberror e then returnM None else raiseM e)"
  have keep: "file_keeper ?find" by (intro file_keeper_intros file_keeper_ask assms(1))
  have first: "bindM (peek h ?key) k w = k raw w1" for k :: "string option \<Rightarrow> (lworld, task option) io"
    using w1 by (simp add: bindM_def)
  from assms(2) have ok: "JOB_ID job" by (auto simp: retained_match_def first Let_def job_def split: if_split_asm)
  let ?rest = "\<lambda>x. case x of None \<Rightarrow> returnM None
       | Some t \<Rightarrow> if tk_label t \<noteq> label \<or> (tk_status t \<noteq> ''Archived'' \<and> \<not> terminal t) then returnM None
           else bindM (peek h (\<lambda>f. successful_cached_attempt dig cfg f t tree (Some env))) (\<lambda>r.
              returnM (if r = None then None else Some t))"
  have "bindM ?find ?rest w1 = (Inr (Some t), w')"
    using assms(2) ok by (simp only: retained_match_def Let_def first job_def [symmetric] not_not if_not_P not_True_eq_False if_False simp_thms)
  then obtain x w2 where find: "?find w1 = (Inr x, w2)" and rest: "?rest x w2 = (Inr (Some t), w')"
    by (auto simp only: bindM_eq_Inr)
  from file_keeper.same_files [OF keep find] f1 have f2: "lw_fs w2 = lw_fs w" by simp
  from rest obtain u where u: "x = Some u" by (cases x) auto
  with rest have lab: "tk_label u = label" by (auto split: if_split_asm)
  from rest u obtain r w3 where "peek h (\<lambda>f. successful_cached_attempt dig cfg f u tree (Some env)) w2 = (Inr r, w3)"
      "r \<noteq> None" "u = t"
    by (auto simp: bindM_eq_Inr split: if_split_asm)
  with peek_still [OF assms(1), of "\<lambda>f. successful_cached_attempt dig cfg f u tree (Some env)" w2] f2
  have "successful_cached_attempt dig cfg (lw_fs w) t tree (Some env) = Inr r" by metis
  with \<open>r \<noteq> None\<close> \<open>u = t\<close> lab show ?thesis by auto
qed

text \<open>
  Only work on the same request is reused: a job that a cacheable start is answered with carries the
  label of the operation and an input with the requested clean tree and environment, and it is either
  listed as unfinished by the queue or has a recorded successful attempt at that tree.
\<close>

theorem matching_task_answers:
  assumes "undisturbed h" and "matching_task h dig cfg p op tree env w = (Inr (Some t), w')"
  shows "tk_label t = label_for (pj_id p) (op_name op) \<and> answers cfg (lw_fs w) tree env t
     \<and> ((\<exists>ts. fst (tasks_all (h_daemon h) w) = Inr ts \<and> t \<in> snd ` set ts \<and> \<not> terminal t)
        \<or> (\<exists>r. successful_cached_attempt dig cfg (lw_fs w) t tree (Some env) = Inr (Some r)))"
proof -
  let ?l = "label_for (pj_id p) (op_name op)"
  from assms(2) obtain ts w1 found w2 where ts: "tasks_all (h_daemon h) w = (Inr ts, w1)"
    and fm: "first_match h dig cfg ?l tree env (sort_key tk_id (map snd ts)) w1 = (Inr found, w2)"
    and rest: "(case found of Some t \<Rightarrow> returnM (Some t) | None \<Rightarrow> retained_match h dig cfg ?l tree env) w2
       = (Inr (Some t), w')"
    by (auto simp: matching_task_def Let_def bindM_eq_Inr)
  have f1: "lw_fs w1 = lw_fs w" by (rule kept_tasks_all.same_files [OF ts])
  show ?thesis
  proof (cases found)
    case (Some u)
    with rest fm have "first_match h dig cfg ?l tree env (sort_key tk_id (map snd ts)) w1 = (Inr (Some t), w2)" by simp
    from first_match_answers [OF assms(1) this] ts f1 show ?thesis by auto
  next
    case None
    have keep: "file_keeper (first_match h dig cfg l tree env us)" for l us
      by (induction us) (unfold first_match.simps, (intro file_keeper_intros file_keeper_peek assms(1); assumption)+)
    from None rest have "retained_match h dig cfg ?l tree env w2 = (Inr (Some t), w')" by simp
    from retained_match_answers [OF assms(1) this] file_keeper.same_files [OF keep fm] f1 cached_answers
    show ?thesis by metis
  qed
qed


definition sample_operation :: project_operation where
  "sample_operation = \<lparr>op_name = ''check'', op_description = [], op_command = [''make''], op_pool = ''normal'',
     op_result = ''exit'', op_timeout = 60, op_checkout = ''any'', op_cache = ''tree+environment'', op_scratch = ''tmpfs'',
     op_arguments = ''none'', op_admission = None, op_unit_properties = [], op_max_io_pressure = None, op_priority = 0\<rparr>"

definition sample_project :: project where
  "sample_project = \<lparr>pj_id = ''p'', pj_display_name = ''p'', pj_root = mkpath ''/w'',
     pj_descriptor = mkpath ''/w/.agentctl/project.toml'', pj_digest = ''d'', pj_environment = sample_environment,
     pj_workspace = None, pj_operations = [sample_operation]\<rparr>"

definition sample_queue_out :: string where
  "sample_queue_out = ''{\"4\":{\"task\":{\"id\":4,\"label\":\"p:check\",\"group\":\"normal\",\"path\":\"/w\",''
     @ ''\"status\":{\"Done\":{\"result\":\"Success\"}},\"command\":\"agentctl-run /s/inputs/j.json\"}}}''"

definition queue_host :: "string \<Rightarrow> host" where
  "queue_host out = sample_git_host\<lparr>h_sys := silent_machine\<lparr>m_pueue := (\<lambda>cs. Exited 0 out [])\<rparr>\<rparr>"

lemma queue_host_undisturbed: "undisturbed (queue_host out)"
  by (simp add: undisturbed_def queue_host_def sample_git_host_def)

lemma queue_host_lists: "fst (tasks_all (h_daemon (queue_host sample_queue_out)) w) = Inr [(4, Agentctl_Jobs.sample_task)]"
proof -
  have "bindE (pueue_decode ''log'' sample_queue_out) (\<lambda>v. log_tasks v None) = Inr [(4, Agentctl_Jobs.sample_task)]"
    by code_simp
  then show ?thesis
    by (simp add: tasks_all_def run_default_def pueue_run_def bindM_def Let_def queue_host_def)
qed

theorem matching_task_answers_witness:
  "\<exists>w'. matching_task (queue_host sample_queue_out) (\<lambda>s. ''e'') Agentctl_Jobs.sample_cfg sample_project sample_operation
       cached_tree [] (sample_lworld cached_fs) = (Inr (Some Agentctl_Jobs.sample_task), w')
     \<and> answers Agentctl_Jobs.sample_cfg cached_fs cached_tree [] Agentctl_Jobs.sample_task"
proof -
  let ?h = "queue_host sample_queue_out" and ?w = "sample_lworld cached_fs" and ?t = Agentctl_Jobs.sample_task
  obtain w1 where ts: "tasks_all (h_daemon ?h) ?w = (Inr [(4, ?t)], w1)"
    using queue_host_lists [of ?w] by (metis prod.collapse)
  then have "lw_fs w1 = cached_fs" using kept_tasks_all.same_files [OF ts] by (simp add: sample_lworld_def)
  have looks: "peek ?h g v = (g (lw_fs v), pass ?h v)" "lw_fs (pass ?h v) = lw_fs v" for g :: "fs \<Rightarrow> 'a res" and v
    by (simp_all add: peek_def pass_def queue_host_def sample_git_host_def)
  have label: "tk_label ?t = label_for (pj_id sample_project) (op_name sample_operation)"
    "sort_key tk_id (map snd [(4, ?t)]) = [?t]" by code_simp+
  obtain r where c: "successful_cached_attempt (\<lambda>s. ''e'') Agentctl_Jobs.sample_cfg cached_fs ?t cached_tree (Some []) = Inr (Some r)"
    using cached_success by blast
  have facts: "terminal ?t" "succeeded ?t" "same_tree (pget cached_document ''tree_receipt'') cached_tree"
    "py_eq (pget cached_document ''environment_receipt'') (PDict [])" by code_simp+
  have run: "matching_task ?h (\<lambda>s. ''e'') Agentctl_Jobs.sample_cfg sample_project sample_operation cached_tree [] ?w
      = (Inr (Some ?t), pass ?h (pass ?h w1))"
    by (simp add: matching_task_def Let_def ts bindM_def label looks cached_read c facts \<open>lw_fs w1 = cached_fs\<close> cached_launch)
  from matching_task_answers [OF queue_host_undisturbed run] run show ?thesis by (auto simp: sample_lworld_def)
qed

end
