(* ===== verification/Agentctl_Enqueue.thy ===== *)
theory Agentctl_Enqueue
  imports Agentctl_Launch
begin

text \<open>
  Admission, enqueueing, keyed requests and the start of a declared operation, of
  \<open>agentctl/launch.py\<close>. The wait for the admission lock is bounded; whether it gets the lock is
  \<open>h_lock_free\<close>. The other locks of the file are waited for without bound and are the atomicity of
  their blocks; opening their files is modelled.
\<close>

section \<open>Admission\<close>

definition admission_lock :: "host \<Rightarrow> config \<Rightarrow> (lworld, unit) io" where
  "admission_lock h cfg =
     (let p = path_join (state_dir cfg) ''admission.lock''
      in bindM (edit h (bindM (fsM (mkdir_p 493 (path_parent p))) (\<lambda>_. fsM (touch p)))) (\<lambda>_.
         bindM (\<lambda>w. (Inr (h_lock_free h (rw_clock w)), pass h w)) (\<lambda>free.
           if free then returnM () else raiseM (JobErr (''admission lock busy: '' @ path_str p)))))"

definition hold_record :: "string \<Rightarrow> string list \<Rightarrow> int list \<Rightarrow> string \<Rightarrow> pydict" where
  "hold_record grp partners blocking now =
     [(''reason'', PStr HOLD_REASON), (''pool'', PStr grp), (''excluded_by'', str_values partners),
      (''waiting_for'', PList (map PInt blocking)), (''held_at'', PStr now)]"

definition check_launcher :: "host \<Rightarrow> string list \<Rightarrow> string \<Rightarrow> string \<Rightarrow> unit res" where
  "check_launcher h partners grp label =
     (case env_var h LAUNCHER_POOL_VARIABLE of
        Some launcher \<Rightarrow>
          guardE (launcher \<notin> set partners)
            (JobErr (label @ '' runs in pool '' @ str_repr grp @ '', which excludes its launcher '' @ str_repr launcher))
      | None \<Rightarrow> Inr ())"

definition admission_hold :: "host \<Rightarrow> config \<Rightarrow> string \<Rightarrow> string \<Rightarrow> (lworld, pydict option) io" where
  "admission_hold h cfg grp label =
     (let partners = exclusive_partners (cf_pools cfg) grp
      in if partners = [] then returnM None
         else bindM (liftM (check_launcher h partners grp label)) (\<lambda>_.
           bindM (live (h_daemon h)) (\<lambda>q.
             (let blocking = blocking_tasks (cf_pools cfg) grp (qs_tasks q) None []
              in if blocking = [] then returnM None
                 else bindM (stamp_now h) (\<lambda>now. returnM (Some (hold_record grp partners blocking now)))))))"

definition hold_of :: "config \<Rightarrow> fs \<Rightarrow> task \<Rightarrow> pydict option" where
  "hold_of cfg f t =
     (if tk_status t \<noteq> ''Stashed'' then None
      else
        (case read_launch_input cfg f t of
           Some v \<Rightarrow>
             (case pget v ''hold'' of
                PDict hold \<Rightarrow>
                  if pget hold ''reason'' = PStr HOLD_REASON \<and> pget hold ''pool'' = PStr (tk_group t)
                    \<and> py_eq (pget v ''job_id'') (opt_str (job_id_of t)) \<and> pget v ''pool'' = PStr (tk_group t)
                  then Some hold else None
              | _ \<Rightarrow> None)
         | None \<Rightarrow> None))"

definition consume_hold :: "host \<Rightarrow> config \<Rightarrow> task \<Rightarrow> pydict \<Rightarrow> (lworld, bool) io" where
  "consume_hold h cfg t expected =
     bindM (peek h (\<lambda>f. Inr (read_launch_input cfg f t))) (\<lambda>v.
       (case (launch_input_path t, v) of
          (Some path, Some value) \<Rightarrow>
            if \<not> py_eq (pget value ''job_id'') (opt_str (job_id_of t)) \<or> pget value ''pool'' \<noteq> PStr (tk_group t)
               \<or> \<not> py_eq (pget value ''hold'') (PDict expected)
            then returnM False
            else bindM (edit h (write_input (h_ctx h) path
                (dset ''queue_task_id'' (PInt (tk_id t)) (dpop ''hold'' value)))) (\<lambda>_. returnM True)
        | _ \<Rightarrow> returnM False))"

text \<open>The held tasks among the live ones, with their holds.\<close>

definition add_held :: "host \<Rightarrow> config \<Rightarrow> task \<Rightarrow> (int \<times> pydict) list \<Rightarrow> (lworld, (int \<times> pydict) list) io" where
  "add_held h cfg t held =
     bindM (peek h (\<lambda>f. Inr (hold_of cfg f t))) (\<lambda>hold.
       returnM (case hold of None \<Rightarrow> held | Some d \<Rightarrow> dset (tk_id t) d held))"

definition hold_row :: "config \<Rightarrow> task \<Rightarrow> int list \<Rightarrow> pydict" where
  "hold_row cfg t blockers =
     [(''task_id'', PInt (tk_id t)), (''label'', PStr (tk_label t)), (''pool'', PStr (tk_group t)),
      (''excluded_by'', str_values (exclusive_partners (cf_pools cfg) (tk_group t))),
      (''waiting_for'', PList (map PInt blockers))]"

definition release_step ::
  "host \<Rightarrow> config \<Rightarrow> tasks \<Rightarrow> (int \<times> pydict) list \<Rightarrow> int \<Rightarrow> pydict list \<times> pydict list
     \<Rightarrow> (lworld, pydict list \<times> pydict list) io" where
  "release_step h cfg ts held i out =
     (case (dget ts i, dget held i) of
        (Some t, Some hold) \<Rightarrow>
          (let blockers = blocking_tasks (cf_pools cfg) (tk_group t) ts (Some i) (map fst held);
               row = hold_row cfg t blockers
           in if blockers \<noteq> [] then returnM (fst out, snd out @ [row])
              else bindM (enqueue_task (h_daemon h) i) (\<lambda>_.
                bindM (consume_hold h cfg t hold) (\<lambda>_.
                bindM (publish_event h (event_spool cfg)
                    (dmerge [(''kind'', PStr ''pool-hold''), (''action'', PStr ''released'')] row)) (\<lambda>_.
                  returnM (fst out @ [row], snd out)))))
      | _ \<Rightarrow> raiseM (KeyErr (show_int i)))"

definition release_all :: "host \<Rightarrow> config \<Rightarrow> (lworld, pydict list \<times> pydict list) io" where
  "release_all h cfg =
     bindM (admission_lock h cfg) (\<lambda>_.
     bindM (live (h_daemon h)) (\<lambda>q.
     bindM (forM (add_held h cfg) (map snd (qs_tasks q)) []) (\<lambda>held.
       forM (release_step h cfg (qs_tasks q) held) (sort (map fst held)) ([], []))))"

text \<open>The released and the waiting; an error is a row of the waiting ones.\<close>

definition release_holds :: "host \<Rightarrow> config \<Rightarrow> (lworld, pydict list \<times> pydict list) io" where
  "release_holds h cfg =
     catchM (release_all h cfg)
       (\<lambda>e. if is_joberror e \<or> is_pueueerror e then returnM ([], [[(''error'', PStr (exn_str e))]]) else raiseM e)"

section \<open>Enqueueing\<close>

record launch_request =
  lr_project :: project
  lr_operation :: string
  lr_label :: string
  lr_group :: string
  lr_argv :: "string list"
  lr_directory :: ppath
  lr_timeout :: int
  lr_result :: string
  lr_environment :: "string dict"
  lr_kind :: string
  lr_scratch :: string
  lr_admission :: "int option"
  lr_after :: "int list"
  lr_stashed :: bool
  lr_unit_properties :: "string list"
  lr_pressure :: "pyfloat option"
  lr_tree :: "pydict option"
  lr_env_receipt :: "pydict option"
  lr_binding :: pydict
  lr_key :: "(string \<times> string) option"
  lr_priority :: int

definition input_file :: "config \<Rightarrow> string \<Rightarrow> ppath" where
  "input_file cfg job = path_join (inputs_dir cfg) (job @ ''.json'')"

definition launch_environment :: "config \<Rightarrow> launch_request \<Rightarrow> string dict" where
  "launch_environment cfg req =
     (let e = (case config_path cfg of None \<Rightarrow> lr_environment req
          | Some p \<Rightarrow> dset ''AGENTCTL_CONFIG'' (path_str p) (lr_environment req))
      in (case lr_admission req of None \<Rightarrow> e | Some m \<Rightarrow> dset ''AGENTCTL_ADMISSION_MEMORY_MIB'' (show_int m) e))"

definition opt_item :: "string \<Rightarrow> pyval option \<Rightarrow> pydict" where
  "opt_item k v = (case v of None \<Rightarrow> [] | Some x \<Rightarrow> [(k, x)])"

text \<open>The document a job is launched from, before it is held or acknowledged.\<close>

definition launch_fields :: "host \<Rightarrow> config \<Rightarrow> launch_request \<Rightarrow> string \<Rightarrow> pydict" where
  "launch_fields h cfg req job =
     [(''job_id'', PStr job), (''project_id'', PStr (pj_id (lr_project req))),
      (''project_root'', PStr (path_str (pj_root (lr_project req)))),
      (''descriptor_path'', PStr (path_str (pj_descriptor (lr_project req)))),
      (''operation'', PStr (lr_operation req)), (''pool'', PStr (lr_group req)), (''kind'', PStr (lr_kind req)),
      (''label'', PStr (lr_label req)), (''argv'', str_values (lr_argv req)),
      (''environment'', PDict (map (\<lambda>(k, v). (k, PStr v)) (launch_environment cfg req))),
      (''working_directory'', PStr (path_str (lr_directory req))), (''timeout_seconds'', PInt (lr_timeout req)),
      (''result_kind'', PStr (lr_result req)),
      (''log_path'', PStr (path_str (path_join (jobs_dir cfg) (job @ ''.log'')))),
      (''event_spool_path'', PStr (path_str (event_spool cfg)))]
     @ (case lr_key req of None \<Rightarrow> []
        | Some (key, digest) \<Rightarrow> [(''idempotency_key'', PStr key), (''request_digest'', PStr digest)])
     @ (if lr_unit_properties req = [] then [] else [(''unit_properties'', str_values (lr_unit_properties req))])
     @ opt_item ''max_io_pressure'' (map_option PFloat (lr_pressure req))
     @ opt_item ''admission'' (map_option (\<lambda>m. PDict (admission_row m)) (lr_admission req))
     @ opt_item ''tree_receipt'' (map_option PDict (lr_tree req))
     @ opt_item ''environment_receipt'' (map_option PDict (lr_env_receipt req))
     @ (if lr_binding req = [] then [] else [(''binding'', PDict (lr_binding req))])
     @ opt_item ''scratch'' (map_option (\<lambda>p. PDict [(''kind'', PStr (lr_scratch req)), (''path'', PStr (path_str p))])
         (scratch_path (c_env (h_ctx h)) (lr_scratch req) job))
     @ (if lr_result req = ''exit'' then []
        else [(''result_path'', PStr (path_str (path_join (jobs_dir cfg) (job @ ''.result''))))])"

text \<open>The call of the queue and what a failure of it means for the retained input.\<close>

definition submit ::
  "host \<Rightarrow> config \<Rightarrow> launch_request \<Rightarrow> string \<Rightarrow> bool \<Rightarrow> (lworld, int) io" where
  "submit h cfg req job stashed =
     catchM (add_task (h_daemon h) (lr_group req) (lr_label req)
         [QUEUE_RUN_EXECUTABLE, path_str (input_file cfg job)] (path_str (lr_directory req)) (lr_after req)
         stashed (lr_priority req))
       (\<lambda>e. (case e of
            PueueGroupError g \<Rightarrow>
              bindM (if lr_key req \<noteq> None \<and> lr_after req \<noteq> [] then returnM ()
                     else edit h (fsM (unlink_missing_ok (input_file cfg job)))) (\<lambda>_. raiseM e)
          | _ \<Rightarrow> if is_pueueerror e then raiseM (enqueue_uncertain job e) else raiseM e))"

definition held_event :: "int \<Rightarrow> pydict \<Rightarrow> pydict" where
  "held_event i hold =
     dmerge [(''kind'', PStr ''pool-hold''), (''action'', PStr ''held''), (''task_id'', PInt i)] hold"

definition admission_decision :: "host \<Rightarrow> config \<Rightarrow> launch_request \<Rightarrow> (lworld, pydict option) io" where
  "admission_decision h cfg req =
     (if lr_stashed req then returnM None else admission_hold h cfg (lr_group req) (lr_label req))"

text \<open>The number the queue gave is recorded in the input, a hold is published.\<close>

definition mark_placed ::
  "host \<Rightarrow> config \<Rightarrow> string \<Rightarrow> pydict \<Rightarrow> pydict option \<Rightarrow> int \<Rightarrow> (lworld, int \<times> pydict) io" where
  "mark_placed h cfg job launch hold i =
     (let placed = launch @ [(''queue_task_id'', PInt i)]
      in bindM (edit h (write_input (h_ctx h) (input_file cfg job) placed)) (\<lambda>_.
         bindM (case hold of None \<Rightarrow> returnM ()
             | Some d \<Rightarrow> publish_event h (event_spool cfg) (held_event i d)) (\<lambda>_.
           returnM (i, placed))))"

definition held_fields :: "host \<Rightarrow> config \<Rightarrow> launch_request \<Rightarrow> string \<Rightarrow> pydict option \<Rightarrow> pydict" where
  "held_fields h cfg req job hold = launch_fields h cfg req job @ opt_item ''hold'' (map_option PDict hold)"

definition publish_and_submit ::
  "host \<Rightarrow> config \<Rightarrow> launch_request \<Rightarrow> string \<Rightarrow> (string \<Rightarrow> (lworld, unit) io) \<Rightarrow> pydict option
     \<Rightarrow> (lworld, int \<times> pydict) io" where
  "publish_and_submit h cfg req job before_enqueue hold =
     bindM (edit h (write_input (h_ctx h) (input_file cfg job) (held_fields h cfg req job hold))) (\<lambda>_.
     bindM (before_enqueue job) (\<lambda>_.
     bindM (submit h cfg req job (lr_stashed req \<or> hold \<noteq> None))
       (mark_placed h cfg job (held_fields h cfg req job hold) hold)))"

definition admitted ::
  "host \<Rightarrow> config \<Rightarrow> launch_request \<Rightarrow> string \<Rightarrow> (string \<Rightarrow> (lworld, unit) io) \<Rightarrow> (lworld, int \<times> pydict) io" where
  "admitted h cfg req job before_enqueue =
     bindM (admission_decision h cfg req) (publish_and_submit h cfg req job before_enqueue)"

definition launched_view :: "host \<Rightarrow> launch_request \<Rightarrow> string \<Rightarrow> int \<times> pydict \<Rightarrow> (lworld, pydict) io" where
  "launched_view h req job placed =
     bindM (task_by_id (h_daemon h) (fst placed)) (\<lambda>t.
       returnM (dmerge (case t of
           Some t' \<Rightarrow> job_view t'
         | None \<Rightarrow> [(''task_id'', PInt (fst placed)), (''label'', PStr (lr_label req)), (''job_id'', PStr job)])
         (launch_selection (snd placed))))"

definition enqueue ::
  "host \<Rightarrow> config \<Rightarrow> launch_request \<Rightarrow> string \<Rightarrow> (string \<Rightarrow> (lworld, unit) io) \<Rightarrow> (lworld, pydict) io" where
  "enqueue h cfg req job before_enqueue =
     (if JOB_ID job
      then bindM (admission_lock h cfg) (\<lambda>_.
        bindM (admitted h cfg req job before_enqueue) (launched_view h req job))
      else raiseM (JobErr (''invalid job id: '' @ str_repr job)))"

section \<open>Keyed requests\<close>

definition idempotent_job_id :: "(string \<Rightarrow> string) \<Rightarrow> string \<Rightarrow> string res" where
  "idempotent_job_id dig key =
     bindE (guardE (key \<noteq> [] \<and> py_len key \<le> 4096)
       (JobErr ''idempotency_key must be a nonempty string of at most 4096 characters'')) (\<lambda>_.
       Inr (''request-'' @ dig key))"

text \<open>The retained document of a key: absent, or one that was written for this key and digest.\<close>

definition retained_request ::
  "fs \<Rightarrow> ppath \<Rightarrow> string \<Rightarrow> string \<Rightarrow> string option \<Rightarrow> pydict option res" where
  "retained_request f path job key digest =
     (case read_bounded f path MAX_LAUNCH_INPUT_BYTES of
        None \<Rightarrow> if fs_exists f path then Inl (JobErr (''unreadable idempotent launch '' @ job)) else Inr None
      | Some raw \<Rightarrow>
          (case loads_bytes raw of
             Inl e \<Rightarrow> Inl (JobErr (''invalid idempotent launch '' @ job))
           | Inr (PDict d) \<Rightarrow>
               if pget d ''idempotency_key'' = PStr key
                 \<and> (case digest of None \<Rightarrow> True | Some s \<Rightarrow> pget d ''request_digest'' = PStr s)
               then Inr (Some d) else Inl (JobErr (''idempotent launch identity mismatch for '' @ job))
           | Inr v \<Rightarrow> Inl (JobErr (''idempotent launch identity mismatch for '' @ job))))"

definition acknowledged :: "pydict \<Rightarrow> int res" where
  "acknowledged document =
     (case pget_or document ''queue_task_id'' (PInt (- 1)) of PInt i \<Rightarrow> Inr i | _ \<Rightarrow> Inl AttributeErr)"

definition reused :: "host \<Rightarrow> config \<Rightarrow> int \<Rightarrow> string \<Rightarrow> (lworld, pydict option) io" where
  "reused h cfg i job =
     bindM (ask h (\<lambda>m. get_job m (Some cfg) i (Some job) None 0 100)) (\<lambda>view.
       returnM (Some (dset ''reused'' (PBool True) view)))"

text \<open>The answer for a retained document: its task, what is left of it, or an uncertain launch.\<close>

definition answer_retained :: "host \<Rightarrow> config \<Rightarrow> string \<Rightarrow> pydict \<Rightarrow> (lworld, pydict option) io" where
  "answer_retained h cfg job document =
     bindM (tasks_all (h_daemon h)) (\<lambda>ts.
       (case find_task ts (pget_or document ''queue_task_id'' (PInt (- 1))) (PStr job) None of
          Some t \<Rightarrow> reused h cfg (tk_id t) job
        | None \<Rightarrow>
            bindM (if pget document ''queue_task_id'' \<noteq> PNone then returnM True
                   else peek h (\<lambda>f. bindE (attempts f document) (\<lambda>as. Inr (as \<noteq> [])))) (\<lambda>known.
              if known then bindM (liftM (acknowledged document)) (\<lambda>i. reused h cfg i job)
              else raiseM (enqueue_uncertain job
                (PueueError ''retained launch has no acknowledged queue task'')))))"

definition lookup_operation_request ::
  "host \<Rightarrow> (string \<Rightarrow> string) \<Rightarrow> config \<Rightarrow> string \<Rightarrow> string option \<Rightarrow> (lworld, pydict option) io" where
  "lookup_operation_request h dig cfg key digest =
     bindM (liftM (idempotent_job_id dig key)) (\<lambda>job.
     bindM (peek h (\<lambda>f. retained_request f (input_file cfg job) job key digest)) (\<lambda>retained.
       (case retained of None \<Rightarrow> returnM None | Some document \<Rightarrow> answer_retained h cfg job document)))"

text \<open>The lock of one key.\<close>

definition key_lock :: "host \<Rightarrow> config \<Rightarrow> string \<Rightarrow> (lworld, unit) io" where
  "key_lock h cfg job =
     bindM (edit h (fsM (mkdir_p 493 (inputs_dir cfg)))) (\<lambda>_.
       edit h (fsM (touch (path_join (inputs_dir cfg) (job @ ''.lock'')))))"

definition enqueue_request ::
  "host \<Rightarrow> (string \<Rightarrow> string) \<Rightarrow> config \<Rightarrow> string \<Rightarrow> string \<Rightarrow> launch_request \<Rightarrow> (string \<Rightarrow> (lworld, unit) io)
     \<Rightarrow> (lworld, pydict) io" where
  "enqueue_request h dig cfg key digest req before_enqueue =
     bindM (liftM (idempotent_job_id dig key)) (\<lambda>job.
     bindM (key_lock h cfg job) (\<lambda>_.
     bindM (lookup_operation_request h dig cfg key (Some digest)) (\<lambda>existing.
       (case existing of
          Some view \<Rightarrow> returnM view
        | None \<Rightarrow> enqueue h cfg (req\<lparr>lr_key := Some (key, digest)\<rparr>) job before_enqueue))))"

section \<open>Starting a declared operation\<close>

text \<open>\<open>tomllib.loads(raw)["operations"][operation]["pool"]\<close>, where it is a string.\<close>

definition declared_pool :: "(string \<Rightarrow> pydict option) \<Rightarrow> string \<Rightarrow> string \<Rightarrow> string option" where
  "declared_pool toml raw operation =
     (case toml raw of
        None \<Rightarrow> None
      | Some d \<Rightarrow>
          (case pget (items_of (pget (items_of (pget d ''operations'')) operation)) ''pool'' of
             PStr s \<Rightarrow> Some s | _ \<Rightarrow> None))"

definition default_branch_pool ::
  "host \<Rightarrow> (string \<Rightarrow> pydict option) \<Rightarrow> project \<Rightarrow> string \<Rightarrow> (lworld, string option) io" where
  "default_branch_pool h toml p operation =
     (let base = (case pj_workspace p of Some w \<Rightarrow> wp_default_base w | None \<Rightarrow> ''origin/master'')
      in catchM (bindM (git_read h (pj_root p) [''show'', base @ '':.agentctl/project.toml'']) (\<lambda>raw.
             returnM (declared_pool toml raw operation)))
           (\<lambda>e. if is_joberror e then returnM None else raiseM e))"

definition resolved_workspace :: "host \<Rightarrow> project \<Rightarrow> ppath option \<Rightarrow> (lworld, ppath) io" where
  "resolved_workspace h p workspace =
     peek h (\<lambda>f. realpath f (case workspace of Some d \<Rightarrow> d | None \<Rightarrow> pj_root p))"

definition working_directory ::
  "host \<Rightarrow> project \<Rightarrow> project_operation \<Rightarrow> ppath option \<Rightarrow> (lworld, ppath) io" where
  "working_directory h p op workspace =
     bindM (resolved_workspace h p workspace) (\<lambda>wd.
       if op_checkout op = ''default'' \<and> wd \<noteq> pj_root p
       then raiseM (JobErr (pj_id p @ ''.'' @ op_name op @ '' runs only on the project's main checkout''))
       else returnM wd)"

text \<open>A descriptor's field with a quotation mark in its message.\<close>

definition arguments_missing :: "project \<Rightarrow> project_operation \<Rightarrow> exn" where
  "arguments_missing p op =
     JobErr (pj_id p @ ''.'' @ op_name op @ '' declares arguments = '' @ [dquote] @ ''required'' @ [dquote]
       @ '' but no arguments were supplied'')"

definition start_environment :: "host \<Rightarrow> config \<Rightarrow> project \<Rightarrow> string dict res" where
  "start_environment h cfg p =
     bindE (environment_values (pj_environment p) (c_env (h_ctx h)) (inherited_environment cfg)) (\<lambda>e.
       Inr (foldl (\<lambda>e k. case env_var h k of Some (c # s) \<Rightarrow> dset k (c # s) e | _ \<Rightarrow> e) e
         [''AGENTCTL_PRINCIPAL'', ''AGENTCTL_LANE_BEAD'']))"

definition operation_request ::
  "project \<Rightarrow> project_operation \<Rightarrow> ppath \<Rightarrow> string dict \<Rightarrow> string list \<Rightarrow> pydict \<Rightarrow> (string \<times> string) option
     \<Rightarrow> pydict option \<Rightarrow> pydict option \<Rightarrow> launch_request" where
  "operation_request p op wd env extra binding key tree er =
     \<lparr>lr_project = p, lr_operation = op_name op, lr_label = label_for (pj_id p) (op_name op),
      lr_group = op_pool op, lr_argv = command_for (pj_environment p) (op_command op @ extra),
      lr_directory = wd, lr_timeout = op_timeout op, lr_result = op_result op, lr_environment = env,
      lr_kind = ''declared-operation'', lr_scratch = op_scratch op, lr_admission = op_admission op,
      lr_after = [], lr_stashed = False, lr_unit_properties = op_unit_properties op,
      lr_pressure = op_max_io_pressure op, lr_tree = tree, lr_env_receipt = er, lr_binding = binding,
      lr_key = key, lr_priority = op_priority op\<rparr>"

definition reused_view :: "task \<Rightarrow> pydict \<Rightarrow> pydict" where
  "reused_view t document =
     dmerge (dset ''reused'' (PBool True) (dmerge (job_view t) (launch_selection document)))
       (List.map_filter (\<lambda>k. map_option (\<lambda>v. (k, v)) (dget document k)) [''tree_receipt'', ''environment_receipt''])"

text \<open>The receipts of a cacheable request on a clean tree, and the job that already answers it.\<close>

definition find_cached ::
  "host \<Rightarrow> (string \<Rightarrow> string) \<Rightarrow> config \<Rightarrow> project \<Rightarrow> project_operation \<Rightarrow> ppath \<Rightarrow> string dict \<Rightarrow> string list \<Rightarrow> bool
     \<Rightarrow> (lworld, (pydict \<times> pydict) option \<times> task option) io" where
  "find_cached h dig cfg p op wd env extra fresh =
     bindM (tree_receipt h wd) (\<lambda>tree.
       if pget tree ''dirty'' = PBool True then returnM (None, None)
       else
         (let er = environment_receipt dig p op env extra
          in if fresh then returnM (Some (tree, er), None)
             else bindM (matching_task h dig cfg p op tree er) (\<lambda>t. returnM (Some (tree, er), t))))"

definition start_fresh ::
  "host \<Rightarrow> (string \<Rightarrow> string) \<Rightarrow> config \<Rightarrow> launch_request \<Rightarrow> string \<Rightarrow> (pydict \<times> pydict) option \<Rightarrow> (lworld, pydict) io" where
  "start_fresh h dig cfg req job receipts =
     bindM (enqueue h cfg req job (\<lambda>j. returnM ())) (\<lambda>started.
       (case receipts of
          None \<Rightarrow> returnM started
        | Some (tree, er) \<Rightarrow>
            (let view = dset ''environment_receipt'' (PDict er) (dset ''tree_receipt'' (PDict tree) started)
             in bindM (record_result_key h dig cfg (lr_label req) tree er (str_of (pget view ''job_id''))) (\<lambda>_.
                  returnM view))))"

definition start_declared ::
  "host \<Rightarrow> (string \<Rightarrow> string) \<Rightarrow> config \<Rightarrow> project \<Rightarrow> project_operation \<Rightarrow> ppath option \<Rightarrow> string list \<Rightarrow> pydict
     \<Rightarrow> (string \<times> string) option \<Rightarrow> bool \<Rightarrow> string \<Rightarrow> (lworld, pydict) io" where
  "start_declared h dig cfg p op workspace extra binding key fresh token =
     bindM (working_directory h p op workspace) (\<lambda>wd.
     if op_arguments op = ''required'' \<and> \<not> list_ex (\<lambda>a. strip a \<noteq> []) extra then raiseM (arguments_missing p op)
     else
       bindM (peek h (\<lambda>f. Inr (fs_is_dir f wd))) (\<lambda>present.
       if \<not> present then raiseM (JobErr (''working directory does not exist: '' @ path_str wd))
       else
         bindM (liftM (start_environment h cfg p)) (\<lambda>env.
         bindM (if op_cache op = ''tree+environment'' \<and> key = None
                then find_cached h dig cfg p op wd env extra fresh else returnM (None, None)) (\<lambda>(receipts, existing).
           (case existing of
              Some t \<Rightarrow> peek h (\<lambda>f. Inr (reused_view t (launch_document cfg f t)))
            | None \<Rightarrow>
                bindM (liftM (case key of
                    Some (k, d) \<Rightarrow> idempotent_job_id dig k
                  | None \<Rightarrow> Inr (new_job_id token (label_for (pj_id p) (op_name op))))) (\<lambda>job.
                start_fresh h dig cfg
                  (operation_request p op wd env extra binding key (map_option fst receipts) (map_option snd receipts))
                  job receipts))))))"

text \<open>The fingerprint of a keyed start.\<close>

definition start_fingerprint :: "(string \<Rightarrow> string) \<Rightarrow> project \<Rightarrow> project_operation \<Rightarrow> ppath \<Rightarrow> string list \<Rightarrow> string" where
  "start_fingerprint dig p op wd extra =
     dig (json_dumps_sorted (PDict
       [(''project'', PStr (pj_id p)), (''operation'', PStr (op_name op)), (''workspace'', PStr (path_str wd)),
        (''extra_argv'', str_values extra), (''descriptor'', PStr (pj_digest p))]))"

definition same_request :: "fs \<Rightarrow> ppath \<Rightarrow> string \<Rightarrow> string \<Rightarrow> unit res" where
  "same_request f path job fingerprint =
     (case read_bounded f path MAX_LAUNCH_INPUT_BYTES of
        None \<Rightarrow> Inr ()
      | Some raw \<Rightarrow>
          (case loads_bytes raw of
             Inl e \<Rightarrow> Inl (JobErr (''invalid idempotent launch '' @ job))
           | Inr v \<Rightarrow>
               guardE (is_dict v \<and> pget (items_of v) ''request_digest'' = PStr fingerprint)
                 (JobErr ''idempotency_key was already used for a different launch request'')))"

definition placed_operation :: "int option \<Rightarrow> string option \<Rightarrow> project_operation \<Rightarrow> project_operation" where
  "placed_operation priority pool op =
     (let op' = (case priority of None \<Rightarrow> op | Some i \<Rightarrow> op\<lparr>op_priority := i\<rparr>)
      in (case pool of None \<Rightarrow> op' | Some s \<Rightarrow> op'\<lparr>op_pool := s\<rparr>))"

definition start_operation ::
  "host \<Rightarrow> (string \<Rightarrow> string) \<Rightarrow> (string \<Rightarrow> pydict option) \<Rightarrow> config \<Rightarrow> project \<Rightarrow> project_operation \<Rightarrow> ppath option
     \<Rightarrow> string list \<Rightarrow> pydict \<Rightarrow> string option \<Rightarrow> bool \<Rightarrow> int option \<Rightarrow> string \<Rightarrow> (lworld, pydict) io" where
  "start_operation h dig toml cfg p op workspace extra binding key fresh priority token =
     bindM (default_branch_pool h toml p (op_name op)) (\<lambda>pool.
     (let op' = placed_operation priority pool op
      in (case key of
            None \<Rightarrow> start_declared h dig cfg p op' workspace extra binding None fresh token
          | Some k \<Rightarrow>
              bindM (liftM (idempotent_job_id dig k)) (\<lambda>job.
              bindM (edit h (fsM (mkdir_p 493 (inputs_dir cfg)))) (\<lambda>_.
              bindM (resolved_workspace h p workspace) (\<lambda>wd.
              (let fingerprint = start_fingerprint dig p op' wd extra
               in bindM (edit h (fsM (touch (path_join (inputs_dir cfg) (job @ ''.lock''))))) (\<lambda>_.
                  bindM (peek h (\<lambda>f. same_request f (input_file cfg job) job fingerprint)) (\<lambda>_.
                  bindM (lookup_operation_request h dig cfg k None) (\<lambda>existing.
                    (case existing of
                       Some view \<Rightarrow> returnM view
                     | None \<Rightarrow>
                         start_declared h dig cfg p op' workspace extra binding (Some (k, fingerprint)) False token)))))))))))"

definition active_tasks :: "daemon \<Rightarrow> project \<Rightarrow> project_operation \<Rightarrow> ('z pq_scheme, int list) io" where
  "active_tasks d p op =
     bindM (tasks_all d) (\<lambda>ts.
       returnM (map tk_id (filter (\<lambda>t. tk_label t = label_for (pj_id p) (op_name op) \<and> \<not> terminal t) (map snd ts))))"

end
