(* ===== verification/Agentctl_Contract.thy ===== *)
theory Agentctl_Contract
  imports Agentctl_Enqueue
begin

text \<open>
  The launcher and the runner agree: the document that \<open>enqueue\<close> publishes for a declared operation is
  one that \<open>read_input\<close> of the runner accepts, after the secrets have moved out of it.
\<close>

section \<open>Paths read back from their text\<close>

definition good_path :: "ppath \<Rightarrow> bool" where
  "good_path p \<longleftrightarrow> fst p \<in> {[], ''/'', ''//''} \<and> (\<forall>c \<in> set (snd p). component_ok c)"

lemma good_mkpath: "good_path (mkpath s)"
  using mkpath_components [of _ s] by (auto simp: good_path_def component_ok_def) (auto simp: mkpath_def split: if_split_asm)

lemma good_path_join: "good_path p \<Longrightarrow> good_path (path_join p s)"
  using good_mkpath [of s] by (auto simp: good_path_def path_join_def Let_def)

lemma mkpath_good:
  assumes "good_path p" and "path_absolute p" and "snd p \<noteq> []"
  shows "mkpath (path_str p) = p"
proof -
  obtain r cs where p: "p = (r, cs)" by force
  with assms have ok: "cs \<noteq> []" "\<forall>c \<in> set cs. component_ok c" and r: "r = ''/'' \<or> r = ''//''"
    by (auto simp: good_path_def path_absolute_def)
  let ?s = "str_join ''/'' cs"
  have split: "split_on CHR ''/'' ?s = cs"
    using ok by (intro split_on_join) (auto simp: component_ok_def)
  obtain c rest where cs: "cs = c # rest" using ok(1) by (cases cs) auto
  have hd: "?s \<noteq> [] \<and> hd ?s \<noteq> CHR ''/''"
    using ok(2) cs by (cases rest; cases c) (auto simp: component_ok_def)
  have comps: "filter (\<lambda>c. c \<noteq> [] \<and> c \<noteq> ''.'') cs = cs"
    using ok(2) by (intro filter_True) (auto simp: component_ok_def)
  show ?thesis
  proof (cases "r = ''/''")
    case True
    with mkpath_path_str [OF ok] p show ?thesis by simp
  next
    case False
    with r have r': "r = ''//''" by simp
    with hd have "\<not> prefix ''///'' (''//'' @ ?s)" by (cases ?s) auto
    with split comps r' p ok(1) show ?thesis by (simp add: mkpath_def path_str_def)
  qed
qed

lemma join_component:
  assumes "component_ok c"
  shows "path_join p c = (fst p, snd p @ [c])"
proof -
  have "mkpath c = ([], [c])" using assms by (intro mkpath_single) (auto simp: component_ok_def)
  then show ?thesis by (simp add: path_join_def)
qed

lemma joined_read_back:
  assumes "good_path p" and "path_absolute p" and "component_ok c"
  shows "mkpath (path_str (path_join p c)) = (fst p, snd p @ [c])"
  using mkpath_good [of "path_join p c"] good_path_join [OF assms(1), of c] assms(2)
  by (simp add: join_component [OF assms(3)] path_absolute_def)

section \<open>The document of a declared operation\<close>

lemma dget_append: "dget (a @ b) k = (case dget a k of Some v \<Rightarrow> Some v | None \<Rightarrow> dget b k)"
  by (simp add: map_add_def split: option.split)

lemma dget_opt_item: "dget (opt_item j v) k = (if k = j then v else None)"
  by (simp add: opt_item_def split: option.split)

lemma added_keys: "fst ` set added \<subseteq> K \<Longrightarrow> k \<notin> K \<Longrightarrow> dget added k = None"
  by (auto simp: map_of_eq_None_iff)

lemma dget_unless: "dget (if b then [] else [(j, x)]) k = (if \<not> b \<and> k = j then Some x else None)"
  by simp

lemma dget_key_items: "dget (case z of None \<Rightarrow> [] | Some (key, digest) \<Rightarrow> [(a, PStr key), (b, PStr digest)]) k
     = (if k = a then map_option (\<lambda>p. PStr (fst p)) z else if k = b then map_option (\<lambda>p. PStr (snd p)) z else None)"
  by (cases z) auto

lemmas dget_fields = launch_fields_def dget_append dget_opt_item dget_unless dget_key_items

lemma launch_fields_required:
  "k \<in> set REQUIRED_FIELDS \<Longrightarrow> dhas (launch_fields h cfg req job @ added) k"
  by (auto simp: REQUIRED_FIELDS_def dhas_def launch_fields_def)

lemma launch_field:
  assumes "fst ` set added \<subseteq> {''hold'', ''queue_task_id''}"
    and d: "d = launch_fields h cfg req job @ added"
  shows "dget d ''argv'' = Some (str_values (lr_argv req))"
    and "dget d ''environment'' = Some (PDict (map (\<lambda>(k, v). (k, PStr v)) (launch_environment cfg req)))"
    and "dget d ''result_kind'' = Some (PStr (lr_result req))"
    and "dget d ''timeout_seconds'' = Some (PInt (lr_timeout req))"
    and "dget d ''kind'' = Some (PStr (lr_kind req))"
    and "dget d ''pool'' = Some (PStr (lr_group req))"
    and "dget d ''secret_environment'' = None"
    and "dget d ''secret_environment_path'' = None"
    and "dget d ''unit_properties''
       = (if lr_unit_properties req = [] then None else Some (str_values (lr_unit_properties req)))"
    and "dget d ''max_io_pressure'' = map_option PFloat (lr_pressure req)"
    and "dget d ''scratch'' = map_option (\<lambda>p. PDict [(''kind'', PStr (lr_scratch req)), (''path'', PStr (path_str p))])
         (scratch_path (c_env (h_ctx h)) (lr_scratch req) job)"
  unfolding d
  by (simp_all add: dget_fields added_keys [OF assms(1)] del: map_of_append split: option.split)


text \<open>What is on disk: the same fields, with the secrets moved out of the environment.\<close>

lemma split_secrets_fields:
  assumes run: "split_secrets c path doc f = (Inr d, f')"
    and env: "dget doc ''environment'' = Some (PDict env)"
    and none: "dget doc ''secret_environment'' = None" "dget doc ''secret_environment_path'' = None"
    and strs: "list_all (\<lambda>(k, v). is_str v) env"
  shows "(\<forall>k. dhas doc k \<longrightarrow> dhas d k)
     \<and> (\<forall>k. k \<notin> {''environment'', ''secret_environment'', ''secret_environment_path''} \<longrightarrow> pget d k = pget doc k)
     \<and> (\<exists>e. pget d ''environment'' = PDict e \<and> list_all (\<lambda>(k, v). is_str v) e)
     \<and> (\<exists>ns. pget_or d ''secret_environment'' (PList []) = PList (map PStr ns))
     \<and> (pget d ''secret_environment_path'' = PNone \<or> pget d ''secret_environment_path''
          = PStr (path_str (path_join (secret_environment_dir c f) (path_stem path @ ''.json''))))"
proof (cases "secret_items env = []")
  case True
  with run env have "d = doc" by (simp add: split_secrets_def pget_def)
  with env none strs show ?thesis by (auto simp: pget_def pget_or_def intro: exI [of _ "[]"])
next
  case False
  from none have sidecar: "secret_environment_path c f path doc
      = path_join (secret_environment_dir c f) (path_stem path @ ''.json'')"
    by (simp add: secret_environment_path_def pget_def)
  have pe: "pget doc ''environment'' = PDict env" using env by (simp add: pget_def)
  obtain secrets names where
    d: "d = stripped_document doc env secrets names (path_join (secret_environment_dir c f) (path_stem path @ ''.json''))"
    using run False none
    by (auto simp: split_secrets_def pe Let_def bindM_eq_Inr sidecar split: if_splits)
  show ?thesis
    using strs unfolding d stripped_document_def
    by (auto simp: dhas_dmerge pget_dmerge_keys pget_or_def dget_dmerge_distinct list_all_iff)
qed

text \<open>The parts of the contract, one by one.\<close>

lemma check_inputI:
  assumes "\<forall>k \<in> set REQUIRED_FIELDS. dhas v k"
    and "pget v ''argv'' = PList (a # as)" and "list_all is_str (a # as)"
    and "pget v ''environment'' = PDict e" and "list_all (\<lambda>(k, x). is_str x) e"
    and "pget_or v ''secret_environment'' (PList []) = PList (map PStr ns)"
    and "\<not> secret_path_bad path (pget v ''secret_environment_path'')"
    and "pget v ''result_kind'' = PStr kind" and "kind \<in> set RESULT_KINDS"
    and "\<not> timeout_bad v"
    and "pget v ''pool'' = PStr pool" and "pool_name_ok pool"
    and "pget v ''unit_properties'' = PNone
      \<or> (\<exists>us. pget v ''unit_properties'' = PList us \<and> list_all supported_unit_property us)"
    and "pget v ''max_io_pressure'' = PNone \<or> \<not> percentage_bad (pget v ''max_io_pressure'')"
    and "check_scratch env (pget v ''scratch'') = Inr ()"
  shows "check_input env path v = Inr ()"
proof -
  have missing: "filter (\<lambda>k. \<not> dhas v k) REQUIRED_FIELDS = []" using assms(1) by (simp add: filter_empty_conv)
  have names: "list_all is_str (map PStr ns)" by (simp add: list_all_iff)
  have kind: "check_result_kind (PStr kind) = Inr ()" using assms(9) by (simp add: check_result_kind_def)
  have units: "\<not> (pget v ''unit_properties'' \<noteq> PNone \<and> \<not> (is_list (pget v ''unit_properties'')
      \<and> list_all supported_unit_property (elems_of (pget v ''unit_properties''))))"
    using assms(13) by auto
  show ?thesis
    unfolding check_input_def Let_def bindE_eq_Inr refuse_Inr missing
    using assms(2-8,10-12,14,15) names kind units by auto
qed

lemma scratch_accepted:
  assumes "component_ok job" and "\<forall>root. scratch_root env k = Some root \<longrightarrow> path_absolute root"
  shows "check_scratch env (case map_option (\<lambda>p. PDict [(''kind'', PStr k), (''path'', PStr (path_str p))])
       (scratch_path env k job) of None \<Rightarrow> PNone | Some v \<Rightarrow> v) = Inr ()"
proof (cases "scratch_root env k")
  case (Some root)
  with assms(2) have "path_absolute root" by blast
  moreover have "good_path root" using Some good_mkpath by (auto simp: scratch_root_def split: if_split_asm)
  ultimately have "mkpath (path_str (path_join root job)) = (fst root, snd root @ [job])"
    using joined_read_back assms(1) by blast
  with Some \<open>path_absolute root\<close> show ?thesis
    by (simp add: scratch_path_def check_scratch_def pget_def path_absolute_def path_parent_def)
qed (simp add: scratch_path_def check_scratch_def)

lemma good_secret_dir: "good_path (secret_environment_dir c f)"
  using good_mkpath good_path_join by (simp add: secret_environment_dir_def Let_def)

lemma JOB_ID_json: "JOB_ID job \<Longrightarrow> component_ok (job @ ''.json'')"
  using JOB_ID_component by blast

lemma input_file_stem: "JOB_ID job \<Longrightarrow> path_stem (input_file cfg job) = job"
  using json_name [of job] JOB_ID_component [of job]
  by (simp add: input_file_def join_component path_stem_def path_name_def)

lemma secret_path_accepted:
  assumes "JOB_ID job" and "path_absolute (secret_environment_dir c f)"
  shows "\<not> secret_path_bad (input_file cfg job)
     (PStr (path_str (path_join (secret_environment_dir c f) (path_stem (input_file cfg job) @ ''.json''))))"
  using joined_read_back [OF good_secret_dir assms(2) JOB_ID_json [OF assms(1)]] assms
  by (simp add: secret_path_bad_def input_file_stem path_absolute_def path_name_def)

text \<open>
  (C16) What \<open>agentctl\<close> enqueues, its own runner accepts: for every operation that a descriptor may
  declare, whatever the arguments, the binding and the receipts, and whether the job is held or placed,
  the document that is published satisfies the contract the runner checks before it acts, as long as
  the directories configured for scratch and for secrets are absolute.
\<close>

theorem launch_accepted:
  assumes op: "launchable op" and job: "JOB_ID job" "job \<noteq> ''.''"
    and added: "fst ` set added \<subseteq> {''hold'', ''queue_task_id''}"
    and scratch: "\<forall>root. scratch_root (c_env (h_ctx h)) (op_scratch op) = Some root \<longrightarrow> path_absolute root"
    and secrets: "path_absolute (secret_environment_dir (h_ctx h) f)"
    and run: "split_secrets (h_ctx h) (input_file cfg job)
      (launch_fields h cfg (operation_request p op wd env extra binding key tree er) job @ added) f = (Inr d, f')"
  shows "check_input (c_env (h_ctx h)) (input_file cfg job) d = Inr ()"
proof -
  define req where "req = operation_request p op wd env extra binding key tree er"
  define doc where "doc = launch_fields h cfg req job @ added"
  note field = launch_field [OF added doc_def]
  have strs: "list_all (\<lambda>(k, v). is_str v) (map (\<lambda>(k, v). (k, PStr v)) (launch_environment cfg req))"
    by (auto simp: list_all_iff)
  note split = split_secrets_fields [OF run [folded req_def, folded doc_def] field(2,7,8) strs]
  then have same: "\<forall>k. k \<notin> {''environment'', ''secret_environment'', ''secret_environment_path''} \<longrightarrow> pget d k = pget doc k"
    by (elim conjE)
  from split obtain e ns where has: "\<forall>k. dhas doc k \<longrightarrow> dhas d k"
    and e: "pget d ''environment'' = PDict e" "list_all (\<lambda>(k, v). is_str v) e"
    and ns: "pget_or d ''secret_environment'' (PList []) = PList (map PStr ns)"
    and place: "pget d ''secret_environment_path'' = PNone \<or> pget d ''secret_environment_path''
          = PStr (path_str (path_join (secret_environment_dir (h_ctx h) f) (path_stem (input_file cfg job) @ ''.json'')))"
    by (elim conjE exE)
  have comp: "component_ok job"
    using job by (auto simp: JOB_ID_def component_ok_def list_all_iff is_alnum_def is_lower_def is_upper_def is_digit_def)
  have fields: "lr_argv req = command_for (pj_environment p) (op_command op @ extra)" "lr_result req = op_result op"
    "lr_timeout req = op_timeout op" "lr_kind req = ''declared-operation''" "lr_group req = op_pool op"
    "lr_unit_properties req = op_unit_properties op" "lr_pressure req = op_max_io_pressure op"
    "lr_scratch req = op_scratch op"
    by (simp_all add: req_def operation_request_def)
  have "lr_argv req \<noteq> []" using op by (simp add: fields command_for_def launchable_def)
  then obtain a as where argv: "lr_argv req = a # as" by (cases "lr_argv req") auto
  show ?thesis
  proof (rule check_inputI)
    show "\<forall>k \<in> set REQUIRED_FIELDS. dhas d k"
      using has launch_fields_required [of _ h cfg req job added] doc_def by blast
    show "pget d ''argv'' = PList (PStr a # map PStr as)"
      using field(1) argv by (simp add: same) (simp add: pget_def str_values_def)
    show "list_all is_str (PStr a # map PStr as)" by (simp add: list_all_iff)
    show "pget d ''environment'' = PDict e" "list_all (\<lambda>(k, v). is_str v) e" by (fact e)+
    show "pget_or d ''secret_environment'' (PList []) = PList (map PStr ns)" by (fact ns)
    show "\<not> secret_path_bad (input_file cfg job) (pget d ''secret_environment_path'')"
      using place secret_path_accepted [OF job(1) secrets, of cfg] by (auto simp: secret_path_bad_def)
    show "pget d ''result_kind'' = PStr (op_result op)" using field(3) by (simp add: same) (simp add: pget_def fields)
    show "op_result op \<in> set RESULT_KINDS" using op by (simp add: launchable_def)
    have "pget d ''timeout_seconds'' = PInt (op_timeout op)" "pget d ''kind'' = PStr ''declared-operation''"
      using field(4,5) by (simp_all add: same) (simp_all add: pget_def fields)
    with op show "\<not> timeout_bad d" by (simp add: timeout_bad_def Let_def launchable_def valid_timeout_seconds_def)
    show "pget d ''pool'' = PStr (op_pool op)" using field(6) by (simp add: same) (simp add: pget_def fields)
    show "pool_name_ok (op_pool op)" using op by (simp add: launchable_def)
    have "pget d ''unit_properties'' = (if op_unit_properties op = [] then PNone else str_values (op_unit_properties op))"
      using field(9) by (simp add: same) (simp add: pget_def fields)
    with op show "pget d ''unit_properties'' = PNone
      \<or> (\<exists>us. pget d ''unit_properties'' = PList us \<and> list_all supported_unit_property us)"
      by (auto simp: launchable_def str_values_def list_all_iff)
    have "pget d ''max_io_pressure'' = (case op_max_io_pressure op of None \<Rightarrow> PNone | Some x \<Rightarrow> PFloat x)"
      using field(10) by (simp add: same) (simp add: pget_def fields split: option.split)
    with op show "pget d ''max_io_pressure'' = PNone \<or> \<not> percentage_bad (pget d ''max_io_pressure'')"
      by (auto simp: launchable_def split: option.split_asm)
    show "check_scratch (c_env (h_ctx h)) (pget d ''scratch'') = Inr ()"
      using scratch_accepted [OF comp scratch] field(11) by (simp add: same) (simp add: pget_def fields)
  qed
qed


definition secret_host :: host where
  "secret_host = sample_git_host\<lparr>h_ctx := \<lparr>c_env = [(''AGENTCTL_SECRET_ENV_DIR'', ''/r'')], c_uid = 1000\<rparr>\<rparr>"

theorem launch_accepted_witness:
  "\<exists>d f'. split_secrets (h_ctx secret_host) (input_file Agentctl_Jobs.sample_cfg ''p-check-1'')
      (launch_fields secret_host Agentctl_Jobs.sample_cfg
        (operation_request sample_project sample_operation (mkpath ''/w'') [(''GH_TOKEN'', ''t0''), (''PATH'', ''/bin'')] []
          [] None None None) ''p-check-1'' @ [(''queue_task_id'', PInt 7)]) Agentctl_Jobs.sample_state_fs = (Inr d, f')
     \<and> check_input (c_env (h_ctx secret_host)) (input_file Agentctl_Jobs.sample_cfg ''p-check-1'') d = Inr ()"
proof -
  let ?req = "operation_request sample_project sample_operation (mkpath ''/w'')
      [(''GH_TOKEN'', ''t0''), (''PATH'', ''/bin'')] [] [] None None None"
  let ?run = "split_secrets (h_ctx secret_host) (input_file Agentctl_Jobs.sample_cfg ''p-check-1'')
      (launch_fields secret_host Agentctl_Jobs.sample_cfg ?req ''p-check-1'' @ [(''queue_task_id'', PInt 7)])
      Agentctl_Jobs.sample_state_fs"
  have "\<not> isl (fst ?run)" by code_simp
  then obtain d f' where run: "?run = (Inr d, f')" by (cases ?run; cases "fst ?run") auto
  have op: "launchable sample_operation" and job: "JOB_ID ''p-check-1''"
    and secrets: "path_absolute (secret_environment_dir (h_ctx secret_host) Agentctl_Jobs.sample_state_fs)" by code_simp+
  have "case scratch_root (c_env (h_ctx secret_host)) (op_scratch sample_operation) of
      Some root \<Rightarrow> path_absolute root | None \<Rightarrow> False" by code_simp
  then have scratch: "\<forall>root. scratch_root (c_env (h_ctx secret_host)) (op_scratch sample_operation) = Some root
      \<longrightarrow> path_absolute root" by (auto split: option.split_asm)
  have "fst ` set [(''queue_task_id'', PInt 7)] \<subseteq> {''hold'', ''queue_task_id''}" by simp
  from launch_accepted [OF op job _ this scratch secrets run] run show ?thesis by simp
qed

end
