(* ===== verification/Agentctl_Cancel.thy ===== *)
theory Agentctl_Cancel
  imports Agentctl_Enqueue Agentctl_History
begin

text \<open>
  Cancellation, cleaning and retry of jobs, of \<open>agentctl/launch.py\<close>. The locks of an attempt
  allocation are the atomicity of their blocks; opening their files is modelled. The process that
  the queue runs may start, finish or disappear between any two steps, as the answers of the queue
  and the changes others make to the files say.
\<close>

definition CANCEL_SETTLE_SECONDS :: pyfloat where "CANCEL_SETTLE_SECONDS = FDec 15 0"

definition NOT_STARTED_CANCEL :: pydict where
  "NOT_STARTED_CANCEL = [(''outcome'', PStr ''cancelled''), (''started'', PBool False)]"

section \<open>Dispositions and units\<close>

definition write_disposition :: "host \<Rightarrow> config \<Rightarrow> task \<Rightarrow> pydict \<Rightarrow> (lworld, unit) io" where
  "write_disposition h cfg t disposition =
     bindM (peek h (\<lambda>f. case launch_input_path t of
         Some p \<Rightarrow> if owns_path cfg f t p then Inr p else Inl (JobErr ''cannot record cancellation disposition'')
       | None \<Rightarrow> Inl (JobErr ''cannot record cancellation disposition''))) (\<lambda>path.
     bindM (edit h (bindM (fsM (mkdir_p 493 (path_parent path))) (\<lambda>_.
         fsM (touch (with_name (path_name path @ ''.lock'') path))))) (\<lambda>_.
       edit h (write_input (h_ctx h) (disposition_path path) disposition)))"

definition stop_unit :: "host \<Rightarrow> string \<Rightarrow> (lworld, unit) io" where
  "stop_unit h unit = bindM (run_ctl (h_sys h) [''systemctl'', ''--user'', ''stop'', unit]) (\<lambda>r. returnM ())"

definition state_of_properties :: "string dict \<Rightarrow> string" where
  "state_of_properties p =
     (if dget p ''LoadState'' = Some ''not-found'' then ''stopped''
      else if dget p ''LoadState'' \<noteq> Some ''loaded'' then ''unresolved''
      else if dget p ''ActiveState'' \<in> {Some ''inactive'', Some ''failed''} then ''stopped''
      else if dget p ''ActiveState'' \<in> {Some ''active'', Some ''activating'', Some ''deactivating'', Some ''reloading''}
        then ''failed''
      else ''unresolved'')"

definition unit_state :: "host \<Rightarrow> string \<Rightarrow> (lworld, string) io" where
  "unit_state h unit =
     bindM (run_ctl (h_sys h) [''systemctl'', ''--user'', ''show'', ''-p'', ''LoadState,ActiveState'', unit]) (\<lambda>r.
       liftM (case r of
           Exited rc out err \<Rightarrow> Inr (if rc \<noteq> 0 then ''unresolved'' else state_of_properties (property_lines out))
         | Garbled \<Rightarrow> Inl UnicodeErr
         | _ \<Rightarrow> Inr ''unresolved''))"

definition record_cancellation :: "host \<Rightarrow> pydict \<Rightarrow> int \<Rightarrow> pydict \<Rightarrow> (lworld, pydict) io" where
  "record_cancellation h document attempt request =
     (let record = dset ''attempt'' (PInt attempt) request
      in catchM
           (bindM (liftM (bindE (case dget document ''log_path'' of None \<Rightarrow> Inl (KeyErr ''log_path'') | Some v \<Rightarrow> path_arg v)
               (\<lambda>log. cancellation_path log attempt))) (\<lambda>path.
            bindM (edit h (bindM (fsM (mkdir_p 448 (path_parent path))) (\<lambda>_. write_input (h_ctx h) path record))) (\<lambda>_.
              returnM record)))
           (\<lambda>e. if is_oserror e then raiseM (JobErr (''cannot record cancellation requester: '' @ exn_str e)) else raiseM e))"

definition retain_disposition :: "host \<Rightarrow> config \<Rightarrow> task \<Rightarrow> pydict \<Rightarrow> bool \<Rightarrow> (lworld, unit) io" where
  "retain_disposition h cfg t disposition owned =
     (if owned then write_disposition h cfg t disposition else returnM ())"

definition unresolved_cancel :: "pydict \<Rightarrow> string option \<Rightarrow> pydict \<Rightarrow> pydict" where
  "unresolved_cancel view unit disposition =
     dmerge view [(''phase'', PStr ''unresolved''), (''started'', PBool True), (''state'', PStr ''unresolved''),
       (''unit'', opt_str unit), (''disposition'', PDict disposition)]"

definition cancelled_not_started :: "pydict \<Rightarrow> pydict \<Rightarrow> pydict" where
  "cancelled_not_started view disposition =
     dmerge view [(''phase'', PStr ''cancelled''), (''terminal'', PBool True), (''started'', PBool False),
       (''state'', PStr ''removed''), (''unit'', PNone), (''removed'', PList []), (''disposition'', PDict disposition)]"

section \<open>A launch that has not started\<close>

definition cancel_intent :: pydict where
  "cancel_intent = [(''cancel_requested'', PBool True), (''confirmed'', PBool False)]"

definition unresolved_because :: "string \<Rightarrow> pydict" where
  "unresolved_because reason = cancel_intent @ [(''unresolved'', PBool True), (''reason'', PStr reason)]"

text \<open>The report of a launch whose fate is not known; the disposition says why.\<close>

definition give_up ::
  "host \<Rightarrow> (string \<Rightarrow> string) \<Rightarrow> config \<Rightarrow> task \<Rightarrow> pydict \<Rightarrow> string \<Rightarrow> bool \<Rightarrow> (lworld, pydict option) io" where
  "give_up h dig cfg t view reason owned =
     bindM (retain_disposition h cfg t (unresolved_because reason) owned) (\<lambda>_.
       returnM (Some (unresolved_cancel view (unit_of dig t) (unresolved_because reason))))"

definition marker_attempt :: "config \<Rightarrow> fs \<Rightarrow> task \<Rightarrow> pydict \<Rightarrow> nat res" where
  "marker_attempt cfg f t document =
     bindE (attempts f document) (\<lambda>records.
       (let latest = (if records = [] then 0 else at_number (last records))
        in if latest = 0 then Inr 1
           else bindE (unfinished_attempt cfg f t) (\<lambda>u. Inr (if u then latest else latest + 1))))"

text \<open>The marker file of an owned log, with its directory and that of the attempts made.\<close>

definition prepare_marker :: "host \<Rightarrow> config \<Rightarrow> task \<Rightarrow> pydict \<Rightarrow> bool \<Rightarrow> bool \<Rightarrow> (lworld, ppath option) io" where
  "prepare_marker h cfg t document owned locked =
     bindM (peek h (\<lambda>f. Inr (case pget document ''log_path'' of
         PStr s \<Rightarrow> if owned \<and> owns_path cfg f t (mkpath s) then Some (mkpath s) else None | _ \<Rightarrow> None))) (\<lambda>log.
       (case log of
          None \<Rightarrow> returnM None
        | Some p \<Rightarrow>
            bindM (liftM (cancel_marker_for p)) (\<lambda>marker.
            bindM (edit h (fsM (mkdir_p 493 (path_parent marker)))) (\<lambda>_.
            bindM (liftM (root_for p)) (\<lambda>root.
            bindM (edit h (fsM (mkdir_p 493 root))) (\<lambda>_.
            bindM (if locked then returnM () else edit h (fsM (touch (path_join root ''.allocation.lock'')))) (\<lambda>_.
              returnM (Some marker))))))))"

text \<open>The marker is withdrawn if it still names the attempt.\<close>

definition withdraw_marker :: "host \<Rightarrow> ppath \<Rightarrow> nat \<Rightarrow> (lworld, unit) io" where
  "withdraw_marker h marker n =
     catchM (bindM (peek h (\<lambda>f. bindE (fs_read_text f marker) loads_text)) (\<lambda>v.
         (case v of
            PDict d \<Rightarrow> if eq_int (pget d ''attempt'') (int n) then edit h (fsM (unlink_missing_ok marker)) else returnM ()
          | _ \<Rightarrow> raiseM AttributeErr)))
       (\<lambda>e. if is_oserror e \<or> e = UnicodeErr \<or> e = JSONDecode \<or> e = AttributeErr then returnM () else raiseM e)"

definition started_since :: "config \<Rightarrow> fs \<Rightarrow> task \<Rightarrow> nat \<Rightarrow> task option \<Rightarrow> bool res" where
  "started_since cfg f t before current =
     bindE (attempt_count cfg f t) (\<lambda>n.
       if n > before then Inr True
       else bindE (unfinished_attempt cfg f t) (\<lambda>u.
         Inr (u \<or> (case current of Some c \<Rightarrow> tk_started c \<noteq> None | None \<Rightarrow> False))))"

text \<open>After the removal: who has the launch now.\<close>

definition confirm_removed ::
  "host \<Rightarrow> (string \<Rightarrow> string) \<Rightarrow> config \<Rightarrow> task \<Rightarrow> pydict \<Rightarrow> bool \<Rightarrow> nat \<Rightarrow> (ppath \<times> nat) option \<Rightarrow> (lworld, pydict option) io" where
  "confirm_removed h dig cfg t view owned before marker =
     bindM (task_by_id (h_daemon h) (tk_id t)) (\<lambda>current.
     bindM (peek h (\<lambda>f. started_since cfg f t before current)) (\<lambda>started.
       (case current of
          Some c \<Rightarrow>
            if started then returnM None
            else give_up h dig cfg c (job_view c) ''queue still holds the launch after remove'' owned
        | None \<Rightarrow>
            if started then give_up h dig cfg t view ''runner started during cancel'' owned
            else
              bindM (case marker of Some (m, n) \<Rightarrow> withdraw_marker h m n | None \<Rightarrow> returnM ()) (\<lambda>_.
              bindM (retain_disposition h cfg t NOT_STARTED_CANCEL owned) (\<lambda>_.
                returnM (Some (cancelled_not_started view NOT_STARTED_CANCEL)))))))"

text \<open>A removal the queue refused: \<open>Some\<close> is the answer, \<open>None\<close> that the task is gone.\<close>

definition removal_refused ::
  "host \<Rightarrow> (string \<Rightarrow> string) \<Rightarrow> config \<Rightarrow> int \<Rightarrow> bool \<Rightarrow> (lworld, pydict option option) io" where
  "removal_refused h dig cfg i owned =
     bindM (task_by_id (h_daemon h) i) (\<lambda>current.
       (case current of
          None \<Rightarrow> returnM None
        | Some c \<Rightarrow>
            bindM (if tk_started c \<noteq> None then returnM True else peek h (\<lambda>f. unfinished_attempt cfg f c)) (\<lambda>busy.
              if busy then returnM (Some None)
              else bindM (give_up h dig cfg c (job_view c)
                  ''queue still holds the not-started launch after remove failed'' owned) (\<lambda>r. returnM (Some r)))))"

definition drop_queued ::
  "host \<Rightarrow> (string \<Rightarrow> string) \<Rightarrow> config \<Rightarrow> task \<Rightarrow> pydict \<Rightarrow> bool \<Rightarrow> nat \<Rightarrow> (ppath \<times> nat) option \<Rightarrow> (lworld, pydict option) io" where
  "drop_queued h dig cfg t view owned before marker =
     bindM (task_by_id (h_daemon h) (tk_id t)) (\<lambda>current.
       if (case current of Some c \<Rightarrow> tk_started c \<noteq> None | None \<Rightarrow> False) then returnM None
       else
         (let target = (case current of Some c \<Rightarrow> c | None \<Rightarrow> t)
          in bindM (peek h (\<lambda>f. unfinished_attempt cfg f target)) (\<lambda>busy.
             if busy then
               give_up h dig cfg target (if current = None then view else job_view target)
                 ''runner started during cancel'' owned
             else
               bindM (case current of
                   None \<Rightarrow> returnM None
                 | Some c \<Rightarrow>
                     catchM (bindM (remove_tasks (h_daemon h) [tk_id c]) (\<lambda>_. returnM None))
                       (\<lambda>e. if is_pueueerror e then removal_refused h dig cfg (tk_id c) owned else raiseM e)) (\<lambda>answer.
                 (case answer of
                    Some r \<Rightarrow> returnM r
                  | None \<Rightarrow> confirm_removed h dig cfg t view owned before marker)))))"

text \<open>What is on disk before the queue is asked to drop the launch: the intent, the request and the
  directory of the marker; the marker itself comes after the attempts are counted.\<close>

definition announce_cancel ::
  "host \<Rightarrow> config \<Rightarrow> task \<Rightarrow> pydict \<Rightarrow> bool \<Rightarrow> pydict \<Rightarrow> (lworld, bool \<times> pydict \<times> pydict \<times> ppath option) io" where
  "announce_cancel h cfg t view0 locked request =
     bindM (catchM (bindM (write_disposition h cfg t cancel_intent) (\<lambda>_. returnM True))
         (\<lambda>e. if is_joberror e then returnM False else raiseM e)) (\<lambda>owned.
     bindM (peek h (\<lambda>f. Inr (launch_document cfg f t))) (\<lambda>document.
     bindM (if owned then bindM (record_cancellation h document 0 request) (\<lambda>r.
                returnM (dset ''cancellation'' (PDict r) view0)) else returnM view0) (\<lambda>view.
     bindM (prepare_marker h cfg t document owned locked) (\<lambda>marker.
       returnM (owned, document, view, marker)))))"

definition mark_attempt :: "host \<Rightarrow> config \<Rightarrow> task \<Rightarrow> pydict \<Rightarrow> ppath option \<Rightarrow> (lworld, (ppath \<times> nat) option) io" where
  "mark_attempt h cfg t document marker =
     (case marker of
        None \<Rightarrow> returnM None
      | Some m \<Rightarrow>
          bindM (peek h (\<lambda>f. marker_attempt cfg f t document)) (\<lambda>n.
          bindM (edit h (write_input (h_ctx h) m [(''attempt'', PInt (int n))])) (\<lambda>_. returnM (Some (m, n)))))"

definition drop_announced ::
  "host \<Rightarrow> (string \<Rightarrow> string) \<Rightarrow> config \<Rightarrow> task \<Rightarrow> bool \<times> pydict \<times> pydict \<times> ppath option \<Rightarrow> (lworld, pydict option) io" where
  "drop_announced h dig cfg t announced =
     (case announced of (owned, document, view, marker) \<Rightarrow>
        bindM (peek h (\<lambda>f. attempt_count cfg f t)) (\<lambda>before.
        bindM (mark_attempt h cfg t document marker) (drop_queued h dig cfg t view owned before)))"

definition cancel_not_started ::
  "host \<Rightarrow> (string \<Rightarrow> string) \<Rightarrow> config \<Rightarrow> task \<Rightarrow> pydict \<Rightarrow> bool \<Rightarrow> pydict \<Rightarrow> (lworld, pydict option) io" where
  "cancel_not_started h dig cfg t view0 locked request =
     bindM (announce_cancel h cfg t view0 locked request) (drop_announced h dig cfg t)"

section \<open>A launch that has started\<close>

definition incomplete_disposition :: "string \<Rightarrow> string option \<Rightarrow> int \<Rightarrow> pydict" where
  "incomplete_disposition unit cg attempt =
     [(''outcome'', PStr ''cancelled''), (''cancellation_incomplete'', PBool True), (''unresolved'', PBool True),
      (''started'', PBool True), (''unit'', PStr unit), (''cgroup'', opt_str cg), (''attempt'', PInt attempt)]"

definition observation_items :: "observation \<Rightarrow> pydict" where
  "observation_items ob =
     [(''unit'', PStr (ob_unit ob)), (''cgroup'', opt_str (ob_cgroup ob))] @ occupancy_items (ob_status ob)"

definition settled_disposition :: "bool \<Rightarrow> int \<Rightarrow> observation \<Rightarrow> pydict" where
  "settled_disposition incomplete attempt ob =
     dmerge [(''outcome'', PStr ''cancelled''), (''cancellation_incomplete'', PBool incomplete),
       (''unresolved'', PBool incomplete), (''started'', PBool True), (''attempt'', PInt attempt)] (observation_items ob)"

definition unit_cgroup_now :: "host \<Rightarrow> string \<Rightarrow> (lworld, string option) io" where
  "unit_cgroup_now h unit = consult h (\<lambda>sc f. unit_cgroup sc unit)"

text \<open>The request is published, and only then the unit is asked to stop. \<open>expected\<close> is the attempt of a
  caller that holds the allocation lock. The results are the attempt, the control group and the
  record of the request.\<close>

definition request_stop ::
  "host \<Rightarrow> (string \<Rightarrow> string) \<Rightarrow> config \<Rightarrow> task \<Rightarrow> ppath \<Rightarrow> string option \<Rightarrow> int option \<Rightarrow> pydict
     \<Rightarrow> (lworld, int \<times> string option \<times> pydict) io" where
  "request_stop h dig cfg t log unit expected request =
     bindM (liftM (cancel_marker_for log)) (\<lambda>marker.
     bindM (edit h (fsM (mkdir_p 493 (path_parent marker)))) (\<lambda>_.
     bindM (liftM (root_for log)) (\<lambda>root.
     bindM (edit h (bindM (fsM (mkdir_p 493 root)) (\<lambda>_. fsM (touch (path_join root ''.allocation.lock''))))) (\<lambda>_.
     bindM (peek h (\<lambda>f. bindE (marker_attempt cfg f t (launch_document cfg f t)) (\<lambda>n.
         Inr (case expected of Some a \<Rightarrow> a | None \<Rightarrow> int n)))) (\<lambda>attempt.
     bindM (peek h (\<lambda>f. Inr (launch_document cfg f t))) (\<lambda>document.
     bindM (record_cancellation h document attempt request) (\<lambda>recorded.
     bindM (edit h (write_input (h_ctx h) marker [(''attempt'', PInt attempt)])) (\<lambda>_.
     bindM (case unit of
         None \<Rightarrow> returnM None
       | Some u \<Rightarrow>
           bindM (unit_cgroup_now h u) (\<lambda>cg.
           bindM (write_disposition h cfg t (incomplete_disposition u cg attempt)) (\<lambda>_.
           bindM (stop_unit h u) (\<lambda>_. returnM cg)))) (\<lambda>cg.
       returnM (attempt, cg, recorded))))))))))"

text \<open>A wrapper that has not settled in time is killed; a guarded caller looks again first.\<close>

definition attempt_changed :: "config \<Rightarrow> fs \<Rightarrow> task \<Rightarrow> int \<Rightarrow> task option \<Rightarrow> bool res" where
  "attempt_changed cfg f t expected observed =
     bindE (artifact_view cfg f t None) (\<lambda>av.
       Inr (int (av_attempt av) \<noteq> expected
         \<or> (case observed of
              Some o' \<Rightarrow> job_id_of o' \<noteq> job_id_of t \<or> tk_started o' \<noteq> tk_started t | None \<Rightarrow> False)))"

definition escalate :: "host \<Rightarrow> config \<Rightarrow> task \<Rightarrow> int option \<Rightarrow> (lworld, unit) io" where
  "escalate h cfg t expected =
     catchM
       (case expected of
          None \<Rightarrow> kill_task (h_daemon h) (tk_id t)
        | Some a \<Rightarrow>
            bindM (task_by_id (h_daemon h) (tk_id t)) (\<lambda>observed.
            bindM (peek h (\<lambda>f. attempt_changed cfg f t a observed)) (\<lambda>changed.
              if changed then raiseM (JobErr ''execution attempt changed while waiting for cancellation'')
              else
                (case observed of
                   Some o' \<Rightarrow>
                     if terminal o' then returnM ()
                     else bindM (peek h (\<lambda>f. unfinished_attempt cfg f t)) (\<lambda>u.
                       if u then kill_task (h_daemon h) (tk_id t) else returnM ())
                 | None \<Rightarrow> returnM ()))))
       (\<lambda>e. if is_pueueerror e then returnM () else raiseM e)"

text \<open>\<open>None\<close> is the end of the fuel; the sleep is time that passes before the next question.\<close>

fun await_settled ::
  "host \<Rightarrow> config \<Rightarrow> task \<Rightarrow> int option \<Rightarrow> pyfloat \<Rightarrow> task option \<Rightarrow> nat \<Rightarrow> (lworld, task option option) io" where
  "await_settled h cfg t expected deadline_at current 0 = returnM None"
| "await_settled h cfg t expected deadline_at current (Suc n) =
     (case current of
        None \<Rightarrow> returnM (Some None)
      | Some c \<Rightarrow>
          if terminal c then returnM (Some (Some c))
          else
            bindM (clock_now h) (\<lambda>now.
              if float_le deadline_at now then
                bindM (escalate h cfg t expected) (\<lambda>_.
                bindM (task_by_id (h_daemon h) (tk_id t)) (\<lambda>c'. returnM (Some c')))
              else
                bindM (task_by_id (h_daemon h) (tk_id t)) (\<lambda>c'.
                  await_settled h cfg t expected deadline_at c' n)))"

definition owned_log :: "config \<Rightarrow> fs \<Rightarrow> task \<Rightarrow> ppath option res" where
  "owned_log cfg f t =
     (let declared = pget (launch_document cfg f t) ''log_path''
      in if truthy declared
         then bindE (path_arg declared) (\<lambda>p. Inr (if owns_path cfg f t p then Some p else None))
         else Inr None)"

text \<open>What is true of the unit once the wrapper is settled.\<close>

definition outcome_items :: "config \<Rightarrow> fs \<Rightarrow> task \<Rightarrow> nat option \<Rightarrow> pydict res" where
  "outcome_items cfg f t attempt =
     bindE (job_outcome cfg f t attempt) (\<lambda>o'. Inr (case o' of None \<Rightarrow> [] | Some d \<Rightarrow> [(''outcome'', PDict d)]))"

definition final_observation ::
  "host \<Rightarrow> string option \<Rightarrow> string option \<Rightarrow> (lworld, string \<times> observation option) io" where
  "final_observation h unit cg =
     (case unit of
        None \<Rightarrow> returnM (''stopped'', None)
      | Some u \<Rightarrow>
          bindM (unit_state h u) (\<lambda>state.
          bindM (consult h (\<lambda>sc f. observe_unit sc f u cg)) (\<lambda>ob. returnM (state, Some ob))))"

definition left_running :: "observation option \<Rightarrow> bool" where
  "left_running ob \<longleftrightarrow> (case ob of None \<Rightarrow> False | Some x \<Rightarrow> ob_status x \<noteq> Empty)"

definition finish_cancel ::
  "host \<Rightarrow> config \<Rightarrow> task \<Rightarrow> pydict \<Rightarrow> task option \<Rightarrow> ppath option \<Rightarrow> string option
     \<Rightarrow> (int \<times> string option \<times> pydict) option \<Rightarrow> string option \<Rightarrow> int option \<Rightarrow> (lworld, pydict) io" where
  "finish_cancel h cfg t view current log unit requested cg expected =
     bindM (final_observation h unit cg) (\<lambda>(state0, ob).
     (let incomplete = left_running ob; state = (if incomplete then ''incomplete'' else state0);
          target = (case current of Some c \<Rightarrow> c | None \<Rightarrow> t)
      in bindM (case (requested, ob) of
             (Some (attempt, _, _), Some x) \<Rightarrow> write_disposition h cfg t (settled_disposition incomplete attempt x)
           | _ \<Rightarrow> returnM ()) (\<lambda>_.
         bindM (peek h (\<lambda>f. outcome_items cfg f target (map_option nat expected))) (\<lambda>oc.
           returnM (foldl dmerge (case current of Some c \<Rightarrow> job_view c | None \<Rightarrow> view)
             [[(''state'', PStr state)],
              (if state \<in> {''unresolved'', ''incomplete''} then [(''unresolved'', PBool True)] else []),
              [(''unit'', opt_str unit)], oc,
              (if incomplete
               then [(''phase'', PStr ''unresolved''), (''terminal'', PBool False), (''cancellation_incomplete'', PBool True),
                     (''cgroup_observation'', PDict (observation_items (the ob)))]
               else []),
              [(''already_terminal'', PBool False)],
              (case requested of Some (_, _, r) \<Rightarrow> [(''cancellation'', PDict r)] | None \<Rightarrow> [])])))))"

definition cancel_started ::
  "host \<Rightarrow> (string \<Rightarrow> string) \<Rightarrow> config \<Rightarrow> task \<Rightarrow> pydict \<Rightarrow> pyfloat \<Rightarrow> int option \<Rightarrow> pydict \<Rightarrow> nat \<Rightarrow> (lworld, pydict option) io" where
  "cancel_started h dig cfg t view settle_seconds expected request fuel =
     (let unit = unit_of dig t
      in bindM (peek h (\<lambda>f. owned_log cfg f t)) (\<lambda>log.
         bindM (case log of
             Some p \<Rightarrow> bindM (request_stop h dig cfg t p unit expected request) (\<lambda>r. returnM (Some r))
           | None \<Rightarrow> returnM None) (\<lambda>requested.
         bindM (case (log, unit) of
             (None, Some u) \<Rightarrow> bindM (unit_cgroup_now h u) (\<lambda>cg. bindM (stop_unit h u) (\<lambda>_. returnM cg))
           | _ \<Rightarrow> returnM (case requested of Some (_, cg, _) \<Rightarrow> cg | None \<Rightarrow> None)) (\<lambda>cg.
         bindM (clock_now h) (\<lambda>now.
         bindM (task_by_id (h_daemon h) (tk_id t)) (\<lambda>current.
         bindM (await_settled h cfg t expected (float_add now settle_seconds) current fuel) (\<lambda>settled.
           (case settled of
              None \<Rightarrow> returnM None
            | Some c \<Rightarrow>
                bindM (finish_cancel h cfg t view c log unit requested cg expected) (\<lambda>r. returnM (Some r)))))))))) "

definition terminal_cancel :: "host \<Rightarrow> config \<Rightarrow> task \<Rightarrow> pydict \<Rightarrow> (lworld, pydict) io" where
  "terminal_cancel h cfg t view =
     bindM (consult h (\<lambda>sc f. cancellation_obstacle sc f (read_disposition cfg f t))) (\<lambda>ob.
       (case ob of
          None \<Rightarrow>
            returnM (dmerge view [(''state'', PStr ''terminal''), (''unit'', PNone), (''already_terminal'', PBool True)])
        | Some NoUnitIdentity \<Rightarrow> raiseM (KeyErr ''unit'')
        | Some (StillThere o') \<Rightarrow>
            returnM (dmerge view
              [(''state'', PStr ''incomplete''), (''phase'', PStr ''unresolved''), (''terminal'', PBool False),
               (''unit'', PStr (ob_unit o')), (''cgroup_observation'', obstacle_value (StillThere o')),
               (''cancellation_incomplete'', PBool True), (''already_terminal'', PBool True)])))"

text \<open>\<open>_cancel\<close>; \<open>expected\<close> is given by a caller that holds the allocation lock.\<close>

definition cancel_task ::
  "host \<Rightarrow> (string \<Rightarrow> string) \<Rightarrow> config \<Rightarrow> int \<Rightarrow> string option \<Rightarrow> pyfloat option \<Rightarrow> int option \<Rightarrow> pydict \<Rightarrow> nat
     \<Rightarrow> (lworld, pydict option) io" where
  "cancel_task h dig cfg task_id job_id settle expected request fuel =
     (let seconds = (case settle of None \<Rightarrow> CANCEL_SETTLE_SECONDS | Some s \<Rightarrow> s)
      in bindM (addressed (h_daemon h) task_id job_id) (\<lambda>t.
         (let view = job_view t
          in if terminal t then bindM (terminal_cancel h cfg t view) (\<lambda>r. returnM (Some r))
             else if tk_started t \<noteq> None then cancel_started h dig cfg t view seconds expected request fuel
             else
               bindM (cancel_not_started h dig cfg t view (expected \<noteq> None) request) (\<lambda>stopped.
                 (case stopped of
                    Some r \<Rightarrow> returnM (Some (dset ''already_terminal'' (PBool False) r))
                  | None \<Rightarrow>
                      bindM (task_by_id (h_daemon h) (tk_id t)) (\<lambda>live.
                        (case live of
                           None \<Rightarrow> raiseM (JobErr ''cancel raced runner start and the queue no longer holds the launch'')
                         | Some t' \<Rightarrow> cancel_started h dig cfg t' (job_view t') seconds expected request fuel)))))))"

text \<open>\<open>cancel\<close>: the request names who asks; an expected attempt is compared under the lock.\<close>

definition cancel_request :: "host \<Rightarrow> string \<Rightarrow> string option \<Rightarrow> string \<Rightarrow> pydict" where
  "cancel_request h actor reason now =
     [(''actor'', PStr (strip actor)), (''uid'', PInt (int (c_uid (h_ctx h)))), (''reason'', opt_str reason),
      (''requested_at'', PStr now)]"

definition cancel ::
  "host \<Rightarrow> (string \<Rightarrow> string) \<Rightarrow> config \<Rightarrow> int \<Rightarrow> string option \<Rightarrow> int option \<Rightarrow> string \<Rightarrow> string option
     \<Rightarrow> pyfloat option \<Rightarrow> nat \<Rightarrow> (lworld, pydict option) io" where
  "cancel h dig cfg task_id job_id expected actor reason settle fuel =
     (if strip actor = [] \<or> py_len actor > 256
      then raiseM (JobErr ''cancellation actor must be nonempty and at most 256 characters'')
      else if (case reason of Some s \<Rightarrow> py_len s > 4096 | None \<Rightarrow> False)
      then raiseM (JobErr ''cancellation reason must be at most 4096 characters'')
      else
        bindM (stamp_now h) (\<lambda>now.
        (let request = cancel_request h actor reason now
         in (case expected of
               None \<Rightarrow> cancel_task h dig cfg task_id job_id settle None request fuel
             | Some a \<Rightarrow>
                 if job_id = None then raiseM (JobErr ''expected_attempt requires a stable job id'')
                 else
                   bindM (addressed (h_daemon h) task_id job_id) (\<lambda>t.
                   bindM (peek h (\<lambda>f. owned_log cfg f t)) (\<lambda>log.
                     (case log of
                        None \<Rightarrow> raiseM (JobErr ''cannot verify the job's execution attempt'')
                      | Some p \<Rightarrow>
                          bindM (liftM (root_for p)) (\<lambda>root.
                          bindM (edit h (bindM (fsM (mkdir_p 493 root)) (\<lambda>_.
                              fsM (touch (path_join root ''.allocation.lock''))))) (\<lambda>_.
                          bindM (peek h (\<lambda>f. bindE (artifact_view cfg f t None) (\<lambda>av. Inr (int (av_attempt av))))) (\<lambda>current.
                            if current \<noteq> a
                            then raiseM (JobErr (''execution attempt changed: expected '' @ show_int a @ '', found ''
                              @ show_int current))
                            else cancel_task h dig cfg (tk_id t) job_id settle (Some a) request fuel))))))))))"

end
