(* ===== verification/Agentctl_Retire.thy ===== *)
theory Agentctl_Retire
  imports Agentctl_Cancel
begin

text \<open>
  Cleaning and retry of finished jobs, the end of \<open>agentctl/launch.py\<close>. Cleaning removes a terminal
  entry of the queue and keeps its evidence; a retry starts the same entry again under the admission
  of a new launch. Neither passes a cancellation whose processes are not proven gone.
\<close>

section \<open>Cleaning\<close>

definition unlink_one :: "host \<Rightarrow> ppath \<Rightarrow> string list \<Rightarrow> (lworld, string list) io" where
  "unlink_one h p removed =
     catchM (bindM (edit h (fsM (fs_unlink p))) (\<lambda>_. returnM (removed @ [path_str p])))
       (\<lambda>e. if is_oserror e then returnM removed else raiseM e)"

definition unlink_all :: "host \<Rightarrow> ppath list \<Rightarrow> (lworld, string list) io" where
  "unlink_all h paths = forM (unlink_one h) paths []"

definition require_drained :: "host \<Rightarrow> config \<Rightarrow> task \<Rightarrow> (lworld, unit) io" where
  "require_drained h cfg t =
     bindM (consult h (\<lambda>sc f. cancellation_obstacle sc f (read_disposition cfg f t))) (\<lambda>ob.
       (case ob of
          None \<Rightarrow> returnM ()
        | Some x \<Rightarrow> raiseM (JobErr (''cancellation incomplete: '' @ py_repr (obstacle_value x)))))"

text \<open>The entry leaves the queue, the marker of its cancellation goes, the evidence stays.\<close>

definition clean_settled :: "host \<Rightarrow> config \<Rightarrow> task \<Rightarrow> pydict \<Rightarrow> (lworld, pydict) io" where
  "clean_settled h cfg t view =
     bindM (if tk_status t \<noteq> ''Archived'' then remove_tasks (h_daemon h) [tk_id t] else returnM ()) (\<lambda>_.
     bindM (peek h (\<lambda>f. artifact_path cfg f t ''.log'' None)) (\<lambda>log.
     bindM (case log of
         None \<Rightarrow> returnM []
       | Some p \<Rightarrow> bindM (liftM (cancel_marker_for p)) (\<lambda>marker. unlink_all h [marker])) (\<lambda>removed.
       returnM (dmerge view [(''cleaned'', PBool True), (''removed'', str_values removed),
         (''retained'', PBool True)]))))"

definition clean :: "host \<Rightarrow> config \<Rightarrow> int \<Rightarrow> string option \<Rightarrow> (lworld, pydict) io" where
  "clean h cfg task_id job_id =
     (if (case job_id of Some j \<Rightarrow> \<not> JOB_ID j | None \<Rightarrow> False)
      then raiseM (JobErr (py_repr (opt_str job_id) @ '' is not a job id''))
      else
        bindM (ask h (\<lambda>m. read_task m cfg task_id job_id)) (\<lambda>t.
        if tk_status t \<noteq> ''Archived'' \<and> \<not> terminal t
        then raiseM (JobErr (''task '' @ show_int (tk_id t) @ '' is still '' @ str_lower (tk_status t) @ ''; cancel it first''))
        else
          bindM (ask h (\<lambda>m. get_job m (Some cfg) (tk_id t) (job_id_of t) None 0 100)) (\<lambda>view.
          bindM (require_drained h cfg t) (\<lambda>_. clean_settled h cfg t view))))"

section \<open>What a live batch still needs\<close>

definition landing_records :: "pydict \<Rightarrow> pydict list" where
  "landing_records landing =
     List.map_filter (\<lambda>k. case pget landing k of PDict d \<Rightarrow> Some d | _ \<Rightarrow> None) [''verify_run'', ''review_verdict'']"

definition run_records :: "pydict \<Rightarrow> pydict list res" where
  "run_records run =
     bindE (run_workers run) (\<lambda>ws. bindE (run_landing run) (\<lambda>l. Inr (ws @ [l] @ landing_records l)))"

text \<open>The jobs a record names, and the directories it works in.\<close>

definition record_jobs :: "tasks \<Rightarrow> pydict \<Rightarrow> int list res" where
  "record_jobs ts r =
     (let job = (if truthy (pget r ''pending_launch'') then pget r ''pending_launch'' else pget r ''job_id'');
          named = (case find_task ts (pget r ''task_id'') job None of Some t \<Rightarrow> [tk_id t] | None \<Rightarrow> [])
      in bindE (if truthy (pget r ''task_ids'') then py_iter (pget r ''task_ids'') else Inr []) (\<lambda>vs.
           Inr (named @ map int_of (filter is_int vs))))"

definition record_worktrees :: "pydict \<Rightarrow> string list" where
  "record_worktrees r =
     List.map_filter (\<lambda>k. case pget r k of PStr s \<Rightarrow> Some s | _ \<Rightarrow> None) [''worktree'', ''integration_worktree'']"

definition batch_label :: "string list \<Rightarrow> string \<Rightarrow> bool" where
  "batch_label run_ids label =
     (let parts = split_on CHR '':'' label
      in 3 \<le> length parts \<and> parts ! 1 \<in> set (AGENT_OPERATIONS @ [''land'']) \<and> parts ! 2 \<in> set run_ids)"

text \<open>A task belongs to a live batch by its directory, its launch input or its label.\<close>

definition batch_task :: "config \<Rightarrow> fs \<Rightarrow> string list \<Rightarrow> string list \<Rightarrow> task \<Rightarrow> bool res" where
  "batch_task cfg f worktrees run_ids t =
     (if tk_path t \<in> set worktrees then Inr True
      else
        (let binding = pget (launch_document cfg f t) ''binding''
         in (case (if truthy binding then binding else PDict []) of
               PDict b \<Rightarrow>
                 (case pget b ''run_id'' of
                    PStr s \<Rightarrow> Inr (s \<in> set run_ids \<or> batch_label run_ids (tk_label t))
                  | PList vs \<Rightarrow> Inl TypeErr
                  | PDict d \<Rightarrow> Inl TypeErr
                  | v \<Rightarrow> Inr (batch_label run_ids (tk_label t)))
             | v \<Rightarrow> Inl AttributeErr)))"

fun live_only :: "pydict list \<Rightarrow> pydict list res" where
  "live_only [] = Inr []"
| "live_only (r # rs) =
     bindE (run_live r) (\<lambda>b. bindE (live_only rs) (\<lambda>ls. Inr (if b then r # ls else ls)))"

definition live_run_jobs :: "config \<Rightarrow> fs \<Rightarrow> tasks \<Rightarrow> int list res" where
  "live_run_jobs cfg f ts =
     bindE (bindE (list_runs cfg f None True) live_only) (\<lambda>runs.
     bindE (mapE run_records runs) (\<lambda>rss.
     (let records = concat rss; run_ids = map run_id runs; worktrees = concat (map record_worktrees records)
      in bindE (mapE (record_jobs ts) records) (\<lambda>jobs.
         bindE (mapE (\<lambda>t. bindE (batch_task cfg f worktrees run_ids t) (\<lambda>b. Inr (if b then [tk_id t] else [])))
             (map snd ts)) (\<lambda>kept.
           Inr (concat jobs @ concat kept))))))"

definition clean_next :: "host \<Rightarrow> config \<Rightarrow> task \<Rightarrow> pydict list \<Rightarrow> (lworld, pydict list) io" where
  "clean_next h cfg t views = bindM (clean h cfg (tk_id t) (job_id_of t)) (\<lambda>v. returnM (views @ [v]))"

definition cleanable :: "int list \<Rightarrow> task \<Rightarrow> bool" where
  "cleanable retained t \<longleftrightarrow> terminal t \<and> tk_id t \<notin> set retained \<and> launch_input_path t \<noteq> None"

definition clean_terminal :: "host \<Rightarrow> config \<Rightarrow> (lworld, pydict list) io" where
  "clean_terminal h cfg =
     bindM (tasks_all (h_daemon h)) (\<lambda>ts.
     bindM (peek h (\<lambda>f. live_run_jobs cfg f ts)) (\<lambda>retained.
       forM (clean_next h cfg) (filter (cleanable retained) (sort_key tk_id (map snd ts))) []))"

section \<open>Retry\<close>

text \<open>Jobs of the retired batch engine are history: by their kind, their binding, their operation
  or their label.\<close>

definition history_only :: "task \<Rightarrow> pydict \<Rightarrow> bool" where
  "history_only t value =
     (let binding = pget value ''binding''; parts = split_on CHR '':'' (tk_label t)
      in pget value ''kind'' = PStr ''attested-agent''
         \<or> (case binding of PDict b \<Rightarrow> truthy (pget b ''run_id'') | _ \<Rightarrow> False)
         \<or> prefix ''land:'' (str_or_empty (pget value ''operation''))
         \<or> (3 \<le> length parts \<and> parts ! 1 \<in> set (AGENT_OPERATIONS @ [''land''])))"

definition held_restart :: "host \<Rightarrow> config \<Rightarrow> task \<Rightarrow> pydict \<Rightarrow> (lworld, unit) io" where
  "held_restart h cfg t hold =
     bindM (peek h (\<lambda>f. Inr (read_launch_input cfg f t))) (\<lambda>value.
       (case (value, launch_input_path t) of
          (Some v, Some path) \<Rightarrow>
            if \<not> py_eq (pget v ''job_id'') (opt_str (job_id_of t))
            then raiseM (JobErr (''task '' @ show_int (tk_id t) @ '' has no owned launch input for a held retry''))
            else
              bindM (restart_task (h_daemon h) (tk_id t) True) (\<lambda>_.
              bindM (edit h (write_input (h_ctx h) path
                  (dmerge v [(''queue_task_id'', PInt (tk_id t)), (''hold'', PDict hold)]))) (\<lambda>_.
                publish_event h (event_spool cfg) (held_event (tk_id t) hold)))
        | _ \<Rightarrow> raiseM (JobErr (''task '' @ show_int (tk_id t) @ '' has no owned launch input for a held retry''))))"

definition restart_in_place :: "host \<Rightarrow> config \<Rightarrow> task \<Rightarrow> (lworld, unit) io" where
  "restart_in_place h cfg t =
     bindM (admission_hold h cfg (tk_group t) (tk_label t)) (\<lambda>hold.
       (case hold of
          Some d \<Rightarrow> held_restart h cfg t d
        | None \<Rightarrow> restart_task (h_daemon h) (tk_id t) False))"

text \<open>The old attempt's disposition must not attach to the next attempt.\<close>

definition reset_disposition :: "host \<Rightarrow> config \<Rightarrow> task \<Rightarrow> (lworld, unit) io" where
  "reset_disposition h cfg t =
     bindM (peek h (\<lambda>f. Inr (case read_disposition cfg f t of Some d \<Rightarrow> d \<noteq> [] | None \<Rightarrow> False))) (\<lambda>old.
       if old then write_disposition h cfg t [] else returnM ())"

definition restart_settled :: "host \<Rightarrow> config \<Rightarrow> task \<Rightarrow> (lworld, task) io" where
  "restart_settled h cfg t =
     bindM (peek h (\<lambda>f. Inr (launch_document cfg f t))) (\<lambda>value.
       if history_only t value
       then raiseM (JobErr ''retired batch executor is history-only; start a declared operation for new work'')
       else bindM (reset_disposition h cfg t) (\<lambda>_. bindM (restart_in_place h cfg t) (\<lambda>_. returnM t)))"

definition retry_locked :: "host \<Rightarrow> config \<Rightarrow> int \<Rightarrow> string option \<Rightarrow> (lworld, task) io" where
  "retry_locked h cfg task_id job_id =
     bindM (addressed (h_daemon h) task_id job_id) (\<lambda>t.
       if terminal t then bindM (require_drained h cfg t) (\<lambda>_. restart_settled h cfg t)
       else raiseM (JobErr (''task '' @ show_int (tk_id t) @ '' is still '' @ str_lower (tk_status t))))"

definition retry :: "host \<Rightarrow> config \<Rightarrow> int \<Rightarrow> string option \<Rightarrow> (lworld, pydict) io" where
  "retry h cfg task_id job_id =
     bindM (admission_lock h cfg) (\<lambda>_.
     bindM (retry_locked h cfg task_id job_id) (\<lambda>t.
       ask h (\<lambda>m. get_job m (Some cfg) (tk_id t) job_id None 0 100)))"

end
