(* ===== verification/Agentctl_Admission.thy ===== *)
theory Agentctl_Admission
  imports Agentctl_Retire
begin

text \<open>
  What the operations of \<open>agentctl/launch.py\<close> may do to the queue: which calls a release of held jobs,
  an enqueue, a keyed request, a cleaning, a retry and a cancellation make, and what they know
  when they make them. Whatever the queue answers and whatever others do to the files, these hold.
\<close>

section \<open>Loops\<close>

lemma forM_invariant:
  assumes "forM f xs b w = (Inr b', w')" and "I b w"
    and "\<And>x b w b' w'. x \<in> set xs \<Longrightarrow> I b w \<Longrightarrow> f x b w = (Inr b', w') \<Longrightarrow> I b' w'"
  shows "I b' w'"
  using assms
proof (induction xs arbitrary: b w)
  case (Cons x xs)
  from Cons.prems(1) obtain b1 w1 where step: "f x b w = (Inr b1, w1)" and rest: "forM f xs b1 w1 = (Inr b', w')"
    by (auto simp: bindM_eq_Inr)
  have "I b1 w1" by (rule Cons.prems(3) [OF _ Cons.prems(2) step]) simp
  from rest this show ?case by (rule Cons.IH) (rule Cons.prems(3), auto)
qed simp

section \<open>The calls of admission\<close>

lemma admission_lock_op: "pueue_op P (admission_lock h cfg)"
  unfolding admission_lock_def Let_def
  by (intro pueue_op_intros edit_op) (unfold_locales, simp_all add: pass_def)

lemma consume_hold_op: "pueue_op P (consume_hold h cfg t d)"
  unfolding consume_hold_def
  by (intro pueue_op_bind peek_op) (auto intro!: pueue_op_intros edit_op split: option.split)

lemma quiet_calls: "pueue_op (\<lambda>a. False) m \<Longrightarrow> m w = (r, w') \<Longrightarrow> calls w' = calls w"
  using pueue_op.op_calls [of "\<lambda>a. False" m w] by (metis append_Nil2 last_in_set snd_conv)

lemma new_calls: "pueue_op P m \<Longrightarrow> m w = (r, w') \<Longrightarrow> c \<in> set (calls w') \<Longrightarrow> c \<in> set (calls w) \<or> P (snd c)"
  using pueue_op.op_calls [of P m w] by auto

lemma enqueue_task_op: "pueue_op (\<lambda>a. a = [''enqueue'', show_int i]) (enqueue_task d i)"
  unfolding enqueue_task_def by (rule pueue_op_unit) simp

section \<open>The tasks that are held\<close>

lemma live_tasks:
  assumes "live d w = (Inr q, w')" and "dget (qs_tasks q) i = Some t"
  shows "tk_id t = i \<and> t \<in> snd ` set (qs_tasks q)"
proof -
  from assms(1) obtain doc where "status_of doc = Inr q"
    by (auto simp: live_def status_query_def bindM_eq_Inr bindE_eq_Inr)
  then obtain parsed where "qs_tasks q = index_tasks parsed"
    by (auto simp: status_of_def bindE_eq_Inr split: if_split_asm)
  with assms(2) index_tasks_identity map_of_SomeD [OF assms(2)] show ?thesis by force
qed

lemma hold_of_stashed: "hold_of cfg f t = Some d \<Longrightarrow> \<not> terminal t"
  by (auto simp: hold_of_def terminal_def split: if_split_asm)

lemma dset_keys: "fst ` set (dset k v d) = insert k (fst ` set d)"
proof -
  have "set (map fst (dset k v d)) = insert k (set (map fst d))" by (auto simp: update_keys)
  then show ?thesis by simp
qed

lemma held_are_stashed:
  assumes "forM (add_held h cfg) ts [] w = (Inr held, w')"
  shows "\<forall>i \<in> fst ` set held. \<exists>t \<in> set ts. tk_id t = i \<and> \<not> terminal t"
  using assms
proof (rule forM_invariant [where I = "\<lambda>held w. \<forall>i \<in> fst ` set held. \<exists>t \<in> set ts. tk_id t = i \<and> \<not> terminal t"])
  fix x b w b' w'
  assume x: "x \<in> set ts" and inv: "\<forall>i \<in> fst ` set b. \<exists>t \<in> set ts. tk_id t = i \<and> \<not> terminal t"
    and run: "add_held h cfg x b w = (Inr b', w')"
  from run obtain hold where b': "b' = (case hold of None \<Rightarrow> b | Some d \<Rightarrow> dset (tk_id x) d b)"
    and hold: "hold = hold_of cfg (lw_fs w) x"
    by (auto simp: add_held_def bindM_eq_Inr peek_def)
  show "\<forall>i \<in> fst ` set b'. \<exists>t \<in> set ts. tk_id t = i \<and> \<not> terminal t"
  proof (cases hold)
    case (Some d)
    have keys: "fst ` set b' = insert (tk_id x) (fst ` set b)" unfolding b' Some option.case(2) by (rule dset_keys)
    have "\<not> terminal x" using hold Some hold_of_stashed by metis
    with inv x show ?thesis unfolding keys by (simp add: ball_simps(7)) blast
  qed (use b' inv in simp)
qed simp

section \<open>A pass releases no two partners\<close>

definition freed :: "config \<Rightarrow> tasks \<Rightarrow> (int \<times> pydict) list \<Rightarrow> task \<Rightarrow> bool" where
  "freed cfg ts held t \<longleftrightarrow> t \<in> snd ` set ts \<and> tk_id t \<in> fst ` set held
     \<and> blocking_tasks (cf_pools cfg) (tk_group t) ts (Some (tk_id t)) (map fst held) = []"

lemma release_step_frees:
  assumes "release_step h cfg ts held i out w = (r, w')"
    and "\<And>t. dget ts i = Some t \<Longrightarrow> tk_id t = i \<and> t \<in> snd ` set ts"
    and "c \<in> set (calls w')"
  shows "c \<in> set (calls w) \<or> (\<exists>t. freed cfg ts held t \<and> snd c = [''enqueue'', show_int (tk_id t)])"
proof (cases "\<exists>t hold. dget ts i = Some t \<and> dget held i = Some hold
    \<and> blocking_tasks (cf_pools cfg) (tk_group t) ts (Some i) (map fst held) = []")
  case False
  then have "w' = w"
    using assms(1) by (auto simp: release_step_def Let_def split: option.split_asm)
  with assms(3) show ?thesis by simp
next
  case True
  then obtain t hold where th: "dget ts i = Some t" "dget held i = Some hold"
    and none: "blocking_tasks (cf_pools cfg) (tk_group t) ts (Some i) (map fst held) = []" by blast
  let ?P = "\<lambda>a. a = [''enqueue'', show_int i]"
  have "pueue_op ?P (release_step h cfg ts held i out)"
    by (simp add: release_step_def th none Let_def)
      (intro pueue_op_bind pueue_op_return enqueue_task_op consume_hold_op publish_event_op)
  from new_calls [OF this assms(1,3)] have "c \<in> set (calls w) \<or> snd c = [''enqueue'', show_int i]" .
  moreover have "freed cfg ts held t \<and> tk_id t = i"
    using none th(1) assms(2) map_of_SomeD [OF th(2)] by (force simp: freed_def)
  ultimately show ?thesis by metis
qed

lemma freed_apart:
  assumes "dict_ok (cf_pools cfg)" and "freed cfg ts held t" and "freed cfg ts held u"
    and "\<forall>i \<in> fst ` set held. \<exists>t \<in> snd ` set ts. tk_id t = i \<and> \<not> terminal t"
    and "\<forall>t \<in> snd ` set ts. dget ts (tk_id t) = Some t"
  shows "tk_group u \<notin> set (exclusive_partners (cf_pools cfg) (tk_group t))"
proof
  assume pair: "tk_group u \<in> set (exclusive_partners (cf_pools cfg) (tk_group t))"
  have only: "x \<in> snd ` set ts \<Longrightarrow> y \<in> snd ` set ts \<Longrightarrow> tk_id x = tk_id y \<Longrightarrow> x = y" for x y
    using assms(5) by (metis option.inject)
  have run: "\<not> terminal x" if "freed cfg ts held x" for x
  proof -
    from that have x: "x \<in> snd ` set ts" "tk_id x \<in> fst ` set held" by (simp_all add: freed_def)
    from bspec [OF assms(4) x(2)] obtain y where y: "y \<in> snd ` set ts" "tk_id y = tk_id x" "\<not> terminal y"
      by (elim bexE conjE)
    from only [OF y(1) x(1) y(2)] y(3) show ?thesis by simp
  qed
  have later: "False" if "freed cfg ts held x" "freed cfg ts held y"
    "tk_group y \<in> set (exclusive_partners (cf_pools cfg) (tk_group x))" "\<not> tk_id x < tk_id y" for x y
  proof -
    have "tk_id y \<in> set (blocking_tasks (cf_pools cfg) (tk_group x) ts (Some (tk_id x)) (map fst held))"
      unfolding blocking_tasks_iff option.case(2)
      by (intro bexI [of _ y] conjI) (use that run [OF that(2)] in \<open>simp_all add: freed_def\<close>)
    with that(1) show False by (simp add: freed_def)
  qed
  from exclusive_partners_symmetric [OF assms(1)] pair
  have sym: "tk_group t \<in> set (exclusive_partners (cf_pools cfg) (tk_group u))" by blast
  show False
  proof (cases "tk_id t < tk_id u")
    case True
    then show False using later [OF assms(3,2) sym] by simp
  qed (use later [OF assms(2,3) pair] in blast)
qed


lemma live_index:
  assumes "live d w = (Inr q, w')"
  shows "\<forall>t \<in> snd ` set (qs_tasks q). dget (qs_tasks q) (tk_id t) = Some t"
proof
  fix t assume "t \<in> snd ` set (qs_tasks q)"
  then obtain i where it: "(i, t) \<in> set (qs_tasks q)" by force
  from assms obtain doc where "status_of doc = Inr q"
    by (auto simp: live_def status_query_def bindM_eq_Inr bindE_eq_Inr)
  then obtain parsed where "qs_tasks q = index_tasks parsed"
    by (auto simp: status_of_def bindE_eq_Inr split: if_split_asm)
  then have "distinct (map fst (qs_tasks q))"
    using dict_ok_dict_of [of "map (\<lambda>t. (tk_id t, t)) parsed"] by (simp add: index_tasks_def dict_ok_def)
  with it have i: "dget (qs_tasks q) i = Some t" by (simp add: map_of_is_SomeI)
  with live_tasks [OF assms i] show "dget (qs_tasks q) (tk_id t) = Some t" by simp
qed

lemma forM_calls:
  assumes "forM f xs b w = (r, w')" and "c \<in> set (calls w')"
    and "\<And>x b w r w'. f x b w = (r, w') \<Longrightarrow> c \<in> set (calls w') \<Longrightarrow> c \<in> set (calls w) \<or> Q c"
  shows "c \<in> set (calls w) \<or> Q c"
  using assms(1,2)
proof (induction xs arbitrary: b w)
  case (Cons x xs)
  obtain q w1 where step: "f x b w = (q, w1)" by force
  show ?case
  proof (cases q)
    case (Inl e)
    with Cons.prems step assms(3) [OF step] show ?thesis by (simp add: bindM_def)
  next
    case (Inr b1)
    with Cons.prems step have "forM f xs b1 w1 = (r, w')" by (simp add: bindM_def)
    from Cons.IH [OF this Cons.prems(2)] assms(3) [OF step] show ?thesis by blast
  qed
qed simp

lemma add_held_op: "pueue_op P (add_held h cfg t held)"
  unfolding add_held_def by (intro pueue_op_intros peek_op)

lemma live_op: "pueue_op is_read (live d)"
  unfolding live_def by (rule status_query.pueue_op_axioms)

text \<open>
  (C8) One pass over the held jobs starts no two that exclude each other, however it ends: besides reading
  the queue it only enqueues tasks that the queue listed at its start, and no two of those are in
  exclusive pools.
\<close>

theorem release_holds_exclusive:
  assumes "dict_ok (cf_pools cfg)" and "release_holds h cfg w = (r, w')"
  shows "\<exists>ts. (ts = {} \<or> (\<exists>q. fst (live (h_daemon h) (snd (admission_lock h cfg w))) = Inr q \<and> ts \<subseteq> snd ` set (qs_tasks q)))
     \<and> (\<forall>c \<in> set (calls w'). c \<in> set (calls w) \<or> is_read (snd c)
          \<or> (\<exists>t \<in> ts. snd c = [''enqueue'', show_int (tk_id t)]))
     \<and> (\<forall>t \<in> ts. \<forall>u \<in> ts. tk_group u \<notin> set (exclusive_partners (cf_pools cfg) (tk_group t)))"
proof -
  obtain r1 where all: "release_all h cfg w = (r1, w')"
    using assms(2) by (auto simp: release_holds_def catchM_def split: prod.split_asm sum.split_asm if_split_asm)
  obtain a w1 where lock: "admission_lock h cfg w = (a, w1)" by force
  obtain l w2 where live: "live (h_daemon h) w1 = (l, w2)" by force
  have c1: "c \<in> set (calls w)" if "c \<in> set (calls w1)" for c
    using new_calls [OF admission_lock_op [of "\<lambda>a. False"] lock that] by simp
  have c2: "c \<in> set (calls w) \<or> is_read (snd c)" if "c \<in> set (calls w2)" for c
    using new_calls [OF live_op live that] c1 by blast
  show ?thesis
  proof (cases "a = Inr () \<and> (\<exists>q. l = Inr q)")
    case False
    then have "w' = w1 \<or> w' = w2" using all lock live
      by (auto simp: release_all_def bindM_def split: sum.split_asm)
    with c1 c2 show ?thesis by (intro exI [of _ "{}"]) auto
  next
    case True
    then obtain q where q: "l = Inr q" "a = Inr ()" by blast
    let ?ts = "qs_tasks q"
    obtain e w3 where add: "forM (add_held h cfg) (map snd ?ts) [] w2 = (e, w3)" by force
    have c3: "c \<in> set (calls w) \<or> is_read (snd c)" if "c \<in> set (calls w3)" for c
      using forM_calls [OF add that, of "\<lambda>c. False"] new_calls [OF add_held_op [of "\<lambda>a. False"]] c2 by blast
    show ?thesis
    proof (cases e)
      case (Inl x)
      with all lock live q add have "w' = w3" by (simp add: release_all_def bindM_def)
      with c3 show ?thesis by (intro exI [of _ "{}"]) auto
    next
      case (Inr held)
      let ?free = "{t. freed cfg ?ts held t}"
      have pass: "forM (release_step h cfg ?ts held) (sort (map fst held)) ([], []) w3 = (r1, w')"
        using all lock live q add Inr by (simp add: release_all_def bindM_def)
      have id: "\<And>i t. dget ?ts i = Some t \<Longrightarrow> tk_id t = i \<and> t \<in> snd ` set ?ts"
        using live_tasks [OF live [unfolded q(1)]] by blast
      have "c \<in> set (calls w) \<or> is_read (snd c) \<or> (\<exists>t \<in> ?free. snd c = [''enqueue'', show_int (tk_id t)])"
        if "c \<in> set (calls w')" for c
        using forM_calls [OF pass that, of "\<lambda>c. \<exists>t. freed cfg ?ts held t \<and> snd c = [''enqueue'', show_int (tk_id t)]"]
          release_step_frees [OF _ id] c3 by blast
      moreover have "\<forall>i \<in> fst ` set held. \<exists>t \<in> snd ` set ?ts. tk_id t = i \<and> \<not> terminal t"
        using held_are_stashed [OF add [unfolded Inr]] by simp
      then have "\<forall>t \<in> ?free. \<forall>u \<in> ?free. tk_group u \<notin> set (exclusive_partners (cf_pools cfg) (tk_group t))"
        using freed_apart [OF assms(1)] live_index [OF live [unfolded q(1)]] by blast
      moreover have "?free \<subseteq> snd ` set ?ts" by (auto simp: freed_def)
      ultimately show ?thesis using lock live q by (intro exI [of _ ?free]) auto
    qed
  qed
qed


lemma live_keeps_files:
  fixes w :: lworld
  assumes "live d w = (r, w')"
  shows "lw_fs w' = lw_fs w"
proof -
  have "file_keeper (live d)"
    unfolding live_def status_query_def run_default_def by (intro file_keeper_intros)
  from file_keeper.same_files [OF this assms] show ?thesis .
qed

definition held_cfg :: config where
  "held_cfg = Agentctl_Jobs.sample_cfg\<lparr>cf_pools := sample_pools\<rparr>"

definition held_input :: string where
  "held_input = ''{\"job_id\":\"j\",\"pool\":\"build\",\"hold\":{\"reason\":\"pool-exclusivity\",\"pool\":\"build\"}}''"

definition held_fs :: fs where
  "held_fs = \<lparr>nodes = [((''/'', [''s'']), Dir 448), ((''/'', [''s'', ''inputs'']), Dir 448),
     ((''/'', [''s'', ''inputs'', ''j.json'']), RegFile held_input 384)], noread = [], nowrite = []\<rparr>"

definition held_status :: string where
  "held_status = ''{\"tasks\":{\"3\":{\"id\":3,\"label\":\"p:x\",\"group\":\"build\",\"path\":\"/w\",''
     @ ''\"status\":{\"Stashed\":{}},\"command\":\"agentctl-run /s/inputs/j.json\"}},\"groups\":{}}''"

definition held_task :: task where
  "held_task = \<lparr>tk_id = 3, tk_label = ''p:x'', tk_group = ''build'', tk_status = ''Stashed'', tk_result = None,
     tk_exit = None, tk_path = ''/w'', tk_deps = [], tk_command = ''agentctl-run /s/inputs/j.json'',
     tk_enqueued = None, tk_started = None, tk_ended = None\<rparr>"

definition held_document :: pydict where
  "held_document = [(''job_id'', PStr ''j''), (''pool'', PStr ''build''),
     (''hold'', PDict [(''reason'', PStr ''pool-exclusivity''), (''pool'', PStr ''build'')])]"

definition held_lock :: "(lworld, unit) io" where
  "held_lock = admission_lock (queue_host held_status) held_cfg"

definition locked_fs :: fs where
  "locked_fs = lw_fs (snd (held_lock (sample_lworld held_fs)))"

lemma held_locked: "fst (held_lock (sample_lworld held_fs)) = Inr ()" "calls (snd (held_lock (sample_lworld held_fs))) = []"
  by code_simp+

lemma held_live: "fst (live (h_daemon (queue_host held_status)) w) = Inr \<lparr>qs_tasks = [(3, held_task)], qs_groups = []\<rparr>"
proof -
  have "bindE (pueue_decode ''status'' held_status) status_of = Inr \<lparr>qs_tasks = [(3, held_task)], qs_groups = []\<rparr>"
    by code_simp
  then show ?thesis
    by (simp add: live_def status_query_def run_default_def pueue_run_def bindM_def Let_def queue_host_def)
qed

lemma held_read: "read_launch_input held_cfg locked_fs held_task = Some held_document"
proof -
  have path: "launch_input_path held_task = Some (mkpath ''/s/inputs/j.json'')" by code_simp
  moreover have "owns_path held_cfg locked_fs held_task (mkpath ''/s/inputs/j.json'')" by code_simp
  moreover have "fs_read_nofollow locked_fs (mkpath ''/s/inputs/j.json'') = Inr held_input" by code_simp
  moreover have "loads_bytes held_input = Inr (PDict held_document)" by code_simp
  ultimately show ?thesis
    by (simp add: read_launch_input_def dict_document_def read_bounded_all held_input_def MAX_LAUNCH_INPUT_BYTES_def)
qed

lemma held_hold: "hold_of held_cfg locked_fs held_task
     = Some [(''reason'', PStr ''pool-exclusivity''), (''pool'', PStr ''build'')]"
proof -
  have "job_id_of held_task = Some ''j''" by code_simp
  then show ?thesis unfolding hold_of_def held_read
    by (simp add: held_task_def held_document_def pget_def HOLD_REASON_def opt_str_def)
qed

theorem release_holds_exclusive_witness:
  "\<exists>r w'. release_holds (queue_host held_status) held_cfg (sample_lworld held_fs) = (r, w')
     \<and> (\<exists>c \<in> set (calls w'). snd c = [''enqueue'', ''3''])
     \<and> (\<forall>c \<in> set (calls w'). is_read (snd c) \<or> snd c = [''enqueue'', ''3''])"
proof -
  let ?h = "queue_host held_status" and ?w = "sample_lworld held_fs"
  let ?q = "\<lparr>qs_tasks = [(3, held_task)], qs_groups = []\<rparr>"
  obtain w1 where lock: "admission_lock ?h held_cfg ?w = (Inr (), w1)" and f1: "lw_fs w1 = locked_fs"
    using held_locked(1) by (cases "held_lock ?w") (auto simp: held_lock_def locked_fs_def)
  obtain w2 where live: "live (h_daemon ?h) w1 = (Inr ?q, w2)" using held_live [of w1] by (metis prod.collapse)
  have f2: "lw_fs w2 = locked_fs" using live_keeps_files [OF live] f1 by simp
  let ?d = "[(''reason'', PStr ''pool-exclusivity''), (''pool'', PStr ''build'')] :: pydict"
  have add: "forM (add_held ?h held_cfg) (map snd (qs_tasks ?q)) [] w2 = (Inr [(3, ?d)], pass ?h w2)"
    using held_hold f2 by (simp add: add_held_def bindM_def peek_def held_task_def)
  have free: "blocking_tasks (cf_pools held_cfg) (tk_group held_task) [(3, held_task)] (Some 3) (map fst [(3, ?d)]) = []"
    by code_simp
  obtain r1 w' where step: "release_step ?h held_cfg [(3, held_task)] [(3, ?d)] 3 ([], []) (pass ?h w2) = (r1, w')" by force
  have all: "release_all ?h held_cfg ?w = (r1, w')"
    using lock live add step by (cases r1) (simp_all add: release_all_def bindM_def)
  have "\<exists>r. release_holds ?h held_cfg ?w = (r, w')"
  proof (cases r1)
    case (Inl e)
    with all show ?thesis
      by (cases "is_joberror e \<or> is_pueueerror e") (simp_all add: release_holds_def catchM_def)
  qed (use all in \<open>simp add: release_holds_def catchM_def\<close>)
  then obtain r where run: "release_holds ?h held_cfg ?w = (r, w')" by blast
  obtain u w3 where call: "enqueue_task (h_daemon ?h) 3 (pass ?h w2) = (u, w3)" by force
  have three: "show_int 3 = ''3''" by code_simp
  have "\<exists>c \<in> set (calls w3). snd c = [''enqueue'', ''3'']"
    using call by (auto simp: enqueue_task_def call_unit_def run_default_def pueue_run_def bindM_def Let_def
        queue_host_def three)
  moreover have "prefix (calls w3) (calls w')"
  proof (cases u)
    case (Inl e)
    with step call free show ?thesis by (simp add: release_step_def Let_def bindM_def)
  next
    case (Inr x)
    obtain w4 v where c4: "consume_hold ?h held_cfg held_task ?d w3 = (v, w4)" by force
    with step call free Inr quiet_calls [OF consume_hold_op c4] show ?thesis
      by (auto simp: release_step_def Let_def bindM_def split: sum.split_asm prod.split_asm
          dest: quiet_calls [OF publish_event_op])
  qed
  ultimately have some: "\<exists>c \<in> set (calls w'). snd c = [''enqueue'', ''3'']"
    by (auto simp: prefix_def)
  have ok: "dict_ok (cf_pools held_cfg)" by code_simp
  from release_holds_exclusive [OF ok run] obtain ts where
      ts: "ts = {} \<or> (\<exists>q. fst (live (h_daemon ?h) (snd (admission_lock ?h held_cfg ?w))) = Inr q \<and> ts \<subseteq> snd ` set (qs_tasks q))"
    and only: "\<forall>c \<in> set (calls w'). c \<in> set (calls ?w) \<or> is_read (snd c)
          \<or> (\<exists>t \<in> ts. snd c = [''enqueue'', show_int (tk_id t)])" by blast
  from ts live lock have "ts \<subseteq> {held_task}" by auto
  moreover have "show_int (tk_id held_task) = ''3''" by code_simp
  ultimately have "\<forall>t \<in> ts. show_int (tk_id t) = ''3''" by auto
  moreover have "calls ?w = []" by (simp add: sample_lworld_def)
  ultimately have "\<forall>c \<in> set (calls w'). is_read (snd c) \<or> snd c = [''enqueue'', ''3'']"
    using only by (metis empty_iff empty_set)
  with run some show ?thesis by blast
qed

end
