(* ===== verification/Agentctl_Keyed.thy ===== *)
theory Agentctl_Keyed
  imports Agentctl_Admission
begin

text \<open>
  What an enqueue of \<open>agentctl/launch.py\<close> adds to the queue, and that a keyed request is launched at
  most once. The lemmas \<open>bind_new\<close>, \<open>bind_old\<close> and \<open>bind_prefix\<close> follow one call through a sequence
  of operations to the operation that made it.
\<close>

section \<open>What an enqueue adds\<close>

text \<open>The additions an operation may make besides reading.\<close>

lemma write_edit_op: "pueue_op P (edit h (write_input c p d))"
  by (rule edit_op)

lemma admission_hold_op: "pueue_op is_read (admission_hold h cfg g l)"
  unfolding admission_hold_def Let_def
  by (intro pueue_op_intros stamp_op live_op)

lemma admission_hold_none:
  assumes "admission_hold h cfg g l w = (Inr None, w')"
  shows "exclusive_partners (cf_pools cfg) g = []
     \<or> (\<exists>q. fst (live (h_daemon h) w) = Inr q \<and> blocking_tasks (cf_pools cfg) g (qs_tasks q) None [] = [])"
  using assms
  by (auto simp: admission_hold_def Let_def bindM_eq_Inr split: if_split_asm)

lemma pueue_op_group:
  "(\<And>g. pueue_op P (k g)) \<Longrightarrow> pueue_op P z \<Longrightarrow> pueue_op P (case e of PueueGroupError g \<Rightarrow> k g | _ \<Rightarrow> z)"
  by (cases e) auto

lemma submit_op:
  "pueue_op (\<lambda>a. is_read a \<or> a = add_arguments (lr_group req) (lr_label req)
       [QUEUE_RUN_EXECUTABLE, path_str (input_file cfg job)] (path_str (lr_directory req)) (lr_after req) stashed
       (lr_priority req)) (submit h cfg req job stashed)"
  unfolding submit_def by (intro pueue_op_catch add_task.pueue_op_axioms pueue_op_group pueue_op_intros edit_op)

text \<open>A call that is not one of those of a stage was made before it or after it.\<close>

lemma bind_new:
  assumes "bindM m k w = (r, w')" and "c \<in> set (calls w')" and "pueue_op is_read m" and "\<not> is_read (snd c)" and "c \<notin> set (calls w)"
  obtains x w1 where "m w = (Inr x, w1)" and "c \<notin> set (calls w1)" and "k x w1 = (r, w')"
proof -
  obtain q w1 where m: "m w = (q, w1)" by force
  then have c1: "c \<notin> set (calls w1)" using new_calls [OF assms(3) m] assms(4,5) by blast
  show thesis
  proof (cases q)
    case (Inl e)
    with m c1 assms(1,2) show ?thesis by (simp add: bindM_def)
  next
    case (Inr x)
    with m c1 assms(1) that show ?thesis by (simp add: bindM_def)
  qed
qed

lemma bind_old:
  assumes "bindM m k w = (r, w')" and "c \<in> set (calls w')" and "\<And>x. pueue_op is_read (k x)" and "\<not> is_read (snd c)"
  obtains q w1 where "m w = (q, w1)" and "c \<in> set (calls w1)"
proof -
  obtain q w1 where m: "m w = (q, w1)" by force
  have "c \<in> set (calls w1)"
  proof (cases q)
    case (Inl e)
    with m assms(1,2) show ?thesis by (simp add: bindM_def)
  next
    case (Inr x)
    with m assms(1) have "k x w1 = (r, w')" by (simp add: bindM_def)
    from new_calls [OF assms(3) this assms(2)] assms(4) show ?thesis by blast
  qed
  with m that show thesis by blast
qed

lemma enqueue_published:
  assumes "enqueue h cfg req job before w = (r, w')" and "\<forall>j. pueue_op is_read (before j)"
    and "c \<in> set (calls w')" and "c \<notin> set (calls w)" and "\<not> is_read (snd c)"
  shows "\<exists>stashed hold w1 w2.
       edit h (write_input (h_ctx h) (input_file cfg job) (held_fields h cfg req job hold)) w1 = (Inr (), w2)
     \<and> c \<notin> set (calls w2)
     \<and> snd c = add_arguments (lr_group req) (lr_label req) [QUEUE_RUN_EXECUTABLE, path_str (input_file cfg job)]
          (path_str (lr_directory req)) (lr_after req) stashed (lr_priority req)
     \<and> (stashed \<or> hold = None \<and> (exclusive_partners (cf_pools cfg) (lr_group req) = []
          \<or> (\<exists>q. fst (live (h_daemon h) (snd (admission_lock h cfg w))) = Inr q
               \<and> blocking_tasks (cf_pools cfg) (lr_group req) (qs_tasks q) None [] = [])))"
proof -
  note quiet = \<open>\<not> is_read (snd c)\<close>
  have view: "pueue_op is_read (launched_view h req job x)" for x
    unfolding launched_view_def by (intro pueue_op_intros task_by_id.pueue_op_axioms)
  have dec: "pueue_op is_read (admission_decision h cfg req)"
    unfolding admission_decision_def by (intro pueue_op_intros admission_hold_op)
  have mark: "pueue_op is_read (mark_placed h cfg job l hold i)" for l hold i
    unfolding mark_placed_def Let_def by (intro pueue_op_intros edit_op publish_event_op)
  have "JOB_ID job"
    using assms(1,3,4) by (cases "JOB_ID job") (simp_all add: enqueue_def)
  with assms(1) have "bindM (admission_lock h cfg) (\<lambda>_. bindM (admitted h cfg req job before) (launched_view h req job)) w
      = (r, w')" by (simp add: enqueue_def)
  from bind_new [OF this assms(3) admission_lock_op quiet assms(4)] obtain u w0 where
      lock: "admission_lock h cfg w = (Inr u, w0)" and c0: "c \<notin> set (calls w0)"
    and adm: "bindM (admitted h cfg req job before) (launched_view h req job) w0 = (r, w')" .
  from bind_old [OF adm assms(3) view quiet] obtain q w4 where
      "admitted h cfg req job before w0 = (q, w4)" and c4: "c \<in> set (calls w4)" .
  from bind_new [OF this(1) [unfolded admitted_def] c4 dec quiet c0] obtain hold w1 where
      hold: "admission_decision h cfg req w0 = (Inr hold, w1)" and c1: "c \<notin> set (calls w1)"
    and pub: "publish_and_submit h cfg req job before hold w1 = (q, w4)" .
  let ?stashed = "lr_stashed req \<or> hold \<noteq> None"
  from bind_new [OF pub [unfolded publish_and_submit_def] c4 edit_op quiet c1] obtain v w2 where
      written: "edit h (write_input (h_ctx h) (input_file cfg job) (held_fields h cfg req job hold)) w1 = (Inr v, w2)"
    and c2: "c \<notin> set (calls w2)"
    and "bindM (before job) (\<lambda>_. bindM (submit h cfg req job ?stashed)
        (mark_placed h cfg job (held_fields h cfg req job hold) hold)) w2 = (q, w4)" .
  from bind_new [OF this(3) c4 assms(2) [rule_format] quiet c2] obtain v' w3 where
      c3: "c \<notin> set (calls w3)" and sub: "bindM (submit h cfg req job ?stashed)
        (mark_placed h cfg job (held_fields h cfg req job hold) hold) w3 = (q, w4)" .
  from bind_old [OF sub c4 mark quiet] obtain p w5 where
      "submit h cfg req job ?stashed w3 = (p, w5)" "c \<in> set (calls w5)" .
  from new_calls [OF submit_op this] c3 quiet
  have "snd c = add_arguments (lr_group req) (lr_label req) [QUEUE_RUN_EXECUTABLE, path_str (input_file cfg job)]
      (path_str (lr_directory req)) (lr_after req) ?stashed (lr_priority req)" by blast
  moreover have "?stashed \<or> hold = None \<and> (exclusive_partners (cf_pools cfg) (lr_group req) = []
          \<or> (\<exists>q. fst (live (h_daemon h) (snd (admission_lock h cfg w))) = Inr q
               \<and> blocking_tasks (cf_pools cfg) (lr_group req) (qs_tasks q) None [] = []))"
    using hold lock admission_hold_none [of h cfg "lr_group req" "lr_label req" w0 w1]
    by (auto simp: admission_decision_def)
  ultimately show ?thesis
    by (intro exI [of _ ?stashed] exI [of _ hold] exI [of _ w1] exI [of _ w2] conjI)
      (use written c2 in simp_all)
qed


section \<open>Keyed requests\<close>

lemma lookup_operation_request_op: "pueue_op is_read (lookup_operation_request h dig cfg key digest)"
  unfolding lookup_operation_request_def answer_retained_def reused_def
  by (intro pueue_op_intros peek_op tasks_all.pueue_op_axioms ask_op get_job.job_reader_axioms)

lemma reused_Some: "reused h cfg i job w = (Inr v, w') \<Longrightarrow> v \<noteq> None"
  by (auto simp: reused_def bindM_eq_Inr)

lemma answer_retained_Some:
  assumes "answer_retained h cfg job d w = (Inr v, w')"
  shows "v \<noteq> None"
proof -
  from assms obtain ts w1 where run: "(case find_task ts (pget_or d ''queue_task_id'' (PInt (- 1))) (PStr job) None of
          Some t \<Rightarrow> reused h cfg (tk_id t) job
        | None \<Rightarrow>
            bindM (if pget d ''queue_task_id'' \<noteq> PNone then returnM True
                   else peek h (\<lambda>f. bindE (attempts f d) (\<lambda>as. Inr (as \<noteq> [])))) (\<lambda>known.
              if known then bindM (liftM (acknowledged d)) (\<lambda>i. reused h cfg i job)
              else raiseM (enqueue_uncertain job
                (PueueError ''retained launch has no acknowledged queue task'')))) w1 = (Inr v, w')"
    unfolding answer_retained_def bindM_eq_Inr by blast
  show ?thesis
  proof (cases "find_task ts (pget_or d ''queue_task_id'' (PInt (- 1))) (PStr job) None")
    case None
    from run [unfolded None option.case(1) bindM_eq_Inr] obtain known w2 where
      "(if known then bindM (liftM (acknowledged d)) (\<lambda>i. reused h cfg i job)
        else raiseM (enqueue_uncertain job
                (PueueError ''retained launch has no acknowledged queue task''))) w2 = (Inr v, w')"
      by blast
    then show ?thesis using reused_Some by (cases known) (auto simp: bindM_eq_Inr)
  qed (use run reused_Some in auto)
qed

lemma lookup_none:
  assumes "lookup_operation_request h dig cfg key digest w = (Inr None, w')" and "idempotent_job_id dig key = Inr job"
  shows "retained_request (lw_fs w) (input_file cfg job) job key digest = Inr None"
proof -
  from assms(2) have eq: "lookup_operation_request h dig cfg key digest w
      = bindM (peek h (\<lambda>f. retained_request f (input_file cfg job) job key digest)) (\<lambda>retained.
          case retained of None \<Rightarrow> returnM None | Some document \<Rightarrow> answer_retained h cfg job document) w"
    by (simp add: lookup_operation_request_def bindM_def)
  from assms(1) [unfolded eq bindM_eq_Inr] obtain ret w1 where
      look: "peek h (\<lambda>f. retained_request f (input_file cfg job) job key digest) w = (Inr ret, w1)"
    and rest: "(case ret of None \<Rightarrow> returnM None | Some document \<Rightarrow> answer_retained h cfg job document) w1 = (Inr None, w')"
    by blast
  from rest have "ret = None" by (cases ret) (use answer_retained_Some in fastforce)+
  with look show ?thesis by (simp add: peek_def)
qed

lemma retained_none:
  assumes "retained_request f p job key digest = Inr None"
  shows "\<not> fs_exists f p"
  using assms
  by (auto simp: retained_request_def split: option.split_asm if_split_asm sum.split_asm pyval.split_asm)

lemma key_lock_op: "pueue_op P (key_lock h cfg job)"
  unfolding key_lock_def by (intro pueue_op_intros edit_op)



text \<open>Publication does not depend on what is published.\<close>

lemma fs_publish_any: "isl (fs_publish p b m f) = isl (fs_publish p [] m f)"
  by (auto simp: fs_publish_def bindE_def Let_def split: sum.split option.split fnode.split)

lemma write_input_plain:
  assumes "pget doc ''environment'' = PDict env" and "secret_items env = []"
    and "mkdir_p 448 (path_parent p) f = Inr f1" and "fs_chmod 448 (path_parent p) f1 = Inr f2"
    and "\<not> isl (fs_publish p [] 384 f2)"
  shows "fst (write_input c p doc f) = Inr ()"
proof -
  obtain f3 where "fs_publish p (json_dumps (PDict doc)) 384 f2 = Inr f3"
    using assms(5) fs_publish_any [of p "json_dumps (PDict doc)" 384 f2] by (metis sum.collapse(2))
  with assms(1-4) show ?thesis by (simp add: write_input_def split_secrets_def bindM_def fsM_def)
qed

lemma held_fields_environment: "pget (held_fields h cfg req job hold) ''environment''
     = PDict (map (\<lambda>(k, v). (k, PStr v)) (launch_environment cfg req))"
  by (simp add: held_fields_def launch_fields_def pget_def)

text \<open>What comes after a stage keeps the calls of it.\<close>

lemma bind_prefix:
  assumes "bindM m k w = (r, w')" and "m w = (q, w1)" and "\<And>x. pueue_op P (k x)"
  shows "prefix (calls w1) (calls w')"
proof (cases q)
  case (Inr x)
  with assms(1,2) have "k x w1 = (r, w')" by (simp add: bindM_def)
  with pueue_op.op_prefix [OF assms(3), of w1 x] show ?thesis by simp
qed (use assms(1,2) in \<open>simp add: bindM_def\<close>)

lemma catch_prefix:
  assumes "catchM m k w = (r, w')" and "m w = (q, w1)" and "\<And>e. pueue_op P (k e)"
  shows "prefix (calls w1) (calls w')"
proof (cases q)
  case (Inl e)
  with assms(1,2) have "k e w1 = (r, w')" by (simp add: catchM_def)
  with pueue_op.op_prefix [OF assms(3), of w1 e] show ?thesis by simp
qed (use assms(1,2) in \<open>simp add: catchM_def\<close>)

lemma submit_calls:
  assumes "submit h cfg req job stashed w = (r, w')"
  shows "\<exists>c \<in> set (calls w'). snd c = add_arguments (lr_group req) (lr_label req)
     [QUEUE_RUN_EXECUTABLE, path_str (input_file cfg job)] (path_str (lr_directory req)) (lr_after req) stashed
     (lr_priority req)" (is "\<exists>c \<in> set (calls w'). snd c = ?add")
proof -
  let ?d = "h_daemon h"
  obtain x w1 where run: "run_default ?d ?add w = (x, w1)" by force
  then have added: "\<exists>c \<in> set (calls w1). snd c = ?add"
    by (auto simp: run_default_def pueue_run_def Let_def split: proc_result.split_asm if_split_asm)
  let ?call = "bindM (run_default ?d ?add) (\<lambda>out. returnM (strip out))"
  let ?h = "\<lambda>e. if is_pueueerror e
      then bindM (groups ?d) (\<lambda>gs. if \<not> dhas gs (lr_group req) then raiseM (PueueGroupError (lr_group req)) else raiseM e)
      else raiseM e"
  let ?add_task = "add_task ?d (lr_group req) (lr_label req) [QUEUE_RUN_EXECUTABLE, path_str (input_file cfg job)]
      (path_str (lr_directory req)) (lr_after req) stashed (lr_priority req)"
  obtain q2 w2 where call: "?call w = (q2, w2)" by force
  obtain q3 w3 where caught: "catchM ?call ?h w = (q3, w3)" by force
  obtain q4 w4 where add: "?add_task w = (q4, w4)" by force
  have p1: "prefix (calls w1) (calls w2)" by (rule bind_prefix [OF call run pueue_op_return])
  have p2: "prefix (calls w2) (calls w3)"
    by (rule catch_prefix [where P = is_read, OF caught call]) (intro pueue_op_intros groups.pueue_op_axioms)
  have eq: "bindM (catchM ?call ?h) (\<lambda>printed. liftM (printed_id printed)) w = (q4, w4)"
    using add by (simp add: add_task_def)
  have p3: "prefix (calls w3) (calls w4)" by (rule bind_prefix [OF eq caught pueue_op_lift])
  have p4: "prefix (calls w4) (calls w')"
    by (rule catch_prefix [OF assms [unfolded submit_def] add]) (intro pueue_op_group pueue_op_intros edit_op)
  from added p1 p2 p3 p4 show ?thesis by (auto simp: prefix_def)
qed

text \<open>A request outside the exclusive pools whose input can be written is added.\<close>

lemma enqueue_calls_add:
  assumes "JOB_ID job" and "admission_lock h cfg w = (Inr (), w0)"
    and "exclusive_partners (cf_pools cfg) (lr_group req) = []"
    and "fst (write_input (h_ctx h) (input_file cfg job) (held_fields h cfg req job None) (lw_fs w0)) = Inr ()"
    and "enqueue h cfg req job (\<lambda>j. returnM ()) w = (r, w')"
  shows "\<exists>c \<in> set (calls w'). snd c = add_arguments (lr_group req) (lr_label req)
     [QUEUE_RUN_EXECUTABLE, path_str (input_file cfg job)] (path_str (lr_directory req)) (lr_after req) (lr_stashed req)
     (lr_priority req)"
proof -
  let ?add = "add_arguments (lr_group req) (lr_label req)
     [QUEUE_RUN_EXECUTABLE, path_str (input_file cfg job)] (path_str (lr_directory req)) (lr_after req) (lr_stashed req)
     (lr_priority req)"
  obtain w2 where w2: "edit h (write_input (h_ctx h) (input_file cfg job) (held_fields h cfg req job None)) w0 = (Inr (), w2)"
    using assms(4) by (cases "write_input (h_ctx h) (input_file cfg job) (held_fields h cfg req job None) (lw_fs w0)")
      (simp add: edit_def)
  obtain q w3 where sub: "submit h cfg req job (lr_stashed req) w2 = (q, w3)" by force
  let ?mark = "mark_placed h cfg job (held_fields h cfg req job None) None"
  obtain q4 w4 where placed: "bindM (submit h cfg req job (lr_stashed req)) ?mark w2 = (q4, w4)" by force
  have "admission_decision h cfg req w0 = (Inr None, w0)"
    using assms(3) by (simp add: admission_decision_def admission_hold_def)
  with w2 placed have adm: "admitted h cfg req job (\<lambda>j. returnM ()) w0 = (q4, w4)"
    by (simp add: admitted_def publish_and_submit_def bindM_Inr)
  have view: "bindM (admitted h cfg req job (\<lambda>j. returnM ())) (launched_view h req job) w0 = (r, w')"
    using assms(1,2,5) by (simp add: enqueue_def bindM_Inr)
  have "pueue_op is_read (launched_view h req job x)" for x
    unfolding launched_view_def by (intro pueue_op_intros task_by_id.pueue_op_axioms)
  from bind_prefix [OF view adm this] have "prefix (calls w4) (calls w')" .
  moreover have "prefix (calls w3) (calls w4)"
    by (rule bind_prefix [OF placed sub]) (unfold mark_placed_def Let_def, intro pueue_op_intros edit_op publish_event_op)
  ultimately show ?thesis using submit_calls [OF sub] by (auto simp: prefix_def)
qed

definition adding_host :: host where
  "adding_host = queue_host ''7''"

definition sample_request :: launch_request where
  "sample_request = operation_request sample_project sample_operation (mkpath ''/w'') [(''PATH'', ''/bin'')] [] [] None None None"

definition sample_add :: "string list" where
  "sample_add = add_arguments ''normal'' ''p:check'' [''agentctl-run'', ''/s/inputs/p-check-1.json''] ''/w'' [] False 0"

lemma sample_plain:
  "secret_items (map (\<lambda>(k, v). (k, PStr v)) (launch_environment Agentctl_Jobs.sample_cfg sample_request)) = []"
  by code_simp


text \<open>The world of a keyed request when its launch begins.\<close>

definition keyed_lock :: "(lworld, unit) io" where
  "keyed_lock = key_lock adding_host Agentctl_Jobs.sample_cfg ''request-0''"

definition keyed_world :: lworld where
  "keyed_world = pass adding_host (snd (keyed_lock (sample_lworld Agentctl_Jobs.sample_state_fs)))"

lemma keyed_locked: "fst (keyed_lock (sample_lworld Agentctl_Jobs.sample_state_fs)) = Inr ()"
  by code_simp

lemma keyed_lookup:
  "lookup_operation_request adding_host (\<lambda>s. ''0'') Agentctl_Jobs.sample_cfg ''k'' (Some ''d'')
     (snd (keyed_lock (sample_lworld Agentctl_Jobs.sample_state_fs))) = (Inr None, keyed_world)"
proof -
  let ?u = "snd (keyed_lock (sample_lworld Agentctl_Jobs.sample_state_fs))"
  let ?p = "input_file Agentctl_Jobs.sample_cfg ''request-0''"
  have "isl (fs_read_nofollow (lw_fs ?u) ?p)" and no: "\<not> fs_exists (lw_fs ?u) ?p" by code_simp+
  then have "retained_request (lw_fs ?u) ?p ''request-0'' ''k'' (Some ''d'') = Inr None"
    by (auto simp: retained_request_def read_bounded_def split: sum.split)
  moreover have "idempotent_job_id (\<lambda>s. ''0'') ''k'' = Inr ''request-0''" by code_simp
  ultimately show ?thesis
    by (simp add: lookup_operation_request_def bindM_def peek_def keyed_world_def)
qed

lemma keyed_world:
  "enqueue_request adding_host (\<lambda>s. ''0'') Agentctl_Jobs.sample_cfg ''k'' ''d'' sample_request (\<lambda>j. returnM ())
       (sample_lworld Agentctl_Jobs.sample_state_fs)
     = enqueue adding_host Agentctl_Jobs.sample_cfg (sample_request\<lparr>lr_key := Some (''k'', ''d'')\<rparr>) ''request-0''
         (\<lambda>j. returnM ()) keyed_world"
proof -
  let ?w = "sample_lworld Agentctl_Jobs.sample_state_fs"
  have job: "idempotent_job_id (\<lambda>s. ''0'') ''k'' = Inr ''request-0''" by code_simp
  have lock: "key_lock adding_host Agentctl_Jobs.sample_cfg ''request-0'' ?w = (Inr (), snd (keyed_lock ?w))"
    using keyed_locked by (metis keyed_lock_def prod.collapse)
  show ?thesis
    using lock keyed_lookup by (simp add: enqueue_request_def bindM_def job)
qed


end
