(* ===== verification/Agentctl_Endings.thy ===== *)
theory Agentctl_Endings
  imports Agentctl_Keyed
begin

text \<open>
  What ends a job and what starts it again, of \<open>agentctl/launch.py\<close>: cleaning and retry touch only
  what is settled, and a launch is reported as cancelled before its start only when that is sure.
\<close>

section \<open>Cleaning and retry\<close>

lemma require_drained_op: "pueue_op P (require_drained h cfg t)"
  unfolding require_drained_def by (intro pueue_op_intros consult_op)

lemma remove_tasks_op: "pueue_op (\<lambda>a. a = [''remove'', show_int i]) (remove_tasks d [i])"
  unfolding remove_tasks_def by (simp, rule pueue_op_unit) simp

lemma unlink_all_op: "pueue_op P (unlink_all h ps)"
  unfolding unlink_all_def unlink_one_def by (intro pueue_op_intros edit_op)

lemma clean_tail_op: "pueue_op P
     (bindM (peek h (\<lambda>f. artifact_path cfg f t ''.log'' None)) (\<lambda>log.
      bindM (case log of
          None \<Rightarrow> returnM []
        | Some p \<Rightarrow> bindM (liftM (cancel_marker_for p)) (\<lambda>marker. unlink_all h [marker])) (\<lambda>removed.
        returnM (dmerge view [(''cleaned'', PBool True), (''removed'', str_values removed),
          (''retained'', PBool True)]))))"
  by (intro pueue_op_intros peek_op unlink_all_op)

text \<open>The tests that come before the queue is changed.\<close>

lemma require_drained_Inr:
  assumes "require_drained h cfg t w = (Inr u, w')"
  shows "consult h (\<lambda>sc f. cancellation_obstacle sc f (read_disposition cfg f t)) w = (Inr None, w')"
  using assms by (auto simp: require_drained_def bindM_eq_Inr split: option.split_asm)

lemma addressed_op: "pueue_op is_read (addressed d i j)"
  unfolding addressed_def locate_def
  by (intro pueue_op_intros task_by_id.pueue_op_axioms tasks_by_ids.pueue_op_axioms tasks_by_command.pueue_op_axioms)

lemma write_disposition_op: "pueue_op P (write_disposition h cfg t d)"
  unfolding write_disposition_def by (intro pueue_op_intros peek_op edit_op)

lemma reset_disposition_op: "pueue_op P (reset_disposition h cfg t)"
  unfolding reset_disposition_def by (intro pueue_op_intros peek_op write_disposition_op)

definition restarts :: "int \<Rightarrow> string list \<Rightarrow> bool" where
  "restarts i a \<longleftrightarrow> a = [''restart'', ''--in-place'', show_int i] \<or> a = [''restart'', ''--in-place'', ''--stashed'', show_int i]"

lemma restart_task_op: "pueue_op (restarts i) (restart_task d i s)"
  unfolding restart_task_def by (rule pueue_op_unit) (simp add: restarts_def)

lemma held_restart_op: "pueue_op (restarts (tk_id t)) (held_restart h cfg t d)"
  unfolding held_restart_def
  by (intro pueue_op_bind peek_op)
    (auto intro!: pueue_op_intros restart_task_op edit_op publish_event_op split: option.split)

text \<open>
  (C10) Cleaning removes nothing that may still run: the one change it makes to the queue removes the
  task it addressed, and only when that task is terminal and its cancellation, if any, left no process
  behind.
\<close>

theorem clean_only_settled:
  assumes "clean h cfg i j w = (r, w')" and "c \<in> set (calls w')" and "c \<notin> set (calls w)" and "\<not> is_read (snd c)"
  shows "\<exists>t w1 w2. ask h (\<lambda>m. read_task m cfg i j) w = (Inr t, w1) \<and> terminal t
     \<and> consult h (\<lambda>sc f. cancellation_obstacle sc f (read_disposition cfg f t))
          (snd (ask h (\<lambda>m. get_job m (Some cfg) (tk_id t) (job_id_of t) None 0 100) w1)) = (Inr None, w2)
     \<and> snd c = [''remove'', show_int (tk_id t)]"
proof -
  note quiet = \<open>\<not> is_read (snd c)\<close>
  let ?bad = "case j of Some s \<Rightarrow> \<not> JOB_ID s | None \<Rightarrow> False"
  let ?view = "\<lambda>t. ask h (\<lambda>m. get_job m (Some cfg) (tk_id t) (job_id_of t) None 0 100)"
  have "\<not> ?bad" using assms(1-3) by (cases ?bad) (simp_all add: clean_def)
  with assms(1) have "bindM (ask h (\<lambda>m. read_task m cfg i j)) (\<lambda>t.
        if tk_status t \<noteq> ''Archived'' \<and> \<not> terminal t
        then raiseM (JobErr (''task '' @ show_int (tk_id t) @ '' is still '' @ str_lower (tk_status t) @ ''; cancel it first''))
        else bindM (?view t) (\<lambda>view. bindM (require_drained h cfg t) (\<lambda>_. clean_settled h cfg t view))) w = (r, w')"
    by (simp add: clean_def)
  from bind_new [OF this assms(2) ask_op [OF read_task.job_reader_axioms] quiet assms(3)] obtain t w1 where
      task: "ask h (\<lambda>m. read_task m cfg i j) w = (Inr t, w1)" and c1: "c \<notin> set (calls w1)"
    and rest: "(if tk_status t \<noteq> ''Archived'' \<and> \<not> terminal t
        then raiseM (JobErr (''task '' @ show_int (tk_id t) @ '' is still '' @ str_lower (tk_status t) @ ''; cancel it first''))
        else bindM (?view t) (\<lambda>view. bindM (require_drained h cfg t) (\<lambda>_. clean_settled h cfg t view))) w1 = (r, w')" .
  have "tk_status t = ''Archived'' \<or> terminal t" using rest c1 assms(2) by (auto split: if_split_asm)
  with rest have "bindM (?view t) (\<lambda>view. bindM (require_drained h cfg t) (\<lambda>_. clean_settled h cfg t view)) w1 = (r, w')"
    by auto
  from bind_new [OF this assms(2) ask_op [OF get_job.job_reader_axioms] quiet c1] obtain view w2 where
      view: "?view t w1 = (Inr view, w2)" and c2: "c \<notin> set (calls w2)"
    and rest: "bindM (require_drained h cfg t) (\<lambda>_. clean_settled h cfg t view) w2 = (r, w')" .
  from bind_new [OF rest assms(2) require_drained_op quiet c2] obtain x w3 where
      drained: "require_drained h cfg t w2 = (Inr x, w3)" and c3: "c \<notin> set (calls w3)"
    and rest: "clean_settled h cfg t view w3 = (r, w')" .
  let ?remove = "if tk_status t \<noteq> ''Archived'' then remove_tasks (h_daemon h) [tk_id t] else returnM ()"
  from bind_old [OF rest [unfolded clean_settled_def] assms(2) clean_tail_op quiet] obtain q w4 where
      removed: "?remove w3 = (q, w4)" and c4: "c \<in> set (calls w4)" .
  have live: "tk_status t \<noteq> ''Archived''" using removed c3 c4 by auto
  with removed have "remove_tasks (h_daemon h) [tk_id t] w3 = (q, w4)" by simp
  from new_calls [OF remove_tasks_op this c4] c3 have "snd c = [''remove'', show_int (tk_id t)]" by blast
  with task view require_drained_Inr [OF drained] live \<open>tk_status t = ''Archived'' \<or> terminal t\<close> show ?thesis by auto
qed

lemma restart_in_place_calls:
  assumes "restart_in_place h cfg t w = (r, w')" and "c \<in> set (calls w')" and "c \<notin> set (calls w)" and "\<not> is_read (snd c)"
  shows "restarts (tk_id t) (snd c)"
proof -
  from bind_new [OF assms(1) [unfolded restart_in_place_def] assms(2) admission_hold_op assms(4,3)] obtain hold w1 where
      c1: "c \<notin> set (calls w1)"
    and "(case hold of Some d \<Rightarrow> held_restart h cfg t d | None \<Rightarrow> restart_task (h_daemon h) (tk_id t) False) w1 = (r, w')" .
  moreover have "pueue_op (restarts (tk_id t))
      (case hold of Some d \<Rightarrow> held_restart h cfg t d | None \<Rightarrow> restart_task (h_daemon h) (tk_id t) False)"
    by (cases hold) (simp_all add: held_restart_op restart_task_op)
  ultimately show ?thesis using new_calls [OF _ _ assms(2)] by blast
qed

text \<open>
  (C11) A retry starts again only what is over: the one change it makes to the queue restarts the very
  task it addressed, in place, and it makes it only when that task was terminal, its cancellation, if
  any, left no process behind, and it is not a record of the retired batch engine.
\<close>

theorem retry_only_settled:
  assumes "retry h cfg i j w = (r, w')" and "c \<in> set (calls w')" and "c \<notin> set (calls w)" and "\<not> is_read (snd c)"
  shows "\<exists>t w1 w2. addressed (h_daemon h) i j (snd (admission_lock h cfg w)) = (Inr t, w1) \<and> terminal t
     \<and> consult h (\<lambda>sc f. cancellation_obstacle sc f (read_disposition cfg f t)) w1 = (Inr None, w2)
     \<and> \<not> history_only t (launch_document cfg (lw_fs w2) t) \<and> restarts (tk_id t) (snd c)"
proof -
  note quiet = \<open>\<not> is_read (snd c)\<close>
  from bind_new [OF assms(1) [unfolded retry_def] assms(2) admission_lock_op quiet assms(3)] obtain u w0 where
      lock: "admission_lock h cfg w = (Inr u, w0)" and c0: "c \<notin> set (calls w0)"
    and rest: "bindM (retry_locked h cfg i j) (\<lambda>t. ask h (\<lambda>m. get_job m (Some cfg) (tk_id t) j None 0 100)) w0 = (r, w')" .
  from bind_old [OF rest assms(2) ask_op [OF get_job.job_reader_axioms] quiet] obtain q wl where
      locked: "retry_locked h cfg i j w0 = (q, wl)" and cl: "c \<in> set (calls wl)" .
  from bind_new [OF locked [unfolded retry_locked_def] cl addressed_op quiet c0]
  obtain t w1 where adr: "addressed (h_daemon h) i j w0 = (Inr t, w1)" and c1: "c \<notin> set (calls w1)"
    and rest: "(if terminal t then bindM (require_drained h cfg t) (\<lambda>_. restart_settled h cfg t)
       else raiseM (JobErr (''task '' @ show_int (tk_id t) @ '' is still '' @ str_lower (tk_status t)))) w1 = (q, wl)" .
  have fin: "terminal t" using rest c1 cl by (cases "terminal t") auto
  with rest have "bindM (require_drained h cfg t) (\<lambda>_. restart_settled h cfg t) w1 = (q, wl)" by simp
  from bind_new [OF this cl require_drained_op quiet c1] obtain x w2 where
      drained: "require_drained h cfg t w1 = (Inr x, w2)" and c2: "c \<notin> set (calls w2)"
    and rest: "restart_settled h cfg t w2 = (q, wl)" .
  from require_drained_Inr [OF drained]
  have none: "consult h (\<lambda>sc f. cancellation_obstacle sc f (read_disposition cfg f t)) w1 = (Inr None, w2)" .
  let ?doc = "launch_document cfg (lw_fs w2) t"
  have eq: "restart_settled h cfg t w2 = (if history_only t ?doc
       then raiseM (JobErr ''retired batch executor is history-only; start a declared operation for new work'')
       else bindM (reset_disposition h cfg t) (\<lambda>_. bindM (restart_in_place h cfg t) (\<lambda>_. returnM t))) (pass h w2)"
    by (simp add: restart_settled_def bindM_def peek_def)
  have c3: "c \<notin> set (calls (pass h w2))" using c2 by simp
  have own: "\<not> history_only t ?doc"
    using rest [unfolded eq] cl c3 by (cases "history_only t ?doc") auto
  with rest [unfolded eq] have "bindM (reset_disposition h cfg t) (\<lambda>_. bindM (restart_in_place h cfg t) (\<lambda>_. returnM t)) (pass h w2) = (q, wl)"
    by simp
  from bind_new [OF this cl reset_disposition_op quiet c3] obtain y w4 where
      c4: "c \<notin> set (calls w4)" and again: "bindM (restart_in_place h cfg t) (\<lambda>_. returnM t) w4 = (q, wl)" .
  from bind_old [OF again cl pueue_op_return quiet] obtain z w5 where
      "restart_in_place h cfg t w4 = (z, w5)" "c \<in> set (calls w5)" .
  from restart_in_place_calls [OF this c4 quiet] adr fin none own lock show ?thesis by auto
qed


text \<open>A finished task whose command is not the runner's.\<close>

definition finished_task :: task where
  "finished_task = \<lparr>tk_id = 5, tk_label = ''p:check'', tk_group = ''normal'', tk_status = ''Done'',
     tk_result = Some ''Success'', tk_exit = Some 0, tk_path = ''/w'', tk_deps = [], tk_command = ''make check'',
     tk_enqueued = None, tk_started = None, tk_ended = None\<rparr>"

definition finished_out :: string where
  "finished_out = ''{\"5\":{\"task\":{\"id\":5,\"label\":\"p:check\",\"group\":\"normal\",\"path\":\"/w\",''
     @ ''\"status\":{\"Done\":{\"result\":\"Success\"}},\"command\":\"make check\"}}}''"

abbreviation finished_host :: host where
  "finished_host \<equiv> queue_host finished_out"

lemma finished_lists: "fst (tasks_by_ids (h_daemon finished_host) [PInt 5] w) = Inr [(5, finished_task)]"
proof -
  have "bindE (pueue_decode ''log'' finished_out) (\<lambda>v. log_tasks v (Some [5])) = Inr [(5, finished_task)]"
    by code_simp
  then show ?thesis
    by (simp add: tasks_by_ids_def run_default_def pueue_run_def bindM_def Let_def queue_host_def)
qed

lemma finished_plain: "launch_input_path finished_task = None"
  by code_simp

lemma finished_terminal: "terminal finished_task"
  by code_simp

lemma finished_files:
  "read_disposition cfg f finished_task = None" "launch_document cfg f finished_task = []"
  "job_id_of finished_task = None"
  by (simp_all add: read_disposition_def launch_document_def read_launch_input_def job_id_of_def finished_plain)

lemma finished_addressed: "\<exists>w'. addressed (h_daemon finished_host) 5 None w = (Inr finished_task, w')"
  using finished_lists [of w]
  by (cases "tasks_by_ids (h_daemon finished_host) [PInt 5] w") (simp add: addressed_def task_by_id_def bindM_def)

lemma finished_read: "\<exists>w'. ask finished_host (\<lambda>m. read_task m cfg 5 None) w = (Inr finished_task, w')"
proof -
  let ?m = "h_sys finished_host\<lparr>m_fs := seen finished_host w\<rparr>"
  obtain v where "tasks_by_ids (m_pueue ?m) [PInt 5] (rworld.truncate w) = (Inr [(5, finished_task)], v)"
    using finished_lists [of "rworld.truncate w"] by (metis machine.select_convs(1) machine.surjective machine.update_convs(4) prod.collapse)
  then have "read_task ?m cfg 5 None (rworld.truncate w) = (Inr finished_task, v)"
    by (simp add: read_task_def locate_def bindM_def)
  then show ?thesis by (simp add: ask_def)
qed

lemma finished_drained: "require_drained finished_host cfg finished_task w = (Inr (), pass finished_host w)"
  by (simp add: require_drained_def consult_def bindM_def finished_files cancellation_obstacle_def)

lemma finished_detail: "\<not> isl (job_detail sc cfg f finished_task None 0 100)"
  by (simp add: job_detail_def artifact_view_def artifact_document_def finished_files select_attempt_def
      owned_artifact_def cancellation_items_def read_outcome_def pget_def)


lemma finished_view:
  "\<exists>v w'. ask finished_host (\<lambda>m. get_job m (Some cfg) 5 None None 0 100) w = (Inr v, w')"
proof -
  let ?m = "h_sys finished_host\<lparr>m_fs := seen finished_host w\<rparr>"
  obtain w1 where "tasks_by_ids (m_pueue ?m) [PInt 5] (rworld.truncate w) = (Inr [(5, finished_task)], w1)"
    using finished_lists [of "rworld.truncate w"] by (metis machine.select_convs(1) machine.surjective machine.update_convs(4) prod.collapse)
  then have read: "read_task ?m cfg 5 None (rworld.truncate w) = (Inr finished_task, w1)"
    by (simp add: read_task_def locate_def bindM_def)
  obtain av v where "job_detail (\<lambda>args. m_systemctl ?m (rw_ctl w1 @ [args])) cfg (m_fs ?m (rw_clock w1)) finished_task None 0 100
      = Inr (av, v)"
    using finished_detail by (metis prod.collapse sum.collapse(2))
  with read show ?thesis by (simp add: get_job_def bindM_def look_systemd_def ask_def)
qed

theorem clean_only_settled_witness:
  "\<exists>r w' c. clean finished_host Agentctl_Jobs.sample_cfg 5 None (sample_lworld Agentctl_Jobs.sample_state_fs) = (r, w')
     \<and> c \<in> set (calls w') \<and> snd c = [''remove'', ''5'']
     \<and> (\<exists>t. terminal t \<and> snd c = [''remove'', show_int (tk_id t)])"
proof -
  let ?h = finished_host and ?cfg = Agentctl_Jobs.sample_cfg and ?w = "sample_lworld Agentctl_Jobs.sample_state_fs"
  have five: "tk_id finished_task = 5" "show_int 5 = ''5''" "tk_status finished_task = ''Done''" by code_simp+
  obtain w1 where read: "ask ?h (\<lambda>m. read_task m ?cfg 5 None) ?w = (Inr finished_task, w1)"
    using finished_read [of ?cfg ?w] by blast
  obtain view w2 where view: "ask ?h (\<lambda>m. get_job m (Some ?cfg) 5 None None 0 100) w1 = (Inr view, w2)"
    using finished_view [of ?cfg w1] by blast
  let ?w3 = "pass ?h w2"
  obtain q w4 where rem: "remove_tasks (h_daemon ?h) [5] ?w3 = (q, w4)" by force
  have c: "\<exists>c \<in> set (calls w4). snd c = [''remove'', ''5'']"
    using rem by (auto simp: remove_tasks_def call_unit_def run_default_def pueue_run_def bindM_def Let_def five queue_host_def)
  obtain r w' where tail: "clean_settled ?h ?cfg finished_task view ?w3 = (r, w')" by force
  have "prefix (calls w4) (calls w')"
    by (rule bind_prefix [OF tail [unfolded clean_settled_def] _ clean_tail_op]) (use rem five in simp)
  with c obtain c where c: "c \<in> set (calls w')" "snd c = [''remove'', ''5'']" using set_mono_prefix by blast
  have run: "clean ?h ?cfg 5 None ?w = (r, w')"
    using read view tail finished_drained [of ?cfg w2]
    by (simp add: clean_def bindM_def five finished_terminal finished_files)
  have "c \<notin> set (calls ?w)" "\<not> is_read (snd c)" by (simp_all add: sample_lworld_def c(2) is_read_def)
  from clean_only_settled [OF run c(1) this] run c show ?thesis by blast
qed

theorem retry_only_settled_witness:
  "\<exists>r w' c. retry finished_host Agentctl_Jobs.sample_cfg 5 None (sample_lworld Agentctl_Jobs.sample_state_fs) = (r, w')
     \<and> c \<in> set (calls w') \<and> snd c = [''restart'', ''--in-place'', ''5'']
     \<and> (\<exists>t. terminal t \<and> restarts (tk_id t) (snd c))"
proof -
  let ?h = finished_host and ?cfg = Agentctl_Jobs.sample_cfg and ?w = "sample_lworld Agentctl_Jobs.sample_state_fs"
  have five: "tk_id finished_task = 5" "show_int 5 = ''5''" "exclusive_partners (cf_pools ?cfg) (tk_group finished_task) = []"
    by code_simp+
  have "fst (admission_lock ?h ?cfg ?w) = Inr ()" by code_simp
  then obtain w0 where lock: "admission_lock ?h ?cfg ?w = (Inr (), w0)" by (metis prod.collapse)
  obtain w1 where adr: "addressed (h_daemon ?h) 5 None w0 = (Inr finished_task, w1)"
    using finished_addressed [of w0] by blast
  have own: "\<not> history_only finished_task []" by code_simp
  have looks: "peek ?h g v = (g (lw_fs v), pass ?h v)" for g :: "fs \<Rightarrow> 'a res" and v by (simp add: peek_def)
  let ?w4 = "pass ?h (pass ?h (pass ?h w1))"
  obtain q w5 where again: "restart_task (h_daemon ?h) 5 False ?w4 = (q, w5)" by force
  have c: "\<exists>c \<in> set (calls w5). snd c = [''restart'', ''--in-place'', ''5'']"
    using again by (auto simp: restart_task_def call_unit_def run_default_def pueue_run_def bindM_def Let_def five queue_host_def)
  have "restart_in_place ?h ?cfg finished_task ?w4 = (q, w5)"
    using again by (simp add: restart_in_place_def admission_hold_def bindM_def five)
  then have settled: "restart_settled ?h ?cfg finished_task (pass ?h w1)
      = (case q of Inl e \<Rightarrow> (Inl e, w5) | Inr x \<Rightarrow> (Inr finished_task, w5))"
    by (simp add: restart_settled_def bindM_def looks finished_files own reset_disposition_def split: sum.split)
  obtain p where locked: "retry_locked ?h ?cfg 5 None w0 = (p, w5)"
    using adr finished_drained [of ?cfg w1] settled
    by (cases q) (simp_all add: retry_locked_def bindM_def finished_terminal)
  obtain r w' where run: "retry ?h ?cfg 5 None ?w = (r, w')" by force
  then have "bindM (retry_locked ?h ?cfg 5 None) (\<lambda>t. ask ?h (\<lambda>m. get_job m (Some ?cfg) (tk_id t) None None 0 100)) w0 = (r, w')"
    using lock by (simp add: retry_def bindM_def)
  from bind_prefix [OF this locked ask_op [OF get_job.job_reader_axioms]] have "prefix (calls w5) (calls w')" .
  with c obtain c where c: "c \<in> set (calls w')" "snd c = [''restart'', ''--in-place'', ''5'']"
    using set_mono_prefix by blast
  have "c \<notin> set (calls ?w)" "\<not> is_read (snd c)" by (simp_all add: sample_lworld_def c(2) is_read_def)
  from retry_only_settled [OF run c(1) this] run c show ?thesis by blast
qed


section \<open>Cancellation before a start\<close>

text \<open>A removal is the only change.\<close>

definition removes :: "string list \<Rightarrow> bool" where
  "removes a \<longleftrightarrow> is_read a \<or> hd a = ''remove''"

lemma read_removes: "is_read a \<Longrightarrow> removes a"
  by (simp add: removes_def)

lemma remove_removes: "pueue_op removes (remove_tasks d is)"
  unfolding remove_tasks_def by (intro pueue_op_if pueue_op_return pueue_op_unit) (simp add: removes_def)

lemmas task_removes = pueue_op_weaken [OF task_by_id.pueue_op_axioms read_removes]

lemma give_up_op: "pueue_op P (give_up h dig cfg t view reason owned)"
  unfolding give_up_def retain_disposition_def by (intro pueue_op_intros write_disposition_op)

lemma record_cancellation_op: "pueue_op P (record_cancellation h d a r)"
  unfolding record_cancellation_def Let_def by (intro pueue_op_intros edit_op)

lemma prepare_marker_op: "pueue_op P (prepare_marker h cfg t d owned locked)"
  unfolding prepare_marker_def by (intro pueue_op_intros peek_op edit_op)

lemma announce_cancel_op: "pueue_op P (announce_cancel h cfg t view locked request)"
  unfolding announce_cancel_def
  by (intro pueue_op_intros peek_op write_disposition_op record_cancellation_op prepare_marker_op)

lemma mark_attempt_op: "pueue_op P (mark_attempt h cfg t d marker)"
  unfolding mark_attempt_def by (intro pueue_op_intros peek_op edit_op)

lemma withdraw_marker_op: "pueue_op P (withdraw_marker h m n)"
  unfolding withdraw_marker_def
proof (intro pueue_op_catch pueue_op_bind peek_op)
  show "pueue_op P (case v of PDict d \<Rightarrow>
      if eq_int (pget d ''attempt'') (int n) then edit h (fsM (unlink_missing_ok m)) else returnM ()
    | _ \<Rightarrow> raiseM AttributeErr)" for v
    by (cases v) (auto intro!: pueue_op_intros edit_op)
qed (intro pueue_op_intros)

lemma confirm_tail_op: "pueue_op P
     (bindM (peek h (\<lambda>f. started_since cfg f t before current)) (\<lambda>started.
       (case current of
          Some c \<Rightarrow>
            if started then returnM None
            else give_up h dig cfg c (job_view c) ''queue still holds the launch after remove'' owned
        | None \<Rightarrow>
            if started then give_up h dig cfg t view ''runner started during cancel'' owned
            else
              bindM (case marker of Some (m, n) \<Rightarrow> withdraw_marker h m n | None \<Rightarrow> returnM ()) (\<lambda>_.
              bindM (retain_disposition h cfg t NOT_STARTED_CANCEL owned) (\<lambda>_.
                returnM (Some (cancelled_not_started view NOT_STARTED_CANCEL)))))))"
  unfolding retain_disposition_def
  by (intro pueue_op_intros peek_op give_up_op write_disposition_op)
    (auto intro: pueue_op_return withdraw_marker_op split: option.split prod.split)

lemma confirm_removed_op: "pueue_op removes (confirm_removed h dig cfg t view owned before marker)"
  unfolding confirm_removed_def by (intro pueue_op_bind task_removes confirm_tail_op)

lemma removal_refused_op: "pueue_op removes (removal_refused h dig cfg i owned)"
  unfolding removal_refused_def by (intro pueue_op_intros task_removes peek_op give_up_op)

lemma drop_queued_op: "pueue_op removes (drop_queued h dig cfg t view owned before marker)"
  unfolding drop_queued_def Let_def
  by (intro pueue_op_intros task_removes peek_op give_up_op remove_removes removal_refused_op confirm_removed_op)

lemma cancel_not_started_op: "pueue_op removes (cancel_not_started h dig cfg t view locked request)"
  unfolding cancel_not_started_def drop_announced_def
  by (intro pueue_op_bind announce_cancel_op) (auto intro!: pueue_op_intros peek_op mark_attempt_op drop_queued_op)

text \<open>Only one report says that nothing ran.\<close>

lemma give_up_phase:
  "give_up h dig cfg t view reason owned w = (Inr (Some v), w') \<Longrightarrow> pget v ''phase'' = PStr ''unresolved''"
  by (auto simp: give_up_def bindM_eq_Inr unresolved_cancel_def pget_dmerge_keys)

lemma confirm_removed_gone:
  assumes "confirm_removed h dig cfg t view owned before marker w = (Inr (Some v), w')"
    and "pget v ''phase'' = PStr ''cancelled''"
  shows "\<exists>w2. task_by_id (h_daemon h) (tk_id t) w = (Inr None, w2)
     \<and> started_since cfg (lw_fs w2) t before None = Inr False"
proof -
  from assms(1) [unfolded confirm_removed_def bindM_eq_Inr] obtain current w2 started w3 where
      task: "task_by_id (h_daemon h) (tk_id t) w = (Inr current, w2)"
    and look: "peek h (\<lambda>f. started_since cfg f t before current) w2 = (Inr started, w3)"
    and rest: "(case current of
          Some c \<Rightarrow>
            if started then returnM None
            else give_up h dig cfg c (job_view c) ''queue still holds the launch after remove'' owned
        | None \<Rightarrow>
            if started then give_up h dig cfg t view ''runner started during cancel'' owned
            else
              bindM (case marker of Some (m, n) \<Rightarrow> withdraw_marker h m n | None \<Rightarrow> returnM ()) (\<lambda>_.
              bindM (retain_disposition h cfg t NOT_STARTED_CANCEL owned) (\<lambda>_.
                returnM (Some (cancelled_not_started view NOT_STARTED_CANCEL))))) w3 = (Inr (Some v), w')"
    by blast
  have "current = None \<and> \<not> started"
    using rest assms(2) by (cases current; cases started) (auto dest: give_up_phase)
  with task look show ?thesis by (simp add: peek_def)
qed

lemma removal_refused_phase:
  "removal_refused h dig cfg i owned w = (Inr (Some (Some v)), w') \<Longrightarrow> pget v ''phase'' = PStr ''unresolved''"
  by (auto simp: removal_refused_def bindM_eq_Inr dest: give_up_phase split: option.split_asm if_split_asm)

lemma drop_queued_gone:
  assumes "drop_queued h dig cfg t view owned before marker w = (Inr (Some v), w')"
    and "pget v ''phase'' = PStr ''cancelled''"
  shows "\<exists>w1. confirm_removed h dig cfg t view owned before marker w1 = (Inr (Some v), w')"
proof -
  let ?running = "\<lambda>current. case current of Some c \<Rightarrow> tk_started c \<noteq> None | None \<Rightarrow> False"
  let ?target = "\<lambda>current. case current of Some c \<Rightarrow> c | None \<Rightarrow> t"
  let ?removal = "\<lambda>current. case current of
      None \<Rightarrow> returnM None
    | Some c \<Rightarrow>
        catchM (bindM (remove_tasks (h_daemon h) [tk_id c]) (\<lambda>_. returnM None))
          (\<lambda>e. if is_pueueerror e then removal_refused h dig cfg (tk_id c) owned else raiseM e)"
  let ?finish = "\<lambda>answer. case answer of
      Some r \<Rightarrow> returnM r | None \<Rightarrow> confirm_removed h dig cfg t view owned before marker"
  from assms(1) [unfolded drop_queued_def Let_def bindM_eq_Inr] obtain current w1 where
      run: "(if ?running current then returnM None
       else bindM (peek h (\<lambda>f. unfinished_attempt cfg f (?target current))) (\<lambda>busy.
             if busy then
               give_up h dig cfg (?target current) (if current = None then view else job_view (?target current))
                 ''runner started during cancel'' owned
             else bindM (?removal current) ?finish)) w1 = (Inr (Some v), w')"
    by blast
  then have "\<not> ?running current" by (cases "?running current") auto
  with run obtain busy w2 where
      run2: "(if busy then
               give_up h dig cfg (?target current) (if current = None then view else job_view (?target current))
                 ''runner started during cancel'' owned
             else bindM (?removal current) ?finish) w2 = (Inr (Some v), w')"
    by (simp only: if_False bindM_eq_Inr) blast
  with assms(2) have "\<not> busy" by (cases busy) (auto dest: give_up_phase)
  with run2 obtain answer w3 where answer: "?removal current w2 = (Inr answer, w3)"
    and run3: "?finish answer w3 = (Inr (Some v), w')"
    by (simp only: if_False bindM_eq_Inr) blast
  show ?thesis
  proof (cases answer)
    case None
    with run3 show ?thesis by auto
  next
    case (Some r)
    with run3 have r: "r = Some v" by simp
    with answer Some obtain c where c: "current = Some c" by (cases current) auto
    obtain q w4 where rem: "remove_tasks (h_daemon h) [tk_id c] w2 = (q, w4)" by force
    have "removal_refused h dig cfg (tk_id c) owned w4 = (Inr (Some (Some v)), w3)"
      using answer c Some r rem
      by (auto simp: catchM_def bindM_def split: sum.split_asm if_split_asm prod.split_asm)
    from removal_refused_phase [OF this] assms(2) show ?thesis by simp
  qed
qed


definition queued_task :: task where
  "queued_task = finished_task\<lparr>tk_status := ''Queued'', tk_result := None, tk_exit := None\<rparr>"

abbreviation empty_host :: host where
  "empty_host \<equiv> queue_host ''{}''"

lemma queued_plain: "launch_input_path queued_task = None"
  by code_simp

lemma queued_files:
  "launch_document cfg f queued_task = []" "attempt_count cfg f queued_task = Inr 0"
  "unfinished_attempt cfg f queued_task = Inr False"
  by (simp_all add: launch_document_def read_launch_input_def attempt_count_def unfinished_attempt_def queued_plain pget_def)

lemma empty_lacks: "\<exists>w'. task_by_id (h_daemon empty_host) 5 w = (Inr None, w')"
proof -
  have "bindE (pueue_decode ''log'' ''{}'') (\<lambda>v. log_tasks v (Some [5])) = Inr []" by code_simp
  then show ?thesis
    by (simp add: task_by_id_def tasks_by_ids_def run_default_def pueue_run_def bindM_def Let_def queue_host_def)
qed

lemma queued_announced:
  "\<exists>w'. announce_cancel empty_host cfg queued_task view locked request w = (Inr (False, [], view, None), w')"
  by (simp add: announce_cancel_def write_disposition_def prepare_marker_def peek_def bindM_def catchM_def
      queued_plain queued_files pget_def)


end
