(* ===== verification/Agentctl_Worktrunk.thy ===== *)
theory Agentctl_Worktrunk
  imports Agentctl_Git
begin

text \<open>
  \<open>agentctl/worktrunk.py\<close>: the registry of worktrees that Git publishes, and the mutations that \<open>wt\<close>
  makes, each of which returns once Git has let go of the index. \<open>wt\<close> is a parameter like Git: its
  calls are in the same list, and what it does to the files is what happens to them while it runs.
  The waiting loop has fuel; its result without enough of it is \<open>None\<close>.
\<close>

section \<open>Calling wt\<close>

definition GIT_SETTLE_SECONDS :: int where "GIT_SETTLE_SECONDS = 30"

fun is_worktrunkerror :: "exn \<Rightarrow> bool" where
  "is_worktrunkerror (WorktrunkErr m) = True"
| "is_worktrunkerror _ = False"

record worktree =
  wt_branch :: "string option"
  wt_path :: "ppath option"
  wt_main :: bool
  wt_locked :: bool

definition call_wt :: "host \<Rightarrow> ppath \<Rightarrow> string list \<Rightarrow> (lworld, proc_result) io" where
  "call_wt h root args w =
     (let cs = lw_git w @ [[''wt'', ''-C'', path_str root] @ args]
      in (Inr (h_git h cs), pass h (w\<lparr>lw_git := cs\<rparr>)))"

definition wt_run :: "host \<Rightarrow> ppath \<Rightarrow> string list \<Rightarrow> (lworld, string) io" where
  "wt_run h root args =
     bindM (call_wt h root args) (\<lambda>r.
       (case r of
          NotInstalled \<Rightarrow> raiseM (WorktrunkErr ''wt is not installed'')
        | TimedOut \<Rightarrow> raiseM (WorktrunkErr (''wt '' @ hd args @ '' timed out''))
        | Garbled \<Rightarrow> raiseM UnicodeErr
        | Exited rc out err \<Rightarrow>
            if rc \<noteq> 0
            then raiseM (WorktrunkErr (if strip err \<noteq> [] then strip err else if strip out \<noteq> [] then strip out
                   else ''wt '' @ hd args @ '' failed''))
            else returnM out))"

definition common_git_directory :: "host \<Rightarrow> ppath \<Rightarrow> (lworld, ppath option) io" where
  "common_git_directory h root =
     catchM (bindM (git_call h WorktrunkErr root [''rev-parse'', ''--path-format=absolute'', ''--git-common-dir'']
           [0] False False) (\<lambda>d. returnM (if d = [] then None else Some (mkpath d))))
       (\<lambda>e. if is_worktrunkerror e then returnM None else raiseM e)"

text \<open>\<open>tempfile.gettempdir()\<close>; the directory it names is taken to be writable.\<close>

definition temp_dir :: "host \<Rightarrow> string" where
  "temp_dir h =
     (case List.map_filter (\<lambda>k. case env_var h k of Some (c # s) \<Rightarrow> Some (c # s) | _ \<Rightarrow> None)
         [''TMPDIR'', ''TEMP'', ''TMP''] of [] \<Rightarrow> ''/tmp'' | d # ds \<Rightarrow> d)"

definition lock_directory :: "host \<Rightarrow> ppath" where
  "lock_directory h =
     (case env_var h ''XDG_RUNTIME_DIR'' of
        Some (c # s) \<Rightarrow> path_join (mkpath (c # s)) ''agentctl''
      | _ \<Rightarrow> path_join (mkpath (temp_dir h)) (''agentctl-'' @ show_nat (c_uid (h_ctx h))))"

definition truncate_file :: "ppath \<Rightarrow> fs \<Rightarrow> fs res" where
  "truncate_file p f = bindE (open_append 420 p f) (\<lambda>(q, b). Inr (fs_put q (RegFile [] (file_mode f q 420)) f))"

text \<open>One lock per repository: its block is atomic, opening its file is modelled.\<close>

definition repository_locked :: "host \<Rightarrow> (string \<Rightarrow> string) \<Rightarrow> ppath \<Rightarrow> ppath option \<Rightarrow> (lworld, unit) io" where
  "repository_locked h dig root common =
     bindM (peek h (\<lambda>f. realpath f (case common of Some c \<Rightarrow> c | None \<Rightarrow> root))) (\<lambda>key.
       edit h (bindM (fsM (mkdir_p 493 (lock_directory h))) (\<lambda>_.
         fsM (truncate_file (path_join (lock_directory h)
           (''worktrunk-'' @ take 16 (dig (path_str key)) @ ''.lock''))))))"

definition index_lock_state :: "host \<Rightarrow> ppath \<Rightarrow> (lworld, (int \<times> int) option) io" where
  "index_lock_state h p w = (Inr (h_lock_state h (rw_clock w) p), pass h w)"

fun settle_index ::
  "host \<Rightarrow> ppath \<Rightarrow> (int \<times> int) option \<Rightarrow> pyfloat \<Rightarrow> string \<Rightarrow> string \<Rightarrow> nat \<Rightarrow> (lworld, string option) io" where
  "settle_index h lock held deadline_at output verb 0 = returnM None"
| "settle_index h lock held deadline_at output verb (Suc n) =
     bindM (index_lock_state h lock) (\<lambda>current.
       if current = None \<or> current = held then returnM (Some output)
       else bindM (clock_now h) (\<lambda>now.
         if float_le deadline_at now
         then raiseM (WorktrunkErr (''wt '' @ verb @ '' left '' @ path_str lock @ '' held after ''
                @ show_int GIT_SETTLE_SECONDS @ '' seconds''))
         else settle_index h lock held deadline_at output verb n))"

definition mutate ::
  "host \<Rightarrow> (string \<Rightarrow> string) \<Rightarrow> ppath \<Rightarrow> string list \<Rightarrow> string \<Rightarrow> nat \<Rightarrow> (lworld, string option) io" where
  "mutate h dig root args verb fuel =
     bindM (common_git_directory h root) (\<lambda>common.
     bindM (repository_locked h dig root common) (\<lambda>_.
       (case common of
          None \<Rightarrow> bindM (wt_run h root args) (\<lambda>out. returnM (Some out))
        | Some c \<Rightarrow>
            bindM (index_lock_state h (index_lock c)) (\<lambda>held.
            bindM (wt_run h root args) (\<lambda>output.
            bindM (clock_now h) (\<lambda>now.
              settle_index h (index_lock c) held (float_add now (float_of_int GIT_SETTLE_SECONDS)) output verb
                fuel))))))"

definition wt_decode :: "string \<Rightarrow> string \<Rightarrow> pyval res" where
  "wt_decode payload what =
     (let failed = WorktrunkErr (''wt '' @ what @ '' did not print a JSON document'')
      in (case dropWhile (\<lambda>c. c \<noteq> CHR ''{'' \<and> c \<noteq> CHR ''['') payload of
            [] \<Rightarrow> Inl failed
          | s \<Rightarrow> (case loads_text s of Inr v \<Rightarrow> Inr v | Inl e \<Rightarrow> Inl (if e = JSONDecode then failed else e))))"

section \<open>The registry\<close>

definition entry :: "string dict \<Rightarrow> bool \<Rightarrow> worktree" where
  "entry attrs main =
     \<lparr>wt_branch = (case dget attrs ''branch'' of
          Some (c # s) \<Rightarrow> Some (if prefix ''refs/heads/'' (c # s) then drop 11 (c # s) else c # s) | _ \<Rightarrow> None),
      wt_path = (case dget attrs ''worktree'' of Some (c # s) \<Rightarrow> Some (mkpath (c # s)) | _ \<Rightarrow> None),
      wt_main = main, wt_locked = dhas attrs ''locked''\<rparr>"

text \<open>The records of the porcelain listing: an attribute each, and an empty one after every worktree.\<close>

fun registry :: "worktree list \<Rightarrow> string dict \<Rightarrow> string list \<Rightarrow> worktree list" where
  "registry trees attrs [] = (if attrs = [] then trees else trees @ [entry attrs (trees = [])])"
| "registry trees attrs (r # rs) =
     (if r = [] then registry (if attrs = [] then trees else trees @ [entry attrs (trees = [])]) [] rs
      else registry trees (case str_partition CHR '' '' r of (k, sep, v) \<Rightarrow> dset k v attrs) rs)"

definition NUL :: char where "NUL = char_of (0 :: nat)"

definition worktrunk_list :: "host \<Rightarrow> ppath \<Rightarrow> (lworld, worktree list) io" where
  "worktrunk_list h root =
     bindM (git_call h WorktrunkErr root [''worktree'', ''list'', ''--porcelain'', ''-z''] [0] False False) (\<lambda>payload.
       returnM (registry [] [] (split_on NUL payload)))"

definition branch_alone :: "host \<Rightarrow> ppath \<Rightarrow> string \<Rightarrow> (lworld, worktree option) io" where
  "branch_alone h root branch =
     bindM (git_call h WorktrunkErr root [''rev-parse'', ''--verify'', ''--quiet'', ''refs/heads/'' @ branch]
         [0, 1] False False) (\<lambda>reference.
       returnM (if reference = [] then None
         else Some \<lparr>wt_branch = Some branch, wt_path = None, wt_main = False, wt_locked = False\<rparr>))"

definition worktrunk_find :: "host \<Rightarrow> ppath \<Rightarrow> string \<Rightarrow> (lworld, worktree option) io" where
  "worktrunk_find h root branch =
     bindM (worktrunk_list h root) (\<lambda>ts.
       (case find (\<lambda>t. wt_branch t = Some branch) ts of
          Some t \<Rightarrow> returnM (Some t) | None \<Rightarrow> branch_alone h root branch))"

section \<open>Creating and removing\<close>

definition create_arguments :: "string \<Rightarrow> ppath \<Rightarrow> string option \<Rightarrow> string list" where
  "create_arguments branch path base =
     [''--config-set'', ''worktree-path='' @ json_dumps_plain (PStr (path_str path)), ''switch'', branch, ''--create'',
      ''--no-cd'', ''-y'', ''--format'', ''json''] @ (case base of Some b \<Rightarrow> [''--base'', b] | None \<Rightarrow> [])"

definition worktrunk_create ::
  "host \<Rightarrow> (string \<Rightarrow> string) \<Rightarrow> ppath \<Rightarrow> string \<Rightarrow> ppath \<Rightarrow> string option \<Rightarrow> nat \<Rightarrow> (lworld, worktree option) io" where
  "worktrunk_create h dig root branch path base fuel =
     bindM (mutate h dig root (create_arguments branch path base) ''switch'' fuel) (\<lambda>out.
       (case out of
          None \<Rightarrow> returnM None
        | Some payload \<Rightarrow>
            bindM (liftM (bindE (wt_decode payload ''switch'') (\<lambda>v.
                guardE (is_dict v \<and> truthy (pget (items_of v) ''path''))
                  (WorktrunkErr ''wt switch published no worktree path'')))) (\<lambda>_.
            bindM (worktrunk_find h root branch) (\<lambda>found.
              (case found of
                 Some t \<Rightarrow> returnM (Some t)
               | None \<Rightarrow> raiseM (WorktrunkErr (''wt created '' @ branch @ '' but does not list it'')))))))"

definition REMOVE_ARGUMENTS :: "string list" where
  "REMOVE_ARGUMENTS = [''--foreground'', ''-y'', ''--format'', ''json'']"

definition remove_arguments :: "string \<Rightarrow> bool \<Rightarrow> bool \<Rightarrow> bool \<Rightarrow> string list" where
  "remove_arguments branch force keep_branch reap =
     [''remove'', branch] @ REMOVE_ARGUMENTS @ (if keep_branch then [''--no-delete-branch''] else [])
       @ (if reap then [''--reap''] else []) @ (if force then [''--force''] else [])"

definition worktrunk_remove ::
  "host \<Rightarrow> (string \<Rightarrow> string) \<Rightarrow> ppath \<Rightarrow> string \<Rightarrow> bool \<Rightarrow> bool \<Rightarrow> bool \<Rightarrow> nat \<Rightarrow> (lworld, unit option) io" where
  "worktrunk_remove h dig root branch force keep_branch reap fuel =
     bindM (mutate h dig root (remove_arguments branch force keep_branch reap) ''remove'' fuel) (\<lambda>out.
       returnM (map_option (\<lambda>s. ()) out))"

section \<open>Reading the registry back\<close>

text \<open>A worktree as Git prints it: its directory, the commit, the branch if it has one, and why it is
  locked if it is.\<close>

record printed_tree =
  pt_path :: string
  pt_head :: string
  pt_branch :: "string option"
  pt_lock :: "string option"

definition tree_records :: "printed_tree \<Rightarrow> string list" where
  "tree_records t =
     [''worktree '' @ pt_path t, ''HEAD '' @ pt_head t,
      (case pt_branch t of Some b \<Rightarrow> ''branch refs/heads/'' @ b | None \<Rightarrow> ''detached'')]
     @ (case pt_lock t of None \<Rightarrow> [] | Some reason \<Rightarrow> [if reason = [] then ''locked'' else ''locked '' @ reason])
     @ [[]]"

definition print_registry :: "printed_tree list \<Rightarrow> string" where
  "print_registry ts = concat (map (\<lambda>r. r @ [NUL]) (concat (map tree_records ts)))"

definition printable_tree :: "printed_tree \<Rightarrow> bool" where
  "printable_tree t \<longleftrightarrow> pt_path t \<noteq> [] \<and> list_all (\<lambda>r. NUL \<notin> set r) (tree_records t)"

definition tree_of :: "printed_tree \<Rightarrow> bool \<Rightarrow> worktree" where
  "tree_of t main =
     \<lparr>wt_branch = pt_branch t, wt_path = Some (mkpath (pt_path t)), wt_main = main, wt_locked = (pt_lock t \<noteq> None)\<rparr>"

lemma split_on_records:
  assumes "\<forall>r \<in> set rs. c \<notin> set r"
  shows "split_on c (concat (map (\<lambda>r. r @ [c]) rs)) = rs @ [[]]"
  using assms
proof (induction rs)
  case (Cons r rs)
  have "split_on c (r @ c # s) = r # split_on c s" if "c \<notin> set r" for s
    using that by (induction r) auto
  with Cons show ?case by simp
qed simp

lemma partition_word: "CHR '' '' \<notin> set k \<Longrightarrow> str_partition CHR '' '' (k @ CHR '' '' # v) = (k, True, v)"
  by (induction k) auto

lemma registry_tree:
  assumes "printable_tree t"
  shows "registry trees [] (tree_records t @ rs) = registry (trees @ [tree_of t (trees = [])]) [] rs"
proof -
  obtain c s where path: "pt_path t = c # s" using assms by (cases "pt_path t") (auto simp: printable_tree_def)
  have words: "str_partition CHR '' '' (''worktree '' @ v) = (''worktree'', True, v)"
    "str_partition CHR '' '' (''HEAD '' @ v) = (''HEAD'', True, v)"
    "str_partition CHR '' '' (''branch refs/heads/'' @ v) = (''branch'', True, ''refs/heads/'' @ v)"
    "str_partition CHR '' '' (''locked '' @ v) = (''locked'', True, v)" for v
    by simp_all
  show ?thesis
    by (cases "pt_branch t"; cases "pt_lock t")
      (auto simp: tree_records_def tree_of_def entry_def path dhas_def)
qed

text \<open>
  Every worktree that Git lists is read with its directory, its branch and its lock, and only the
  first one as the main checkout.
\<close>

theorem registry_read_back:
  assumes "list_all printable_tree (t # ts)"
  shows "registry [] [] (split_on NUL (print_registry (t # ts))) = tree_of t True # map (\<lambda>u. tree_of u False) ts"
proof -
  have more: "trees \<noteq> [] \<Longrightarrow> list_all printable_tree us \<Longrightarrow>
      registry trees [] (concat (map tree_records us) @ [[]]) = trees @ map (\<lambda>u. tree_of u False) us" for trees us
    by (induction us arbitrary: trees) (simp_all add: registry_tree)
  have "\<forall>r \<in> set (concat (map tree_records (t # ts))). NUL \<notin> set r"
    using assms by (auto simp: printable_tree_def list_all_iff)
  from split_on_records [OF this] show ?thesis
    using assms by (simp add: print_registry_def registry_tree more)
qed

theorem registry_read_back_witness:
  "map (\<lambda>t. (wt_branch t, wt_main t, wt_locked t)) (registry [] [] (split_on NUL (print_registry
     [\<lparr>pt_path = ''/r'', pt_head = ''0'', pt_branch = Some ''main'', pt_lock = None\<rparr>,
      \<lparr>pt_path = ''/w 1'', pt_head = ''1'', pt_branch = None, pt_lock = Some ''in use''\<rparr>])))
   = [(Some ''main'', True, False), (None, False, True)]"
proof -
  have "list_all printable_tree [\<lparr>pt_path = ''/r'', pt_head = ''0'', pt_branch = Some ''main'', pt_lock = None\<rparr>,
      \<lparr>pt_path = ''/w 1'', pt_head = ''1'', pt_branch = None, pt_lock = Some ''in use''\<rparr>]"
    by code_simp
  from registry_read_back [OF this] show ?thesis by (simp add: tree_of_def)
qed

section \<open>Waiting ends\<close>

lemma settle_index_ends:
  assumes "\<exists>k < n. float_le deadline_at (m_mono (h_sys h) (rw_clock w + 2 * k + 1))"
  shows "fst (settle_index h lock held deadline_at output verb n w) \<noteq> Inr None"
  using assms
proof (induction n arbitrary: w)
  case (Suc n)
  let ?w = "pass h (pass h w)"
  show ?case
  proof (cases "float_le deadline_at (m_mono (h_sys h) (rw_clock w + 1))")
    case True
    then show ?thesis by (simp add: bindM_def index_lock_state_def clock_now_def pass_def)
  next
    case False
    with Suc.prems obtain k where k: "k < Suc n" "k \<noteq> 0"
        "float_le deadline_at (m_mono (h_sys h) (rw_clock w + 2 * k + 1))"
      by (metis add.right_neutral mult_0_right)
    then have "float_le deadline_at (m_mono (h_sys h) (rw_clock ?w + 2 * (k - 1) + 1))"
      by (cases k) (simp_all add: pass_def)
    with k have "\<exists>j < n. float_le deadline_at (m_mono (h_sys h) (rw_clock ?w + 2 * j + 1))"
      by (intro exI [of _ "k - 1"]) auto
    from Suc.IH [OF this] False show ?thesis
      by (simp add: bindM_def index_lock_state_def clock_now_def pass_def)
  qed
qed simp

end
