(* ===== verification/Agentctl_Checkout.thy ===== *)
theory Agentctl_Checkout
  imports Agentctl_Worktrunk Agentctl_Projects Agentctl_History
begin

text \<open>
  What \<open>agentctl/worktree_cleanup.py\<close> asks of a checkout before it may go: which of its directories
  are caches, which files are evidence and where they are kept, and whether every path that Git
  does not track is one or the other. A pass over the files reads them at one instant.
\<close>

section \<open>Entries\<close>

definition WORKTREE_STATE_DIR :: string where "WORKTREE_STATE_DIR = ''.agentctl''"

fun is_cleanuperror :: "exn \<Rightarrow> bool" where
  "is_cleanuperror (CleanupErr m) = True"
| "is_cleanuperror _ = False"

definition child :: "ppath \<Rightarrow> string \<Rightarrow> ppath" where
  "child p n = (fst p, snd p @ [n])"

text \<open>The entry of a resolved directory.\<close>

definition entry_of :: "fs \<Rightarrow> ppath \<Rightarrow> string \<Rightarrow> fnode res" where
  "entry_of f d n =
     (case node_at f d of
        None \<Rightarrow> Inl FileNotFound
      | Some (Dir m) \<Rightarrow> (case node_at f (child d n) of None \<Rightarrow> Inl FileNotFound | Some x \<Rightarrow> Inr x)
      | Some x \<Rightarrow> Inl (OSErr ''Not a directory''))"

definition stat :: "fs \<Rightarrow> ppath \<Rightarrow> fnode res" where
  "stat f p = bindE (realpath f p) (\<lambda>q. if snd q = [] then Inr (Dir 493) else entry_of f (path_parent q) (path_name q))"

definition lstat :: "fs \<Rightarrow> ppath \<Rightarrow> fnode res" where
  "lstat f p =
     (if snd p = [] \<or> path_name p = ''..'' then stat f p
      else bindE (realpath f (path_parent p)) (\<lambda>d. entry_of f d (path_name p)))"

definition is_link :: "fs \<Rightarrow> ppath \<Rightarrow> bool" where
  "is_link f p \<longleftrightarrow> (case lstat f p of Inr (Symlink t) \<Rightarrow> True | _ \<Rightarrow> False)"

definition is_real_dir :: "fs \<Rightarrow> ppath \<Rightarrow> bool" where
  "is_real_dir f p \<longleftrightarrow> (case lstat f p of Inr (Dir m) \<Rightarrow> True | _ \<Rightarrow> False)"

definition is_regular :: "fnode \<Rightarrow> bool" where
  "is_regular x \<longleftrightarrow> (case x of RegFile b m \<Rightarrow> True | _ \<Rightarrow> False)"

text \<open>Only a confirmed missing entry proves absence.\<close>

definition path_entry_exists :: "fs \<Rightarrow> ppath \<Rightarrow> bool res" where
  "path_entry_exists f p =
     (case lstat f p of Inr x \<Rightarrow> Inr True | Inl e \<Rightarrow> if e = FileNotFound then Inr False else Inl e)"

definition under_dir :: "fs \<Rightarrow> ppath \<Rightarrow> ppath \<Rightarrow> bool res" where
  "under_dir f p root = bindE (realpath f p) (\<lambda>a. bindE (realpath f root) (\<lambda>b. Inr (is_relative_to a b)))"

section \<open>Caches\<close>

definition CACHE_SIGNATURE :: string where
  "CACHE_SIGNATURE = ''Signature: 8a477f597d28d172789f06886806bc55''"

text \<open>At most so many directories and nothing else; the pending ones are a stack.\<close>

fun empty_tree_from :: "fs \<Rightarrow> nat \<Rightarrow> ppath list \<Rightarrow> bool" where
  "empty_tree_from f n [] = True"
| "empty_tree_from f 0 (p # ps) = False"
| "empty_tree_from f (Suc n) (p # ps) =
     (case dir_entries f p of
        Inl e \<Rightarrow> False
      | Inr names \<Rightarrow>
          list_all (\<lambda>c. \<not> is_link f (child p c) \<and> fs_is_dir f (child p c)) names
          \<and> empty_tree_from f n (rev (map (child p) names) @ ps))"

definition empty_tree :: "fs \<Rightarrow> ppath \<Rightarrow> bool" where
  "empty_tree f p = empty_tree_from f 256 [p]"

definition signed_tag :: "fs \<Rightarrow> ppath \<Rightarrow> bool" where
  "signed_tag f tag \<longleftrightarrow>
     fs_is_file f tag
     \<and> (case fs_read f tag of Inr b \<Rightarrow> (case splitlines b of [] \<Rightarrow> False | l # ls \<Rightarrow> l = CACHE_SIGNATURE) | Inl e \<Rightarrow> False)"

definition cache_tag :: "ppath \<Rightarrow> ppath" where
  "cache_tag p = path_join p ''CACHEDIR.TAG''"

text \<open>The build output of a directory: its \<open>target\<close>, where that is tagged as a cache or empty.\<close>

definition cache_target :: "fs \<Rightarrow> ppath \<Rightarrow> ppath option" where
  "cache_target f path =
     (let target = path_join path ''target''
      in if is_link f target \<or> is_link f (cache_tag target) \<or> \<not> fs_is_dir f target then None
         else if \<not> signed_tag f (cache_tag target) \<and> \<not> empty_tree f target then None
         else Some target)"

definition bytecode_file :: "fs \<Rightarrow> ppath \<Rightarrow> bool" where
  "bytecode_file f p \<longleftrightarrow>
     \<not> is_link f p \<and> fs_is_file f p \<and> path_suffix p = ''.pyc''
     \<and> (case fs_read f p of Inr b \<Rightarrow> 16 \<le> length b \<and> take 2 (drop 2 b) = [char_of (13 :: nat), newline] | Inl e \<Rightarrow> False)"

definition bytecode_cache :: "fs \<Rightarrow> ppath \<Rightarrow> bool" where
  "bytecode_cache f p \<longleftrightarrow>
     path_name p = ''__pycache__'' \<and> \<not> is_link f p \<and> fs_is_dir f p
     \<and> (case dir_entries f p of Inr names \<Rightarrow> list_all (\<lambda>n. bytecode_file f (child p n)) names | Inl e \<Rightarrow> False)"

definition tagged_cache :: "fs \<Rightarrow> ppath \<Rightarrow> bool" where
  "tagged_cache f p \<longleftrightarrow>
     \<not> is_link f p \<and> fs_is_dir f p \<and> \<not> is_link f (cache_tag p) \<and> signed_tag f (cache_tag p)"

definition fs_rmdir :: "ppath \<Rightarrow> fs \<Rightarrow> fs res" where
  "fs_rmdir p f =
     bindE (realpath f (path_parent p)) (\<lambda>d.
       (case node_at f (child d (path_name p)) of
          None \<Rightarrow> Inl FileNotFound
        | Some (Dir m) \<Rightarrow>
            if fs_list f (child d (path_name p)) \<noteq> [] then Inl (OSErr ''Directory not empty'')
            else if d \<in> set (nowrite f) then Inl (OSErr ''Permission denied'')
            else Inr (fs_remove (child d (path_name p)) f)
        | Some x \<Rightarrow> Inl (OSErr ''Not a directory'')))"

definition remove_entry :: "ppath \<Rightarrow> string \<Rightarrow> unit \<Rightarrow> (fs, unit) io" where
  "remove_entry target n u =
     bindM getM (\<lambda>f.
       if child target n = cache_tag target then returnM ()
       else if fs_is_dir f (child target n) \<and> \<not> is_link f (child target n) then fs_rmtree (child target n)
       else fsM (fs_unlink (child target n)))"

text \<open>The tag of the cache goes last, so that a partial deletion is still recognised.\<close>

definition remove_cache :: "ppath \<Rightarrow> (fs, unit) io" where
  "remove_cache target =
     bindM getM (\<lambda>f.
     bindM (liftM (dir_entries f target)) (\<lambda>names.
     bindM (forM (remove_entry target) names ()) (\<lambda>_.
     bindM (fsM (unlink_missing_ok (cache_tag target))) (\<lambda>_. fsM (fs_rmdir target)))))"

text \<open>The compiler's cache for exactly this checkout.\<close>

definition external_cache :: "ctx \<Rightarrow> (string \<Rightarrow> string) \<Rightarrow> fs \<Rightarrow> ppath \<Rightarrow> ppath option res" where
  "external_cache c dig f path =
     bindE (realpath f path) (\<lambda>q.
     (let root = mkpath (case dget (c_env c) ''SINNIX_CARGO_CACHE_ROOT'' of Some s \<Rightarrow> s | None \<Rightarrow> ''/realm/state/cache/cargo'');
          parent = path_join (path_join root (show_nat (c_uid c))) (take 32 (dig (path_str q)));
          target = path_join parent ''target''
      in bindE (path_entry_exists f parent) (\<lambda>present.
         if \<not> present then Inr None
         else if list_ex (is_link f) [root, path_parent parent, parent, target]
         then Inl (CleanupErr (''compiler cache is symlinked; inspect '' @ path_str target))
         else bindE (dir_entries f parent) (\<lambda>names.
           if list_ex (\<lambda>n. n \<noteq> ''target'') names
           then Inl (CleanupErr (''compiler cache contains other evidence; inspect '' @ path_str parent))
           else if cache_target f parent \<noteq> Some target
           then Inl (CleanupErr (''compiler cache is not tagged or empty; inspect '' @ path_str target))
           else Inr (Some target)))))"

section \<open>Patterns\<close>

text \<open>The members of a bracket expression; its characters are ASCII.\<close>

fun class_member :: "string \<Rightarrow> char \<Rightarrow> bool" where
  "class_member (a # b # c # r) x =
     (if b = CHR ''-'' then (a \<le> x \<and> x \<le> c) \<or> class_member r x else a = x \<or> class_member (b # c # r) x)"
| "class_member s x = (x \<in> set s)"

text \<open>\<open>[...]\<close>: what is between the brackets and what follows, if it is closed.\<close>

definition bracket :: "string \<Rightarrow> (string \<times> string) option" where
  "bracket p =
     (let pre = (if prefix ''!'' p then 1 else 0);
          head = pre + (if prefix '']'' (drop pre p) then 1 else 0);
          body = takeWhile (\<lambda>c. c \<noteq> CHR '']'') (drop head p); n = head + length body
      in if n < length p then Some (take n p, drop (Suc n) p) else None)"

lemma bracket_shorter: "bracket p = Some (s, r) \<Longrightarrow> length r < length p"
  by (auto simp: bracket_def Let_def split: if_split_asm)

function glob_match :: "string \<Rightarrow> string \<Rightarrow> bool" where
  "glob_match [] s = (s = [])"
| "glob_match (c # p) s =
     (if c = CHR ''*'' then glob_match p s \<or> (case s of [] \<Rightarrow> False | x # r \<Rightarrow> glob_match (c # p) r)
      else (case s of
          [] \<Rightarrow> False
        | x # r \<Rightarrow>
            if c = CHR ''?'' then glob_match p (dropWhile cont r)
            else (case (if c = CHR ''['' then bracket p else None) of
                Some (cls, q) \<Rightarrow>
                  (if prefix ''!'' cls then \<not> class_member (tl cls) x else class_member cls x) \<and> glob_match q r
              | None \<Rightarrow> c = x \<and> glob_match p r)))"
  by pat_completeness auto
termination
  by (relation "measures [\<lambda>(p, s). length p + length s]")
    (auto dest!: bracket_shorter intro: le_less_trans [OF length_dropWhile_le] split: if_split_asm)

definition magic :: "string \<Rightarrow> bool" where
  "magic c \<longleftrightarrow> list_ex (\<lambda>x. x \<in> set ''*?['') c"

definition entries_at :: "fs \<Rightarrow> ppath \<Rightarrow> string list" where
  "entries_at f p = (case dir_entries f p of Inr names \<Rightarrow> names | Inl e \<Rightarrow> [])"

text \<open>The directories below a directory, itself first; links are not followed, and what is below a
  directory that cannot be read is not found.\<close>

definition nested_dirs :: "fs \<Rightarrow> ppath \<Rightarrow> ppath list" where
  "nested_dirs f p =
     (case realpath f p of
        Inl e \<Rightarrow> []
      | Inr q \<Rightarrow>
          if \<not> fs_is_dir f p then []
          else p # map (\<lambda>(d, x). (fst p, snd p @ drop (length (snd q)) (snd d)))
            (filter (\<lambda>(d, x). strict_prefix (snd q) (snd d) \<and> (case x of Dir m \<Rightarrow> True | _ \<Rightarrow> False)
               \<and> list_all (\<lambda>z. \<not> (is_relative_to z q \<and> is_relative_to d z \<and> z \<noteq> d)) (noread f)) (nodes f)))"

text \<open>\<open>Path.glob\<close> of a relative pattern.\<close>

fun glob_from :: "fs \<Rightarrow> ppath \<Rightarrow> string list \<Rightarrow> ppath list" where
  "glob_from f p [] = (case lstat f p of Inr x \<Rightarrow> [p] | Inl e \<Rightarrow> [])"
| "glob_from f p (c # cs) =
     (if c = ''**'' then
        (if cs = []
         then concat (map (\<lambda>d. d # filter (\<lambda>x. \<not> is_real_dir f x) (map (child d) (entries_at f d))) (nested_dirs f p))
         else concat (map (\<lambda>d. glob_from f d cs) (nested_dirs f p)))
      else if magic c then
        concat (map (\<lambda>n. glob_from f (child p n) cs) (filter (glob_match c) (entries_at f p)))
      else glob_from f (child p c) cs)"

definition path_glob :: "fs \<Rightarrow> ppath \<Rightarrow> string \<Rightarrow> ppath list" where
  "path_glob f p pattern = glob_from f p (snd (mkpath pattern))"

section \<open>Artifacts\<close>

definition relative_part :: "ppath \<Rightarrow> ppath \<Rightarrow> ppath" where
  "relative_part p root = ([], drop (length (snd root)) (snd p))"

definition add_artifact ::
  "fs \<Rightarrow> ppath \<Rightarrow> (ppath \<times> ppath) list \<Rightarrow> ppath \<Rightarrow> (ppath \<times> ppath) list res" where
  "add_artifact f path found candidate =
     (if is_link f candidate then Inl (CleanupErr (''artifact path escapes checkout: '' @ path_str candidate))
      else if fs_is_dir f candidate then Inr found
      else bindE (under_dir f candidate path) (\<lambda>inside.
        if \<not> inside then Inl (CleanupErr (''artifact path escapes checkout: '' @ path_str candidate))
        else (case stat f candidate of
            Inl e \<Rightarrow> if is_oserror e
              then Inl (CleanupErr (''cannot read artifact '' @ path_str candidate @ '': '' @ exn_str e)) else Inl e
          | Inr x \<Rightarrow>
              if is_regular x then Inr (dset (relative_part candidate path) candidate found)
              else Inl (CleanupErr (''artifact is not a regular file: '' @ path_str candidate)))))"

fun add_artifacts :: "fs \<Rightarrow> ppath \<Rightarrow> (ppath \<times> ppath) list \<Rightarrow> ppath list \<Rightarrow> (ppath \<times> ppath) list res" where
  "add_artifacts f path found [] = Inr found"
| "add_artifacts f path found (c # cs) =
     bindE (add_artifact f path found c) (\<lambda>found'. add_artifacts f path found' cs)"

definition artifact_paths :: "fs \<Rightarrow> ppath \<Rightarrow> string list \<Rightarrow> ppath list res" where
  "artifact_paths f path patterns =
     bindE (realpath f path) (\<lambda>root.
     bindE (add_artifacts f path [] (concat (map (path_glob f path) patterns))) (\<lambda>found.
       Inr (map snd (sort_key (\<lambda>(k, v). snd k) found))))"

definition artifact_destination :: "(string \<Rightarrow> string) \<Rightarrow> config \<Rightarrow> string \<Rightarrow> ppath \<Rightarrow> ppath \<Rightarrow> string \<Rightarrow> ppath" where
  "artifact_destination dig cfg run worktree relative digest =
     (let base = path_join (path_join (path_join (state_dir cfg) ''artifacts'') run) (take 16 (dig (path_str worktree)))
      in (fst base, snd base @ snd (path_parent relative) @ [path_name relative @ ''.'' @ take 16 digest]))"

definition file_digest :: "(string \<Rightarrow> string) \<Rightarrow> fs \<Rightarrow> ppath \<Rightarrow> string res" where
  "file_digest dig f p = bindE (fs_read f p) (\<lambda>b. Inr (dig b))"

definition copyfile :: "ppath \<Rightarrow> ppath \<Rightarrow> fs \<Rightarrow> fs res" where
  "copyfile src dst f =
     bindE (fs_read f src) (\<lambda>b.
     bindE (open_append 420 dst f) (\<lambda>(q, old). Inr (fs_put q (RegFile b (file_mode f q 420)) f)))"

definition temporary_of :: "ppath \<Rightarrow> ppath" where
  "temporary_of p = with_suffix (path_suffix p @ ''.tmp'') p"

definition copy_artifact ::
  "host \<Rightarrow> (string \<Rightarrow> string) \<Rightarrow> ppath \<Rightarrow> ppath \<Rightarrow> string \<Rightarrow> (lworld, unit) io" where
  "copy_artifact h dig source dest before =
     bindM (edit h (fsM (copyfile source (temporary_of dest)))) (\<lambda>_.
     bindM (peek h (\<lambda>f. file_digest dig f (temporary_of dest))) (\<lambda>copied.
       if copied \<noteq> before then
         bindM (edit h (fsM (unlink_missing_ok (temporary_of dest)))) (\<lambda>_.
           raiseM (CleanupErr (''artifact verification failed: '' @ path_str dest)))
       else edit h (fsM (fs_replace (temporary_of dest) dest))))"

definition preserve_artifact ::
  "host \<Rightarrow> (string \<Rightarrow> string) \<Rightarrow> config \<Rightarrow> string \<Rightarrow> ppath \<Rightarrow> ppath \<Rightarrow> string dict \<Rightarrow> (lworld, string dict) io" where
  "preserve_artifact h dig cfg run path source kept =
     bindM (peek h (\<lambda>f. file_digest dig f source)) (\<lambda>before.
     (let dest = artifact_destination dig cfg run path (relative_part source path) before
      in bindM (edit h (bindM (fsM (mkdir_p 448 (path_parent dest))) (\<lambda>_. fsM (fs_chmod 448 (path_parent dest))))) (\<lambda>_.
         bindM (peek h (\<lambda>f. Inr (fs_exists f dest))) (\<lambda>present.
         bindM (if present
             then bindM (peek h (\<lambda>f. file_digest dig f dest)) (\<lambda>d.
               if d \<noteq> before then raiseM (CleanupErr (''artifact destination differs: '' @ path_str dest)) else returnM ())
             else copy_artifact h dig source dest before) (\<lambda>_.
           returnM (dset (path_str source) (path_str dest) kept))))))"

definition artifact_patterns :: "project \<Rightarrow> string list" where
  "artifact_patterns project =
     [WORKTREE_STATE_DIR @ ''/**/*'', ''target/nextest/**/*'']
     @ (case pj_workspace project of Some w \<Rightarrow> wp_retain_artifacts w | None \<Rightarrow> [])"

text \<open>The copies made, by their source; the list in which a caller collects them is not modelled.\<close>

definition preserve_artifacts ::
  "host \<Rightarrow> (string \<Rightarrow> string) \<Rightarrow> config \<Rightarrow> project \<Rightarrow> string option \<Rightarrow> ppath \<Rightarrow> (lworld, string dict) io" where
  "preserve_artifacts h dig cfg project run path =
     bindM (peek h (\<lambda>f. artifact_paths f path (artifact_patterns project))) (\<lambda>sources.
       forM (preserve_artifact h dig cfg (case run of Some (c # s) \<Rightarrow> c # s | _ \<Rightarrow> ''orphan'') path) sources [])"

section \<open>Paths that Git does not track\<close>

text \<open>An index flag that hides what a tracked file holds.\<close>

fun index_obstacle :: "string list \<Rightarrow> string option res" where
  "index_obstacle [] = Inr None"
| "index_obstacle (r # rs) =
     (if r = [] then index_obstacle rs
      else if length r < 3 \<or> r ! 1 \<noteq> CHR '' '' then Inl (CleanupErr ''cannot inspect checkout index flags'')
      else if is_lower (hd r) \<or> hd r = CHR ''S''
      then Inr (Some (''worktree kept; index flags hide tracked state: '' @ str_repr (drop 2 r)))
      else index_obstacle rs)"

definition covered_dir :: "ppath \<Rightarrow> ppath list \<Rightarrow> ppath \<Rightarrow> bool" where
  "covered_dir path sources d \<longleftrightarrow>
     is_relative_to d path \<and> list_ex (\<lambda>s. is_relative_to s d \<and> s \<noteq> d) sources"

text \<open>The copies are still what their sources are.\<close>

fun changed_artifact :: "(string \<Rightarrow> string) \<Rightarrow> fs \<Rightarrow> (string \<times> string) list \<Rightarrow> string option res" where
  "changed_artifact dig f [] = Inr None"
| "changed_artifact dig f ((source, dest) # rest) =
     bindE (lstat f (mkpath source)) (\<lambda>x.
     bindE (if is_regular x then lstat f (mkpath dest) else Inr x) (\<lambda>y.
       if \<not> (is_regular x \<and> is_regular y)
       then Inr (Some (''worktree kept; retained artifact is no longer a regular file: '' @ str_repr source))
       else bindE (file_digest dig f (mkpath source)) (\<lambda>a.
         bindE (file_digest dig f (mkpath dest)) (\<lambda>b.
           if a \<noteq> b then Inr (Some (''worktree kept; artifact changed after preservation: '' @ str_repr source))
           else changed_artifact dig f rest))))"

definition unpreserved :: "string \<Rightarrow> string \<Rightarrow> ppath \<Rightarrow> string" where
  "unpreserved kind what p =
     ''worktree kept; '' @ kind @ '' '' @ what @ '' is not preserved: '' @ str_repr (path_str p)"

definition entry_problem :: "fs \<Rightarrow> ppath list \<Rightarrow> (ppath \<Rightarrow> bool) \<Rightarrow> string \<Rightarrow> ppath \<Rightarrow> string option" where
  "entry_problem f sources covered kind p =
     (if is_real_dir f p then (if covered p then None else Some (unpreserved kind ''directory'' p))
      else if p \<in> set sources then None else Some (unpreserved kind ''path'' p))"

text \<open>The walk over the untracked and the ignored paths; the fuel counts the paths visited.\<close>

fun scan_paths ::
  "nat \<Rightarrow> fs \<Rightarrow> ppath list \<Rightarrow> ppath list \<Rightarrow> (ppath \<Rightarrow> bool) \<Rightarrow> (ppath \<times> string) list \<Rightarrow> string option option res" where
  "scan_paths n f disposable sources covered [] = Inr (Some None)"
| "scan_paths 0 f disposable sources covered (x # xs) = Inr None"
| "scan_paths (Suc n) f disposable sources covered ((p, kind) # rest) =
     (if p \<in> set disposable then scan_paths n f disposable sources covered rest
      else bindE (lstat f p) (\<lambda>x.
        (case x of
           Dir m \<Rightarrow>
             if covered p then
               bindE (dir_entries f p) (\<lambda>names.
               (let children = map (child p) names
                in (case List.map_filter (entry_problem f sources covered kind) children of
                      problem # others \<Rightarrow> Inr (Some (Some problem))
                    | [] \<Rightarrow> scan_paths n f disposable sources covered
                        (rev (map (\<lambda>c. (c, kind)) (filter (is_real_dir f) children)) @ rest))))
             else if empty_tree f p then scan_paths n f disposable sources covered rest
             else Inr (Some (Some (unpreserved kind ''directory'' p)))
         | _ \<Rightarrow>
             if p \<in> set sources then scan_paths n f disposable sources covered rest
             else Inr (Some (Some (unpreserved kind ''path'' p))))))"

end
