(* ===== verification/Agentctl_Cleanup.thy ===== *)
theory Agentctl_Cleanup
  imports Agentctl_Checkout
begin

text \<open>
  The release of one checkout, \<open>_drop_branch\<close> of \<open>agentctl/worktree_cleanup.py\<close>. The processes that
  use a directory are a parameter, \<open>users\<close>, as they are an argument of the code. Its result is
  \<open>None\<close> where the fuel of a walk or of a wait ends; otherwise it is why the checkout was kept, if it
  was.
\<close>

section \<open>Git\<close>

definition cleanup_git :: "host \<Rightarrow> ppath \<Rightarrow> string list \<Rightarrow> (lworld, string) io" where
  "cleanup_git h path args = git_call h CleanupErr path args [0] False False"

text \<open>A question that Git may answer with status 1, and then with nothing.\<close>

definition cleanup_probe :: "host \<Rightarrow> ppath \<Rightarrow> string list \<Rightarrow> (lworld, string) io" where
  "cleanup_probe h path args = git_call h CleanupErr path args [0, 1] False False"

definition dirty_paths :: "host \<Rightarrow> ppath \<Rightarrow> (lworld, string list) io" where
  "dirty_paths h path =
     bindM (cleanup_git h path [''status'', ''--porcelain=v1'']) (\<lambda>out.
       returnM (filter (\<lambda>l. \<not> (prefix ''??'' l \<and> prefix (WORKTREE_STATE_DIR @ ''/'') (drop 3 l))) (splitlines out)))"

definition cargo_cache :: "host \<Rightarrow> ppath \<Rightarrow> bool \<Rightarrow> (lworld, ppath option) io" where
  "cargo_cache h path registered =
     bindM (peek h (\<lambda>f. Inr (cache_target f path))) (\<lambda>t.
       (case t of
          None \<Rightarrow> returnM None
        | Some target \<Rightarrow>
            if \<not> registered then returnM (Some target)
            else bindM (cleanup_git h path [''ls-files'', ''--'', ''target'']) (\<lambda>tracked.
              if tracked \<noteq> [] then returnM None
              else bindM (cleanup_probe h path [''check-ignore'', ''target'']) (\<lambda>ignored.
                returnM (if ignored = [] then None else Some target)))))"

definition ignored_caches :: "host \<Rightarrow> ppath \<Rightarrow> (lworld, ppath list) io" where
  "ignored_caches h path =
     bindM (cleanup_git h path
         [''ls-files'', ''--others'', ''--ignored'', ''--exclude-standard'', ''--directory'', ''-z'']) (\<lambda>out.
       peek h (\<lambda>f. Inr (filter (\<lambda>p. p \<noteq> path_join path ''target'' \<and> (bytecode_cache f p \<or> tagged_cache f p))
         (map (path_join path) (filter (\<lambda>n. n \<noteq> []) (split_on NUL out))))))"

definition task_user :: "fs \<Rightarrow> ppath \<Rightarrow> task \<Rightarrow> string list res" where
  "task_user f path t =
     (if terminal t \<or> \<not> path_absolute (mkpath (tk_path t)) then Inr []
      else bindE (under_dir f (mkpath (tk_path t)) path) (\<lambda>inside.
        Inr (if inside then [''task '' @ show_int (tk_id t) @ '' '' @ str_lower (tk_status t) @ '' cwd ''
          @ path_str (mkpath (tk_path t))] else [])))"

definition task_users :: "host \<Rightarrow> ppath \<Rightarrow> (lworld, string list) io" where
  "task_users h path =
     bindM (catchM (tasks_all (h_daemon h))
         (\<lambda>e. if is_pueueerror e then raiseM (CleanupErr (''cannot inspect pueue users: '' @ exn_str e)) else raiseM e)) (\<lambda>ts.
       peek h (\<lambda>f. bindE (mapE (task_user f path) (map snd ts)) (\<lambda>us. Inr (concat us))))"

definition census :: "host \<Rightarrow> (nat \<Rightarrow> ppath \<Rightarrow> string list res) \<Rightarrow> ppath \<Rightarrow> (lworld, string list) io" where
  "census h users path w = (users (rw_clock w) path, pass h w)"

definition all_users :: "host \<Rightarrow> (nat \<Rightarrow> ppath \<Rightarrow> string list res) \<Rightarrow> ppath \<Rightarrow> (lworld, string list) io" where
  "all_users h users path =
     bindM (task_users h path) (\<lambda>ts. bindM (census h users path) (\<lambda>ps. returnM (ts @ ps)))"

definition recovery_ref ::
  "host \<Rightarrow> (string \<Rightarrow> string) \<Rightarrow> ppath \<Rightarrow> string option \<Rightarrow> ppath \<Rightarrow> string \<Rightarrow> (lworld, string) io" where
  "recovery_ref h dig root run path head =
     (let ref = ''refs/agentctl/recovery/'' @ (case run of Some (c # s) \<Rightarrow> c # s | _ \<Rightarrow> ''orphan'') @ ''/''
            @ take 16 (dig (path_str path)) @ ''/'' @ head
      in bindM (cleanup_probe h root [''rev-parse'', ''--verify'', ''--quiet'', ref @ ''^{commit}'']) (\<lambda>existing.
         if existing \<noteq> [] \<and> existing \<noteq> head then raiseM (CleanupErr (''recovery ref differs: '' @ ref))
         else
           bindM (if existing = [] then cleanup_git h root [''update-ref'', ref, head] else returnM []) (\<lambda>_.
           bindM (cleanup_git h root [''rev-parse'', ''--verify'', ref @ ''^{commit}'']) (\<lambda>verified.
             if verified \<noteq> head
             then raiseM (CleanupErr (''recovery ref did not retain '' @ head @ '': '' @ ref)) else returnM ref))))"

section \<open>What Git cannot prove\<close>

definition common_dir :: "host \<Rightarrow> ppath \<Rightarrow> (lworld, ppath) io" where
  "common_dir h path =
     bindM (cleanup_git h path [''rev-parse'', ''--path-format=absolute'', ''--git-common-dir'']) (\<lambda>d.
       peek h (\<lambda>f. realpath f (mkpath d)))"

definition untracked :: "host \<Rightarrow> ppath \<Rightarrow> string \<Rightarrow> string list \<Rightarrow> (lworld, (ppath \<times> string) list) io" where
  "untracked h path kind flags =
     bindM (cleanup_git h path ([''ls-files'', ''--others''] @ flags @ [''--exclude-standard'', ''--directory'', ''-z'']))
       (\<lambda>out. returnM (map (\<lambda>n. (path_join path n, kind)) (filter (\<lambda>n. n \<noteq> []) (split_on NUL out))))"

definition preservation_obstacle ::
  "host \<Rightarrow> (string \<Rightarrow> string) \<Rightarrow> ppath \<Rightarrow> string dict \<Rightarrow> ppath list \<Rightarrow> nat \<Rightarrow> (lworld, string option option) io" where
  "preservation_obstacle h dig path preserved disposable fuel =
     bindM (peek h (\<lambda>f. changed_artifact dig f preserved)) (\<lambda>changed.
       (case changed of
          Some reason \<Rightarrow> returnM (Some (Some reason))
        | None \<Rightarrow>
            bindM (untracked h path ''ignored'' [''--ignored'']) (\<lambda>ignored.
            bindM (untracked h path ''untracked'' []) (\<lambda>others.
            (let sources = map (\<lambda>(s, d). mkpath s) preserved
             in peek h (\<lambda>f. scan_paths fuel f disposable sources (covered_dir path sources) (rev (ignored @ others))))))))"

definition cleanup_obstacle ::
  "host \<Rightarrow> (string \<Rightarrow> string) \<Rightarrow> ppath \<Rightarrow> ppath \<Rightarrow> string dict option \<Rightarrow> ppath list \<Rightarrow> nat
     \<Rightarrow> (lworld, string option option) io" where
  "cleanup_obstacle h dig root path preserved disposable fuel =
     bindM (common_dir h path) (\<lambda>own.
     bindM (common_dir h root) (\<lambda>shared.
       if own \<noteq> shared then returnM (Some (Some ''worktree kept; checkout belongs to another Git repository''))
       else
         bindM (cleanup_git h path [''ls-files'', ''-v'', ''-z'']) (\<lambda>out.
         bindM (liftM (index_obstacle (split_on NUL out))) (\<lambda>hidden.
           (case (hidden, preserved) of
              (Some reason, _) \<Rightarrow> returnM (Some (Some reason))
            | (None, None) \<Rightarrow> returnM (Some None)
            | (None, Some kept) \<Rightarrow> preservation_obstacle h dig path kept disposable fuel)))))"

section \<open>The record of a run\<close>

fun json_indent :: "nat \<Rightarrow> pyval \<Rightarrow> string" where
  "json_indent n (PList vs) =
     (if vs = [] then ''[]''
      else ''['' @ [newline] @ str_join ('','' @ [newline]) (map (\<lambda>v. replicate (n + 2) CHR '' '' @ json_indent (n + 2) v) vs)
        @ [newline] @ replicate n CHR '' '' @ '']'')"
| "json_indent n (PDict d) =
     (if d = [] then ''{}''
      else ''{'' @ [newline]
        @ str_join ('','' @ [newline]) (map snd (sort_key fst (map (\<lambda>(k, v).
            (k, replicate (n + 2) CHR '' '' @ json_quote k @ '': '' @ json_indent (n + 2) v)) d)))
        @ [newline] @ replicate n CHR '' '' @ ''}'')"
| "json_indent n v = json_dumps_plain v"

fun replace_paths :: "string dict \<Rightarrow> pyval \<Rightarrow> pyval" where
  "replace_paths reps (PStr s) = PStr (case dget reps s of Some t \<Rightarrow> t | None \<Rightarrow> s)"
| "replace_paths reps (PList vs) = PList (map (replace_paths reps) vs)"
| "replace_paths reps (PDict d) = PDict (map (\<lambda>(k, v). (k, replace_paths reps v)) d)"
| "replace_paths reps v = v"

text \<open>An artifact recorded earlier is found under its earlier copy, too.\<close>

fun add_replacements :: "string dict \<Rightarrow> string dict \<Rightarrow> pyval list \<Rightarrow> string dict res" where
  "add_replacements copied reps [] = Inr reps"
| "add_replacements copied reps (PDict a # as) =
     (case (pget a ''source'', pget a ''destination'') of
        (PList vs, _) \<Rightarrow> Inl TypeErr
      | (PDict d, _) \<Rightarrow> Inl TypeErr
      | (PStr s, PStr d) \<Rightarrow> add_replacements copied (case dget copied s of Some t \<Rightarrow> dset d t reps | None \<Rightarrow> reps) as
      | _ \<Rightarrow> add_replacements copied reps as)"
| "add_replacements copied reps (v # as) = Inl AttributeErr"

definition retain_copies :: "string dict \<Rightarrow> pydict \<Rightarrow> pydict res" where
  "retain_copies copied document =
     bindE (py_iter (pget_or document ''artifacts'' (PList []))) (\<lambda>history.
     bindE (add_replacements copied copied history) (\<lambda>reps.
       Inr (items_of (replace_paths reps (PDict (dpop ''artifacts'' document)))
         @ [(''artifacts'', PList (history @ map (\<lambda>(s, d). PDict [(''source'', PStr s), (''destination'', PStr d)]) copied))])))"

text \<open>\<open>_custody_lock\<close>: the lock file of a record; a link in its place is refused.\<close>

definition custody_file :: "ppath \<Rightarrow> fs \<Rightarrow> fs res" where
  "custody_file p f =
     (if is_link f p then Inl (OSErr ''Too many levels of symbolic links'')
      else bindE (open_append 384 p f) (\<lambda>(q, b). Inr (fs_put q (RegFile b (file_mode f q 384)) f)))"

definition custody_lock :: "host \<Rightarrow> ppath \<Rightarrow> (lworld, unit) io" where
  "custody_lock h p =
     edit h (bindM (fsM (mkdir_p 448 (path_parent p))) (\<lambda>_.
       bindM (fsM (fs_chmod 448 (path_parent p))) (\<lambda>_. fsM (custody_file p))))"

definition update_custody ::
  "host \<Rightarrow> config \<Rightarrow> string \<Rightarrow> (pydict \<Rightarrow> pydict res) \<Rightarrow> (lworld, unit) io" where
  "update_custody h cfg run retain =
     bindM (liftM (manifest_path cfg run)) (\<lambda>path.
     bindM (custody_lock h (with_suffix ''.lock'' path)) (\<lambda>_.
     bindM (peek h (\<lambda>f. bindE (load_run cfg f run) (\<lambda>d. bindE (retain d) (\<lambda>d'. from_dict (PDict d'))))) (\<lambda>document.
       edit h (fsM (fs_publish path (json_indent 0 (PDict document) @ [newline]) 384)))))"

section \<open>One checkout\<close>

record drop_request =
  dr_branch :: string
  dr_recorded :: "ppath option"
  dr_run :: "string option"
  dr_delete :: bool
  dr_registry :: "worktree list option"
  dr_disposable :: "ppath list"
  dr_expected :: "string option"
  dr_preserved :: "string dict option"

definition branch_ref :: "string \<Rightarrow> string" where
  "branch_ref branch = ''refs/heads/'' @ branch"

definition branch_commit :: "host \<Rightarrow> ppath \<Rightarrow> string \<Rightarrow> (lworld, string) io" where
  "branch_commit h root branch =
     cleanup_probe h root [''rev-parse'', ''--verify'', ''--quiet'', branch_ref branch @ ''^{commit}'']"

definition moved_from :: "string option \<Rightarrow> string \<Rightarrow> bool" where
  "moved_from expected head \<longleftrightarrow> (case expected of Some e \<Rightarrow> head \<noteq> e | None \<Rightarrow> False)"

definition retire_branch :: "host \<Rightarrow> (string \<Rightarrow> string) \<Rightarrow> ppath \<Rightarrow> drop_request \<Rightarrow> (lworld, unit) io" where
  "retire_branch h dig root req =
     bindM (branch_commit h root (dr_branch req)) (\<lambda>head.
       if head = [] then returnM ()
       else if moved_from (dr_expected req) head then raiseM (CleanupErr ''branch moved after publication proof'')
       else
         bindM (recovery_ref h dig root (dr_run req) (case dr_recorded req of Some p \<Rightarrow> p | None \<Rightarrow> root) head) (\<lambda>_.
         bindM (cleanup_git h root [''update-ref'', ''-d'', branch_ref (dr_branch req), head]) (\<lambda>_. returnM ())))"

text \<open>A job below the checkout whose cancellation is not complete.\<close>

fun pending_cancellation ::
  "(string list \<Rightarrow> proc_result) \<Rightarrow> fs \<Rightarrow> ppath \<Rightarrow> ppath list \<Rightarrow> bool res" where
  "pending_cancellation sc f target [] = Inr False"
| "pending_cancellation sc f target (p # ps) =
     (case pget (case read_outcome f (Some p) MAX_LAUNCH_INPUT_BYTES of Some d \<Rightarrow> d | None \<Rightarrow> []) ''working_directory'' of
        PStr cwd \<Rightarrow>
          bindE (under_dir f (mkpath cwd) target) (\<lambda>inside.
            if \<not> inside then pending_cancellation sc f target ps
            else bindE (cancellation_obstacle sc f (read_outcome f (Some (disposition_path p)) MAX_LAUNCH_INPUT_BYTES))
              (\<lambda>ob. if ob \<noteq> None then Inr True else pending_cancellation sc f target ps))
      | v \<Rightarrow> pending_cancellation sc f target ps)"

definition retained_inputs :: "config \<Rightarrow> fs \<Rightarrow> ppath list" where
  "retained_inputs cfg f = path_glob f (inputs_dir cfg) ''*.json''"

text \<open>Where the checkout is, what \<open>wt\<close> is asked to remove, and whether it is detached.\<close>

definition checkout_of :: "worktree list \<Rightarrow> worktree option \<Rightarrow> drop_request \<Rightarrow> ppath option \<times> string \<times> bool" where
  "checkout_of reg tree req =
     (case List.find (\<lambda>t. \<not> wt_main t \<and> wt_branch t = None \<and> dr_recorded req \<noteq> None \<and> wt_path t = dr_recorded req) reg of
        Some t \<Rightarrow> (wt_path t, path_str (the (wt_path t)), True)
      | None \<Rightarrow> (case tree of Some t \<Rightarrow> wt_path t | None \<Rightarrow> None, dr_branch req, False))"

datatype checkout_state = Absent | Directory | Unusable string

definition checkout_state :: "fs \<Rightarrow> ppath \<Rightarrow> checkout_state res" where
  "checkout_state f path =
     (let unusable = (\<lambda>e. if is_oserror e
            then Inr (Unusable (''worktree kept; cannot inspect checkout: '' @ exn_str e)) else Inl e)
      in (case stat f path of
            Inr (Dir m) \<Rightarrow> Inr Directory
          | Inr x \<Rightarrow> Inr (Unusable ''worktree kept; checkout path is not a directory'')
          | Inl e \<Rightarrow>
              if e = FileNotFound then
                (case lstat f path of
                   Inr x \<Rightarrow> Inr (Unusable ''worktree kept; checkout path is a broken link'')
                 | Inl e' \<Rightarrow> if e' = FileNotFound then Inr Absent else unusable e')
              else unusable e))"

text \<open>An error of an inspection keeps the checkout.\<close>

definition guarded :: "(lworld, string option option) io \<Rightarrow> (lworld, string option option) io" where
  "guarded m =
     catchM m (\<lambda>e. if is_cleanuperror e \<or> is_oserror e
       then returnM (Some (Some (''worktree kept; '' @ exn_str e))) else raiseM e)"

definition unless_kept ::
  "(lworld, string option option) io \<Rightarrow> (lworld, string option option) io \<Rightarrow> (lworld, string option option) io" where
  "unless_kept m k = bindM m (\<lambda>r. case r of Some None \<Rightarrow> k | kept \<Rightarrow> returnM kept)"

definition no_users :: "string list \<Rightarrow> string option" where
  "no_users us = (case us of [] \<Rightarrow> None | u # r \<Rightarrow> Some (''worktree kept; active user: '' @ u))"

definition first_look ::
  "host \<Rightarrow> (string \<Rightarrow> string) \<Rightarrow> (nat \<Rightarrow> ppath \<Rightarrow> string list res) \<Rightarrow> ppath \<Rightarrow> ppath \<Rightarrow> nat
     \<Rightarrow> (lworld, string option option) io" where
  "first_look h dig users root path fuel =
     guarded (unless_kept (cleanup_obstacle h dig root path None [] fuel)
       (bindM (dirty_paths h path) (\<lambda>dirty.
        bindM (all_users h users path) (\<lambda>us.
          returnM (Some (if dirty \<noteq> [] then Some ''worktree kept; uncommitted changes'' else no_users us))))))"

definition kept_if :: "bool \<Rightarrow> string \<Rightarrow> (lworld, string option option) io" where
  "kept_if b reason = returnM (Some (if b then Some reason else None))"

text \<open>The branch, or the detached checkout, still names the commit that was seen.\<close>

definition still_at ::
  "host \<Rightarrow> ppath \<Rightarrow> ppath \<Rightarrow> string \<Rightarrow> bool \<Rightarrow> string \<Rightarrow> (lworld, string option option) io" where
  "still_at h root path branch detached head =
     (if detached then
        bindM (cleanup_git h path [''rev-parse'', ''HEAD'']) (\<lambda>now.
          kept_if (now \<noteq> head) ''worktree kept; detached checkout HEAD changed'')
      else
        bindM (branch_commit h root branch) (\<lambda>tip.
          if tip \<noteq> head then kept_if True ''worktree kept; branch no longer names checkout HEAD''
          else bindM (cleanup_git h path [''rev-parse'', ''HEAD'']) (\<lambda>now.
            kept_if (tip \<noteq> now) ''worktree kept; branch no longer names checkout HEAD'')))"

text \<open>The last look, with everything preserved.\<close>

definition last_look ::
  "host \<Rightarrow> (string \<Rightarrow> string) \<Rightarrow> (nat \<Rightarrow> ppath \<Rightarrow> string list res) \<Rightarrow> ppath \<Rightarrow> ppath \<Rightarrow> drop_request \<Rightarrow> bool
     \<Rightarrow> string \<Rightarrow> string dict \<Rightarrow> nat \<Rightarrow> (lworld, string option option) io" where
  "last_look h dig users root path req detached head copied fuel =
     unless_kept (cleanup_obstacle h dig root path (Some copied) (dr_disposable req) fuel)
       (unless_kept (bindM (dirty_paths h path) (\<lambda>dirty.
           kept_if (dirty \<noteq> []) ''worktree kept; uncommitted changes''))
         (unless_kept (still_at h root path (dr_branch req) detached head)
           (bindM (all_users h users path) (\<lambda>us. returnM (Some (no_users us))))))"

definition keep_copies :: "host \<Rightarrow> config \<Rightarrow> drop_request \<Rightarrow> string dict \<Rightarrow> (lworld, unit) io" where
  "keep_copies h cfg req copied =
     (case dr_run req of
        Some run \<Rightarrow> if copied \<noteq> [] then update_custody h cfg run (retain_copies copied) else returnM ()
      | None \<Rightarrow> returnM ())"

definition release_look ::
  "host \<Rightarrow> (string \<Rightarrow> string) \<Rightarrow> (nat \<Rightarrow> ppath \<Rightarrow> string list res) \<Rightarrow> config \<Rightarrow> project \<Rightarrow> ppath \<Rightarrow> drop_request \<Rightarrow> bool
     \<Rightarrow> nat \<Rightarrow> (lworld, string option option) io" where
  "release_look h dig users cfg project path req detached fuel =
     guarded (bindM (cleanup_git h path [''rev-parse'', ''HEAD'']) (\<lambda>head.
       if moved_from (dr_expected req) head
       then kept_if True ''worktree kept; HEAD changed after publication proof''
       else
         bindM (branch_commit h (pj_root project) (dr_branch req)) (\<lambda>tip.
         bindM (if detached \<or> dr_delete req
             then recovery_ref h dig (pj_root project) (dr_run req) path head else returnM []) (\<lambda>_.
           if \<not> detached \<and> tip \<noteq> head then kept_if True ''worktree kept; branch no longer names checkout HEAD''
           else
             bindM (case dr_preserved req of
                 Some copied \<Rightarrow> returnM copied
               | None \<Rightarrow> preserve_artifacts h dig cfg project (dr_run req) path) (\<lambda>copied.
             bindM (keep_copies h cfg req copied) (\<lambda>_.
               last_look h dig users (pj_root project) path req detached head copied fuel))))))"

section \<open>Removal\<close>

definition remove_output :: "host \<Rightarrow> (string \<Rightarrow> string) \<Rightarrow> ppath \<Rightarrow> ppath \<Rightarrow> (lworld, unit) io" where
  "remove_output h dig path output =
     bindM (peek h (\<lambda>f. Inr (is_relative_to output path \<and> output \<noteq> path_join path ''target''
         \<and> (bytecode_cache f output \<or> tagged_cache f output)))) (\<lambda>cache.
       if cache then edit h (remove_cache output)
       else
         (let inside = (path_parent output = path); changed = CleanupErr (''build output changed before removal: '' @ path_str output)
          in bindM (if inside then returnM (Some output)
                else peek h (\<lambda>f. external_cache (h_ctx h) dig f path)) (\<lambda>own.
             if own \<noteq> Some output then raiseM changed
             else bindM (cargo_cache h (path_parent output) inside) (\<lambda>t.
               if t \<noteq> Some output then raiseM changed
               else bindM (edit h (remove_cache output)) (\<lambda>_.
                 if inside then returnM () else edit h (fsM (fs_rmdir (path_parent output))))))))"

definition remove_outputs :: "host \<Rightarrow> (string \<Rightarrow> string) \<Rightarrow> ppath \<Rightarrow> ppath list \<Rightarrow> (lworld, unit) io" where
  "remove_outputs h dig path outputs = forM (\<lambda>output u. remove_output h dig path output) outputs ()"

text \<open>The branch goes only after the checkout.\<close>

definition retire_after ::
  "host \<Rightarrow> (string \<Rightarrow> string) \<Rightarrow> ppath \<Rightarrow> drop_request \<Rightarrow> (lworld, string option option) io" where
  "retire_after h dig root req =
     (if dr_delete req
      then catchM (bindM (retire_branch h dig root req) (\<lambda>_. returnM (Some None)))
        (\<lambda>e. if is_cleanuperror e then returnM (Some (Some (''branch kept; '' @ exn_str e))) else raiseM e)
      else returnM (Some None))"

definition confirm_gone :: "host \<Rightarrow> ppath \<Rightarrow> (lworld, string option option) io" where
  "confirm_gone h path =
     catchM (bindM (peek h (\<lambda>f. path_entry_exists f path)) (\<lambda>present.
         kept_if present (''worktree kept; checkout path remains after removal: '' @ path_str path)))
       (\<lambda>e. if is_oserror e
         then returnM (Some (Some (''worktree kept; cannot verify checkout removal: '' @ exn_str e))) else raiseM e)"

definition remove_checkout ::
  "host \<Rightarrow> (string \<Rightarrow> string) \<Rightarrow> ppath \<Rightarrow> ppath \<Rightarrow> string \<Rightarrow> ppath list \<Rightarrow> nat \<Rightarrow> (lworld, string option option) io" where
  "remove_checkout h dig root path removal_target outputs fuel =
     catchM (bindM (remove_outputs h dig path outputs) (\<lambda>_.
         bindM (worktrunk_remove h dig root removal_target False True False fuel) (\<lambda>r.
           returnM (map_option (\<lambda>u. None) r))))
       (\<lambda>e. if is_worktrunkerror e \<or> is_cleanuperror e \<or> is_oserror e
         then returnM (Some (Some (exn_str e))) else raiseM e)"

text \<open>Whether the checkout may go: it is absent, or it has passed both looks.\<close>

definition inspect_checkout ::
  "host \<Rightarrow> (string \<Rightarrow> string) \<Rightarrow> (nat \<Rightarrow> ppath \<Rightarrow> string list res) \<Rightarrow> config \<Rightarrow> project \<Rightarrow> ppath \<Rightarrow> string \<Rightarrow> bool
     \<Rightarrow> drop_request \<Rightarrow> nat \<Rightarrow> (lworld, string option option) io" where
  "inspect_checkout h dig users cfg project path removal_target detached req fuel =
     bindM (peek h (\<lambda>f. checkout_state f path)) (\<lambda>state.
       (case state of
          Unusable reason \<Rightarrow> kept_if True reason
        | Absent \<Rightarrow> kept_if (removal_target = dr_branch req) ''worktree kept; checkout path is unavailable''
        | Directory \<Rightarrow>
            unless_kept (first_look h dig users (pj_root project) path fuel)
              (release_look h dig users cfg project path req detached fuel)))"

definition drop_registered ::
  "host \<Rightarrow> (string \<Rightarrow> string) \<Rightarrow> (nat \<Rightarrow> ppath \<Rightarrow> string list res) \<Rightarrow> config \<Rightarrow> project \<Rightarrow> ppath \<Rightarrow> string \<Rightarrow> bool
     \<Rightarrow> drop_request \<Rightarrow> nat \<Rightarrow> (lworld, string option option) io" where
  "drop_registered h dig users cfg project path removal_target detached req fuel =
     unless_kept (inspect_checkout h dig users cfg project path removal_target detached req fuel)
       (unless_kept (remove_checkout h dig (pj_root project) path removal_target (dr_disposable req) fuel)
         (unless_kept (confirm_gone h path) (retire_after h dig (pj_root project) req)))"

definition drop_unregistered ::
  "host \<Rightarrow> (string \<Rightarrow> string) \<Rightarrow> ppath \<Rightarrow> drop_request \<Rightarrow> (lworld, string option option) io" where
  "drop_unregistered h dig root req =
     unless_kept
       (case dr_recorded req of
          None \<Rightarrow> returnM (Some None)
        | Some p \<Rightarrow>
            catchM (bindM (peek h (\<lambda>f. path_entry_exists f p)) (\<lambda>present.
                kept_if present (''worktree kept; checkout path is unregistered: '' @ path_str p)))
              (\<lambda>e. if is_oserror e
                then returnM (Some (Some (''worktree kept; cannot inspect recorded checkout: '' @ exn_str e))) else raiseM e))
       (retire_after h dig root req)"

text \<open>The registered worktree of the branch, from the registry that was given or is read.\<close>

definition registered_tree ::
  "host \<Rightarrow> ppath \<Rightarrow> drop_request \<Rightarrow> (lworld, worktree list \<times> worktree option) io" where
  "registered_tree h root req =
     bindM (case dr_registry req of Some ts \<Rightarrow> returnM ts | None \<Rightarrow> worktrunk_list h root) (\<lambda>reg.
     bindM (case List.find (\<lambda>t. wt_branch t = Some (dr_branch req)) reg of
         Some t \<Rightarrow> returnM (Some t)
       | None \<Rightarrow> if dr_recorded req = None then worktrunk_find h root (dr_branch req) else returnM None) (\<lambda>tree.
       returnM (reg, tree)))"

definition drop_branch ::
  "host \<Rightarrow> (string \<Rightarrow> string) \<Rightarrow> (nat \<Rightarrow> ppath \<Rightarrow> string list res) \<Rightarrow> config \<Rightarrow> project \<Rightarrow> drop_request \<Rightarrow> nat
     \<Rightarrow> (lworld, string option option) io" where
  "drop_branch h dig users cfg project req fuel =
     bindM (registered_tree h (pj_root project) req) (\<lambda>(reg, tree).
     bindM (case (case tree of Some t \<Rightarrow> wt_path t | None \<Rightarrow> dr_recorded req) of
         None \<Rightarrow> returnM False
       | Some target \<Rightarrow> consult h (\<lambda>sc f. pending_cancellation sc f target (retained_inputs cfg f))) (\<lambda>pending.
       if pending then kept_if True ''worktree kept; job cancellation incomplete''
       else if (case tree of Some t \<Rightarrow> wt_locked t | None \<Rightarrow> False) then kept_if True ''worktree kept; explicitly locked''
       else
         (case checkout_of reg tree req of
            (None, removal_target, detached) \<Rightarrow> drop_unregistered h dig (pj_root project) req
          | (Some path, removal_target, detached) \<Rightarrow>
              drop_registered h dig users cfg project path removal_target detached req fuel)))"

end
