(* ===== verification/Agentctl_Release.thy ===== *)
theory Agentctl_Release
  imports Agentctl_Cleanup Agentctl_Launch
begin

text \<open>
  What is known when \<open>wt\<close> is asked to remove a checkout. The locale \<open>git_op\<close> is the calls of Git and
  \<open>wt\<close> an operation may make; the inspections of \<open>Agentctl_Cleanup\<close> call Git alone.
\<close>

section \<open>The calls of Git and wt\<close>

locale git_op =
  fixes P :: "string list \<Rightarrow> bool" and m :: "(lworld, 'a) io"
  assumes asks: "\<exists>new. lw_git (snd (m w)) = lw_git w @ new \<and> (\<forall>a \<in> set new. P a)"
begin

lemma new_call: "m w = (r, w') \<Longrightarrow> c \<in> set (lw_git w') \<Longrightarrow> c \<in> set (lw_git w) \<or> P c"
  using asks [of w] by auto

end

lemma git_op_still: "(\<And>w. lw_git (snd (m w)) = lw_git w) \<Longrightarrow> git_op P m"
  by unfold_locales simp

lemma git_op_weaken: "git_op P m \<Longrightarrow> (\<And>a. P a \<Longrightarrow> Q a) \<Longrightarrow> git_op Q m"
  unfolding git_op_def by blast

lemma git_op_return: "git_op P (returnM x)"
  by (rule git_op_still) simp

lemma git_op_raise: "git_op P (raiseM e)"
  by (rule git_op_still) simp

lemma git_op_lift: "git_op P (liftM r)"
  by (rule git_op_still) simp

lemma git_op_seq:
  assumes "git_op P m" and "\<And>x. git_op P (k x)"
    and "g = lw_git (snd (m w)) \<or> (\<exists>x w1. lw_git w1 = lw_git (snd (m w)) \<and> g = lw_git (snd (k x w1)))"
  shows "\<exists>new. g = lw_git w @ new \<and> (\<forall>a \<in> set new. P a)"
proof -
  obtain n1 where n1: "lw_git (snd (m w)) = lw_git w @ n1" "\<forall>a \<in> set n1. P a"
    using git_op.asks [OF assms(1)] by blast
  from assms(3) show ?thesis
  proof
    assume "g = lw_git (snd (m w))"
    with n1 show ?thesis by auto
  next
    assume "\<exists>x w1. lw_git w1 = lw_git (snd (m w)) \<and> g = lw_git (snd (k x w1))"
    then obtain x w1 where f: "lw_git w1 = lw_git w @ n1" "g = lw_git (snd (k x w1))" using n1 by auto
    obtain n2 where "lw_git (snd (k x w1)) = lw_git w1 @ n2" "\<forall>a \<in> set n2. P a"
      using git_op.asks [OF assms(2)] by blast
    with f n1 show ?thesis by (intro exI [of _ "n1 @ n2"]) auto
  qed
qed

lemma git_op_bind:
  assumes "git_op P m" and "\<And>x. git_op P (k x)"
  shows "git_op P (bindM m k)"
proof
  fix w
  obtain q w1 where m: "m w = (q, w1)" by force
  show "\<exists>new. lw_git (snd (bindM m k w)) = lw_git w @ new \<and> (\<forall>a \<in> set new. P a)"
    using m by (intro git_op_seq [OF assms]) (cases q; auto simp: bindM_def)+
qed

lemma git_op_catch:
  assumes "git_op P m" and "\<And>e. git_op P (k e)"
  shows "git_op P (catchM m k)"
proof
  fix w
  obtain q w1 where m: "m w = (q, w1)" by force
  show "\<exists>new. lw_git (snd (catchM m k w)) = lw_git w @ new \<and> (\<forall>a \<in> set new. P a)"
    using m by (intro git_op_seq [OF assms]) (cases q; auto simp: catchM_def)+
qed

lemma git_op_if: "git_op P m \<Longrightarrow> git_op P n \<Longrightarrow> git_op P (if b then m else n)"
  by simp

lemma git_op_option:
  "git_op P m \<Longrightarrow> (\<And>x. git_op P (k x)) \<Longrightarrow> git_op P (case z of None \<Rightarrow> m | Some x \<Rightarrow> k x)"
  by (cases z) auto

lemma git_op_forM:
  assumes "\<And>x b. git_op P (f x b)"
  shows "git_op P (forM f xs b)"
  by (induction xs arbitrary: b) (simp_all add: git_op_return git_op_bind assms)

lemma pass_git [simp]: "lw_git (pass h w) = lw_git w"
  by (simp add: pass_def)

lemma git_op_peek: "git_op P (peek h g)"
  by (rule git_op_still) (simp add: peek_def)

lemma git_op_edit: "git_op P (edit h c)"
  by (rule git_op_still) (auto simp: edit_def split: prod.split)

lemma git_op_consult: "git_op P (consult h q)"
  by (rule git_op_still) (simp add: consult_def)

lemma git_op_clock: "git_op P (clock_now h)"
  by (rule git_op_still) (simp add: clock_now_def)

lemma git_op_instant: "git_op P (\<lambda>w. (g w, pass h w))"
  by (rule git_op_still) simp

lemma git_op_queue: "git_op P (pueue_run d args t)"
  by (rule git_op_still) (auto simp: pueue_run_def Let_def split: proc_result.split)

lemma git_op_tasks: "git_op P (tasks_all d)"
  unfolding tasks_all_def run_default_def by (intro git_op_bind git_op_queue git_op_lift git_op_return)

lemmas git_op_intros =
  git_op_return git_op_raise git_op_lift git_op_bind git_op_catch git_op_if git_op_option git_op_forM
  git_op_peek git_op_edit git_op_consult git_op_clock git_op_instant git_op_tasks

section \<open>Operations that call Git alone\<close>

definition by_git :: "string list \<Rightarrow> bool" where
  "by_git a \<longleftrightarrow> hd a = ''git''"

lemma call_git_op: "git_op by_git (call_git h path args)"
  by unfold_locales (simp add: call_git_def Let_def by_git_def)

lemma git_call_op: "git_op by_git (git_call h err path args ok owned main)"
  unfolding git_call_def guard_main_def raise_failure_def drop_lock_def Let_def
  by (intro git_op_bind call_git_op git_op_if git_op_peek git_op_return)
    (auto intro!: git_op_intros split: option.split proc_result.split)

interpretation asked_list: git_op by_git "worktrunk_list h root" for h root
  unfolding worktrunk_list_def by (intro git_op_intros git_call_op)

interpretation asked_find: git_op by_git "worktrunk_find h root branch" for h root branch
  unfolding worktrunk_find_def branch_alone_def
  by (intro git_op_intros git_call_op asked_list.git_op_axioms)

lemma cleanup_git_op: "git_op by_git (cleanup_git h path args)"
  unfolding cleanup_git_def by (rule git_call_op)

lemma cleanup_probe_op: "git_op by_git (cleanup_probe h path args)"
  unfolding cleanup_probe_def by (rule git_call_op)

interpretation asked_dirty: git_op by_git "dirty_paths h path" for h path
  unfolding dirty_paths_def by (intro git_op_intros cleanup_git_op)

interpretation asked_cargo: git_op by_git "cargo_cache h path registered" for h path registered
  unfolding cargo_cache_def by (intro git_op_intros cleanup_git_op cleanup_probe_op)

interpretation asked_users: git_op by_git "all_users h users path" for h users path
  unfolding all_users_def task_users_def census_def by (intro git_op_intros)

interpretation asked_ref: git_op by_git "recovery_ref h dig root run path head" for h dig root run path head
  unfolding recovery_ref_def Let_def by (intro git_op_intros cleanup_git_op cleanup_probe_op)

lemma common_dir_op: "git_op by_git (common_dir h path)"
  unfolding common_dir_def by (intro git_op_intros cleanup_git_op)

lemma untracked_op: "git_op by_git (untracked h path kind flags)"
  unfolding untracked_def by (intro git_op_intros cleanup_git_op)

interpretation asked_obstacle: git_op by_git "cleanup_obstacle h dig root path preserved disposable fuel"
  for h dig root path preserved disposable fuel
  unfolding cleanup_obstacle_def preservation_obstacle_def Let_def
  by (intro git_op_bind common_dir_op git_op_if git_op_return cleanup_git_op git_op_lift)
    (auto intro!: git_op_intros untracked_op split: option.split)

lemma branch_commit_op: "git_op by_git (branch_commit h root branch)"
  unfolding branch_commit_def by (rule cleanup_probe_op)

lemma unless_kept_op: "git_op P m \<Longrightarrow> git_op P k \<Longrightarrow> git_op P (unless_kept m k)"
  unfolding unless_kept_def by (intro git_op_bind) (auto intro: git_op_return split: option.split)

lemma kept_if_op: "git_op P (kept_if b reason)"
  unfolding kept_if_def by (rule git_op_return)

lemma guarded_op: "git_op P m \<Longrightarrow> git_op P (guarded m)"
  unfolding guarded_def by (intro git_op_intros)

interpretation asked_still: git_op by_git "still_at h root path branch detached head"
  for h root path branch detached head
  unfolding still_at_def by (intro git_op_intros cleanup_git_op branch_commit_op kept_if_op)

lemma first_look_op: "git_op by_git (first_look h dig users root path fuel)"
  unfolding first_look_def
  by (intro guarded_op unless_kept_op git_op_intros asked_obstacle.git_op_axioms asked_dirty.git_op_axioms
      asked_users.git_op_axioms)

lemma last_look_op: "git_op by_git (last_look h dig users root path req detached head copied fuel)"
  unfolding last_look_def
  by (intro unless_kept_op git_op_intros kept_if_op asked_obstacle.git_op_axioms asked_dirty.git_op_axioms
      asked_users.git_op_axioms asked_still.git_op_axioms)

lemma keep_copies_op: "git_op P (keep_copies h cfg req copied)"
  unfolding keep_copies_def update_custody_def custody_lock_def by (intro git_op_intros)

lemma preserve_op: "git_op P (preserve_artifacts h dig cfg project run path)"
  unfolding preserve_artifacts_def preserve_artifact_def copy_artifact_def Let_def by (intro git_op_intros)

lemma release_look_op: "git_op by_git (release_look h dig users cfg project path req detached fuel)"
  unfolding release_look_def
  by (intro guarded_op git_op_intros cleanup_git_op kept_if_op branch_commit_op asked_ref.git_op_axioms
      preserve_op keep_copies_op last_look_op)

lemma retire_after_op: "git_op by_git (retire_after h dig root req)"
  unfolding retire_after_def retire_branch_def
  by (intro git_op_intros branch_commit_op asked_ref.git_op_axioms cleanup_git_op)

lemma drop_unregistered_op: "git_op by_git (drop_unregistered h dig root req)"
  unfolding drop_unregistered_def
  by (intro unless_kept_op git_op_intros kept_if_op retire_after_op)

lemma registered_tree_op: "git_op by_git (registered_tree h root req)"
  unfolding registered_tree_def
  by (intro git_op_intros asked_list.git_op_axioms asked_find.git_op_axioms)

section \<open>The removal\<close>

definition removal_call :: "ppath \<Rightarrow> string \<Rightarrow> string list" where
  "removal_call root target =
     [''wt'', ''-C'', path_str root, ''remove'', target, ''--foreground'', ''-y'', ''--format'', ''json'', ''--no-delete-branch'']"

lemma index_state_op: "git_op P (index_lock_state h p)"
  by (rule git_op_still) (simp add: index_lock_state_def)

lemma settle_op: "git_op P (settle_index h lock held deadline_at output verb n)"
proof (induction n)
  case 0
  show ?case unfolding settle_index.simps by (rule git_op_return)
next
  case (Suc n)
  then show ?case unfolding settle_index.simps by (intro git_op_intros index_state_op)
qed

lemma wt_run_op: "P ([''wt'', ''-C'', path_str root] @ args) \<Longrightarrow> git_op P (wt_run h root args)"
  unfolding wt_run_def
  by (intro git_op_bind) (unfold_locales, auto simp: call_wt_def Let_def split: proc_result.split)

lemma worktrunk_remove_op:
  "git_op (\<lambda>a. by_git a \<or> a = removal_call root target) (worktrunk_remove h dig root target False True False fuel)"
proof -
  have common: "git_op (\<lambda>a. by_git a \<or> a = removal_call root target) (common_git_directory h root)"
    unfolding common_git_directory_def
    by (rule git_op_weaken [of by_git]) (intro git_op_intros git_call_op, simp)
  have run: "git_op (\<lambda>a. by_git a \<or> a = removal_call root target)
      (wt_run h root (remove_arguments target False True False))"
    by (rule wt_run_op) (simp add: removal_call_def remove_arguments_def REMOVE_ARGUMENTS_def)
  show ?thesis
    unfolding worktrunk_remove_def mutate_def repository_locked_def
    by (intro git_op_bind git_op_option common run git_op_peek git_op_edit index_state_op git_op_clock settle_op
        git_op_return)
qed

lemma remove_output_op: "git_op by_git (remove_output h dig path output)"
  unfolding remove_output_def Let_def
  by (intro git_op_intros asked_cargo.git_op_axioms)

lemma remove_checkout_op:
  "git_op (\<lambda>a. by_git a \<or> a = removal_call root target) (remove_checkout h dig root path target outputs fuel)"
  unfolding remove_checkout_def remove_outputs_def
  by (intro git_op_catch git_op_bind git_op_forM git_op_return git_op_if git_op_raise worktrunk_remove_op
      git_op_weaken [OF remove_output_op]) simp_all

lemma git_new:
  assumes "bindM m k w = (r, w')" and "c \<in> set (lw_git w')" and "git_op P m" and "\<not> P c" and "c \<notin> set (lw_git w)"
  obtains x w1 where "m w = (Inr x, w1)" and "c \<notin> set (lw_git w1)" and "k x w1 = (r, w')"
proof -
  obtain q w1 where m: "m w = (q, w1)" by force
  have c: "c \<notin> set (lw_git w1)" using git_op.new_call [OF assms(3) m, of c] assms(4,5) by blast
  show thesis
  proof (cases q)
    case (Inl e)
    with assms(1,2) m c show thesis by (simp add: bindM_def)
  next
    case (Inr x)
    with assms(1) m c that show thesis by (simp add: bindM_def)
  qed
qed

lemma unless_new:
  assumes "unless_kept m k w = (r, w')" and "c \<in> set (lw_git w')" and "git_op P m" and "\<not> P c" and "c \<notin> set (lw_git w)"
  obtains w1 where "m w = (Inr (Some None), w1)" and "c \<notin> set (lw_git w1)" and "k w1 = (r, w')"
proof -
  from git_new [OF assms(1) [unfolded unless_kept_def] assms(2-5)] obtain x w1 where
      m: "m w = (Inr x, w1)" "c \<notin> set (lw_git w1)"
    and k: "(case x of Some None \<Rightarrow> k | kept \<Rightarrow> returnM kept) w1 = (r, w')" by blast
  have "x = Some None" using k m(2) assms(2) by (auto split: option.split_asm)
  with m k that show thesis by simp
qed

lemma unless_passed:
  assumes "unless_kept m k w = (Inr (Some None), w')"
  obtains w1 where "m w = (Inr (Some None), w1)" and "k w1 = (Inr (Some None), w')"
proof -
  from assms [unfolded unless_kept_def bindM_eq_Inr] obtain x w1 where
      m: "m w = (Inr x, w1)" and k: "(case x of Some None \<Rightarrow> k | kept \<Rightarrow> returnM kept) w1 = (Inr (Some None), w')" by blast
  have "x = Some None" using k by (auto split: option.split_asm)
  with m k that show thesis by simp
qed

lemma guarded_passed: "guarded m w = (Inr (Some None), w') \<Longrightarrow> m w = (Inr (Some None), w')"
  by (auto simp: guarded_def catchM_def split: prod.split_asm sum.split_asm if_split_asm)

lemma no_users_None: "None = no_users us \<longleftrightarrow> us = []" "no_users us = None \<longleftrightarrow> us = []"
  by (cases us; simp add: no_users_def)+

lemma last_look_passed:
  assumes "last_look h dig users root path req detached head copied fuel w = (Inr (Some None), w')"
  obtains w1 w2 w3 where
    "cleanup_obstacle h dig root path (Some copied) (dr_disposable req) fuel w = (Inr (Some None), w1)"
    "dirty_paths h path w1 = (Inr [], w2)"
    "still_at h root path (dr_branch req) detached head w2 = (Inr (Some None), w3)"
    "all_users h users path w3 = (Inr [], w')"
proof -
  from unless_passed [OF assms [unfolded last_look_def]] obtain w1 where
      ob: "cleanup_obstacle h dig root path (Some copied) (dr_disposable req) fuel w = (Inr (Some None), w1)"
    and rest: "unless_kept (bindM (dirty_paths h path) (\<lambda>dirty. kept_if (dirty \<noteq> []) ''worktree kept; uncommitted changes''))
         (unless_kept (still_at h root path (dr_branch req) detached head)
           (bindM (all_users h users path) (\<lambda>us. returnM (Some (no_users us))))) w1 = (Inr (Some None), w')" by blast
  from unless_passed [OF rest] obtain w2 where
      clean: "bindM (dirty_paths h path) (\<lambda>dirty. kept_if (dirty \<noteq> []) ''worktree kept; uncommitted changes'') w1
        = (Inr (Some None), w2)"
    and rest2: "unless_kept (still_at h root path (dr_branch req) detached head)
           (bindM (all_users h users path) (\<lambda>us. returnM (Some (no_users us)))) w2 = (Inr (Some None), w')" by blast
  from unless_passed [OF rest2] obtain w3 where
      at: "still_at h root path (dr_branch req) detached head w2 = (Inr (Some None), w3)"
    and us: "bindM (all_users h users path) (\<lambda>us. returnM (Some (no_users us))) w3 = (Inr (Some None), w')" by blast
  have "dirty_paths h path w1 = (Inr [], w2)" using clean by (auto simp: bindM_eq_Inr kept_if_def split: if_split_asm)
  moreover have "all_users h users path w3 = (Inr [], w')"
    using us by (auto simp: bindM_eq_Inr no_users_None)
  ultimately show thesis using ob at that by blast
qed

text \<open>What the looks have established when they end in \<open>w'\<close> without a reason to keep the checkout: a
  recovery ref made before, and then one after the other every untracked path preserved or disposable, no
  change, the commit still named, and no user.\<close>

definition nothing_lost ::
  "host \<Rightarrow> (string \<Rightarrow> string) \<Rightarrow> (nat \<Rightarrow> ppath \<Rightarrow> string list res) \<Rightarrow> ppath \<Rightarrow> ppath \<Rightarrow> drop_request \<Rightarrow> bool
     \<Rightarrow> nat \<Rightarrow> lworld \<Rightarrow> bool" where
  "nothing_lost h dig users root path req detached fuel w' \<longleftrightarrow>
     (\<exists>head copied w0 w1 w2 w3.
        (detached \<or> dr_delete req \<longrightarrow>
          (\<exists>x ref y. recovery_ref h dig root (dr_run req) path head x = (Inr ref, y) \<and> set (lw_git y) \<subseteq> set (lw_git w')))
        \<and> cleanup_obstacle h dig root path (Some copied) (dr_disposable req) fuel w0 = (Inr (Some None), w1)
        \<and> dirty_paths h path w1 = (Inr [], w2)
        \<and> still_at h root path (dr_branch req) detached head w2 = (Inr (Some None), w3)
        \<and> all_users h users path w3 = (Inr [], w'))"

lemma release_look_passed:
  assumes "release_look h dig users cfg project path req detached fuel w = (Inr (Some None), w')"
  shows "nothing_lost h dig users (pj_root project) path req detached fuel w'"
proof -
  let ?root = "pj_root project"
  let ?ref = "\<lambda>head. if detached \<or> dr_delete req
     then recovery_ref h dig ?root (dr_run req) path head else returnM []"
  let ?copies = "case dr_preserved req of Some copied \<Rightarrow> returnM copied
     | None \<Rightarrow> preserve_artifacts h dig cfg project (dr_run req) path"
  let ?look = "\<lambda>head copied. bindM (keep_copies h cfg req copied) (\<lambda>_.
     last_look h dig users ?root path req detached head copied fuel)"
  let ?rest = "\<lambda>head tip. if \<not> detached \<and> tip \<noteq> head
     then kept_if True ''worktree kept; branch no longer names checkout HEAD'' else bindM ?copies (?look head)"
  from guarded_passed [OF assms [unfolded release_look_def]] obtain head w1 where
      body: "(if moved_from (dr_expected req) head then kept_if True ''worktree kept; HEAD changed after publication proof''
        else bindM (branch_commit h ?root (dr_branch req)) (\<lambda>tip. bindM (?ref head) (\<lambda>_. ?rest head tip))) w1
        = (Inr (Some None), w')"
    unfolding bindM_eq_Inr by blast
  then have same: "\<not> moved_from (dr_expected req) head" by (auto simp: kept_if_def)
  with body obtain tip w2 where body2: "bindM (?ref head) (\<lambda>_. ?rest head tip) w2 = (Inr (Some None), w')"
    by (simp only: if_False bindM_eq_Inr) blast
  then obtain x w3 where ref: "?ref head w2 = (Inr x, w3)" and rest: "?rest head tip w3 = (Inr (Some None), w')"
    unfolding bindM_eq_Inr by blast
  have named: "\<not> (\<not> detached \<and> tip \<noteq> head)"
    using rest by (cases "\<not> detached \<and> tip \<noteq> head") (simp_all add: kept_if_def)
  have op: "git_op by_git (?rest head tip)"
    by (intro git_op_intros kept_if_op preserve_op keep_copies_op last_look_op)
  have later: "set (lw_git w3) \<subseteq> set (lw_git w')" using git_op.asks [OF op, of w3] rest by auto
  have kept: "detached \<or> dr_delete req \<longrightarrow> (\<exists>x ref y. recovery_ref h dig ?root (dr_run req) path head x = (Inr ref, y)
      \<and> set (lw_git y) \<subseteq> set (lw_git w'))"
  proof
    assume "detached \<or> dr_delete req"
    with ref have "recovery_ref h dig ?root (dr_run req) path head w2 = (Inr x, w3)" by (simp only: if_True)
    with later show "\<exists>x ref y. recovery_ref h dig ?root (dr_run req) path head x = (Inr ref, y)
      \<and> set (lw_git y) \<subseteq> set (lw_git w')" by blast
  qed
  from rest named obtain copied w4 where
    look: "last_look h dig users ?root path req detached head copied fuel w4 = (Inr (Some None), w')"
    by (simp only: if_False bindM_eq_Inr) blast
  from last_look_passed [OF look] kept show ?thesis unfolding nothing_lost_def by metis
qed

lemma inspect_op: "git_op by_git (inspect_checkout h dig users cfg project path target detached req fuel)"
  unfolding inspect_checkout_def
  by (intro git_op_bind git_op_peek)
    (auto intro: unless_kept_op first_look_op release_look_op kept_if_op split: checkout_state.split)

lemma inspect_passed:
  assumes "inspect_checkout h dig users cfg project path target detached req fuel w = (Inr (Some None), w')"
  shows "(target \<noteq> dr_branch req \<and> checkout_state (lw_fs w) path = Inr Absent \<and> w' = pass h w)
    \<or> nothing_lost h dig users (pj_root project) path req detached fuel w'"
proof -
  from assms [unfolded inspect_checkout_def bindM_eq_Inr] obtain state w1 where
      state: "peek h (\<lambda>f. checkout_state f path) w = (Inr state, w1)"
    and rest: "(case state of
         Unusable reason \<Rightarrow> kept_if True reason
       | Absent \<Rightarrow> kept_if (target = dr_branch req) ''worktree kept; checkout path is unavailable''
       | Directory \<Rightarrow>
           unless_kept (first_look h dig users (pj_root project) path fuel)
             (release_look h dig users cfg project path req detached fuel)) w1 = (Inr (Some None), w')" by blast
  show ?thesis
  proof (cases state)
    case Absent
    with state rest show ?thesis by (auto simp: peek_def kept_if_def split: if_split_asm)
  next
    case (Unusable reason)
    with rest show ?thesis by (simp add: kept_if_def)
  next
    case Directory
    with rest have "unless_kept (first_look h dig users (pj_root project) path fuel)
        (release_look h dig users cfg project path req detached fuel) w1 = (Inr (Some None), w')" by simp
    from unless_passed [OF this] show ?thesis using release_look_passed by metis
  qed
qed

lemma confirm_gone_op: "git_op P (confirm_gone h path)"
  unfolding confirm_gone_def by (intro git_op_intros kept_if_op)

lemma removal_tail_op:
  "git_op (\<lambda>a. by_git a \<or> a = removal_call root target)
     (unless_kept (remove_checkout h dig root path target outputs fuel)
       (unless_kept (confirm_gone h path) (retire_after h dig root req)))"
  by (intro unless_kept_op remove_checkout_op confirm_gone_op git_op_weaken [OF retire_after_op]) simp

section \<open>No work is lost\<close>


definition idle_git :: "string list list \<Rightarrow> proc_result" where
  "idle_git cs =
     (let c = last cs
      in if hd c = ''wt'' then Exited 0 ''{}'' []
         else if last c = ''--git-common-dir'' then Exited 0 ''/r/.git'' []
         else if ''rev-parse'' \<in> set c then Exited 0 ''abc'' []
         else Exited 0 [] [])"

definition idle_host :: host where
  "idle_host = (queue_host ''{}'')\<lparr>h_git := idle_git\<rparr>"

definition idle_fs :: fs where
  "idle_fs = \<lparr>nodes = [((''/'', [''w'']), Dir 493), ((''/'', [''r'']), Dir 493), ((''/'', [''tmp'']), Dir 511)],
     noread = [], nowrite = []\<rparr>"

definition idle_request :: drop_request where
  "idle_request = \<lparr>dr_branch = ''b'', dr_recorded = None, dr_run = None, dr_delete = False,
     dr_registry = Some [\<lparr>wt_branch = Some ''b'', wt_path = Some (mkpath ''/w''), wt_main = False, wt_locked = False\<rparr>],
     dr_disposable = [], dr_expected = None, dr_preserved = Some []\<rparr>"

abbreviation idle_release :: "(string option option) res \<times> lworld" where
  "idle_release \<equiv> drop_branch idle_host (\<lambda>s. ''e'') (\<lambda>n p. Inr []) Agentctl_Jobs.sample_cfg (sample_project\<lparr>pj_root := mkpath ''/r''\<rparr>)
     idle_request 3 (sample_lworld idle_fs)"

lemma idle_removes: "lw_git (snd idle_release) \<noteq> [] \<and> hd (last (lw_git (snd idle_release))) = ''wt''"
  by code_simp

lemma idle_checkout:
  "map_sum id (\<lambda>(reg, tree). checkout_of reg tree idle_request)
     (fst (registered_tree idle_host (mkpath ''/r'') idle_request (sample_lworld idle_fs)))
   = Inr (Some (mkpath ''/w''), ''b'', False)"
  by code_simp


end
