(* ===== verification/Agentctl_Accounts.thy ===== *)
theory Agentctl_Accounts
  imports Agentctl_Cleanup Agentctl_Launch
begin

text \<open>
  What the walk of \<open>_cleanup_obstacle\<close> proves when it finds nothing: an account of every path that Git
  does not track. \<open>accounted\<close> is the promise, without the order of the walk, its stack or its fuel.
\<close>

section \<open>An account of a path\<close>

inductive accounted :: "fs \<Rightarrow> ppath list \<Rightarrow> ppath list \<Rightarrow> (ppath \<Rightarrow> bool) \<Rightarrow> ppath \<Rightarrow> bool"
  for f disposable sources covered where
  removable: "p \<in> set disposable \<Longrightarrow> accounted f disposable sources covered p"
| retained: "lstat f p = Inr x \<Longrightarrow> \<not> (\<exists>m. x = Dir m) \<Longrightarrow> p \<in> set sources \<Longrightarrow> accounted f disposable sources covered p"
| hollow: "lstat f p = Inr (Dir m) \<Longrightarrow> empty_tree f p \<Longrightarrow> accounted f disposable sources covered p"
| walked: "lstat f p = Inr (Dir m) \<Longrightarrow> covered p \<Longrightarrow> dir_entries f p = Inr names \<Longrightarrow>
    \<forall>n \<in> set names. if is_real_dir f (child p n) then accounted f disposable sources covered (child p n)
      else child p n \<in> set sources \<Longrightarrow>
    accounted f disposable sources covered p"

inductive_cases accountedE: "accounted f disposable sources covered p"

lemma no_problem:
  "List.map_filter (entry_problem f sources covered kind) ps = [] \<longleftrightarrow>
     (\<forall>p \<in> set ps. if is_real_dir f p then covered p else p \<in> set sources)"
  by (auto simp: map_filter_def entry_problem_def filter_empty_conv split: if_splits)

lemma scan_paths_accounts:
  "scan_paths n f disposable sources covered pending = Inr (Some None) \<Longrightarrow> (p, kind) \<in> set pending \<Longrightarrow>
     accounted f disposable sources covered p"
proof (induction n f disposable sources covered pending arbitrary: p kind rule: scan_paths.induct)
  case (3 n f disposable sources covered q k rest)
  let ?next = "\<lambda>names. rev (map (\<lambda>c. (c, k)) (filter (is_real_dir f) (map (child q) names))) @ rest"
  have at: "p = q \<or> (p, kind) \<in> set rest" using "3.prems"(2) by auto
  have own: "accounted f disposable sources covered p"
    if "accounted f disposable sources covered q" and "(p, kind) \<in> set rest \<Longrightarrow> accounted f disposable sources covered p"
    using that at by blast
  show ?case
  proof (cases "q \<in> set disposable")
    case True
    with "3.prems"(1) have "scan_paths n f disposable sources covered rest = Inr (Some None)" by simp
    from own [OF removable [OF True] "3.IH"(1) [OF True this]] show ?thesis .
  next
    case False
    with "3.prems"(1) obtain x where x: "lstat f q = Inr x"
      by (auto simp: bindE_eq_Inr)
    show ?thesis
    proof (cases "\<exists>m. x = Dir m")
      case False
      with \<open>q \<notin> set disposable\<close> "3.prems"(1) x
      have "q \<in> set sources \<and> scan_paths n f disposable sources covered rest = Inr (Some None)"
        by (cases x) (auto split: if_split_asm)
      then have q: "q \<in> set sources" and rest: "scan_paths n f disposable sources covered rest = Inr (Some None)" by simp_all
      from own [OF retained [OF x False q] "3.IH"(2) [OF \<open>q \<notin> set disposable\<close> q rest]] show ?thesis .
    next
      case True
      then obtain m where m: "x = Dir m" by blast
      show ?thesis
      proof (cases "covered q")
        case False
        with \<open>q \<notin> set disposable\<close> "3.prems"(1) x m
        have "empty_tree f q \<and> scan_paths n f disposable sources covered rest = Inr (Some None)"
          by (auto split: if_split_asm)
        then have q: "empty_tree f q" and rest: "scan_paths n f disposable sources covered rest = Inr (Some None)"
          by simp_all
        from own [OF hollow [OF x [unfolded m] q] "3.IH"(4) [OF \<open>q \<notin> set disposable\<close> False q rest]] show ?thesis .
      next
        case True
        with \<open>q \<notin> set disposable\<close> "3.prems"(1) x m obtain names where
            names: "dir_entries f q = Inr names"
          and found: "(case List.map_filter (entry_problem f sources covered k) (map (child q) names) of
              problem # others \<Rightarrow> Inr (Some (Some problem))
            | [] \<Rightarrow> scan_paths n f disposable sources covered (?next names)) = Inr (Some None)"
          by (auto simp: bindE_eq_Inr Let_def)
        then have none: "List.map_filter (entry_problem f sources covered k) (map (child q) names) = []"
          by (cases "List.map_filter (entry_problem f sources covered k) (map (child q) names)") auto
        with found have rest: "scan_paths n f disposable sources covered (?next names) = Inr (Some None)" by simp
        have below: "accounted f disposable sources covered p" if "(p, kind) \<in> set (?next names)" for p kind
          using "3.IH"(3) [OF \<open>q \<notin> set disposable\<close> True refl none rest that] .
        have "accounted f disposable sources covered (child q n)" if "n \<in> set names" and "is_real_dir f (child q n)" for n
          by (rule below [of _ k]) (use that in auto)
        then have "accounted f disposable sources covered q"
          by (intro walked [where covered = covered, OF x [unfolded m] True names] ballI) (use none in \<open>auto simp: no_problem\<close>)
        then show ?thesis by (rule own) (auto intro: below)
      qed
    qed
  qed
qed simp_all

section \<open>The inspection\<close>

lemma changed_artifact_alike:
  "changed_artifact dig f kept = Inr None \<Longrightarrow> (s, d) \<in> set kept \<Longrightarrow>
     \<exists>a. file_digest dig f (mkpath s) = Inr a \<and> file_digest dig f (mkpath d) = Inr a"
proof (induction dig f kept rule: changed_artifact.induct)
  case (2 dig f source dest rest)
  from "2.prems"(1) obtain x y a where regular: "is_regular x \<and> is_regular y"
    and own: "file_digest dig f (mkpath source) = Inr a \<and> file_digest dig f (mkpath dest) = Inr a"
    and rest: "changed_artifact dig f rest = Inr None"
    by (auto simp: bindE_eq_Inr split: if_split_asm)
  show ?case
  proof (cases "(s, d) = (source, dest)")
    case True
    with own show ?thesis by blast
  next
    case False
    with "2.prems"(2) have "(s, d) \<in> set rest" by auto
    with "2.IH" regular rest show ?thesis by blast
  qed
qed simp

text \<open>
  (C14) A checkout in which Git's proof of cleanliness is completed may go: each artifact had the digest of
  its retained copy, and of the paths that Git does not track, those it ignores included, each is disposable,
  or a retained file, or a directory that is empty, or one of which every entry is accounted for in turn.
\<close>

theorem cleanup_obstacle_accounts:
  assumes "cleanup_obstacle h dig root path (Some kept) disposable fuel w = (Inr (Some None), w')"
  shows "\<exists>u v u' ignored others. untracked h path ''ignored'' [''--ignored''] (pass h u) = (Inr ignored, u')
     \<and> untracked h path ''untracked'' [] u' = (Inr others, v) \<and> w' = pass h v
     \<and> (\<forall>(s, d) \<in> set kept. \<exists>a. file_digest dig (lw_fs u) (mkpath s) = Inr a \<and> file_digest dig (lw_fs u) (mkpath d) = Inr a)
     \<and> (\<forall>(p, kind) \<in> set (ignored @ others).
          accounted (lw_fs v) disposable (map (\<lambda>(s, d). mkpath s) kept) (covered_dir path (map (\<lambda>(s, d). mkpath s) kept)) p)"
proof -
  let ?sources = "map (\<lambda>(s, d). mkpath s) kept"
  from assms obtain u where "preservation_obstacle h dig path kept disposable fuel u = (Inr (Some None), w')"
    unfolding cleanup_obstacle_def by (auto simp: bindM_eq_Inr split: if_split_asm option.split_asm)
  from this [unfolded preservation_obstacle_def bindM_eq_Inr] obtain changed w1 where
      look: "peek h (\<lambda>f. changed_artifact dig f kept) u = (Inr changed, w1)"
    and rest: "(case changed of Some reason \<Rightarrow> returnM (Some (Some reason))
        | None \<Rightarrow>
            bindM (untracked h path ''ignored'' [''--ignored'']) (\<lambda>ignored.
            bindM (untracked h path ''untracked'' []) (\<lambda>others.
            (let sources = ?sources
             in peek h (\<lambda>f. scan_paths fuel f disposable sources (covered_dir path sources) (rev (ignored @ others)))))))
        w1 = (Inr (Some None), w')" by blast
  have "changed = None" using rest by (cases changed) auto
  with look have alike: "changed_artifact dig (lw_fs u) kept = Inr None" and w1: "w1 = pass h u"
    by (simp_all add: peek_def)
  from rest [unfolded \<open>changed = None\<close> option.case bindM_eq_Inr Let_def] obtain ignored u' others v where
      lists: "untracked h path ''ignored'' [''--ignored''] w1 = (Inr ignored, u')"
        "untracked h path ''untracked'' [] u' = (Inr others, v)"
    and scan: "peek h (\<lambda>f. scan_paths fuel f disposable ?sources (covered_dir path ?sources) (rev (ignored @ others))) v
        = (Inr (Some None), w')" by blast
  have walk: "scan_paths fuel (lw_fs v) disposable ?sources (covered_dir path ?sources) (rev (ignored @ others)) = Inr (Some None)"
    and w': "w' = pass h v" using scan by (simp_all add: peek_def)
  have "accounted (lw_fs v) disposable ?sources (covered_dir path ?sources) p" if "(p, kind) \<in> set (ignored @ others)" for p kind
    by (rule scan_paths_accounts [OF walk, of p kind]) (use that in auto)
  then show ?thesis using lists w1 w' changed_artifact_alike [OF alike] by blast
qed

definition evidence_git :: "string list list \<Rightarrow> proc_result" where
  "evidence_git cs =
     (let c = last cs
      in if last c = ''--git-common-dir'' then Exited 0 ''/r/.git'' []
         else if ''--ignored'' \<in> set c then Exited 0 (''.agentctl/'' @ [NUL]) []
         else Exited 0 [] [])"

definition evidence_host :: host where
  "evidence_host = (queue_host ''{}'')\<lparr>h_git := evidence_git\<rparr>"

definition evidence_fs :: fs where
  "evidence_fs = \<lparr>nodes = [((''/'', [''w'']), Dir 493), ((''/'', [''w'', ''.agentctl'']), Dir 493),
     ((''/'', [''w'', ''.agentctl'', ''log'']), RegFile ''ok'' 420), ((''/'', [''s'']), Dir 448),
     ((''/'', [''s'', ''log'']), RegFile ''ok'' 384)], noread = [], nowrite = []\<rparr>"

lemma git_call_listing:
  assumes "hd args \<notin> set INDEX_WRITING_VERBS" and "args \<noteq> []" and "''-z'' \<in> set args"
    and "h_git h (lw_git u @ [[''git'', ''-C'', path_str path] @ args]) = Exited 0 out []"
  shows "fst (git_call h err path args [0] owned main u) = Inr out"
  using assms by (cases args) (simp_all add: git_call_def guard_main_def call_git_def bindM_def Let_def)

lemma evidence_listed:
  "fst (untracked evidence_host (mkpath ''/w'') ''ignored'' [''--ignored''] u) = Inr [(mkpath ''/w/.agentctl'', ''ignored'')]"
proof -
  let ?args = "[''ls-files'', ''--others''] @ [''--ignored''] @ [''--exclude-standard'', ''--directory'', ''-z'']"
  have "fst (cleanup_git evidence_host (mkpath ''/w'') ?args u) = Inr (''.agentctl/'' @ [NUL])"
    unfolding cleanup_git_def
    by (rule git_call_listing)
      (simp_all add: evidence_host_def evidence_git_def INDEX_WRITING_VERBS_def Let_def)
  moreover have "map (\<lambda>n. (path_join (mkpath ''/w'') n, ''ignored'')) (filter (\<lambda>n. n \<noteq> []) (split_on NUL (''.agentctl/'' @ [NUL])))
      = [(mkpath ''/w/.agentctl'', ''ignored'')]" by code_simp
  ultimately show ?thesis
    unfolding untracked_def by (cases "cleanup_git evidence_host (mkpath ''/w'') ?args u") (simp add: bindM_def)
qed

abbreviation evidence_check :: "(string option option) res \<times> lworld" where
  "evidence_check \<equiv> cleanup_obstacle evidence_host (\<lambda>s. s) (mkpath ''/r'') (mkpath ''/w'')
     (Some [(''/w/.agentctl/log'', ''/s/log'')]) [] 3 (sample_lworld evidence_fs)"

lemma evidence_kept: "fst evidence_check = Inr (Some None)"
  by code_simp

theorem cleanup_obstacle_accounts_witness:
  "fst evidence_check = Inr (Some None)
   \<and> (\<exists>f. accounted f [] [mkpath ''/w/.agentctl/log''] (covered_dir (mkpath ''/w'') [mkpath ''/w/.agentctl/log''])
        (mkpath ''/w/.agentctl''))"
proof -
  obtain w' where run: "evidence_check = (Inr (Some None), w')" using evidence_kept by (metis prod.collapse)
  from cleanup_obstacle_accounts [OF run] obtain u u' ignored others and v :: lworld where
      listed: "untracked evidence_host (mkpath ''/w'') ''ignored'' [''--ignored''] (pass evidence_host u) = (Inr ignored, u')"
    and all: "\<forall>(p, kind) \<in> set (ignored @ others). accounted (lw_fs v) []
        (map (\<lambda>(s, d). mkpath s) [(''/w/.agentctl/log'', ''/s/log'')])
        (covered_dir (mkpath ''/w'') (map (\<lambda>(s, d). mkpath s) [(''/w/.agentctl/log'', ''/s/log'')])) p"
    by blast
  have "ignored = [(mkpath ''/w/.agentctl'', ''ignored'')]"
    using evidence_listed [of "pass evidence_host u"] listed by simp
  with all evidence_kept show ?thesis by auto
qed

end
