(* ===== verification/Agentctl_Census.thy ===== *)
theory Agentctl_Census
  imports Agentctl_Host
begin

text \<open>
  \<open>agentctl/worktree_processes.py\<close>: one census of the processes and of the paths they hold. What
  \<open>/proc\<close> shows at a moment is a parameter, a list of processes whose entries may have gone
  (\<open>FileNotFound\<close>, which stands for the two errors the code treats alike) or be refused.
\<close>

section \<open>One process\<close>

record process =
  ps_name :: string
  ps_before :: "string res"
  ps_links :: "(string \<times> string res) list"
  ps_fds :: "string res list res"
  ps_maps :: "string res"
  ps_after :: "string res"

type_synonym held = "int \<times> string \<times> string"

definition refused :: exn where "refused = OSErr ''Permission denied''"

text \<open>\<open>text.rsplit(")", 1)[1].split()[19]\<close>: when the process started.\<close>

definition start_field :: "string \<Rightarrow> string res" where
  "start_field s =
     (if CHR '')'' \<notin> set s then Inl IndexErr
      else (let ws = split_ws (rsplit_last CHR '')'' s) in if length ws \<le> 19 then Inl IndexErr else Inr (ws ! 19)))"

fun readable_links :: "(string \<times> string res) list \<Rightarrow> (string \<times> string) list res" where
  "readable_links [] = Inr []"
| "readable_links ((kind, r) # ls) =
     (case r of
        Inr path \<Rightarrow> bindE (readable_links ls) (\<lambda>rest. Inr ((kind, path) # rest))
      | Inl e \<Rightarrow> if e = FileNotFound then readable_links ls else Inl e)"

text \<open>\<open>line.split(None, n)\<close>.\<close>

fun split_ws_max :: "nat \<Rightarrow> string \<Rightarrow> string list" where
  "split_ws_max 0 s = (let r = lstrip s in if r = [] then [] else [r])"
| "split_ws_max (Suc n) s =
     (let r = lstrip s
      in if r = [] then []
         else takeWhile (\<lambda>c. \<not> is_space c) r # split_ws_max n (dropWhile (\<lambda>c. \<not> is_space c) r))"

definition mappings :: "string \<Rightarrow> (string \<times> string) list" where
  "mappings maps =
     map (\<lambda>ws. (''mapping'', ws ! 5))
       (filter (\<lambda>ws. length ws = 6 \<and> prefix ''/'' (ws ! 5)) (map (split_ws_max 5) (splitlines maps)))"

definition scan_process :: "process \<Rightarrow> held list res" where
  "scan_process p =
     bindE (bindE (ps_before p) start_field) (\<lambda>started.
     bindE (readable_links (ps_links p)) (\<lambda>links.
     bindE (bindE (ps_fds p) (\<lambda>fds. readable_links (map (Pair ''fd'') fds))) (\<lambda>files.
     bindE (ps_maps p) (\<lambda>maps.
     bindE (bindE (ps_after p) start_field) (\<lambda>now.
       if started \<noteq> now then Inl (RuntimeErr (''process '' @ ps_name p @ '' changed during inspection''))
       else Inr (map (\<lambda>(kind, path). (int (read_digits (ps_name p)), kind, path)) (links @ files @ mappings maps)))))))"

text \<open>A process that has gone is passed over; any other error ends the census.\<close>

fun scan :: "process list \<Rightarrow> held list res" where
  "scan [] = Inr []"
| "scan (p # ps) =
     (if ps_name p = [] \<or> \<not> list_all is_digit (ps_name p) then scan ps
      else (case scan_process p of
          Inr rows \<Rightarrow> bindE (scan ps) (\<lambda>rest. Inr (rows @ rest))
        | Inl e \<Rightarrow> if e = FileNotFound then scan ps else Inl e))"

section \<open>The census\<close>

text \<open>\<open>wa_procs\<close>: the processes at a moment. \<open>wa_sudo\<close>: the same census by the administrator, printed.\<close>

record watch =
  wa_procs :: "nat \<Rightarrow> process list res"
  wa_sudo :: "nat \<Rightarrow> proc_result"

definition row_of :: "pyval \<Rightarrow> (pyval \<times> pyval \<times> string) res" where
  "row_of v =
     bindE (py_iter v) (\<lambda>vs.
       (case vs of
          [pid, kind, PStr path] \<Rightarrow> Inr (pid, kind, path)
        | [pid, kind, path] \<Rightarrow> Inl AttributeErr
        | _ \<Rightarrow> Inl (ValueErr ''wrong number of values to unpack'')))"

definition privileged_rows :: "proc_result \<Rightarrow> pyval list res" where
  "privileged_rows r =
     (case r of
        NotInstalled \<Rightarrow> Inl FileNotFound
      | TimedOut \<Rightarrow> Inl (SubprocessErr ''timed out'')
      | Garbled \<Rightarrow> Inl UnicodeErr
      | Exited rc out err \<Rightarrow>
          if rc \<noteq> 0 then Inl (SubprocessErr ''returned non-zero exit status'')
          else bindE (loads_text out) py_iter)"

definition holder_rows :: "watch \<Rightarrow> nat \<Rightarrow> pyval list res" where
  "holder_rows wa n =
     (case bindE (wa_procs wa n) scan of
        Inr rows \<Rightarrow> Inr (map (\<lambda>(pid, kind, path). PList [PInt pid, PStr kind, PStr path]) rows)
      | Inl e \<Rightarrow> if e = refused then privileged_rows (wa_sudo wa n) else Inl e)"

definition plain_path :: "string \<Rightarrow> string" where
  "plain_path s = (if suffix '' (deleted)'' s then take (length s - length '' (deleted)'') s else s)"

definition held_below :: "string \<Rightarrow> string \<Rightarrow> bool" where
  "held_below root path \<longleftrightarrow> path = root \<or> prefix (root @ ''/'') path"

definition holders_below :: "(pyval \<times> pyval \<times> string) list \<Rightarrow> string \<Rightarrow> string list" where
  "holders_below rows root =
     map (\<lambda>(pid, kind, path). ''pid '' @ py_str pid @ '' '' @ py_str kind @ '' '' @ plain_path path)
       (filter (\<lambda>(pid, kind, path). held_below root (plain_path path)) rows)"

definition process_users :: "host \<Rightarrow> watch \<Rightarrow> ppath list \<Rightarrow> (lworld, (ppath \<times> string list) list) io" where
  "process_users h wa paths w =
     (bindE (holder_rows wa (rw_clock w)) (\<lambda>rows.
      bindE (mapE (\<lambda>p. bindE (realpath (lw_fs w) p) (\<lambda>q. Inr (p, path_str q))) paths) (\<lambda>roots.
      bindE (mapE row_of rows) (\<lambda>held.
        Inr (map (\<lambda>(p, root). (p, holders_below held root)) (dict_of roots))))), pass h w)"

section \<open>No holder is missed\<close>

lemma readable_links_kept:
  "readable_links ls = Inr paths \<Longrightarrow> (kind, Inr path) \<in> set ls \<Longrightarrow> (kind, path) \<in> set paths"
  by (induction ls arbitrary: paths rule: readable_links.induct)
    (auto simp: bindE_eq_Inr split: sum.split_asm if_split_asm)

lemma scan_rows: "scan ps = Inr rows \<Longrightarrow> p \<in> set ps \<Longrightarrow> scan_process p = Inr own \<Longrightarrow>
   ps_name p \<noteq> [] \<Longrightarrow> list_all is_digit (ps_name p) \<Longrightarrow> set own \<subseteq> set rows"
  by (induction ps arbitrary: rows) (auto simp: bindE_eq_Inr split: sum.split_asm if_split_asm)

text \<open>
  A census of the processes that succeeds has met each of them: every process is listed with each
  path it was seen to hold, or it had gone.
\<close>

lemma scan_complete:
  assumes "scan ps = Inr rows" and "p \<in> set ps" and "ps_name p \<noteq> []" and "list_all is_digit (ps_name p)"
  shows "scan_process p = Inl FileNotFound
     \<or> (\<exists>links. readable_links (ps_links p) = Inr links
        \<and> (\<forall>(kind, path) \<in> set links. (int (read_digits (ps_name p)), kind, path) \<in> set rows))"
proof (cases "scan_process p")
  case (Inl e)
  from assms have "e = FileNotFound"
    using Inl by (induction ps arbitrary: rows) (auto simp: bindE_eq_Inr split: sum.split_asm if_split_asm)
  with Inl show ?thesis by simp
next
  case (Inr own)
  then obtain links files maps where "readable_links (ps_links p) = Inr links"
    and own: "own = map (\<lambda>(kind, path). (int (read_digits (ps_name p)), kind, path)) (links @ files @ mappings maps)"
    by (auto simp: scan_process_def bindE_eq_Inr split: if_split_asm)
  moreover have "set own \<subseteq> set rows" using scan_rows [OF assms(1,2) Inr assms(3,4)] .
  ultimately show ?thesis by (auto simp: own)
qed

end
