(* ===== verification/Agentctl_Publication.thy ===== *)
theory Agentctl_Publication
  imports Agentctl_Cleanup Agentctl_Launch
begin

text \<open>
  \<open>agentctl/github.py\<close> and the class \<open>Published\<close> of \<open>agentctl/native_worktrees.py\<close>: whether the work of
  a commit is on the default branch. The client of GitHub is a parameter like Git, its calls are in the
  same list. A published history is a value that the questions update.
\<close>

section \<open>GitHub\<close>

fun is_githuberror :: "exn \<Rightarrow> bool" where
  "is_githuberror (GithubErr m) = True"
| "is_githuberror _ = False"

definition gh_run :: "host \<Rightarrow> string list \<Rightarrow> (lworld, string) io" where
  "gh_run h args w =
     (let argv = ''gh'' # args; cs = lw_git w @ [argv]; w' = pass h (w\<lparr>lw_git := cs\<rparr>); verb = str_join '' '' (take 2 argv)
      in (case h_git h cs of
            NotInstalled \<Rightarrow> Inl (GithubErr ''gh is not installed'')
          | TimedOut \<Rightarrow> Inl (GithubErr (verb @ '' timed out''))
          | Garbled \<Rightarrow> Inl UnicodeErr
          | Exited rc out err \<Rightarrow>
              if rc \<noteq> 0
              then Inl (GithubErr (if strip err \<noteq> [] then strip err else if strip out \<noteq> [] then strip out else verb @ '' failed''))
              else Inr out, w'))"

definition gh_json :: "host \<Rightarrow> string list \<Rightarrow> (lworld, pyval) io" where
  "gh_json h args =
     bindM (gh_run h args) (\<lambda>out.
       liftM (if strip out = [] then Inr PNone
         else (case loads_text out of
             Inr v \<Rightarrow> Inr v
           | Inl e \<Rightarrow> Inl (if e = JSONDecode then GithubErr ''gh did not print JSON'' else e))))"

definition PR_FIELDS :: string where
  "PR_FIELDS = ''number,url,title,state,isDraft,mergeable,headRefName,headRefOid,baseRefName,''
     @ ''mergeCommit,autoMergeRequest,statusCheckRollup,reviewDecision,updatedAt''"

definition pull_request :: "host \<Rightarrow> int \<Rightarrow> (lworld, pydict option) io" where
  "pull_request h number =
     catchM (bindM (gh_json h [''pr'', ''view'', show_int number, ''--json'', PR_FIELDS]) (\<lambda>v.
         returnM (if is_dict v then Some (items_of v) else None)))
       (\<lambda>e. if is_githuberror e \<and> (str_in ''could not resolve'' (str_lower (exn_str e))
              \<or> str_in ''not found'' (str_lower (exn_str e)))
         then returnM None else raiseM e)"

section \<open>The default branch\<close>

fun first_commit :: "host \<Rightarrow> ppath \<Rightarrow> string list \<Rightarrow> (lworld, string) io" where
  "first_commit h root [] = raiseM (CleanupErr ''default branch could not be resolved'')"
| "first_commit h root (n # ns) =
     bindM (cleanup_probe h root [''rev-parse'', ''--verify'', ''--quiet'', n @ ''^{commit}'']) (\<lambda>v.
       if v \<noteq> [] then returnM v else first_commit h root ns)"

definition base_names :: "project \<Rightarrow> string \<Rightarrow> string list" where
  "base_names project branch =
     (case pj_workspace project of Some p \<Rightarrow> [wp_default_base p] | None \<Rightarrow> [])
     @ [''refs/remotes/origin/HEAD'']
     @ (if prefix ''refs/heads/'' branch then [''refs/remotes/origin/'' @ drop 11 branch, branch] else [])"

definition base_commit :: "host \<Rightarrow> project \<Rightarrow> (lworld, string) io" where
  "base_commit h project =
     bindM (cleanup_probe h (pj_root project) [''symbolic-ref'', ''--quiet'', ''HEAD'']) (\<lambda>branch.
       first_commit h (pj_root project) (base_names project branch))"

section \<open>What is published\<close>

record published =
  pu_root :: ppath
  pu_base :: string
  pu_commits :: "string list"
  pu_trees :: "string list"
  pu_pulls :: "string dict option"
  pu_local_deadline :: "pyfloat option"

definition history_row :: "string \<Rightarrow> (string \<times> string) res" where
  "history_row row =
     (case split_ws row of [c, t] \<Rightarrow> Inr (c, t) | _ \<Rightarrow> Inl (ValueErr ''wrong number of values to unpack''))"

definition open_published :: "host \<Rightarrow> project \<Rightarrow> (lworld, published) io" where
  "open_published h project =
     bindM (base_commit h project) (\<lambda>base.
     bindM (cleanup_git h (pj_root project) [''log'', ''--format=%H %T'', base]) (\<lambda>out.
     bindM (liftM (mapE history_row (splitlines out))) (\<lambda>rows.
       returnM \<lparr>pu_root = pj_root project, pu_base = base, pu_commits = map fst rows, pu_trees = map snd rows,
         pu_pulls = None, pu_local_deadline = None\<rparr>)))"

text \<open>The merged pull requests whose merge is in the history, by the commit they were made of.\<close>

definition merged_commit :: "pydict \<Rightarrow> pyval res" where
  "merged_commit row =
     (let m = pget row ''mergeCommit''
      in if \<not> truthy m then Inr PNone else if is_dict m then Inr (pget (items_of m) ''oid'') else Inl AttributeErr)"

fun merged_pulls :: "string list \<Rightarrow> pyval list \<Rightarrow> string dict \<Rightarrow> string dict res" where
  "merged_pulls commits [] found = Inr found"
| "merged_pulls commits (row # rows) found =
     (case row of
        PDict d \<Rightarrow>
          bindE (merged_commit d) (\<lambda>commit.
            if is_list commit \<or> is_dict commit then Inl TypeErr
            else if is_str commit \<and> str_of commit \<in> set commits then
              (case dget d ''headRefOid'' of
                 None \<Rightarrow> Inl (KeyErr ''headRefOid'')
               | Some (PStr oid) \<Rightarrow> merged_pulls commits rows (dset oid (str_of commit) found)
               | Some v \<Rightarrow> if is_list v \<or> is_dict v then Inl TypeErr else merged_pulls commits rows found)
            else merged_pulls commits rows found)
      | _ \<Rightarrow> Inl AttributeErr)"

definition load_pulls :: "host \<Rightarrow> string list \<Rightarrow> (lworld, string dict) io" where
  "load_pulls h commits =
     catchM (bindM (gh_json h [''pr'', ''list'', ''--state'', ''merged'', ''--limit'', ''1000'', ''--json'',
           ''headRefOid,mergeCommit'']) (\<lambda>v.
         liftM (bindE (if truthy v then py_iter v else Inr []) (\<lambda>rows. merged_pulls commits rows []))))
       (\<lambda>e. if is_githuberror e then returnM [] else raiseM e)"

section \<open>A merge that adds nothing\<close>

definition LOCAL_PATHS :: nat where "LOCAL_PATHS = 64"
definition LOCAL_BYTES :: int where "LOCAL_BYTES = 2 * 1024 * 1024"

text \<open>The sizes in a listing of a tree; nothing when they pass the bound.\<close>

fun add_sizes :: "int \<Rightarrow> string list \<Rightarrow> int option res" where
  "add_sizes bytes [] = Inr (Some bytes)"
| "add_sizes bytes (e # es) =
     (if e = [] then add_sizes bytes es
      else (let ws = split_ws (takeWhile (\<lambda>c. c \<noteq> CHR 0x09) e)
            in if length ws \<le> 3 then Inl IndexErr
               else (case py_int (ws ! 3) of
                   None \<Rightarrow> Inl (ValueErr ''invalid literal for int()'')
                 | Some n \<Rightarrow> if LOCAL_BYTES < bytes + n then Inr None else add_sizes (bytes + n) es)))"

fun trees_small :: "host \<Rightarrow> ppath \<Rightarrow> string list \<Rightarrow> pyfloat \<Rightarrow> int \<Rightarrow> string list \<Rightarrow> (lworld, bool) io" where
  "trees_small h root paths limit bytes [] = returnM True"
| "trees_small h root paths limit bytes (c # cs) =
     bindM (clock_now h) (\<lambda>now.
       if float_le limit now then returnM False
       else bindM (cleanup_git h root ([''ls-tree'', ''-rlz'', c, ''--''] @ paths)) (\<lambda>out.
         bindM (liftM (add_sizes bytes (split_on NUL out))) (\<lambda>read.
           (case read of None \<Rightarrow> returnM False | Some n \<Rightarrow> trees_small h root paths limit n cs))))"

definition merge_is_base :: "host \<Rightarrow> ppath \<Rightarrow> string \<Rightarrow> string \<Rightarrow> (lworld, bool) io" where
  "merge_is_base h root base head =
     bindM (cleanup_git h root [''merge-tree'', ''--write-tree'', base, head]) (\<lambda>merged.
     bindM (liftM (case splitlines merged of [] \<Rightarrow> Inl IndexErr | l # ls \<Rightarrow> Inr l)) (\<lambda>tree.
     bindM (cleanup_git h root [''rev-parse'', base @ ''^{tree}'']) (\<lambda>own. returnM (tree = own))))"

definition local_proof :: "host \<Rightarrow> ppath \<Rightarrow> string \<Rightarrow> string \<Rightarrow> pyfloat \<Rightarrow> (lworld, bool) io" where
  "local_proof h root base head limit =
     catchM
       (bindM (cleanup_git h root [''merge-base'', base, head]) (\<lambda>common.
        bindM (cleanup_git h root [''diff-tree'', ''--no-commit-id'', ''--name-only'', ''-r'', ''-z'', common, head]) (\<lambda>out.
        (let paths = filter (\<lambda>p. p \<noteq> []) (split_on NUL out)
         in bindM (if LOCAL_PATHS < length paths then returnM True
               else bindM (clock_now h) (\<lambda>now. returnM (float_le limit now))) (\<lambda>over.
            if over then returnM False
            else bindM (trees_small h root paths limit 0 [common, head, base]) (\<lambda>small.
              if \<not> small then returnM False
              else bindM (clock_now h) (\<lambda>now.
                if float_le limit now then returnM False else merge_is_base h root base head)))))))
       (\<lambda>e. if is_cleanuperror e \<or> is_valueerror e then returnM False else raiseM e)"

section \<open>The question\<close>

definition pulls_of :: "host \<Rightarrow> published \<Rightarrow> (lworld, string dict) io" where
  "pulls_of h pub = (case pu_pulls pub of Some ps \<Rightarrow> returnM ps | None \<Rightarrow> load_pulls h (pu_commits pub))"

definition limit_of :: "host \<Rightarrow> published \<Rightarrow> (lworld, pyfloat) io" where
  "limit_of h pub =
     (case pu_local_deadline pub of
        Some t \<Rightarrow> returnM t | None \<Rightarrow> bindM (clock_now h) (\<lambda>now. returnM (float_add now (float_of_int 2))))"

definition contains :: "host \<Rightarrow> published \<Rightarrow> string \<Rightarrow> (lworld, bool \<times> published) io" where
  "contains h pub head =
     (if head \<in> set (pu_commits pub) then returnM (True, pub)
      else bindM (cleanup_git h (pu_root pub) [''rev-parse'', head @ ''^{tree}'']) (\<lambda>tree.
        if tree \<in> set (pu_trees pub) then returnM (True, pub)
        else bindM (pulls_of h pub) (\<lambda>pulls.
          (let pub1 = pub\<lparr>pu_pulls := Some pulls\<rparr>
           in if dhas pulls head then returnM (True, pub1)
              else bindM (limit_of h pub1) (\<lambda>limit.
                (let pub2 = pub1\<lparr>pu_local_deadline := Some limit\<rparr>
                 in bindM (clock_now h) (\<lambda>now.
                    if float_le limit now then returnM (False, pub2)
                    else bindM (local_proof h (pu_root pub) (pu_base pub) head limit) (\<lambda>ok.
                      returnM (ok, pub2)))))))))"

section \<open>An answer is a proof\<close>

definition pulls_merged :: "published \<Rightarrow> bool" where
  "pulls_merged pub \<longleftrightarrow> (\<forall>ps. pu_pulls pub = Some ps \<longrightarrow> snd ` set ps \<subseteq> set (pu_commits pub))"

lemma set_dset: "set (dset k v d) \<subseteq> insert (k, v) (set d)"
  by (induction d) auto

lemma merged_pulls_in:
  "merged_pulls commits rows found = Inr ps \<Longrightarrow> snd ` set found \<subseteq> set commits \<Longrightarrow> snd ` set ps \<subseteq> set commits"
proof (induction rows arbitrary: found)
  case (Cons row rows)
  have kept: "snd ` set (dset k v found) \<subseteq> set commits" if "v \<in> set commits" for k v
    using that Cons.prems(2) set_dset [of k v found] by force
  from Cons.prems(1) obtain d commit where row: "row = PDict d" and c: "merged_commit d = Inr commit"
    by (cases row) (auto simp: bindE_eq_Inr)
  have "\<exists>f. merged_pulls commits rows f = Inr ps \<and> snd ` set f \<subseteq> set commits"
  proof (cases "is_str commit \<and> str_of commit \<in> set commits")
    case True
    with Cons.prems row c obtain v where v: "dget d ''headRefOid'' = Some v"
      by (auto split: option.split_asm if_split_asm)
    show ?thesis
    proof (cases v)
      case (PStr oid)
      with Cons.prems row c v True have "merged_pulls commits rows (dset oid (str_of commit) found) = Inr ps"
        by (simp split: if_split_asm)
      with kept True show ?thesis by blast
    qed (use Cons.prems row c v True in \<open>auto split: if_split_asm\<close>)
  next
    case False
    with Cons.prems row c show ?thesis by (auto split: if_split_asm)
  qed
  with Cons.IH show ?case by blast
qed simp

lemma load_pulls_in: "load_pulls h commits w = (Inr ps, w') \<Longrightarrow> snd ` set ps \<subseteq> set commits"
  unfolding load_pulls_def
  by (auto simp: catchM_def bindM_def liftM_def bindE_eq_Inr split: prod.split_asm sum.split_asm if_split_asm
      dest!: merged_pulls_in)

definition merges_to_base :: "host \<Rightarrow> published \<Rightarrow> string \<Rightarrow> bool" where
  "merges_to_base h pub head \<longleftrightarrow>
     (\<exists>u v w merged tree rest.
        cleanup_git h (pu_root pub) [''merge-tree'', ''--write-tree'', pu_base pub, head] u = (Inr merged, v)
        \<and> cleanup_git h (pu_root pub) [''rev-parse'', pu_base pub @ ''^{tree}''] v = (Inr tree, w)
        \<and> splitlines merged = tree # rest)"

lemma merge_is_base_True:
  assumes "merge_is_base h (pu_root pub) (pu_base pub) head w = (Inr True, w')"
  shows "merges_to_base h pub head"
proof -
  from assms [unfolded merge_is_base_def bindM_eq_Inr] obtain merged w1 tree w2 own w3 where
      m: "cleanup_git h (pu_root pub) [''merge-tree'', ''--write-tree'', pu_base pub, head] w = (Inr merged, w1)"
    and t: "liftM (case splitlines merged of [] \<Rightarrow> Inl IndexErr | l # ls \<Rightarrow> Inr l) w1 = (Inr tree, w2)"
    and o: "cleanup_git h (pu_root pub) [''rev-parse'', pu_base pub @ ''^{tree}''] w2 = (Inr own, w3)"
    and eq: "returnM (tree = own) w3 = (Inr True, w')" by blast
  from t obtain rest where "splitlines merged = tree # rest" "w2 = w1"
    by (auto simp: liftM_def split: list.split_asm)
  moreover have "tree = own" using eq by simp
  ultimately show ?thesis using m o unfolding merges_to_base_def by blast
qed

lemma local_proof_True:
  assumes "local_proof h (pu_root pub) (pu_base pub) head limit w = (Inr True, w')"
  shows "merges_to_base h pub head"
proof -
  let ?paths = "\<lambda>out. filter (\<lambda>p. p \<noteq> []) (split_on NUL out)"
  let ?checked = "\<lambda>common out over. if over then returnM False
      else bindM (trees_small h (pu_root pub) (?paths out) limit 0 [common, head, pu_base pub]) (\<lambda>small.
        if \<not> small then returnM False
        else bindM (clock_now h) (\<lambda>now.
          if float_le limit now then returnM False else merge_is_base h (pu_root pub) (pu_base pub) head))"
  let ?body = "bindM (cleanup_git h (pu_root pub) [''merge-base'', pu_base pub, head]) (\<lambda>common.
      bindM (cleanup_git h (pu_root pub) [''diff-tree'', ''--no-commit-id'', ''--name-only'', ''-r'', ''-z'', common, head]) (\<lambda>out.
      bindM (if LOCAL_PATHS < length (?paths out) then returnM True
          else bindM (clock_now h) (\<lambda>now. returnM (float_le limit now))) (?checked common out)))"
  have "?body w = (Inr True, w')"
    using assms unfolding local_proof_def Let_def catchM_def by (auto split: prod.split_asm sum.split_asm if_split_asm)
  then obtain common out over v where "?checked common out over v = (Inr True, w')"
    unfolding bindM_eq_Inr by blast
  then obtain u where "merge_is_base h (pu_root pub) (pu_base pub) head u = (Inr True, w')"
    by (auto simp: bindM_eq_Inr split: if_split_asm)
  then show ?thesis by (rule merge_is_base_True)
qed


lemma contains_keeps:
  assumes "contains h pub head w = (Inr (ok, pub'), w')" and "pulls_merged pub"
  shows "pulls_merged pub' \<and> pu_commits pub' = pu_commits pub \<and> pu_trees pub' = pu_trees pub
     \<and> pu_root pub' = pu_root pub \<and> pu_base pub' = pu_base pub"
proof -
  have "pub' = pub \<or> (\<exists>pulls u v. pulls_of h pub u = (Inr pulls, v)
      \<and> (pub' = pub\<lparr>pu_pulls := Some pulls\<rparr> \<or> (\<exists>t. pub' = pub\<lparr>pu_pulls := Some pulls, pu_local_deadline := t\<rparr>)))"
    using assms(1) unfolding contains_def Let_def
    by (auto simp: bindM_eq_Inr split: if_split_asm)
  moreover have "snd ` set pulls \<subseteq> set (pu_commits pub)" if "pulls_of h pub u = (Inr pulls, v)" for pulls u v
    using that assms(2) by (auto simp: pulls_of_def pulls_merged_def split: option.split_asm dest: load_pulls_in)
  ultimately show ?thesis
    using assms(2) unfolding pulls_merged_def by (elim disjE exE conjE) simp_all
qed

definition merged_git :: "string list list \<Rightarrow> proc_result" where
  "merged_git cs =
     (if hd (last cs) = ''gh'' then Exited 0 ''[{\"headRefOid\":\"h1\",\"mergeCommit\":{\"oid\":\"c1\"}}]'' []
      else Exited 0 ''t9'' [])"

definition merged_host :: host where
  "merged_host = (queue_host ''{}'')\<lparr>h_git := merged_git\<rparr>"

definition sample_published :: published where
  "sample_published = \<lparr>pu_root = mkpath ''/r'', pu_base = ''c2'', pu_commits = [''c2'', ''c1''], pu_trees = [''t2'', ''t1''],
     pu_pulls = None, pu_local_deadline = None\<rparr>"

abbreviation sample_question :: "(bool \<times> published) res \<times> lworld" where
  "sample_question \<equiv> contains merged_host sample_published ''h1'' (sample_lworld \<lparr>nodes = [], noread = [], nowrite = []\<rparr>)"

lemma sample_contained: "map_sum id fst (fst sample_question) = Inr True"
  by code_simp


end
