(* ===== verification/Sinnix_CatalogPaths.thy ===== *)
theory Sinnix_CatalogPaths
  imports Py_World "HOL-Library.Multiset"
begin

text \<open>
  \<open>sinnix_lib/catalog_paths.py\<close>: where an old path is now, from recorded moves or from the identity
  history of a catalog, without looking at the file system.
\<close>

definition control_free :: "string \<Rightarrow> bool" where
  "control_free s \<longleftrightarrow> list_all (\<lambda>c. 32 \<le> code c) s"

definition normalized :: "pyval \<Rightarrow> string res" where
  "normalized v =
     (let s = str_of v
      in bindE (guardE (is_str v \<and> prefix ''/'' s \<and> \<not> prefix ''//'' s) (ValueErr ''path must be absolute'')) (\<lambda>_.
         bindE (guardE (control_free s \<and> ''..'' \<notin> set (path_parts (mkpath s)))
           (ValueErr ''path must be normalized without control characters'')) (\<lambda>_.
         bindE (guardE (path_str (mkpath s) = s) (ValueErr ''path must be normalized'')) (\<lambda>_.
           Inr s))))"

text \<open>\<open>str(PurePosixPath(destination) / PurePosixPath(path).relative_to(source))\<close>.\<close>

definition replace_prefix :: "string \<Rightarrow> string \<Rightarrow> string \<Rightarrow> string" where
  "replace_prefix path source destination =
     path_str (fst (mkpath destination),
       snd (mkpath destination) @ drop (length (snd (mkpath source))) (snd (mkpath path)))"

definition under :: "string \<Rightarrow> string \<Rightarrow> bool" where
  "under path source \<longleftrightarrow> prefix (rstrip_char CHR ''/'' source @ ''/'') path"

definition key_of :: "pydict \<Rightarrow> string \<Rightarrow> pyval res" where
  "key_of d k = (case dget d k of None \<Rightarrow> Inl (KeyErr k) | Some v \<Rightarrow> Inr v)"

section \<open>Recorded moves\<close>

definition move_match :: "string \<Rightarrow> pydict \<Rightarrow> (nat \<times> string) option res" where
  "move_match path move =
     bindE (bindE (key_of move ''source'') normalized) (\<lambda>source.
     bindE (bindE (key_of move ''destination'') normalized) (\<lambda>destination.
       Inr (if path = source \<or> under path source
            then Some (py_len source, replace_prefix path source destination) else None)))"

definition only_one :: "string list \<Rightarrow> exn \<Rightarrow> string res" where
  "only_one xs e = (case remdups xs of [x] \<Rightarrow> Inr x | _ \<Rightarrow> Inl e)"

definition longest_list :: "(nat \<times> 'a) list \<Rightarrow> 'a list" where
  "longest_list ms = map snd (filter (\<lambda>m. fst m = Max (set (map fst ms))) ms)"

text \<open>The longest source wins; two different destinations for it are an error.\<close>

definition settle :: "string \<Rightarrow> (nat \<times> string) option list \<Rightarrow> string res" where
  "settle path found =
     (let matches = List.map_filter (\<lambda>m. m) found
      in if matches = [] then Inr path
         else only_one (longest_list matches) (ValueErr (''ambiguous relocation for '' @ path)))"

definition relocate_path :: "pyval \<Rightarrow> pydict list \<Rightarrow> string res" where
  "relocate_path v moves =
     bindE (normalized v) (\<lambda>path.
     bindE (mapE (move_match path) moves) (settle path))"

section \<open>Identity history\<close>

definition UNAVAILABLE :: "string list" where
  "UNAVAILABLE = [''unavailable'', ''missing'', ''denied'', ''offline_mount'', ''wrong_type'', ''inaccessible'']"

definition unavailable_status :: "pyval \<Rightarrow> bool res" where
  "unavailable_status v =
     (case v of PList xs \<Rightarrow> Inl TypeErr | PDict d \<Rightarrow> Inl TypeErr
      | PStr s \<Rightarrow> Inr (s \<in> set UNAVAILABLE) | _ \<Rightarrow> Inr False)"

definition address_match ::
  "string \<Rightarrow> pydict \<Rightarrow> string \<Rightarrow> pyval \<Rightarrow> (nat \<times> string option) option res" where
  "address_match path asset current v =
     bindE (normalized v) (\<lambda>address.
     bindE (if path = address then Inr True
            else bindE (key_of asset ''kind'') (\<lambda>kind.
                   Inr (kind = PStr ''collection'' \<and> under path address))) (\<lambda>hit.
       if \<not> hit then Inr None
       else bindE (unavailable_status (pget asset ''location_status'')) (\<lambda>gone.
              Inr (Some (py_len address, if gone then None else Some (replace_prefix path address current))))))"

definition asset_matches :: "string \<Rightarrow> string option \<Rightarrow> pyval \<Rightarrow> (nat \<times> string option) list res" where
  "asset_matches path asset_id v =
     (case v of
        PDict asset \<Rightarrow>
          bindE (case asset_id of None \<Rightarrow> Inr False
             | Some i \<Rightarrow> bindE (key_of asset ''id'') (\<lambda>x. Inr (x \<noteq> PStr i))) (\<lambda>skip.
          if skip then Inr []
          else
            bindE (bindE (key_of asset ''current_path'') normalized) (\<lambda>current.
            bindE (py_iter (pget_or asset ''previous_paths'' (PList []))) (\<lambda>previous.
            bindE (mapE (address_match path asset current) (PStr current # previous)) (\<lambda>found.
              Inr (List.map_filter (\<lambda>m. m) found)))))
      | _ \<Rightarrow> Inl TypeErr)"

definition resolve_historical_path :: "pydict \<Rightarrow> pyval \<Rightarrow> string option \<Rightarrow> string res" where
  "resolve_historical_path catalog v asset_id =
     bindE (normalized v) (\<lambda>path.
     bindE (bindE (key_of catalog ''assets'') py_iter) (\<lambda>assets.
     bindE (mapE (asset_matches path asset_id) assets) (\<lambda>found.
       (let matches = concat found; targets = longest_list matches
        in if matches = [] then Inl (ValueErr (''path has no catalog identity history: '' @ path))
           else if None \<in> set targets
             then Inl (ValueErr (''historical asset is explicitly unavailable: '' @ path))
           else only_one (map the targets)
             (ValueErr (''reused or ambiguous historical address: '' @ path @ ''; specify asset id''))))))"

section \<open>Prefixes are components\<close>

definition path_text :: "string list \<Rightarrow> string" where
  "path_text cs = ''/'' @ str_join ''/'' cs"

lemma str_join_snoc: "cs \<noteq> [] \<Longrightarrow> str_join sep (cs @ ds) = str_join sep cs @ (if ds = [] then [] else sep @ str_join sep ds)"
  by (induction sep cs rule: str_join.induct) (cases ds; simp)+

lemma normalized_Inr:
  assumes "normalized v = Inr s"
  shows "v = PStr s \<and> s = path_text (snd (mkpath s)) \<and> fst (mkpath s) = ''/''
    \<and> (\<forall>c \<in> set (snd (mkpath s)). c \<noteq> [] \<and> CHR ''/'' \<notin> set c)"
proof -
  from assms have v: "v = PStr s" and abs: "prefix ''/'' s" "\<not> prefix ''//'' s"
    and same: "path_str (mkpath s) = s"
    by (cases v; auto simp: normalized_def Let_def bindE_eq_Inr guardE_eq_Inr)+
  from abs have root: "fst (mkpath s) = ''/''" by (simp add: mkpath_def)
  have "path_str (mkpath s) = ''/'' @ str_join ''/'' (snd (mkpath s))"
    using root by (cases "mkpath s") (simp add: path_str_def)
  with same have "s = path_text (snd (mkpath s))" by (simp add: path_text_def)
  with v root mkpath_components show ?thesis by blast
qed

lemma str_join_eq_Nil: "\<forall>c \<in> set xs. c \<noteq> [] \<Longrightarrow> str_join sep xs = [] \<longleftrightarrow> xs = []"
  by (induction sep xs rule: str_join.induct) auto

lemma path_text_inject:
  assumes "\<forall>c \<in> set cs. c \<noteq> [] \<and> CHR ''/'' \<notin> set c" and "\<forall>c \<in> set ds. c \<noteq> [] \<and> CHR ''/'' \<notin> set c"
  shows "path_text cs = path_text ds \<longleftrightarrow> cs = ds"
proof
  assume eq: "path_text cs = path_text ds"
  show "cs = ds"
  proof (cases "cs = [] \<or> ds = []")
    case True
    have "str_join ''/'' cs = str_join ''/'' ds" using eq by (simp add: path_text_def)
    moreover have "str_join ''/'' cs = [] \<longleftrightarrow> cs = []" "str_join ''/'' ds = [] \<longleftrightarrow> ds = []"
      using assms by (simp_all add: str_join_eq_Nil)
    ultimately show ?thesis using True by metis
  next
    case False
    have "str_join ''/'' cs = str_join ''/'' ds" using eq by (simp add: path_text_def)
    then have "split_on CHR ''/'' (str_join ''/'' cs) = split_on CHR ''/'' (str_join ''/'' ds)" by simp
    moreover have "split_on CHR ''/'' (str_join ''/'' cs) = cs"
      using False assms(1) by (intro split_on_join) auto
    moreover have "split_on CHR ''/'' (str_join ''/'' ds) = ds"
      using False assms(2) by (intro split_on_join) auto
    ultimately show ?thesis by simp
  qed
qed simp

lemma rstrip_path_text:
  assumes "\<forall>c \<in> set cs. c \<noteq> [] \<and> CHR ''/'' \<notin> set c"
  shows "rstrip_char CHR ''/'' (path_text cs) = (if cs = [] then [] else path_text cs)"
proof (cases cs rule: rev_cases)
  case Nil
  then show ?thesis by (simp add: path_text_def rstrip_char_def)
next
  case (snoc bs c)
  have c: "c \<noteq> []" "last c \<noteq> CHR ''/''" using assms snoc by (auto dest: last_in_set)
  have "last (path_text cs) = last c"
    using c(1) snoc by (cases "bs = []") (simp_all add: path_text_def str_join_snoc)
  moreover have "path_text cs \<noteq> []" by (simp add: path_text_def)
  ultimately have "hd (rev (path_text cs)) \<noteq> CHR ''/''" using c by (simp add: hd_rev)
  with \<open>path_text cs \<noteq> []\<close> snoc show ?thesis
    by (simp add: rstrip_char_def dropWhile_hd_id)
qed

lemma under_components:
  assumes "\<forall>c \<in> set cs. c \<noteq> [] \<and> CHR ''/'' \<notin> set c" and "\<forall>c \<in> set ds. c \<noteq> [] \<and> CHR ''/'' \<notin> set c"
  shows "path_text ds = path_text cs \<or> under (path_text ds) (path_text cs) \<longleftrightarrow> prefix cs ds"
proof
  assume "prefix cs ds"
  then obtain es where ds: "ds = cs @ es" by (auto simp: prefix_def)
  show "path_text ds = path_text cs \<or> under (path_text ds) (path_text cs)"
  proof (cases "es = []")
    case False
    then have "under (path_text ds) (path_text cs)"
      unfolding under_def rstrip_path_text [OF assms(1)]
      by (cases "cs = []") (simp_all add: ds path_text_def str_join_snoc)
    then show ?thesis ..
  qed (simp add: ds)
next
  assume "path_text ds = path_text cs \<or> under (path_text ds) (path_text cs)"
  then show "prefix cs ds"
  proof
    assume "path_text ds = path_text cs"
    with path_text_inject [OF assms] show ?thesis by auto
  next
    assume under: "under (path_text ds) (path_text cs)"
    show ?thesis
    proof (cases "cs = []")
      case False
      with under have "prefix (path_text cs @ ''/'') (path_text ds)"
        by (simp add: under_def rstrip_path_text [OF assms(1)])
      then obtain z where z: "str_join ''/'' ds = str_join ''/'' cs @ CHR ''/'' # z"
        by (auto simp: path_text_def prefix_def)
      then have "ds \<noteq> []" by auto
      have sep: "split_on c (str_join [c] xs @ c # z) = xs @ split_on c z"
        if "xs \<noteq> []" "\<forall>x \<in> set xs. c \<notin> set x" for xs :: "string list" and c
        using that
      proof (induction "[c]" xs rule: str_join.induct)
        have app: "c \<notin> set a \<Longrightarrow> split_on c (a @ c # b) = a # split_on c b" for a b
          by (induction a) auto
        case (2 x)
        then show ?case by (simp add: app)
      next
        have app: "c \<notin> set a \<Longrightarrow> split_on c (a @ c # b) = a # split_on c b" for a b
          by (induction a) auto
        case (3 x y ys)
        then show ?case by (simp add: app)
      qed simp
      have "ds = split_on CHR ''/'' (str_join ''/'' ds)"
        using split_on_join [of ds "CHR ''/''"] \<open>ds \<noteq> []\<close> assms(2) by simp
      also have "\<dots> = cs @ split_on CHR ''/'' z"
        using sep [of cs "CHR ''/''"] False assms(1) z by simp
      finally show ?thesis by (metis prefixI)
    qed simp
  qed
qed

text \<open>
  Similarly named places are never confused: among normalized paths, one lies under another,
  as the source tests it on strings, exactly when its components begin with the other's.
\<close>

theorem under_iff_components:
  assumes "normalized v = Inr p" and "normalized u = Inr s"
  shows "p = s \<or> under p s \<longleftrightarrow> prefix (snd (mkpath s)) (snd (mkpath p))"
  using under_components [of "snd (mkpath s)" "snd (mkpath p)"]
    normalized_Inr [OF assms(1)] normalized_Inr [OF assms(2)] by auto

theorem under_iff_components_witness:
  "\<not> under ''/realm/data2'' ''/realm/data'' \<and> under ''/realm/data/x'' ''/realm/data''"
proof -
  have "normalized (PStr ''/realm/data2'') = Inr ''/realm/data2''"
    "normalized (PStr ''/realm/data/x'') = Inr ''/realm/data/x''"
    "normalized (PStr ''/realm/data'') = Inr ''/realm/data''" by code_simp+
  note n = this
  have "\<not> prefix (snd (mkpath ''/realm/data'')) (snd (mkpath ''/realm/data2''))"
    "prefix (snd (mkpath ''/realm/data'')) (snd (mkpath ''/realm/data/x''))" by code_simp+
  with under_iff_components [OF n(1) n(3)] under_iff_components [OF n(2) n(3)] show ?thesis by simp
qed

section \<open>The longest match decides\<close>

lemma only_one_Inr: "only_one xs e = Inr x \<longleftrightarrow> set xs = {x}"
proof
  assume "only_one xs e = Inr x"
  then have "remdups xs = [x]" by (auto simp: only_one_def split: list.splits)
  then show "set xs = {x}" by (metis list.set(1) list.set(2) set_remdups)
next
  assume "set xs = {x}"
  then have "set (remdups xs) = {x}" "distinct (remdups xs)" by auto
  then have "remdups xs = [x]"
    by (metis distinct.simps(2) insert_not_empty list.set_cases list.set_intros(1) list.set_sel(1)
        neq_Nil_conv set_ConsD singletonD singletonI set_empty list.set_intros(2))
  then show "only_one xs e = Inr x" by (simp add: only_one_def)
qed

lemma longest_list_set:
  "x \<in> set (longest_list ms) \<longleftrightarrow> (\<exists>n. (n, x) \<in> set ms \<and> n = Max (fst ` set ms))"
  by (force simp: longest_list_def)

lemma mapE_Inr_eq: "mapE g xs = Inr ys \<Longrightarrow> ys = map (\<lambda>x. projr (g x)) xs \<and> (\<forall>x \<in> set xs. \<not> isl (g x))"
  by (induction xs arbitrary: ys) (auto split: sum.splits)

lemma mapE_total: "\<forall>x \<in> set xs. \<not> isl (g x) \<Longrightarrow> mapE g xs = Inr (map (\<lambda>x. projr (g x)) xs)"
  by (induction xs) (auto split: sum.splits)

lemma settle_cong:
  assumes "set found' = set found" and "settle path found = Inr r"
  shows "settle path found' = Inr r"
proof -
  let ?m = "\<lambda>fs. List.map_filter (\<lambda>m. m) fs"
  have sets: "set (?m found') = set (?m found)"
    using assms(1) by (simp add: List.map_filter_def)
  then have "set (longest_list (?m found')) = set (longest_list (?m found))"
    using longest_list_set by (metis (no_types, lifting) subsetI subset_antisym)
  moreover have "?m found' = [] \<longleftrightarrow> ?m found = []" using sets by (metis set_empty)
  ultimately show ?thesis
    using assms(2) by (cases "?m found = []") (simp_all add: settle_def Let_def only_one_Inr)
qed

text \<open>
  (C28) A relocation does not depend on the order the moves are recorded in: whenever it answers, it
  gives the same answer for every reordering of the moves.
\<close>

theorem relocate_order_independent:
  assumes "relocate_path v moves = Inr r" and "mset moves' = mset moves"
  shows "relocate_path v moves' = Inr r"
proof -
  from assms(1) obtain path found where path: "normalized v = Inr path"
    and found: "mapE (move_match path) moves = Inr found"
    by (auto simp: relocate_path_def bindE_eq_Inr)
  have same: "set moves' = set moves" using assms(2) by (metis set_mset_mset)
  from mapE_Inr_eq [OF found] same have found': "mapE (move_match path) moves'
      = Inr (map (\<lambda>x. projr (move_match path x)) moves')"
    and eq: "found = map (\<lambda>x. projr (move_match path x)) moves"
    by (simp_all add: mapE_total)
  have "set (map (\<lambda>x. projr (move_match path x)) moves') = set found"
    using same eq by simp
  moreover have "settle path found = Inr r"
    using assms(1) path found by (simp add: relocate_path_def)
  ultimately have "settle path (map (\<lambda>x. projr (move_match path x)) moves') = Inr r"
    by (rule settle_cong)
  with path found' show ?thesis by (simp add: relocate_path_def)
qed

theorem relocate_order_independent_witness:
  "relocate_path (PStr ''/a/b/c'')
     [[(''source'', PStr ''/a/b''), (''destination'', PStr ''/y'')],
      [(''source'', PStr ''/a''), (''destination'', PStr ''/x'')]] = Inr ''/y/c''"
proof -
  let ?a = "[(''source'', PStr ''/a''), (''destination'', PStr ''/x'')]"
  let ?b = "[(''source'', PStr ''/a/b''), (''destination'', PStr ''/y'')]"
  have "relocate_path (PStr ''/a/b/c'') [?a, ?b] = Inr ''/y/c''" by code_simp
  then show ?thesis by (rule relocate_order_independent) simp
qed

end
