(* ===== verification/Telemetry_Allocator.thy ===== *)
theory Telemetry_Allocator
  imports Py_World
begin

text \<open>
  \<open>machine_telemetry/allocator.py\<close>, with the \<open>/proc\<close> parser of \<open>sinnix_lib/procfs.py\<close> it uses:
  validating what an allocator reports of one process, and the single probe of a sample. The
  password database, the process as the kernel shows it before and after the command, the clock and
  the command's result are the \<open>probe\<close> parameter. Output is taken as UTF-8.
\<close>

definition COUNTERS :: "string list" where
  "COUNTERS = [''allocated_bytes'', ''active_bytes'', ''resident_bytes'', ''mapped_bytes'',
     ''retained_bytes'', ''metadata_bytes'']"

definition MAX_OWNERSHIP_RUNTIMES :: nat where
  "MAX_OWNERSHIP_RUNTIMES = 32"

section \<open>The process\<close>

text \<open>Field 22 of \<open>/proc/<pid>/stat\<close>, counted after the last closing parenthesis.\<close>

definition parse_stat_start_time :: "string \<Rightarrow> int option" where
  "parse_stat_start_time s =
     (let before = takeWhile (\<lambda>c. c \<noteq> CHR ''('') s;
          after_last = rsplit_last CHR '')'' s;
          fields = split_ws after_last
      in if s = [] \<or> CHR ''('' \<notin> set s \<or> CHR '')'' \<notin> set s
            \<or> length s - length after_last - 1 \<le> length before then None
         else if length fields \<le> 19 then None
         else py_int (fields ! 19))"

record context_of =
  cx_uid :: int
  cx_start :: "int option"
  cx_runtime :: "string option"
  cx_display :: "string option"

record process_view =
  pv_environ :: "string res"
  pv_uid :: "int res"
  pv_stat :: "string res"

text \<open>The two routing values of the environment, each the last of its name.\<close>

definition nul :: char where "nul = char_of (0 :: nat)"

definition environ_value :: "string \<Rightarrow> string \<Rightarrow> string option" where
  "environ_value name environ =
     (case filter (\<lambda>e. fst (str_partition CHR ''='' e) = name) (split_on nul environ) of
        [] \<Rightarrow> None
      | es \<Rightarrow> Some (snd (snd (str_partition CHR ''='' (last es)))))"

definition routed_values :: "string \<Rightarrow> string list" where
  "routed_values environ =
     map (\<lambda>e. snd (snd (str_partition CHR ''='' e)))
       (filter (\<lambda>e. fst (str_partition CHR ''='' e) \<in> set [''XDG_RUNTIME_DIR'', ''WAYLAND_DISPLAY''])
          (split_on nul environ))"

definition process_context :: "process_view \<Rightarrow> context_of res" where
  "process_context v =
     bindE (pv_environ v) (\<lambda>environ.
     bindE (guardE (list_all utf8_ok (routed_values environ)) UnicodeErr) (\<lambda>_.
     bindE (pv_uid v) (\<lambda>uid.
     bindE (pv_stat v) (\<lambda>stat.
       Inr \<lparr>cx_uid = uid, cx_start = parse_stat_start_time stat,
            cx_runtime = environ_value ''XDG_RUNTIME_DIR'' environ,
            cx_display = environ_value ''WAYLAND_DISPLAY'' environ\<rparr>))))"

section \<open>The allocator report\<close>

definition VALIDATED_KEYS :: "string list" where
  "VALIDATED_KEYS =
     [''schema_version'', ''backend'', ''units'', ''status'', ''observed_at_unix_ms'', ''pid'']
     @ COUNTERS @ [''errors'']"

definition u64 :: "pyval \<Rightarrow> bool" where
  "u64 v \<longleftrightarrow> is_exact_int v \<and> 0 \<le> int_of v \<and> int_of v < 2 ^ 64"

definition in_window :: "int \<Rightarrow> int \<Rightarrow> pyval \<Rightarrow> bool" where
  "in_window earliest latest v \<longleftrightarrow>
     is_exact_int v \<and> earliest - 1000 \<le> int_of v \<and> int_of v \<le> latest + 1000"

definition error_record_ok :: "pyval \<Rightarrow> bool" where
  "error_record_ok v =
     (case v of
        PDict e \<Rightarrow>
          is_str (pget e ''field'') \<and> is_exact_int (pget e ''code'') \<and> is_str (pget e ''message'')
          \<and> py_len (str_of (pget e ''field'')) \<le> 64 \<and> py_len (str_of (pget e ''message'')) \<le> 512
      | _ \<Rightarrow> False)"

definition ensure :: "bool \<Rightarrow> string \<Rightarrow> unit res" where
  "ensure ok m = guardE ok (ValueErr m)"

definition validate :: "pyval \<Rightarrow> int \<Rightarrow> int \<Rightarrow> int \<Rightarrow> pydict res" where
  "validate payload pid earliest latest =
     (let p = items_of payload; counters = map (pget p) COUNTERS; errors = pget p ''errors'';
          status = pget p ''status''
      in bindE (ensure (is_dict payload) ''missing allocator object'') (\<lambda>_.
         bindE (ensure (list_all (dhas p) VALIDATED_KEYS) ''incomplete allocator object'') (\<lambda>_.
         bindE (ensure (eq_int (pget p ''schema_version'') 1 \<and> \<not> is_bool (pget p ''schema_version''))
           ''unsupported allocator schema'') (\<lambda>_.
         bindE (ensure (pget p ''units'' = PStr ''bytes''
             \<and> (pget p ''backend'' = PStr ''jemalloc'' \<or> pget p ''backend'' = PStr ''unavailable''))
           ''unsupported allocator units/backend'') (\<lambda>_.
         bindE (ensure (pget p ''pid'' = PInt pid) ''allocator process identity mismatch'') (\<lambda>_.
         bindE (ensure (in_window earliest latest (pget p ''observed_at_unix_ms''))
           ''allocator timestamp outside probe window'') (\<lambda>_.
         bindE (ensure (is_list errors \<and> length (elems_of errors) \<le> 8) ''invalid allocator errors'') (\<lambda>_.
         bindE (ensure (list_all error_record_ok (elems_of errors)) ''invalid allocator error record'') (\<lambda>_.
         bindE (if status = PStr ''available''
             then ensure (pget p ''backend'' = PStr ''jemalloc'' \<and> elems_of errors = [] \<and> list_all u64 counters)
                    ''invalid available allocator counters''
             else if status = PStr ''unavailable''
             then ensure (elems_of errors \<noteq> [] \<and> list_all (\<lambda>v. v = PNone) counters)
                    ''unavailable allocator counters must be null''
             else Inl (ValueErr ''invalid allocator status'')) (\<lambda>_.
           Inr (map (\<lambda>k. (k, pget p k)) VALIDATED_KEYS)))))))))))"

section \<open>The ownership report\<close>

definition ownership_unavailable :: "string \<Rightarrow> pydict" where
  "ownership_unavailable reason =
     [(''schema_version'', PInt 1), (''status'', PStr ''unavailable''),
      (''collector_reason'', PStr reason)]"

definition OWNERSHIP_KEYS :: "string list" where
  "OWNERSHIP_KEYS = [''schema_version'', ''provider'', ''status'', ''pid'', ''observed_at_unix_ms'',
     ''units'', ''runtime_count'', ''reported_runtime_count'', ''truncated_count'']"

definition RUNTIME_KEYS :: "string list" where
  "RUNTIME_KEYS = [''state_token'', ''runtime_id'', ''host_generation'', ''status'', ''bytes'',
     ''sampled_at_unix_ms'', ''age_ms'', ''reason'']"

definition UNAVAILABLE_REASONS :: "pyval list" where
  "UNAVAILABLE_REASONS = [PStr ''not_observed'', PStr ''host_absent'', PStr ''worker_in_flight'',
     PStr ''runtime_id_too_long'', PStr ''runtime_id_invalid'']"

text \<open>\<open>[A-Za-z0-9_./:-]{1,128}\<close>.\<close>

definition identifier_ok :: "pyval \<Rightarrow> bool" where
  "identifier_ok v \<longleftrightarrow> is_str v \<and>
     (let s = str_of v in 1 \<le> length s \<and> length s \<le> 128
        \<and> list_all (\<lambda>c. is_alnum c \<or> c \<in> set ''_./:-'') s)"

definition runtime_ok :: "int \<Rightarrow> pydict \<Rightarrow> bool" where
  "runtime_ok last_token r \<longleftrightarrow>
     (let token = pget r ''state_token''; identifier = pget r ''runtime_id'';
          generation = pget r ''host_generation''; status = pget r ''status''; reason = pget r ''reason'';
          measured = [pget r ''bytes'', pget r ''sampled_at_unix_ms'', pget r ''age_ms'']
      in u64 token \<and> last_token < int_of token
         \<and> (identifier = PNone \<or> identifier_ok identifier)
         \<and> (generation = PNone \<or> u64 generation)
         \<and> (if status = PStr ''available'' \<or> status = PStr ''stale''
            then identifier \<noteq> PNone \<and> generation \<noteq> PNone \<and> list_all u64 measured
              \<and> (status = PStr ''available'' \<longrightarrow> reason = PNone)
              \<and> (status = PStr ''stale'' \<longrightarrow> reason = PStr ''worker_in_flight'')
            else status = PStr ''unavailable'' \<and> list_all (\<lambda>v. v = PNone) measured
              \<and> reason \<in> set UNAVAILABLE_REASONS
              \<and> (identifier = PNone \<longrightarrow>
                   reason = PStr ''runtime_id_too_long'' \<or> reason = PStr ''runtime_id_invalid'')))"

fun snapshots_of :: "int \<Rightarrow> pyval list \<Rightarrow> pydict list option" where
  "snapshots_of last_token [] = Some []"
| "snapshots_of last_token (v # vs) =
     (case v of
        PDict r \<Rightarrow>
          if list_all (dhas r) RUNTIME_KEYS \<and> runtime_ok last_token r
          then map_option (\<lambda>rest. map (\<lambda>k. (k, pget r k)) RUNTIME_KEYS # rest)
                 (snapshots_of (int_of (pget r ''state_token'')) vs)
          else None
      | _ \<Rightarrow> None)"

definition expected_status :: "int \<Rightarrow> pydict list \<Rightarrow> string" where
  "expected_status truncated snapshots =
     (if truncated \<noteq> 0 then ''partial''
      else if list_all (\<lambda>s. pget s ''status'' = PStr ''available'') snapshots then ''available''
      else if list_ex (\<lambda>s. pget s ''bytes'' \<noteq> PNone) snapshots then ''partial''
      else ''unavailable'')"

definition counts_ok :: "pydict \<Rightarrow> bool" where
  "counts_ok p \<longleftrightarrow>
     (let total = pget p ''runtime_count''; reported = pget p ''reported_runtime_count'';
          truncated = pget p ''truncated_count''; runtimes = pget p ''runtimes''
      in list_all u64 [total, reported, truncated] \<and> is_list runtimes
         \<and> int_of reported = int (length (elems_of runtimes))
         \<and> int_of reported \<le> int MAX_OWNERSHIP_RUNTIMES
         \<and> int_of total = int_of reported + int_of truncated)"

definition ownership_head_ok :: "pydict \<Rightarrow> int \<Rightarrow> int \<Rightarrow> int \<Rightarrow> bool" where
  "ownership_head_ok p pid earliest latest \<longleftrightarrow>
     list_all (dhas p) (OWNERSHIP_KEYS @ [''runtimes''])
     \<and> pget p ''provider'' = PStr ''luau'' \<and> pget p ''units'' = PStr ''bytes''
     \<and> pget p ''status'' \<in> set [PStr ''available'', PStr ''partial'', PStr ''unavailable'']
     \<and> pget p ''pid'' = PInt pid
     \<and> in_window earliest latest (pget p ''observed_at_unix_ms'') \<and> counts_ok p"

definition ownership_report :: "pydict \<Rightarrow> int \<Rightarrow> int \<Rightarrow> int \<Rightarrow> pydict option" where
  "ownership_report p pid earliest latest =
     (if \<not> ownership_head_ok p pid earliest latest then None
      else
        (case snapshots_of (- 1) (elems_of (pget p ''runtimes'')) of
           None \<Rightarrow> None
         | Some snapshots \<Rightarrow>
             if pget p ''status'' \<noteq> PStr (expected_status (int_of (pget p ''truncated_count'')) snapshots)
             then None
             else Some (map (\<lambda>k. (k, pget p k)) OWNERSHIP_KEYS
                    @ [(''runtimes'', PList (map PDict snapshots))])))"

definition ownership :: "pyval \<Rightarrow> int \<Rightarrow> int \<Rightarrow> int \<Rightarrow> pydict" where
  "ownership payload pid earliest latest =
     (case payload of
        PNone \<Rightarrow> ownership_unavailable ''not_provided''
      | PDict p \<Rightarrow>
          if pget p ''schema_version'' \<noteq> PInt 1 then ownership_unavailable ''unsupported_schema''
          else (case ownership_report p pid earliest latest of
              None \<Rightarrow> ownership_unavailable ''invalid_payload'' | Some report \<Rightarrow> report)
      | _ \<Rightarrow> ownership_unavailable ''invalid_payload'')"

section \<open>One probe\<close>

record pw_entry =
  pe_name :: string
  pe_uid :: int
  pe_gid :: int
  pe_dir :: string

record bounded_result =
  br_ok :: bool
  br_timed_out :: bool
  br_limited :: bool
  br_incomplete :: bool
  br_stdout :: string

record probe =
  pb_user :: "string \<Rightarrow> pw_entry option"
  pb_before :: "int \<Rightarrow> process_view"
  pb_after :: "int \<Rightarrow> process_view"
  pb_euid :: int
  pb_path :: string
  pb_is_file :: "ppath \<Rightarrow> bool"
  pb_earliest :: int
  pb_latest :: int
  pb_run :: "string list \<Rightarrow> string dict \<Rightarrow> bounded_result res"
  pb_duration :: pyfloat

definition display_ok :: "string \<Rightarrow> bool" where
  "display_ok s \<longleftrightarrow> 1 \<le> length s \<and> length s \<le> 128 \<and> list_all (\<lambda>c. is_alnum c \<or> c \<in> set ''_.-'') s"

definition probe_command :: "int \<Rightarrow> pw_entry \<Rightarrow> ppath \<Rightarrow> string list res" where
  "probe_command euid user binary =
     (let command = [path_str binary, ''msg'', ''status'']
      in if euid = 0 then Inr ([''setpriv'', ''--reuid='' @ show_int (pe_uid user),
             ''--regid='' @ show_int (pe_gid user), ''--init-groups''] @ command)
         else if euid \<noteq> pe_uid user then Inl (ValueErr ''identity'')
         else Inr command)"

definition probe_environment :: "probe \<Rightarrow> pw_entry \<Rightarrow> string \<Rightarrow> string \<Rightarrow> string dict" where
  "probe_environment pb user runtime display =
     [(''HOME'', pe_dir user), (''USER'', pe_name user), (''LOGNAME'', pe_name user),
      (''XDG_RUNTIME_DIR'', runtime), (''WAYLAND_DISPLAY'', display), (''PATH'', pb_path pb),
      (''LANG'', ''C.UTF-8'')]"

text \<open>What the answer of the command says: a status, a reason, and the allocator object.\<close>

definition read_response :: "bounded_result \<Rightarrow> int \<Rightarrow> int \<Rightarrow> int \<Rightarrow> (string \<times> pyval \<times> pyval) res" where
  "read_response r pid earliest latest =
     (if br_timed_out r then Inr (''unavailable'', PStr ''timeout'', PNone)
      else if br_limited r \<or> br_incomplete r then Inr (''unavailable'', PStr ''output_limit'', PNone)
      else if \<not> br_ok r then Inr (''unavailable'', PStr ''command_failed'', PNone)
      else
        bindE (loads_bytes (br_stdout r)) (\<lambda>envelope.
        bindE (validate (if is_dict envelope then pget (items_of envelope) ''allocator'' else PNone)
            pid earliest latest) (\<lambda>allocator.
          (let owned = ownership (pget (items_of envelope) ''ownership'') pid earliest latest;
               status = str_of (pget allocator ''status'')
           in Inr (status, if status = ''available'' then PNone else PStr ''provider_unavailable'',
                   PDict (dset ''ownership'' (PDict owned) allocator))))))"

definition probe_process :: "probe \<Rightarrow> pydict \<Rightarrow> string \<Rightarrow> (string \<times> pyval \<times> pyval) res" where
  "probe_process pb row user_name =
     bindE (case pb_user pb user_name of None \<Rightarrow> Inl (KeyErr user_name) | Some u \<Rightarrow> Inr u) (\<lambda>user.
     bindE (case dget row ''pid'' of None \<Rightarrow> Inl (KeyErr ''pid'') | Some v \<Rightarrow> py_int_of v) (\<lambda>pid.
     bindE (case dget row ''process_start_time_ticks'' of
         None \<Rightarrow> Inl (KeyErr ''process_start_time_ticks'') | Some v \<Rightarrow> Inr v) (\<lambda>expected.
     bindE (process_context (pb_before pb pid)) (\<lambda>before.
       (let runtime = ''/run/user/'' @ show_int (pe_uid user);
            binary = path_join (mkpath ''/etc/profiles/per-user'') (pe_name user @ ''/bin/noctalia'')
        in bindE (ensure (is_exact_int expected \<and> cx_uid before = pe_uid user
               \<and> cx_start before = Some (int_of expected)) ''identity'') (\<lambda>_.
           bindE (case cx_display before of
               Some d \<Rightarrow> if cx_runtime before = Some runtime \<and> display_ok d then Inr d
                 else Inl (ValueErr ''runtime'')
             | None \<Rightarrow> Inl (ValueErr ''runtime'')) (\<lambda>display.
           bindE (ensure (pb_is_file pb binary) ''binary_missing'') (\<lambda>_.
           bindE (probe_command (pb_euid pb) user binary) (\<lambda>command.
           bindE (pb_run pb command (probe_environment pb user runtime display)) (\<lambda>response.
           bindE (process_context (pb_after pb pid)) (\<lambda>after.
           bindE (ensure (after = before) ''identity_changed'') (\<lambda>_.
             read_response response pid (pb_earliest pb) (pb_latest pb)))))))))))))"

definition failure_reason :: "exn \<Rightarrow> string option" where
  "failure_reason e =
     (case e of
        KeyErr k \<Rightarrow> Some ''identity_unavailable''
      | UnicodeErr \<Rightarrow> Some ''identity_unavailable''
      | ValueErr m \<Rightarrow>
          Some (if m \<in> set [''identity'', ''identity_changed'', ''runtime'', ''binary_missing''] then m
                else ''invalid_payload'')
      | _ \<Rightarrow> if is_oserror e then Some ''identity_unavailable''
             else if is_valueerror e then Some ''invalid_payload'' else None)"

definition observe_result :: "probe \<Rightarrow> pydict \<Rightarrow> string \<Rightarrow> (string \<times> pyval \<times> pyval) res" where
  "observe_result pb row user_name =
     (case probe_process pb row user_name of
        Inr r \<Rightarrow> Inr r
      | Inl e \<Rightarrow> (case failure_reason e of
          None \<Rightarrow> Inl e | Some m \<Rightarrow> Inr (''unavailable'', PStr m, PNone)))"

definition observe :: "probe \<Rightarrow> pydict \<Rightarrow> string \<Rightarrow> string res" where
  "observe pb row user_name =
     bindE (observe_result pb row user_name) (\<lambda>(status, reason, allocator).
       Inr (json_dumps (PDict [(''schema_version'', PInt 1), (''status'', PStr status), (''reason'', reason),
         (''allocator'', allocator), (''probe_duration_ms'', PFloat (pb_duration pb))])))"

definition probe_target :: "pydict \<Rightarrow> bool" where
  "probe_target row \<longleftrightarrow>
     pget row ''unit'' = PStr ''noctalia.service'' \<and> pget row ''scope'' = PStr ''user''
     \<and> path_name (mkpath (str_or_empty (pget row ''exe''))) \<in> set [''noctalia'', ''.noctalia-wrapped'']"

fun attach :: "(pydict \<Rightarrow> string res) \<Rightarrow> bool \<Rightarrow> pydict list \<Rightarrow> pydict list res" where
  "attach obs sampled [] = Inr []"
| "attach obs sampled (row # rows) =
     (let cleared = dset ''allocator_json'' PNone row
      in if \<not> sampled \<and> probe_target cleared
         then bindE (obs cleared) (\<lambda>out.
                bindE (attach obs True rows) (\<lambda>rest. Inr (dset ''allocator_json'' (PStr out) cleared # rest)))
         else bindE (attach obs sampled rows) (\<lambda>rest. Inr (cleared # rest)))"

section \<open>What a validated report guarantees\<close>

lemma ensure_Inr [simp]: "ensure b m = Inr u \<longleftrightarrow> b"
  by (simp add: ensure_def guardE_eq_Inr)

lemma pget_map_keys: "k \<in> set ks \<Longrightarrow> pget (map (\<lambda>k. (k, f k)) ks) k = f k"
  by (induction ks) (auto simp: pget_def)

lemma dkeys_map_keys: "dkeys (map (\<lambda>k. (k, f k)) ks) = ks"
  by (simp add: dkeys_def o_def)

lemma validate_Inr:
  assumes "validate payload pid earliest latest = Inr d"
  shows "d = map (\<lambda>k. (k, pget (items_of payload) k)) VALIDATED_KEYS"
    and "pget (items_of payload) ''pid'' = PInt pid"
    and "in_window earliest latest (pget (items_of payload) ''observed_at_unix_ms'')"
    and "is_list (pget (items_of payload) ''errors'')"
    and "length (elems_of (pget (items_of payload) ''errors'')) \<le> 8"
    and "(pget (items_of payload) ''status'' = PStr ''available''
         \<and> pget (items_of payload) ''backend'' = PStr ''jemalloc''
         \<and> elems_of (pget (items_of payload) ''errors'') = []
         \<and> (\<forall>k \<in> set COUNTERS. u64 (pget (items_of payload) k)))
       \<or> (pget (items_of payload) ''status'' = PStr ''unavailable''
         \<and> elems_of (pget (items_of payload) ''errors'') \<noteq> []
         \<and> (\<forall>k \<in> set COUNTERS. pget (items_of payload) k = PNone))"
proof -
  note run = assms [unfolded validate_def Let_def bindE_eq_Inr ensure_Inr]
  from run show "d = map (\<lambda>k. (k, pget (items_of payload) k)) VALIDATED_KEYS" by blast
  from run show "pget (items_of payload) ''pid'' = PInt pid" by blast
  from run show "in_window earliest latest (pget (items_of payload) ''observed_at_unix_ms'')" by blast
  from run show "is_list (pget (items_of payload) ''errors'')" by blast
  from run show "length (elems_of (pget (items_of payload) ''errors'')) \<le> 8" by blast
  from run obtain u where
    "(if pget (items_of payload) ''status'' = PStr ''available''
      then ensure (pget (items_of payload) ''backend'' = PStr ''jemalloc''
             \<and> elems_of (pget (items_of payload) ''errors'') = []
             \<and> list_all u64 (map (pget (items_of payload)) COUNTERS)) ''invalid available allocator counters''
      else if pget (items_of payload) ''status'' = PStr ''unavailable''
      then ensure (elems_of (pget (items_of payload) ''errors'') \<noteq> []
             \<and> list_all (\<lambda>v. v = PNone) (map (pget (items_of payload)) COUNTERS))
             ''unavailable allocator counters must be null''
      else Inl (ValueErr ''invalid allocator status'')) = Inr u" by blast
  then show "(pget (items_of payload) ''status'' = PStr ''available''
         \<and> pget (items_of payload) ''backend'' = PStr ''jemalloc''
         \<and> elems_of (pget (items_of payload) ''errors'') = []
         \<and> (\<forall>k \<in> set COUNTERS. u64 (pget (items_of payload) k)))
       \<or> (pget (items_of payload) ''status'' = PStr ''unavailable''
         \<and> elems_of (pget (items_of payload) ''errors'') \<noteq> []
         \<and> (\<forall>k \<in> set COUNTERS. pget (items_of payload) k = PNone))"
    by (auto simp: list_all_iff split: if_split_asm)
qed

lemma validated_fields:
  assumes "validate payload pid earliest latest = Inr d" and "k \<in> set VALIDATED_KEYS"
  shows "pget d k = pget (items_of payload) k"
  using validate_Inr(1) [OF assms(1)] pget_map_keys [OF assms(2)] by simp

lemma validated_keys:
  "''pid'' \<in> set VALIDATED_KEYS" "''observed_at_unix_ms'' \<in> set VALIDATED_KEYS"
  "''status'' \<in> set VALIDATED_KEYS" "''backend'' \<in> set VALIDATED_KEYS" "''errors'' \<in> set VALIDATED_KEYS"
  "k \<in> set COUNTERS \<Longrightarrow> k \<in> set VALIDATED_KEYS"
  by (auto simp: VALIDATED_KEYS_def COUNTERS_def)

text \<open>
  (C25) An accepted allocator report carries the contract's fields and no others, belongs to the
  probed process and to the time of the probe, and is either a full measurement, with every counter
  an unsigned 64-bit number and no error, or no measurement at all, with every counter null and at
  least one and at most eight errors saying why.
\<close>

theorem validate_sound:
  assumes "validate payload pid earliest latest = Inr d"
  shows "dkeys d = VALIDATED_KEYS \<and> pget d ''pid'' = PInt pid
     \<and> in_window earliest latest (pget d ''observed_at_unix_ms'')
     \<and> ((pget d ''status'' = PStr ''available'' \<and> pget d ''backend'' = PStr ''jemalloc''
           \<and> elems_of (pget d ''errors'') = [] \<and> (\<forall>k \<in> set COUNTERS. u64 (pget d k)))
        \<or> (pget d ''status'' = PStr ''unavailable''
           \<and> 1 \<le> length (elems_of (pget d ''errors'')) \<and> length (elems_of (pget d ''errors'')) \<le> 8
           \<and> (\<forall>k \<in> set COUNTERS. pget d k = PNone)))"
proof -
  note f = validated_fields [OF assms]
  note v = validate_Inr [OF assms]
  have "dkeys d = VALIDATED_KEYS" unfolding v(1) by (rule dkeys_map_keys)
  with v(2-6) show ?thesis
    by (auto simp: f [OF validated_keys(1)] f [OF validated_keys(2)] f [OF validated_keys(3)]
        f [OF validated_keys(4)] f [OF validated_keys(5)] f [OF validated_keys(6)] Suc_le_eq)
qed

definition sample_report :: pyval where
  "sample_report = PDict
     ([(''schema_version'', PInt 1), (''backend'', PStr ''jemalloc''), (''units'', PStr ''bytes''),
       (''status'', PStr ''available''), (''observed_at_unix_ms'', PInt 5000), (''pid'', PInt 7)]
      @ map (\<lambda>k. (k, PInt 4096)) COUNTERS @ [(''errors'', PList []), (''title'', PStr ''x'')])"

theorem validate_sound_witness:
  "\<exists>d. validate sample_report 7 5200 5300 = Inr d \<and> \<not> dhas d ''title'' \<and> pget d ''pid'' = PInt 7"
proof -
  let ?r = "validate sample_report 7 5200 5300"
  have "\<not> isl ?r" by code_simp
  then obtain d where run: "?r = Inr d" by (cases ?r) auto
  from validate_sound [OF run] have "dkeys d = VALIDATED_KEYS" "pget d ''pid'' = PInt 7" by auto
  moreover from this(1) have "\<not> dhas d ''title''"
    by (simp add: dhas_def dkeys_def [symmetric] VALIDATED_KEYS_def COUNTERS_def)
  ultimately show ?thesis using run by blast
qed

section \<open>What a validated ownership report guarantees\<close>

definition token_of :: "pydict \<Rightarrow> int" where
  "token_of s = int_of (pget s ''state_token'')"

lemma snapshots_of_tokens:
  "snapshots_of n vs = Some ss \<Longrightarrow>
     length ss = length vs \<and> sorted_wrt (<) (n # map token_of ss) \<and>
     (\<forall>s \<in> set ss. dkeys s = RUNTIME_KEYS \<and> (\<exists>last. runtime_ok last s))"
proof (induction vs arbitrary: n ss)
  case (Cons v vs)
  from Cons.prems obtain r rest where v: "v = PDict r" and ok: "runtime_ok n r"
    and rest: "snapshots_of (int_of (pget r ''state_token'')) vs = Some rest"
    and ss: "ss = map (\<lambda>k. (k, pget r k)) RUNTIME_KEYS # rest"
    by (auto split: pyval.splits if_split_asm)
  let ?s = "map (\<lambda>k. (k, pget r k)) RUNTIME_KEYS"
  have keys: "set [''state_token'', ''runtime_id'', ''host_generation'', ''status'', ''reason'', ''bytes'',
      ''sampled_at_unix_ms'', ''age_ms''] \<subseteq> set RUNTIME_KEYS"
    by (simp add: RUNTIME_KEYS_def)
  have same: "pget ?s k = pget r k" if "k \<in> set [''state_token'', ''runtime_id'', ''host_generation'',
      ''status'', ''reason'', ''bytes'', ''sampled_at_unix_ms'', ''age_ms'']" for k
    using that keys by (intro pget_map_keys) blast
  have "runtime_ok n ?s \<longleftrightarrow> runtime_ok n r"
    unfolding runtime_ok_def by (simp add: same)
  moreover have "token_of ?s = int_of (pget r ''state_token'')"
    by (simp add: token_of_def same)
  moreover from ok have "n < int_of (pget r ''state_token'')"
    by (simp add: runtime_ok_def Let_def)
  ultimately show ?case
    using Cons.IH [OF rest] ok ss dkeys_map_keys [of "pget r" RUNTIME_KEYS] by auto
qed simp

text \<open>
  An ownership report that is kept is consistent in itself: it is of the probed process and
  time, accounts for every runtime (total = reported + truncated, at most 32 reported, one snapshot
  each), lists each state once in increasing order, and its status is the one its snapshots imply.
  Anything else is replaced by an unavailable report with the collector's reason.
\<close>

theorem ownership_consistent:
  "pget (ownership payload pid earliest latest) ''collector_reason'' \<noteq> PNone
   \<or> (\<exists>p ss. payload = PDict p
      \<and> ownership payload pid earliest latest
          = map (\<lambda>k. (k, pget p k)) OWNERSHIP_KEYS @ [(''runtimes'', PList (map PDict ss))]
      \<and> pget p ''pid'' = PInt pid \<and> in_window earliest latest (pget p ''observed_at_unix_ms'')
      \<and> int_of (pget p ''reported_runtime_count'') = int (length ss) \<and> length ss \<le> 32
      \<and> int_of (pget p ''runtime_count'') = int (length ss) + int_of (pget p ''truncated_count'')
      \<and> sorted_wrt (<) (map token_of ss)
      \<and> pget p ''status'' = PStr (expected_status (int_of (pget p ''truncated_count'')) ss))"
proof (cases "pget (ownership payload pid earliest latest) ''collector_reason'' = PNone")
  case True
  have no: "pget (ownership_unavailable r) ''collector_reason'' \<noteq> PNone" for r
    by (simp add: ownership_unavailable_def pget_def)
  from True no obtain p where p: "payload = PDict p"
    by (cases payload) (auto simp: ownership_def)
  with True no obtain out where report: "ownership_report p pid earliest latest = Some out"
    and eq: "ownership payload pid earliest latest = out"
    by (auto simp: ownership_def split: option.splits if_split_asm)
  from report obtain ss where ok: "ownership_head_ok p pid earliest latest"
    and ss: "snapshots_of (- 1) (elems_of (pget p ''runtimes'')) = Some ss"
    and st: "pget p ''status'' = PStr (expected_status (int_of (pget p ''truncated_count'')) ss)"
    and out: "out = map (\<lambda>k. (k, pget p k)) OWNERSHIP_KEYS @ [(''runtimes'', PList (map PDict ss))]"
    by (auto simp: ownership_report_def split: option.splits if_split_asm)
  from snapshots_of_tokens [OF ss] have "length ss = length (elems_of (pget p ''runtimes''))"
    and "sorted_wrt (<) (map token_of ss)" by auto
  moreover from ok have "pget p ''pid'' = PInt pid"
    "in_window earliest latest (pget p ''observed_at_unix_ms'')" "counts_ok p"
    by (simp_all add: ownership_head_ok_def)
  ultimately have "int_of (pget p ''reported_runtime_count'') = int (length ss)" "length ss \<le> 32"
    "int_of (pget p ''runtime_count'') = int (length ss) + int_of (pget p ''truncated_count'')"
    by (simp_all add: counts_ok_def Let_def MAX_OWNERSHIP_RUNTIMES_def)
  with \<open>sorted_wrt (<) (map token_of ss)\<close> ok st out p eq show ?thesis
    by (intro disjI2 exI [of _ p] exI [of _ ss]) (simp add: ownership_head_ok_def)
qed simp

section \<open>What a probe guarantees\<close>


lemma attach_sampled: "attach obs True rows = Inr out \<Longrightarrow> \<forall>r \<in> set out. pget r ''allocator_json'' = PNone"
  by (induction rows arbitrary: out) (auto simp: bindE_eq_Inr pget_dset Let_def)

lemma attach_length: "attach obs b rows = Inr out \<Longrightarrow> length out = length rows"
  by (induction rows arbitrary: b out) (auto simp: bindE_eq_Inr Let_def split: if_split_asm)

text \<open>
  A sample is probed at most once: attaching observations keeps every row, and a row carries
  one only if it is the first row of the sample that describes the process.
\<close>

theorem attach_once:
  assumes "attach obs False rows = Inr out"
  shows "length out = length rows \<and>
     (\<forall>i < length out. pget (out ! i) ''allocator_json'' \<noteq> PNone \<longrightarrow>
        probe_target (dset ''allocator_json'' PNone (rows ! i))
        \<and> (\<forall>j < i. \<not> probe_target (dset ''allocator_json'' PNone (rows ! j))))"
  using assms
proof (induction rows arbitrary: out)
  case (Cons row rows)
  let ?row = "dset ''allocator_json'' PNone row"
  show ?case
  proof (cases "probe_target ?row")
    case True
    with Cons.prems obtain a rest where rest: "attach obs True rows = Inr rest"
      and out: "out = dset ''allocator_json'' (PStr a) ?row # rest"
      by (auto simp: bindE_eq_Inr Let_def)
    have "length rest = length rows" using rest by (rule attach_length)
    moreover have "pget (rest ! i) ''allocator_json'' = PNone" if "i < length rest" for i
      using attach_sampled [OF rest] that by simp
    ultimately show ?thesis using True by (auto simp: out nth_Cons split: nat.splits)
  next
    case False
    with Cons.prems obtain rest where rest: "attach obs False rows = Inr rest" and out: "out = ?row # rest"
      by (auto simp: bindE_eq_Inr Let_def)
    from Cons.IH [OF rest] False show ?thesis
      by (auto simp: out nth_Cons pget_dset less_Suc_eq_0_disj split: nat.splits)
  qed
qed simp

section \<open>Examples\<close>

definition sample_ownership :: pydict where
  "sample_ownership =
     [(''schema_version'', PInt 1), (''provider'', PStr ''luau''), (''status'', PStr ''partial''),
      (''pid'', PInt 7), (''observed_at_unix_ms'', PInt 5000), (''units'', PStr ''bytes''),
      (''runtime_count'', PInt 3), (''reported_runtime_count'', PInt 1), (''truncated_count'', PInt 2),
      (''runtimes'', PList [PDict [(''state_token'', PInt 4), (''runtime_id'', PStr ''bar''),
         (''host_generation'', PInt 1), (''status'', PStr ''available''), (''bytes'', PInt 100),
         (''sampled_at_unix_ms'', PInt 4990), (''age_ms'', PInt 10), (''reason'', PNone)]])]"

theorem ownership_consistent_witness:
  "\<exists>ss. pget (ownership (PDict sample_ownership) 7 5200 5300) ''runtimes'' = PList (map PDict ss)
     \<and> length ss = 1 \<and> sorted_wrt (<) (map token_of ss)"
proof -
  have kept: "pget (ownership (PDict sample_ownership) 7 5200 5300) ''collector_reason'' = PNone" by code_simp
  have n: "int_of (pget sample_ownership ''reported_runtime_count'') = 1" by code_simp
  from ownership_consistent [of "PDict sample_ownership" 7 5200 5300] kept obtain ss where
    out: "ownership (PDict sample_ownership) 7 5200 5300
      = map (\<lambda>k. (k, pget sample_ownership k)) OWNERSHIP_KEYS @ [(''runtimes'', PList (map PDict ss))]"
    and "int_of (pget sample_ownership ''reported_runtime_count'') = int (length ss)"
    and sorted: "sorted_wrt (<) (map token_of ss)" by auto
  with n have "length ss = 1" by simp
  moreover have "pget (ownership (PDict sample_ownership) 7 5200 5300) ''runtimes'' = PList (map PDict ss)"
    by (simp add: out OWNERSHIP_KEYS_def pget_def)
  ultimately show ?thesis using sorted by blast
qed

theorem attach_once_witness:
  "\<exists>out. attach (\<lambda>row. Inr ''seen'') False
       [[(''unit'', PStr ''x'')], [(''unit'', PStr ''noctalia.service''), (''scope'', PStr ''user''),
          (''exe'', PStr ''/bin/noctalia'')], [(''unit'', PStr ''noctalia.service''), (''scope'', PStr ''user''),
          (''exe'', PStr ''/bin/noctalia'')]] = Inr out
     \<and> length out = 3 \<and> pget (out ! 2) ''allocator_json'' = PNone"
proof -
  let ?rows = "[[(''unit'', PStr ''x'')], [(''unit'', PStr ''noctalia.service''), (''scope'', PStr ''user''),
          (''exe'', PStr ''/bin/noctalia'')], [(''unit'', PStr ''noctalia.service''), (''scope'', PStr ''user''),
          (''exe'', PStr ''/bin/noctalia'')]]"
  have "\<not> isl (attach (\<lambda>row. Inr ''seen'') False ?rows)" by code_simp
  then obtain out where run: "attach (\<lambda>row. Inr ''seen'') False ?rows = Inr out"
    by (cases "attach (\<lambda>row. Inr ''seen'') False ?rows") auto
  have first: "probe_target (dset ''allocator_json'' PNone (?rows ! 1))" by code_simp
  from attach_once [OF run] have len: "length out = 3"
    and one: "\<forall>i < length out. pget (out ! i) ''allocator_json'' \<noteq> PNone \<longrightarrow>
        (\<forall>j < i. \<not> probe_target (dset ''allocator_json'' PNone (?rows ! j)))" by auto
  have "pget (out ! 2) ''allocator_json'' = PNone"
  proof (rule ccontr)
    assume "pget (out ! 2) ''allocator_json'' \<noteq> PNone"
    moreover have "(2 :: nat) < length out" "(1 :: nat) < 2" by (simp_all add: len)
    ultimately have "\<not> probe_target (dset ''allocator_json'' PNone (?rows ! 1))" using one by blast
    with first show False by simp
  qed
  with run len show ?thesis by blast
qed

definition sample_stdout :: string where
  "sample_stdout =
     ''{\"allocator\":{\"schema_version\":1,\"backend\":\"jemalloc\",\"units\":\"bytes\",\"status\":\"available\",'' @
     ''\"observed_at_unix_ms\":5000,\"pid\":7,\"allocated_bytes\":1,\"active_bytes\":1,\"resident_bytes\":1,'' @
     ''\"mapped_bytes\":1,\"retained_bytes\":1,\"metadata_bytes\":1,\"errors\":[]}}''"

definition sample_view :: process_view where
  "sample_view = \<lparr>pv_environ = Inr (''XDG_RUNTIME_DIR=/run/user/1'' @ [nul] @ ''WAYLAND_DISPLAY=w-1''),
     pv_uid = Inr 1,
     pv_stat = Inr ''7 (n) S 1 1 1 0 0 0 0 0 0 0 0 0 0 0 0 0 1 0 42''\<rparr>"

definition sample_probe :: probe where
  "sample_probe = \<lparr>pb_user = (\<lambda>n. Some \<lparr>pe_name = ''s'', pe_uid = 1, pe_gid = 1, pe_dir = ''/h''\<rparr>),
     pb_before = (\<lambda>pid. sample_view), pb_after = (\<lambda>pid. sample_view), pb_euid = 0, pb_path = [],
     pb_is_file = (\<lambda>p. True), pb_earliest = 5000, pb_latest = 5000,
     pb_run = (\<lambda>cmd env. Inr \<lparr>br_ok = True, br_timed_out = False, br_limited = False,
        br_incomplete = False, br_stdout = sample_stdout\<rparr>),
     pb_duration = FDec 1 0\<rparr>"

definition sample_row :: pydict where
  "sample_row = [(''pid'', PInt 7), (''process_start_time_ticks'', PInt 42)]"


end
