(* ===== verification/Spec2Isabelle.thy ===== *)
theory Spec2Isabelle
  imports Agentctl_Pressure Agentctl_Wait Agentctl_Artifacts Agentctl_History Agentctl_Compaction Agentctl_Cgroups
    Agentctl_Custody Agentctl_Evidence Agentctl_Contract Agentctl_Endings
    Agentctl_Release Agentctl_Accounts Agentctl_Census Agentctl_Publication Sinnix_CatalogPaths Telemetry_Allocator
begin

text \<open>
  Sinnix is a workstation configuration with a set of Python programs. This development covers
  the programs in which a fault costs work or leaks data: \<open>agentctl\<close>, which queues commands
  through the pueue daemon, the library \<open>sinnix_lib\<close> it rests on, and the allocator probe of the
  telemetry collector.

  The theories, each for the source files it names:

  \<^item> \<open>Sinnix_Prelude\<close>, \<open>Py_Json\<close> and \<open>Py_World\<close> are the vocabulary: exceptions and results,
    computations that pass a state and may raise, strings and dictionaries, dynamic values with
    Python's equality and truth, the JSON reader and printer, paths and the file system.
    \<open>Py_Text\<close> adds shell words (\<open>shlex\<close>), replacement of ill-formed UTF-8 and float arithmetic.
  \<^item> \<open>Agentctl_Pueue\<close> is \<open>pkgs/agentctl/agentctl/pueue.py\<close>. The daemon is a parameter, the
    answer to each call as a function of all calls so far; the state records the calls with the
    timeout each ran under.
  \<^item> \<open>Sinnix_Secrets\<close> is \<open>pkgs/sinnix-lib/sinnix_lib/secrets.py\<close>; \<open>Agentctl_LaunchInput\<close> is
    \<open>launch_input.py\<close> and \<open>limits.py\<close>.
  \<^item> \<open>Agentctl_Config\<close> is \<open>config.py\<close> and \<open>pools.py\<close>.
  \<^item> \<open>Sinnix_Ledger\<close> is \<open>ledger.py\<close>, \<open>atomic_json.py\<close> and \<open>lock.py\<close>.
  \<^item> \<open>Agentctl_Pressure\<close> is \<open>pressure.py\<close>: it reads the log through the checkpoint, asks the
    adapter for the groups, and opens, closes or resizes them.
  \<^item> \<open>Agentctl_Artifacts\<close> is \<open>artifacts.py\<close>, \<open>Agentctl_Cgroups\<close> is \<open>cgroups.py\<close>,
    \<open>Agentctl_Compaction\<close> is \<open>event_compaction.py\<close>, \<open>Agentctl_History\<close> is \<open>batch_history.py\<close>.
  \<^item> \<open>Agentctl_Units\<close> is the part of \<open>run.py\<close> that owns transient units: their names, the
    cancellation marker, submission and its retry, waiting, orphans, and the outcome of a run.
    Its state extends the one of the queue adapter by the calls of systemd, a clock and the log.
    \<open>Agentctl_Runner\<close> is the rest of \<open>run.py\<close>: the Git observations and the receipt, the scratch
    directory and the custody of its unit, the child's environment, the systemd service, and how a
    run ends. \<open>Agentctl_Custody\<close> and \<open>Agentctl_Evidence\<close> hold what is proved of it.
  \<^item> \<open>Agentctl_Jobs\<close>, \<open>Agentctl_Queries\<close> and \<open>Agentctl_Wait\<close> are \<open>job_queries.py\<close>: the view of one
    task over its retained input, its attempts and its disposition; the operations that ask the
    queue; and the laws of these operations, above all of the wait.
  \<^item> \<open>Agentctl_Projects\<close> is \<open>projects.py\<close> and \<open>environment.py\<close>: the descriptor of a project, its
    operations, the environment of a launch and the catalog. The reader of TOML is a parameter.
  \<^item> \<open>Agentctl_Host\<close> is the world of the operations that change jobs: it adds to the state of a run
    the files, the calls of \<open>git\<close>, and what other programs do to the files between two operations.
    \<open>Agentctl_Git\<close> is \<open>gitcmd.py\<close> and \<open>stranded_index_locks\<close> of \<open>run.py\<close>.
  \<^item> \<open>Agentctl_Launch\<close> (receipts, cached results), \<open>Agentctl_Enqueue\<close> (admission, holds, enqueueing,
    keyed requests, starting a declared operation), \<open>Agentctl_Cancel\<close> (cancelling before and after the
    start) and \<open>Agentctl_Retire\<close> (cleaning, retry) are \<open>launch.py\<close>. \<open>Agentctl_Contract\<close> proves that the
    runner reads what is enqueued; \<open>Agentctl_Admission\<close>, \<open>Agentctl_Keyed\<close> and \<open>Agentctl_Endings\<close> say which
    calls of the queue these operations make and what they know when they make them. They
    interpret the locale \<open>pueue_op\<close>, the calls an operation may make, for each of them.
  \<^item> \<open>Agentctl_Worktrunk\<close> is \<open>worktrunk.py\<close>: the registry of worktrees that Git prints, and the
    mutations made by \<open>wt\<close>, which is a parameter like \<open>git\<close>. \<open>Agentctl_Checkout\<close> (caches, artifacts, the
    walk over the paths Git does not track) and \<open>Agentctl_Cleanup\<close> (the inspections and the release of one
    checkout, \<open>_drop_branch\<close>) are \<open>worktree_cleanup.py\<close>. \<open>Agentctl_Release\<close> proves what is known when \<open>wt\<close> is
    asked to remove a checkout, over the locale \<open>git_op\<close>, and \<open>Agentctl_Accounts\<close> what the walk promises.
  \<^item> \<open>Agentctl_Census\<close> is \<open>worktree_processes.py\<close>, the holders of a set of directories among the processes
    that \<open>/proc\<close> shows. \<open>Agentctl_Publication\<close> is \<open>github.py\<close> and the class \<open>Published\<close> of
    \<open>native_worktrees.py\<close>: the proofs that the work of a commit is on the default branch. Nothing imports these
    two yet but the root: the pass that joins them to the release of a checkout is not modelled.
  \<^item> \<open>Sinnix_CatalogPaths\<close> is \<open>catalog_paths.py\<close>.
  \<^item> \<open>Telemetry_Allocator\<close> is \<open>pkgs/machine-telemetry/machine_telemetry/allocator.py\<close>.

  What the groups of lemmas show. For the pressure pass: that its projection of the log is the
  last event of each group, that reading on from a checkpoint or after an interruption equals
  reading from the start, that admission and widths change only for a verified reason, and that
  every call keeps the deadline. For launch inputs and secrets: that published files hold no
  secret value and that a masked page shows no byte of one. For the log: that a crash loses at
  most the record being written. For configuration: that accepted documents are well formed and
  that exclusive pools neither overlap nor deadlock. For artifacts: that no attempt directory is
  used twice. For units: that only orphans are stopped, that waiting ends. For a run: that its unit is on record before systemd is asked, that its scratch
  directory goes only after every process of it, that success means a clean and finished unit, and
  that the provenance a child sees and the receipt a run leaves cannot be forged or guessed. For jobs: that a page shows bytes of owned files only, that a cancelled job is not
  final while a process of it may be left, that a snapshot accounts for what it omits, that no
  query changes anything, and that a wait ends and answers for its own job. For launching: that a
  job is queued only after its input is on disk and the runner accepts that input, that a keyed
  request is launched once, that held jobs are released only where they exclude no other, that a
  cached result is evidence for the request it answers, that cleaning and retry touch only what is
  over, and that a launch is called unstarted only when that is known. For worktrees: that a checkout
  goes only when its work is kept elsewhere and nobody uses it, and that a commit is called published only
  for a reason. For compaction: that nothing is lost. For the telemetry probe: that a report was
  validated and belongs to the process sampled.

  Bounds and idealisations. A string is its UTF-8 bytes; white space and digits are ASCII;
  floats are exact decimals with infinities and not-a-number; a path resolves through at most
  forty symbolic links, as in the kernel. The recursion limit of the interpreter is not modelled.
  The umask is 022. The alarm of a pass strikes between two records of the log. The order of
  secrets of equal length is the one of their bytes. A message of a built-in type error is empty.
  Digests are a parameter. A lock is the atomicity of the block it protects. While a command runs
  or a wait lasts, other programs write: the file system is then a function of time, where each
  observation of the clock or the files is one instant, and a sleep is time that passes between
  two of them. The fuel of a loop that waits counts its rounds, and the theorems on waiting say
  how much is enough for a given clock. Attempt numbers are naturals, a path that runs into a
  loop of links is refused, lines end at line feed and carriage return, and the fields of a
  retained input are typed when it is read back. Questions put to systemd while a view is made
  are not recorded among the calls. Whether the bounded wait for the admission lock ends with the
  lock, whether a lock file of Git is stranded, the time stamps and the fresh part of a job id are
  parameters. \<open>EnqueueUncertain\<close> is a job error with the text of that class, and the text of an
  exception of the operating system or of a time limit is shortened. A decision that the code
  takes from several reads of one file in a row reads it at one instant. The wait of a
  cancellation has fuel, the number of its rounds; without enough its result is \<open>None\<close>, which is no
  report. The same holds of the release of a checkout: its fuel counts the paths a walk visits and the rounds
  of the wait for Git's index. The processes that use a directory are a parameter there, as they are an
  argument of the code; the patterns of artifacts are taken to name one another's files by the rules of
  \<open>Path.glob\<close> for the components \<open>**\<close>, \<open>*\<close>, \<open>?\<close> and brackets of ASCII characters.

  Not modelled: of \<open>job_queries.py\<close> the estimate of the queue with its ages, which needs a calendar;
  of \<open>run.py\<close> the layout of the final record and the argument parser, and the process that runs
  outside the queue is a parameter, as are \<open>git\<close> and the executable found on the path; \<open>rmtree\<close> is
  taken to remove the deepest entries first; of \<open>gitcmd.py\<close> the search of \<open>/proc\<close> for the holders of a
  lock; of \<open>worktree_cleanup.py\<close> the search of \<open>/proc\<close> for users and the commands that choose which
  checkouts to release; of \<open>native_worktrees.py\<close> the pass over the native checkouts; the development shells, the readers of the issue tracker and the
  command line of \<open>agentctl\<close>; the telemetry collector around the probe, the agent gateway, the file
  catalog and the other packages of the repository, which are devices, servers and databases
  around this core; the Nix modules declare configuration and hold no program logic of this kind.
\<close>

end
